(* ===== verification/Prelude.thy ===== *)
theory Prelude
  imports Main "HOL-Library.Word"
begin

text \<open>
  Shared vocabulary of the development.

  \<^item> the machine integers of the Rust sources (\<open>u8\<close>, \<open>u32\<close>, \<open>u64\<close>, \<open>usize\<close>) as words of their
    width and the overflow-aware operations the sources call on them (\<open>checked_add\<close>, \<open>checked_mul\<close>,
    \<open>saturating_mul\<close>, \<open>div_ceil\<close>), each with its specification over the natural numbers;
  \<^item> optional arguments (\<open>Vec::get\<close>) and the generic facts on lists, options and maps that the
    component theories share;
  \<^item> the fact collections of the development.
\<close>

section \<open>Collections of facts\<close>

named_theorems word_ops \<open>specifications of the overflow-aware word operations\<close>
named_theorems handler_defs \<open>definitions of the instruction handlers of the analyzer\<close>
named_theorems gate_simps \<open>effect of the approval gate on its fields\<close>
named_theorems fs_simps \<open>effect of the file operations on the file system\<close>

section \<open>Machine integers\<close>

type_synonym u8 = "8 word"
type_synonym u16 = "16 word"
type_synonym u32 = "32 word"
type_synonym u64 = "64 word"
type_synonym usize = "64 word"

definition checked_add :: "'a::len word \<Rightarrow> 'a word \<Rightarrow> 'a word option" where
  "checked_add a b =
     (if unat a + unat b < 2 ^ LENGTH('a) then Some (a + b) else None)"

definition checked_mul :: "'a::len word \<Rightarrow> 'a word \<Rightarrow> 'a word option" where
  "checked_mul a b =
     (if unat a * unat b < 2 ^ LENGTH('a) then Some (a * b) else None)"

definition saturating_mul :: "'a::len word \<Rightarrow> 'a word \<Rightarrow> 'a word" where
  "saturating_mul a b =
     (if unat a * unat b < 2 ^ LENGTH('a) then a * b else - 1)"

definition div_ceil :: "'a::len word \<Rightarrow> 'a word \<Rightarrow> 'a word" where
  "div_ceil a b = (let q = a div b; r = a mod b in if r > 0 then q + 1 else q)"

lemma checked_add_Some [word_ops]:
  "checked_add a b = Some c \<longleftrightarrow> unat c = unat a + unat b"
proof -
  have "unat c < 2 ^ LENGTH('a)" for c :: "'a word" by (rule unsigned_less)
  then show ?thesis
    unfolding checked_add_def
    by (metis option.distinct(1) option.inject unat_add_lem word_unat_eq_iff)
qed

lemma checked_add_None [word_ops]:
  "checked_add a (b :: 'a::len word) = None \<longleftrightarrow> 2 ^ LENGTH('a) \<le> unat a + unat b"
  by (auto simp: checked_add_def)

lemma checked_mul_Some [word_ops]:
  "checked_mul a b = Some c \<longleftrightarrow> unat c = unat a * unat b"
proof -
  have "unat c < 2 ^ LENGTH('a)" for c :: "'a word" by (rule unsigned_less)
  then show ?thesis
    unfolding checked_mul_def
    by (metis option.distinct(1) option.inject unat_mult_lem word_unat_eq_iff)
qed

lemma checked_mul_None [word_ops]:
  "checked_mul a (b :: 'a::len word) = None \<longleftrightarrow> 2 ^ LENGTH('a) \<le> unat a * unat b"
  by (auto simp: checked_mul_def)

lemma unat_saturating_mul [word_ops]:
  "unat (saturating_mul a (b :: 'a::len word)) = min (unat a * unat b) (2 ^ LENGTH('a) - 1)"
proof (cases "unat a * unat b < 2 ^ LENGTH('a)")
  case True
  then show ?thesis by (simp add: saturating_mul_def unat_mult_lem [THEN iffD1])
next
  case False
  moreover have "unat (- 1 :: 'a word) = 2 ^ LENGTH('a) - 1"
    by (simp add: unsigned_minus_1_eq_mask mask_eq_exp_minus_1)
  ultimately show ?thesis by (simp add: saturating_mul_def)
qed

lemma nat_div_ceil:
  assumes "0 < (b :: nat)"
  shows "(a + b - 1) div b = a div b + (if 0 < a mod b then 1 else 0)"
proof (cases "a mod b")
  case 0
  have "a + b - 1 = (b - 1) + (a div b) * b"
    using assms div_mult_mod_eq [of a b] 0 by linarith
  moreover have "((b - 1) + q * b) div b = q" for q
    using assms div_mult_self1 [of b "b - 1" q] by simp
  ultimately show ?thesis using 0 by simp
next
  case (Suc r)
  have "a + b - 1 = r + (a div b + 1) * b"
    using assms div_mult_mod_eq [of a b] Suc by (simp add: add.commute add.left_commute)
  moreover have "r < b" using Suc assms by (metis Suc_lessD mod_less_divisor)
  moreover have "(r + q * b) div b = q + r div b" for q
    using assms div_mult_self1 [of b r q] by simp
  ultimately have "(a + b - 1) div b = a div b + 1" by (metis add.right_neutral div_less)
  then show ?thesis using Suc by simp
qed

lemma unat_div_ceil [word_ops]:
  assumes "0 < unat (b :: 'a::len word)"
  shows "unat (div_ceil a b) = (unat a + unat b - 1) div unat b"
proof (cases "0 < unat a mod unat b")
  case True
  then have "unat b \<noteq> 1" by auto
  then have b2: "2 \<le> unat b" using assms by linarith
  have "unat a div unat b \<le> unat a div 2" using b2 by (simp add: div_le_mono2)
  moreover have "unat a < 2 ^ LENGTH('a)" "unat b < 2 ^ LENGTH('a)"
    using unsigned_less [of a] unsigned_less [of b] by blast+
  ultimately have "unat a div unat b + 1 < 2 ^ LENGTH('a)" using b2 by linarith
  then have "unat (a div b) + unat (1 :: 'a word) < 2 ^ LENGTH('a)" by (simp add: unat_div)
  then have "unat (a div b + 1) = unat (a div b) + unat (1 :: 'a word)"
    by (simp only: unat_add_lem)
  then have "unat (a div b + 1) = unat a div unat b + 1" by (simp add: unat_div)
  moreover have "0 < a mod b" using True by (simp add: word_less_nat_alt unat_mod)
  ultimately show ?thesis using True nat_div_ceil [OF assms] by (simp add: div_ceil_def Let_def)
next
  case False
  then have "\<not> 0 < a mod b" by (simp add: word_less_nat_alt unat_mod)
  then show ?thesis using False nat_div_ceil [OF assms]
    by (simp add: div_ceil_def Let_def unat_div)
qed

section \<open>Lists, options and maps\<close>

text \<open>\<open>Vec::get\<close> and \<open>slice::first\<close>: indexing that returns None out of range.\<close>

definition vec_get :: "'a list \<Rightarrow> nat \<Rightarrow> 'a option" where
  "vec_get xs i = (if i < length xs then Some (xs ! i) else None)"

lemma vec_get_code [simp]:
  "vec_get [] i = None"
  "vec_get (x # xs) 0 = Some x"
  "vec_get (x # xs) (Suc i) = vec_get xs i"
  by (simp_all add: vec_get_def)

lemma vec_get_numeral [simp]:
  "vec_get (x # xs) (numeral k) = vec_get xs (pred_numeral k)"
  by (simp add: numeral_eq_Suc)

lemma vec_get_SomeD: "vec_get xs i = Some x \<Longrightarrow> x \<in> set xs"
  by (auto simp: vec_get_def split: if_splits)

text \<open>\<open>collect::<HashSet<_>>().len()\<close>: the number of distinct elements.\<close>

definition distinct_count :: "'a list \<Rightarrow> nat" where
  "distinct_count xs = length (remdups xs)"

lemma distinct_count_card: "distinct_count xs = card (set xs)"
  by (simp add: distinct_count_def length_remdups_card_conv)

lemma distinct_count_0_iff [simp]: "distinct_count xs = 0 \<longleftrightarrow> xs = []"
  by (auto simp: distinct_count_def)

lemma distinct_count_mono: "set xs \<subseteq> set ys \<Longrightarrow> distinct_count xs \<le> distinct_count ys"
  by (simp add: distinct_count_card card_mono)

text \<open>\<open>Vec::dedup\<close> removes consecutive duplicates only.\<close>

lemma set_remdups_adj_sorted:
  "sorted xs \<Longrightarrow> distinct (remdups_adj xs)"
  by (induction xs rule: remdups_adj.induct) (auto intro: order.antisym)

end
