(* ===== verification/Rust_Text.thy ===== *)
theory Rust_Text
  imports Prelude
begin

text \<open>
  Text as the Rust sources handle it. A \<open>str\<close> is the list of its UTF-8 bytes, each as a \<open>char\<close>;
  the functions below are those of \<open>str\<close> and \<open>core::fmt\<close> that the analyzer calls: \<open>trim\<close>,
  \<open>to_ascii_lowercase\<close>, \<open>lines\<close>, \<open>split_whitespace\<close>, \<open>starts_with\<close>, \<open>strip_prefix\<close>, \<open>replace\<close>
  of one character, decimal printing of unsigned and signed integers and \<open>parse::<u32>\<close>.
  Results: printing is injective and parses back, \<open>trim\<close> is idempotent, lower-casing is
  idempotent, and one-character replacement is the homomorphism used by the JSON printers.
\<close>

section \<open>White space and trimming\<close>

text \<open>The UTF-8 encodings of the code points with the Unicode property \<open>White_Space\<close>.\<close>

definition ws_codes :: "string list" where
  "ws_codes =
     map (\<lambda>b. [char_of (b :: nat)]) [9, 10, 11, 12, 13, 32] @
     map (map (char_of :: nat \<Rightarrow> char))
       ([[194, 133], [194, 160], [225, 154, 128]] @
        map (\<lambda>b. [226, 128, b]) [128, 129, 130, 131, 132, 133, 134, 135, 136, 137, 138, 168, 169, 175] @
        [[226, 129, 159], [227, 128, 128]])"

definition starts_with :: "string \<Rightarrow> string \<Rightarrow> bool" where
  "starts_with p s = (take (length p) s = p)"

lemma starts_with_iff: "starts_with p s \<longleftrightarrow> (\<exists>t. s = p @ t)"
  by (metis append_eq_conv_conj starts_with_def)

definition strip_prefix :: "string \<Rightarrow> string \<Rightarrow> string option" where
  "strip_prefix p s = (if starts_with p s then Some (drop (length p) s) else None)"

definition leading_code :: "string list \<Rightarrow> string \<Rightarrow> string option" where
  "leading_code codes s = find (\<lambda>c. c \<noteq> [] \<and> starts_with c s) codes"

lemma leading_code_SomeD:
  assumes "leading_code codes s = Some c"
  shows "c \<noteq> [] \<and> starts_with c s"
  using assms by (auto simp: leading_code_def find_Some_iff)

function strip_codes :: "string list \<Rightarrow> string \<Rightarrow> string" where
  "strip_codes codes s =
     (case leading_code codes s of None \<Rightarrow> s | Some c \<Rightarrow> strip_codes codes (drop (length c) s))"
  by pat_completeness auto
termination
proof (relation "measure (\<lambda>(codes, s). length s)")
  fix codes s c assume "leading_code codes s = Some c"
  then have "c \<noteq> []" "take (length c) s = c"
    using leading_code_SomeD by (auto simp: starts_with_def)
  then have "s \<noteq> []" by auto
  then show "((codes, drop (length c) s), codes, s) \<in> measure (\<lambda>(codes, s). length s)"
    using \<open>c \<noteq> []\<close> by simp
qed simp

declare strip_codes.simps [simp del]

definition trim_start :: "string \<Rightarrow> string" where
  "trim_start s = strip_codes ws_codes s"

definition trim_end :: "string \<Rightarrow> string" where
  "trim_end s = rev (strip_codes (map rev ws_codes) (rev s))"

definition trim :: "string \<Rightarrow> string" where
  "trim s = trim_end (trim_start s)"

lemma leading_code_strip_codes: "leading_code codes (strip_codes codes s) = None"
  by (induction codes s rule: strip_codes.induct)
     (subst strip_codes.simps, auto split: option.split)

lemma strip_codes_None: "leading_code codes s = None \<Longrightarrow> strip_codes codes s = s"
  by (subst strip_codes.simps) simp

lemma strip_codes_suffix: "\<exists>p. s = p @ strip_codes codes s"
proof (induction codes s rule: strip_codes.induct)
  case (1 codes s)
  show ?case
  proof (cases "leading_code codes s")
    case None
    then show ?thesis by (simp add: strip_codes_None)
  next
    case (Some c)
    then obtain p where "drop (length c) s = p @ strip_codes codes (drop (length c) s)"
      using 1 by blast
    then have "s = take (length c) s @ p @ strip_codes codes (drop (length c) s)"
      by (metis append_take_drop_id)
    moreover have "strip_codes codes s = strip_codes codes (drop (length c) s)"
      using Some by (subst strip_codes.simps) simp
    ultimately show ?thesis by (metis append_assoc)
  qed
qed

lemma starts_with_append: "starts_with p s \<Longrightarrow> starts_with p (s @ t)"
  by (auto simp: starts_with_iff)

lemma leading_code_prefix_None:
  assumes "leading_code codes (s @ t) = None"
  shows "leading_code codes s = None"
  using assms starts_with_append by (auto simp: leading_code_def find_None_iff)

text \<open>What \<open>trim\<close> returns has no white space at either end, and trimming again changes nothing.\<close>

lemma trim_no_leading: "leading_code ws_codes (trim s) = None"
proof -
  obtain q where "rev (trim_start s) = q @ strip_codes (map rev ws_codes) (rev (trim_start s))"
    using strip_codes_suffix by blast
  then have "trim_start s = trim s @ rev q"
    by (metis rev_append rev_rev_ident trim_def trim_end_def)
  moreover have "leading_code ws_codes (trim_start s) = None"
    by (simp add: trim_start_def leading_code_strip_codes)
  ultimately show ?thesis by (metis leading_code_prefix_None)
qed

lemma trim_no_trailing: "leading_code (map rev ws_codes) (rev (trim s)) = None"
  by (simp add: trim_def trim_end_def leading_code_strip_codes)

lemma trim_idem [simp]: "trim (trim s) = trim s"
  by (metis rev_rev_ident strip_codes_None trim_def trim_end_def trim_no_leading
      trim_no_trailing trim_start_def)

lemma length_trim: "length (trim s) \<le> length s"
proof -
  have "length (strip_codes codes t) \<le> length t" for codes t
    by (metis length_append le_add2 strip_codes_suffix)
  then show ?thesis by (metis length_rev le_trans trim_def trim_end_def trim_start_def)
qed

text \<open>A text whose first and last characters are printable ASCII is its own trimming.\<close>

definition printable :: "char \<Rightarrow> bool" where
  "printable c \<longleftrightarrow> 33 \<le> (of_char c :: nat) \<and> (of_char c :: nat) \<le> 126"

lemma ws_codes_not_printable:
  "w \<in> set ws_codes \<Longrightarrow> w \<noteq> [] \<and> \<not> printable (hd w)"
  "w \<in> set (map rev ws_codes) \<Longrightarrow> w \<noteq> [] \<and> \<not> printable (hd w)"
  by (auto simp: ws_codes_def printable_def)

lemma leading_code_printable:
  assumes "\<And>w. w \<in> set codes \<Longrightarrow> w \<noteq> [] \<and> \<not> printable (hd w)" "printable c"
  shows "leading_code codes (c # r) = None"
proof -
  have "\<not> starts_with w (c # r)" if "w \<in> set codes" for w
    using assms(1) [OF that] assms(2) by (cases w) (auto simp: starts_with_def)
  then show ?thesis by (auto simp: leading_code_def find_None_iff)
qed

lemma trim_printable:
  assumes "s \<noteq> []" "printable (hd s)" "printable (last s)"
  shows "trim s = s"
proof -
  have "leading_code ws_codes s = None"
    using leading_code_printable [OF ws_codes_not_printable(1)] assms by (cases s) auto
  then have "trim_start s = s" by (simp add: trim_start_def strip_codes_None)
  moreover have "leading_code (map rev ws_codes) (rev s) = None"
    using leading_code_printable [of "map rev ws_codes" "last s"] ws_codes_not_printable(2) assms
    by (cases s rule: rev_cases) auto
  ultimately show ?thesis by (simp add: trim_def trim_end_def strip_codes_None)
qed
section \<open>Letter case\<close>

definition ascii_lower :: "char \<Rightarrow> char" where
  "ascii_lower c =
     (let n = (of_char c :: nat) in if 65 \<le> n \<and> n \<le> 90 then char_of (n + 32) else c)"

definition to_ascii_lowercase :: "string \<Rightarrow> string" where
  "to_ascii_lowercase s = map ascii_lower s"

lemma ascii_lower_idem [simp]: "ascii_lower (ascii_lower c) = ascii_lower c"
  by (auto simp: ascii_lower_def Let_def of_char_of)

lemma to_ascii_lowercase_idem [simp]:
  "to_ascii_lowercase (to_ascii_lowercase s) = to_ascii_lowercase s"
  by (simp add: to_ascii_lowercase_def)

lemma length_to_ascii_lowercase [simp]: "length (to_ascii_lowercase s) = length s"
  by (simp add: to_ascii_lowercase_def)

section \<open>Lines and words\<close>

text \<open>\<open>str::lines\<close>: pieces ended by a newline, a carriage return before it dropped; a last piece
  without newline is returned as it is, and an empty one is not returned.\<close>

definition strip_cr :: "string \<Rightarrow> string" where
  "strip_cr l = (if l \<noteq> [] \<and> last l = CHR 0x0D then butlast l else l)"

fun lines_acc :: "string \<Rightarrow> string \<Rightarrow> string list" where
  "lines_acc acc [] = (if acc = [] then [] else [rev acc])"
| "lines_acc acc (c # cs) =
     (if c = CHR 0x0A then strip_cr (rev acc) # lines_acc [] cs else lines_acc (c # acc) cs)"

definition lines :: "string \<Rightarrow> string list" where
  "lines s = lines_acc [] s"

lemma lines_no_newline: "l \<in> set (lines s) \<Longrightarrow> CHR 0x0A \<notin> set l"
proof -
  have "CHR 0x0A \<notin> set acc \<Longrightarrow> l \<in> set (lines_acc acc s) \<Longrightarrow> CHR 0x0A \<notin> set l" for acc
    by (induction acc s rule: lines_acc.induct)
       (auto simp: strip_cr_def split: if_splits dest: in_set_butlastD list.set_sel(2))
  from this [of "[]"] show "l \<in> set (lines s) \<Longrightarrow> CHR 0x0A \<notin> set l" by (simp add: lines_def)
qed

lemma lines_acc_line:
  assumes "CHR 0x0A \<notin> set l"
  shows "lines_acc acc (l @ CHR 0x0A # rest) = strip_cr (rev acc @ l) # lines_acc [] rest"
  using assms by (induction l arbitrary: acc) auto

text \<open>\<open>str::split_whitespace\<close>: the maximal runs of characters that are not white space.\<close>

function split_ws_acc :: "string \<Rightarrow> string \<Rightarrow> string list" where
  "split_ws_acc acc s =
     (case leading_code ws_codes s of
        Some c \<Rightarrow>
          (if acc = [] then split_ws_acc [] (drop (length c) s)
           else rev acc # split_ws_acc [] (drop (length c) s))
      | None \<Rightarrow>
          (case s of [] \<Rightarrow> (if acc = [] then [] else [rev acc])
           | x # xs \<Rightarrow> split_ws_acc (x # acc) xs))"
  by pat_completeness auto
termination
proof (relation "measure (\<lambda>(acc, s). length s)", goal_cases)
  case (3 acc s c)
  then show ?case using leading_code_SomeD [of ws_codes s c]
    by (cases s) (auto simp: starts_with_def)
next
  case (4 acc s c)
  then show ?case using leading_code_SomeD [of ws_codes s c]
    by (cases s) (auto simp: starts_with_def)
qed auto

declare split_ws_acc.simps [simp del]

definition split_whitespace :: "string \<Rightarrow> string list" where
  "split_whitespace s = split_ws_acc [] s"

section \<open>Replacing one character\<close>

definition replace_char :: "char \<Rightarrow> string \<Rightarrow> string \<Rightarrow> string" where
  "replace_char c r s = concat (map (\<lambda>x. if x = c then r else [x]) s)"

lemma replace_char_simps [simp]:
  "replace_char c r [] = []"
  "replace_char c r (x # xs) = (if x = c then r else [x]) @ replace_char c r xs"
  "replace_char c r (xs @ ys) = replace_char c r xs @ replace_char c r ys"
  by (simp_all add: replace_char_def)

text \<open>Escaping with a character that the replaced character does not occur in stays injective;
  the two replacements of the JSON printers (backslash first, then the quote) compose.\<close>

definition escape_json :: "string \<Rightarrow> string" where
  "escape_json s = replace_char (CHR 0x22) [CHR 0x5C, CHR 0x22] (replace_char (CHR 0x5C) [CHR 0x5C, CHR 0x5C] s)"

definition escape_char :: "char \<Rightarrow> string" where
  "escape_char c = (if c = CHR 0x22 \<or> c = CHR 0x5C then [CHR 0x5C, c] else [c])"

lemma escape_json_concat: "escape_json s = concat (map escape_char s)"
  by (induction s) (auto simp: escape_json_def escape_char_def)

lemma escape_char_prefix_free:
  "escape_char a @ xs = escape_char b @ ys \<longleftrightarrow> a = b \<and> xs = ys"
  by (auto simp: escape_char_def)

lemma escape_char_nonempty [simp]: "escape_char a \<noteq> []"
  by (simp add: escape_char_def)

lemma concat_escape_inj: "concat (map escape_char s) = concat (map escape_char t) \<longleftrightarrow> s = t"
proof (induction s arbitrary: t)
  case Nil
  then show ?case by (cases t) auto
next
  case (Cons a s)
  then show ?case by (cases t) (auto simp: escape_char_prefix_free)
qed

lemma escape_json_inj: "escape_json s = escape_json t \<longleftrightarrow> s = t"
  by (simp add: escape_json_concat concat_escape_inj)

section \<open>Numbers\<close>

definition digit_char :: "nat \<Rightarrow> char" where
  "digit_char d = char_of (48 + d)"

fun show_nat :: "nat \<Rightarrow> string" where
  "show_nat n = (if n < 10 then [digit_char n] else show_nat (n div 10) @ [digit_char (n mod 10)])"

declare show_nat.simps [simp del]

definition show_word :: "'a::len word \<Rightarrow> string" where
  "show_word w = show_nat (unat w)"

definition show_int :: "int \<Rightarrow> string" where
  "show_int i = (if i < 0 then CHR ''-'' # show_nat (nat (- i)) else show_nat (nat i))"

definition is_digit :: "char \<Rightarrow> bool" where
  "is_digit c = (48 \<le> (of_char c :: nat) \<and> (of_char c :: nat) \<le> 57)"

definition digit_val :: "char \<Rightarrow> nat" where
  "digit_val c = of_char c - 48"

fun parse_digits_acc :: "nat \<Rightarrow> string \<Rightarrow> nat option" where
  "parse_digits_acc n [] = Some n"
| "parse_digits_acc n (c # cs) =
     (if is_digit c then parse_digits_acc (10 * n + digit_val c) cs else None)"

text \<open>\<open>str::parse::<u32>\<close>: an optional plus sign, then at least one digit and no overflow.\<close>

definition parse_u32 :: "string \<Rightarrow> u32 option" where
  "parse_u32 s =
     (let ds = (case s of c # r \<Rightarrow> (if c = CHR ''+'' then r else s) | [] \<Rightarrow> [])
      in if ds = [] then None
         else case parse_digits_acc 0 ds of
                None \<Rightarrow> None
              | Some n \<Rightarrow> if n < 2 ^ 32 then Some (of_nat n) else None)"

lemma digit_char_props [simp]:
  assumes "d < 10"
  shows "is_digit (digit_char d)" "digit_val (digit_char d) = d"
  using assms by (simp_all add: is_digit_def digit_val_def digit_char_def of_char_of)

lemma parse_digits_acc_append:
  "parse_digits_acc n (xs @ ys) =
     (case parse_digits_acc n xs of None \<Rightarrow> None | Some m \<Rightarrow> parse_digits_acc m ys)"
  by (induction xs arbitrary: n) auto

lemma parse_show_nat [simp]: "parse_digits_acc 0 (show_nat n) = Some n"
proof (induction n rule: show_nat.induct)
  case (1 n)
  show ?case
  proof (cases "n < 10")
    case True
    then show ?thesis by (simp add: show_nat.simps [of n])
  next
    case False
    then show ?thesis using 1
      by (simp add: show_nat.simps [of n] parse_digits_acc_append)
  qed
qed

lemma show_nat_inj [simp]: "show_nat m = show_nat n \<longleftrightarrow> m = n"
  by (metis option.inject parse_show_nat)

lemma show_nat_digits: "c \<in> set (show_nat n) \<Longrightarrow> is_digit c"
proof (induction n rule: show_nat.induct)
  case (1 n)
  show ?case
  proof (cases "n < 10")
    case True
    then show ?thesis using 1 by (simp add: show_nat.simps [of n])
  next
    case False
    then show ?thesis using 1 by (auto simp: show_nat.simps [of n])
  qed
qed

lemma show_nat_nonempty [simp]: "show_nat n \<noteq> []"
  by (simp add: show_nat.simps [of n])

lemma show_word_inj [simp]: "show_word v = show_word w \<longleftrightarrow> v = w"
  by (simp add: show_word_def word_unat_eq_iff)

lemma show_nat_not_minus [simp]:
  "show_nat n \<noteq> CHR ''-'' # xs" "CHR ''-'' # xs \<noteq> show_nat n"
proof -
  have "\<not> is_digit (CHR ''-'')" by (simp add: is_digit_def)
  then show "show_nat n \<noteq> CHR ''-'' # xs" using show_nat_digits [of "CHR ''-''" n] by auto
  then show "CHR ''-'' # xs \<noteq> show_nat n" by metis
qed

lemma show_int_inj [simp]: "show_int i = show_int j \<longleftrightarrow> i = j"
  by (auto simp: show_int_def)

text \<open>A decimal number followed by a non-digit can be read back: the first half of every
  injectivity argument about printed identifiers.\<close>

lemma digits_prefix_unique:
  assumes "xs @ a # as = ys @ b # bs"
    and "\<forall>c \<in> set xs. is_digit c" "\<forall>c \<in> set ys. is_digit c"
    and "\<not> is_digit a" "\<not> is_digit b"
  shows "xs = ys \<and> a # as = b # bs"
  using assms
proof (induction xs arbitrary: ys)
  case Nil
  then show ?case by (cases ys) auto
next
  case (Cons x xs)
  then show ?case by (cases ys) auto
qed

lemma show_nat_sep_inj:
  assumes "show_nat m @ a # as = show_nat n @ b # bs" "\<not> is_digit a" "\<not> is_digit b"
  shows "m = n \<and> a # as = b # bs"
  using digits_prefix_unique [OF assms(1)] assms(2,3) show_nat_digits by (metis show_nat_inj)

end
