(* ===== verification/LLVM_Types.thy ===== *)
theory LLVM_Types
  imports Rust_Text
begin

text \<open>
  The types of LLVM IR and their interning, from \<open>llvm-ir-patched/src/types.rs\<close> built for LLVM 19.

  A \<open>TypeRef\<close> is an \<open>Arc<Type>\<close> whose equality is that of the type it points to, so it is the
  type itself here; \<open>TypeCache\<close> is a hash map from a key to a type. \<open>TypesBuilder\<close> and the frozen
  \<open>Types\<close> are records of caches, one per shape of type; the builder's operations thread the record.
  The locale \<open>cache_field\<close> states what a builder operation does to its cache; it is interpreted for
  each of the eight caches. The results: a builder only ever holds caches that agree with their
  keys, its operations return the requested type, and the frozen lookup \<open>get_for_type\<close> is the
  identity on types whatever was interned.
\<close>

section \<open>Types\<close>

type_synonym AddrSpace = u32

datatype FPType = Half | BFloat | Single | Double | FP128 | X86_FP80 | PPC_FP128

datatype Type =
    VoidType
  | IntegerType u32
  | PointerType AddrSpace
  | FPType FPType
  | FuncType Type "Type list" bool
  | VectorType Type usize bool
  | ArrayType Type usize
  | StructType "Type list" bool
  | NamedStructType string
  | X86_MMXType
  | X86_AMXType
  | MetadataType
  | LabelType
  | TokenType
  | TargetExtType

type_synonym TypeRef = Type

datatype NamedStructDef = Opaque | Defined TypeRef

section \<open>Printing\<close>

text \<open>\<open>impl Display for FPType\<close> and \<open>impl Display for Type\<close>. The loops print every element but the
  last with a trailing comma.\<close>

fun show_FPType :: "FPType \<Rightarrow> string" where
  "show_FPType Half = ''half''"
| "show_FPType BFloat = ''bfloat''"
| "show_FPType Single = ''float''"
| "show_FPType Double = ''double''"
| "show_FPType FP128 = ''fp128''"
| "show_FPType X86_FP80 = ''x86_fp80''"
| "show_FPType PPC_FP128 = ''ppc_fp128''"

fun comma_list :: "string list \<Rightarrow> string" where
  "comma_list [] = ''''"
| "comma_list [x] = x"
| "comma_list (x # y # ys) = x @ '', '' @ comma_list (y # ys)"

fun show_Type :: "Type \<Rightarrow> string" where
  "show_Type VoidType = ''void''"
| "show_Type (IntegerType bits) = ''i'' @ show_word bits"
| "show_Type (PointerType addr_space) = ''ptr''"
| "show_Type (FPType fpt) = show_FPType fpt"
| "show_Type (FuncType result_type param_types is_var_arg) =
     show_Type result_type @ '' ('' @ comma_list (map show_Type param_types) @
     (if is_var_arg then '', ...'' else '''') @ '')''"
| "show_Type (VectorType element_type num_elements scalable) =
     (if scalable then ''<vscale x '' else ''<'') @ show_word num_elements @ '' x '' @
     show_Type element_type @ ''>''"
| "show_Type (ArrayType element_type num_elements) =
     ''['' @ show_word num_elements @ '' x '' @ show_Type element_type @ '']''"
| "show_Type (StructType element_types is_packed) =
     (if is_packed then ''<'' else '''') @ ''{ '' @ comma_list (map show_Type element_types) @
     '' }'' @ (if is_packed then ''>'' else '''')"
| "show_Type (NamedStructType name) = ''%'' @ name"
| "show_Type X86_MMXType = ''x86_mmx''"
| "show_Type X86_AMXType = ''x86_amx''"
| "show_Type MetadataType = ''metadata''"
| "show_Type LabelType = ''label''"
| "show_Type TokenType = ''token''"
| "show_Type TargetExtType = ''target()''"

section \<open>Caches\<close>

type_synonym 'k TypeCache = "'k \<rightharpoonup> TypeRef"

definition TypeCache_new :: "'k TypeCache" where
  "TypeCache_new = Map.empty"

definition TypeCache_lookup :: "'k TypeCache \<Rightarrow> 'k \<Rightarrow> TypeRef option" where
  "TypeCache_lookup cache key = cache key"

definition lookup_or_insert :: "'k \<Rightarrow> Type \<Rightarrow> 'k TypeCache \<Rightarrow> TypeRef \<times> 'k TypeCache" where
  "lookup_or_insert key if_missing cache =
     (case cache key of
        Some t \<Rightarrow> (t, cache)
      | None \<Rightarrow> (if_missing, cache(key \<mapsto> if_missing)))"

definition TypeCache_contains_key :: "'k TypeCache \<Rightarrow> 'k \<Rightarrow> bool" where
  "TypeCache_contains_key cache key = (cache key \<noteq> None)"

text \<open>A cache is sound for the constructor \<open>mk\<close> when every key is bound to \<open>mk\<close> of it.\<close>

definition cache_ok :: "('k \<Rightarrow> Type) \<Rightarrow> 'k TypeCache \<Rightarrow> bool" where
  "cache_ok mk cache \<longleftrightarrow> (\<forall>k t. cache k = Some t \<longrightarrow> t = mk k)"

lemma cache_ok_new [simp]: "cache_ok mk TypeCache_new"
  by (simp add: cache_ok_def TypeCache_new_def)

lemma lookup_or_insert_ok:
  assumes "cache_ok mk cache"
  shows "lookup_or_insert k (mk k) cache = (mk k, cache(k \<mapsto> mk k))"
  using assms by (auto simp: lookup_or_insert_def cache_ok_def fun_eq_iff split: option.split)

lemma cache_ok_upd: "cache_ok mk cache \<Longrightarrow> cache_ok mk (cache(k \<mapsto> mk k))"
  by (simp add: cache_ok_def)

lemma cache_ok_lookup:
  assumes "cache_ok mk cache"
  shows "(case TypeCache_lookup cache k of None \<Rightarrow> mk k | Some t \<Rightarrow> t) = mk k"
  using assms by (auto simp: cache_ok_def TypeCache_lookup_def split: option.split)

section \<open>Types and TypesBuilder\<close>

type_synonym LLVMTypeRef = nat

record Types =
  void_type :: TypeRef
  int_types :: "u32 TypeCache"
  pointer_types :: "AddrSpace TypeCache"
  fp_types :: "FPType TypeCache"
  func_types :: "(TypeRef \<times> TypeRef list \<times> bool) TypeCache"
  vec_types :: "(TypeRef \<times> usize \<times> bool) TypeCache"
  arr_types :: "(TypeRef \<times> usize) TypeCache"
  struct_types :: "(TypeRef list \<times> bool) TypeCache"
  named_struct_types :: "string TypeCache"
  named_struct_defs :: "string \<rightharpoonup> NamedStructDef"
  x86_mmx_type :: TypeRef
  x86_amx_type :: TypeRef
  metadata_type :: TypeRef
  label_type :: TypeRef
  token_type :: TypeRef
  target_ext_type :: TypeRef

record TypesBuilder = Types +
  llvm_type_map :: "LLVMTypeRef \<rightharpoonup> TypeRef"

definition TypesBuilder_new :: TypesBuilder where
  "TypesBuilder_new =
     \<lparr>void_type = VoidType, int_types = TypeCache_new, pointer_types = TypeCache_new,
      fp_types = TypeCache_new, func_types = TypeCache_new, vec_types = TypeCache_new,
      arr_types = TypeCache_new, struct_types = TypeCache_new,
      named_struct_types = TypeCache_new, named_struct_defs = Map.empty,
      x86_mmx_type = X86_MMXType, x86_amx_type = X86_AMXType, metadata_type = MetadataType,
      label_type = LabelType, token_type = TokenType, target_ext_type = TargetExtType,
      llvm_type_map = Map.empty\<rparr>"

definition TypesBuilder_build :: "TypesBuilder \<Rightarrow> Types" where
  "TypesBuilder_build b =
     \<lparr>void_type = void_type b, int_types = int_types b, pointer_types = pointer_types b,
      fp_types = fp_types b, func_types = func_types b, vec_types = vec_types b,
      arr_types = arr_types b, struct_types = struct_types b,
      named_struct_types = named_struct_types b, named_struct_defs = named_struct_defs b,
      x86_mmx_type = x86_mmx_type b, x86_amx_type = x86_amx_type b,
      metadata_type = metadata_type b, label_type = label_type b, token_type = token_type b,
      target_ext_type = target_ext_type b\<rparr>"

definition blank_for_testing :: Types where
  "blank_for_testing = TypesBuilder_build TypesBuilder_new"

text \<open>The shapes that the caches build from their keys.\<close>

fun mk_func :: "TypeRef \<times> TypeRef list \<times> bool \<Rightarrow> Type" where
  "mk_func (result_type, param_types, is_var_arg) = FuncType result_type param_types is_var_arg"

fun mk_vector :: "TypeRef \<times> usize \<times> bool \<Rightarrow> Type" where
  "mk_vector (element_type, num_elements, scalable) = VectorType element_type num_elements scalable"

fun mk_array :: "TypeRef \<times> usize \<Rightarrow> Type" where
  "mk_array (element_type, num_elements) = ArrayType element_type num_elements"

fun mk_struct :: "TypeRef list \<times> bool \<Rightarrow> Type" where
  "mk_struct (element_types, is_packed) = StructType element_types is_packed"

section \<open>Operations of TypesBuilder\<close>

definition tb_void :: "TypesBuilder \<Rightarrow> TypeRef" where
  "tb_void b = void_type b"

definition tb_int :: "u32 \<Rightarrow> TypesBuilder \<Rightarrow> TypeRef \<times> TypesBuilder" where
  "tb_int bits b =
     (let (t, c) = lookup_or_insert bits (IntegerType bits) (int_types b)
      in (t, b\<lparr>int_types := c\<rparr>))"

definition tb_bool :: "TypesBuilder \<Rightarrow> TypeRef \<times> TypesBuilder" where
  "tb_bool b = tb_int 1 b"

definition tb_i8 :: "TypesBuilder \<Rightarrow> TypeRef \<times> TypesBuilder" where
  "tb_i8 b = tb_int 8 b"

definition tb_i16 :: "TypesBuilder \<Rightarrow> TypeRef \<times> TypesBuilder" where
  "tb_i16 b = tb_int 16 b"

definition tb_i32 :: "TypesBuilder \<Rightarrow> TypeRef \<times> TypesBuilder" where
  "tb_i32 b = tb_int 32 b"

definition tb_i64 :: "TypesBuilder \<Rightarrow> TypeRef \<times> TypesBuilder" where
  "tb_i64 b = tb_int 64 b"

definition tb_pointer_in_addr_space :: "AddrSpace \<Rightarrow> TypesBuilder \<Rightarrow> TypeRef \<times> TypesBuilder" where
  "tb_pointer_in_addr_space addr_space b =
     (let (t, c) = lookup_or_insert addr_space (PointerType addr_space) (pointer_types b)
      in (t, b\<lparr>pointer_types := c\<rparr>))"

definition tb_pointer :: "TypesBuilder \<Rightarrow> TypeRef \<times> TypesBuilder" where
  "tb_pointer b = tb_pointer_in_addr_space 0 b"

definition tb_fp :: "FPType \<Rightarrow> TypesBuilder \<Rightarrow> TypeRef \<times> TypesBuilder" where
  "tb_fp fpt b =
     (let (t, c) = lookup_or_insert fpt (FPType fpt) (fp_types b) in (t, b\<lparr>fp_types := c\<rparr>))"

definition tb_single :: "TypesBuilder \<Rightarrow> TypeRef \<times> TypesBuilder" where
  "tb_single b = tb_fp Single b"

definition tb_double :: "TypesBuilder \<Rightarrow> TypeRef \<times> TypesBuilder" where
  "tb_double b = tb_fp Double b"

definition tb_func_type ::
  "TypeRef \<Rightarrow> TypeRef list \<Rightarrow> bool \<Rightarrow> TypesBuilder \<Rightarrow> TypeRef \<times> TypesBuilder" where
  "tb_func_type result_type param_types is_var_arg b =
     (let (t, c) = lookup_or_insert (result_type, param_types, is_var_arg)
                     (FuncType result_type param_types is_var_arg) (func_types b)
      in (t, b\<lparr>func_types := c\<rparr>))"

definition tb_vector_of :: "TypeRef \<Rightarrow> usize \<Rightarrow> bool \<Rightarrow> TypesBuilder \<Rightarrow> TypeRef \<times> TypesBuilder" where
  "tb_vector_of element_type num_elements scalable b =
     (let (t, c) = lookup_or_insert (element_type, num_elements, scalable)
                     (VectorType element_type num_elements scalable) (vec_types b)
      in (t, b\<lparr>vec_types := c\<rparr>))"

definition tb_array_of :: "TypeRef \<Rightarrow> usize \<Rightarrow> TypesBuilder \<Rightarrow> TypeRef \<times> TypesBuilder" where
  "tb_array_of element_type num_elements b =
     (let (t, c) = lookup_or_insert (element_type, num_elements)
                     (ArrayType element_type num_elements) (arr_types b)
      in (t, b\<lparr>arr_types := c\<rparr>))"

definition tb_struct_of :: "TypeRef list \<Rightarrow> bool \<Rightarrow> TypesBuilder \<Rightarrow> TypeRef \<times> TypesBuilder" where
  "tb_struct_of element_types is_packed b =
     (let (t, c) = lookup_or_insert (element_types, is_packed)
                     (StructType element_types is_packed) (struct_types b)
      in (t, b\<lparr>struct_types := c\<rparr>))"

definition tb_named_struct :: "string \<Rightarrow> TypesBuilder \<Rightarrow> TypeRef \<times> TypesBuilder" where
  "tb_named_struct name b =
     (let (t, c) = lookup_or_insert name (NamedStructType name) (named_struct_types b)
      in (t, b\<lparr>named_struct_types := c\<rparr>))"

text \<open>Panics (None) when the struct has no definition, respectively has one already.\<close>

definition tb_named_struct_def :: "string \<Rightarrow> TypesBuilder \<Rightarrow> NamedStructDef option" where
  "tb_named_struct_def name b = named_struct_defs b name"

definition tb_add_named_struct_def ::
  "string \<Rightarrow> NamedStructDef \<Rightarrow> TypesBuilder \<Rightarrow> TypesBuilder option" where
  "tb_add_named_struct_def name def b =
     (case named_struct_defs b name of
        Some _ \<Rightarrow> None
      | None \<Rightarrow> Some (b\<lparr>named_struct_defs := (named_struct_defs b)(name \<mapsto> def)\<rparr>))"

definition tb_x86_mmx :: "TypesBuilder \<Rightarrow> TypeRef" where
  "tb_x86_mmx b = x86_mmx_type b"

definition tb_x86_amx :: "TypesBuilder \<Rightarrow> TypeRef" where
  "tb_x86_amx b = x86_amx_type b"

definition tb_metadata_type :: "TypesBuilder \<Rightarrow> TypeRef" where
  "tb_metadata_type b = metadata_type b"

definition tb_label_type :: "TypesBuilder \<Rightarrow> TypeRef" where
  "tb_label_type b = label_type b"

definition tb_token_type :: "TypesBuilder \<Rightarrow> TypeRef" where
  "tb_token_type b = token_type b"

definition tb_target_ext_type :: "TypesBuilder \<Rightarrow> TypeRef" where
  "tb_target_ext_type b = target_ext_type b"

section \<open>Operations of Types\<close>

definition unwrap_or :: "'a option \<Rightarrow> 'a \<Rightarrow> 'a" where
  "unwrap_or x d = (case x of Some v \<Rightarrow> v | None \<Rightarrow> d)"

definition types_void :: "Types \<Rightarrow> TypeRef" where
  "types_void ts = void_type ts"

definition types_int :: "Types \<Rightarrow> u32 \<Rightarrow> TypeRef" where
  "types_int ts bits = unwrap_or (TypeCache_lookup (int_types ts) bits) (IntegerType bits)"

definition types_bool :: "Types \<Rightarrow> TypeRef" where
  "types_bool ts = types_int ts 1"

definition types_i8 :: "Types \<Rightarrow> TypeRef" where
  "types_i8 ts = types_int ts 8"

definition types_i16 :: "Types \<Rightarrow> TypeRef" where
  "types_i16 ts = types_int ts 16"

definition types_i32 :: "Types \<Rightarrow> TypeRef" where
  "types_i32 ts = types_int ts 32"

definition types_i64 :: "Types \<Rightarrow> TypeRef" where
  "types_i64 ts = types_int ts 64"

definition types_pointer_in_addr_space :: "Types \<Rightarrow> AddrSpace \<Rightarrow> TypeRef" where
  "types_pointer_in_addr_space ts addr_space =
     unwrap_or (TypeCache_lookup (pointer_types ts) addr_space) (PointerType addr_space)"

definition types_pointer :: "Types \<Rightarrow> TypeRef" where
  "types_pointer ts = types_pointer_in_addr_space ts 0"

definition types_fp :: "Types \<Rightarrow> FPType \<Rightarrow> TypeRef" where
  "types_fp ts fpt = unwrap_or (TypeCache_lookup (fp_types ts) fpt) (FPType fpt)"

definition types_single :: "Types \<Rightarrow> TypeRef" where
  "types_single ts = types_fp ts Single"

definition types_double :: "Types \<Rightarrow> TypeRef" where
  "types_double ts = types_fp ts Double"

definition types_func_type :: "Types \<Rightarrow> TypeRef \<Rightarrow> TypeRef list \<Rightarrow> bool \<Rightarrow> TypeRef" where
  "types_func_type ts result_type param_types is_var_arg =
     unwrap_or (TypeCache_lookup (func_types ts) (result_type, param_types, is_var_arg))
       (FuncType result_type param_types is_var_arg)"

definition types_vector_of :: "Types \<Rightarrow> TypeRef \<Rightarrow> usize \<Rightarrow> bool \<Rightarrow> TypeRef" where
  "types_vector_of ts element_type num_elements scalable =
     unwrap_or (TypeCache_lookup (vec_types ts) (element_type, num_elements, scalable))
       (VectorType element_type num_elements scalable)"

definition types_array_of :: "Types \<Rightarrow> TypeRef \<Rightarrow> usize \<Rightarrow> TypeRef" where
  "types_array_of ts element_type num_elements =
     unwrap_or (TypeCache_lookup (arr_types ts) (element_type, num_elements))
       (ArrayType element_type num_elements)"

definition types_struct_of :: "Types \<Rightarrow> TypeRef list \<Rightarrow> bool \<Rightarrow> TypeRef" where
  "types_struct_of ts element_types is_packed =
     unwrap_or (TypeCache_lookup (struct_types ts) (element_types, is_packed))
       (StructType element_types is_packed)"

definition types_named_struct :: "Types \<Rightarrow> string \<Rightarrow> TypeRef" where
  "types_named_struct ts name =
     unwrap_or (TypeCache_lookup (named_struct_types ts) name) (NamedStructType name)"

definition named_struct_def :: "Types \<Rightarrow> string \<Rightarrow> NamedStructDef option" where
  "named_struct_def ts name = named_struct_defs ts name"

definition all_struct_names :: "Types \<Rightarrow> string set" where
  "all_struct_names ts = dom (named_struct_defs ts)"

definition types_add_named_struct_def :: "Types \<Rightarrow> string \<Rightarrow> NamedStructDef \<Rightarrow> Types option" where
  "types_add_named_struct_def ts name def =
     (case named_struct_defs ts name of
        Some _ \<Rightarrow> None
      | None \<Rightarrow> Some (ts\<lparr>named_struct_defs := (named_struct_defs ts)(name \<mapsto> def)\<rparr>))"

definition remove_named_struct_def :: "Types \<Rightarrow> string \<Rightarrow> bool \<times> Types" where
  "remove_named_struct_def ts name =
     (named_struct_defs ts name \<noteq> None,
      ts\<lparr>named_struct_defs := (named_struct_defs ts)(name := None)\<rparr>)"

fun get_for_type :: "Types \<Rightarrow> Type \<Rightarrow> TypeRef" where
  "get_for_type ts VoidType = types_void ts"
| "get_for_type ts (IntegerType bits) = types_int ts bits"
| "get_for_type ts (PointerType addr_space) = types_pointer_in_addr_space ts addr_space"
| "get_for_type ts (FPType fpt) = types_fp ts fpt"
| "get_for_type ts (FuncType result_type param_types is_var_arg) =
     types_func_type ts result_type param_types is_var_arg"
| "get_for_type ts (VectorType element_type num_elements scalable) =
     types_vector_of ts element_type num_elements scalable"
| "get_for_type ts (ArrayType element_type num_elements) =
     types_array_of ts element_type num_elements"
| "get_for_type ts (StructType element_types is_packed) =
     types_struct_of ts element_types is_packed"
| "get_for_type ts (NamedStructType name) = types_named_struct ts name"
| "get_for_type ts X86_MMXType = x86_mmx_type ts"
| "get_for_type ts X86_AMXType = x86_amx_type ts"
| "get_for_type ts MetadataType = metadata_type ts"
| "get_for_type ts LabelType = label_type ts"
| "get_for_type ts TokenType = token_type ts"
| "get_for_type ts TargetExtType = target_ext_type ts"

section \<open>The contract of a cache field\<close>

text \<open>A cache field of the builder is read with \<open>get\<close> and written with \<open>put\<close>; \<open>intern\<close> is the
  builder operation on it and \<open>mk\<close> the type it builds from a key.\<close>

locale cache_field =
  fixes get :: "'s \<Rightarrow> 'k TypeCache"
    and put :: "'k TypeCache \<Rightarrow> 's \<Rightarrow> 's"
    and mk :: "'k \<Rightarrow> Type"
    and intern :: "'k \<Rightarrow> 's \<Rightarrow> TypeRef \<times> 's"
  assumes get_put: "get (put c s) = c"
    and put_get: "put (get s) s = s"
    and intern_eq:
      "intern k s = (let (t, c) = lookup_or_insert k (mk k) (get s) in (t, put c s))"
begin

lemma intern_ok:
  "cache_ok mk (get s) \<Longrightarrow> intern k s = (mk k, put ((get s)(k \<mapsto> mk k)) s)"
  by (simp add: intern_eq lookup_or_insert_ok)

lemma intern_keeps_ok: "cache_ok mk (get s) \<Longrightarrow> cache_ok mk (get (snd (intern k s)))"
  by (simp add: intern_ok get_put cache_ok_upd)

lemma intern_hit: "get s k = Some t \<Longrightarrow> intern k s = (t, s)"
  by (simp add: intern_eq lookup_or_insert_def put_get)

lemma intern_then_lookup: "get (snd (intern k s)) k = Some (fst (intern k s))"
  by (auto simp: intern_eq lookup_or_insert_def get_put split: option.split)

lemma intern_twice:
  "intern k (snd (intern k s)) = intern k s"
  using intern_hit [OF intern_then_lookup] by simp

lemma intern_extends: "get s \<subseteq>\<^sub>m get (snd (intern k s))"
  by (auto simp: intern_eq lookup_or_insert_def get_put map_le_def split: option.split)

end

interpretation int_cache: cache_field int_types "\<lambda>c. int_types_update (\<lambda>_. c)" IntegerType tb_int
  by unfold_locales (simp_all add: tb_int_def)

interpretation pointer_cache:
  cache_field pointer_types "\<lambda>c. pointer_types_update (\<lambda>_. c)" PointerType tb_pointer_in_addr_space
  by unfold_locales (simp_all add: tb_pointer_in_addr_space_def)

interpretation fp_cache: cache_field fp_types "\<lambda>c. fp_types_update (\<lambda>_. c)" FPType tb_fp
  by unfold_locales (simp_all add: tb_fp_def)

interpretation func_cache:
  cache_field func_types "\<lambda>c. func_types_update (\<lambda>_. c)" mk_func
    "\<lambda>(r, ps, v). tb_func_type r ps v"
  by unfold_locales (auto simp: tb_func_type_def)

interpretation vec_cache:
  cache_field vec_types "\<lambda>c. vec_types_update (\<lambda>_. c)" mk_vector
    "\<lambda>(e, n, v). tb_vector_of e n v"
  by unfold_locales (auto simp: tb_vector_of_def)

interpretation arr_cache:
  cache_field arr_types "\<lambda>c. arr_types_update (\<lambda>_. c)" mk_array "\<lambda>(e, n). tb_array_of e n"
  by unfold_locales (auto simp: tb_array_of_def)

interpretation struct_cache:
  cache_field struct_types "\<lambda>c. struct_types_update (\<lambda>_. c)" mk_struct
    "\<lambda>(es, p). tb_struct_of es p"
  by unfold_locales (auto simp: tb_struct_of_def)

interpretation named_cache:
  cache_field named_struct_types "\<lambda>c. named_struct_types_update (\<lambda>_. c)" NamedStructType
    tb_named_struct
  by unfold_locales (simp_all add: tb_named_struct_def)

section \<open>Well-formed type tables\<close>

definition types_ok :: "('a Types_scheme) \<Rightarrow> bool" where
  "types_ok ts \<longleftrightarrow>
     cache_ok IntegerType (int_types ts) \<and> cache_ok PointerType (pointer_types ts) \<and>
     cache_ok FPType (fp_types ts) \<and> cache_ok mk_func (func_types ts) \<and>
     cache_ok mk_vector (vec_types ts) \<and> cache_ok mk_array (arr_types ts) \<and>
     cache_ok mk_struct (struct_types ts) \<and> cache_ok NamedStructType (named_struct_types ts) \<and>
     void_type ts = VoidType \<and> x86_mmx_type ts = X86_MMXType \<and> x86_amx_type ts = X86_AMXType \<and>
     metadata_type ts = MetadataType \<and> label_type ts = LabelType \<and> token_type ts = TokenType \<and>
     target_ext_type ts = TargetExtType"

lemma types_ok_new: "types_ok TypesBuilder_new"
  by (simp add: types_ok_def TypesBuilder_new_def)

lemma types_ok_build [simp]: "types_ok (TypesBuilder_build b) \<longleftrightarrow> types_ok b"
  by (simp add: types_ok_def TypesBuilder_build_def)

lemma tb_int_ok:
  "types_ok b \<Longrightarrow> fst (tb_int k b) = IntegerType k \<and> types_ok (snd (tb_int k b))"
  using int_cache.intern_ok [of b k] by (simp add: types_ok_def cache_ok_upd)

lemma tb_pointer_ok:
  "types_ok b \<Longrightarrow> fst (tb_pointer_in_addr_space k b) = PointerType k \<and>
     types_ok (snd (tb_pointer_in_addr_space k b))"
  using pointer_cache.intern_ok [of b k] by (simp add: types_ok_def cache_ok_upd)

lemma tb_fp_ok: "types_ok b \<Longrightarrow> fst (tb_fp k b) = FPType k \<and> types_ok (snd (tb_fp k b))"
  using fp_cache.intern_ok [of b k] by (simp add: types_ok_def cache_ok_upd)

lemma tb_func_type_ok:
  "types_ok b \<Longrightarrow> fst (tb_func_type r ps v b) = FuncType r ps v \<and>
     types_ok (snd (tb_func_type r ps v b))"
  using func_cache.intern_ok [of b "(r, ps, v)"] cache_ok_upd [of mk_func "func_types b" "(r, ps, v)"]
  by (simp add: types_ok_def)

lemma tb_vector_of_ok:
  "types_ok b \<Longrightarrow> fst (tb_vector_of e n v b) = VectorType e n v \<and>
     types_ok (snd (tb_vector_of e n v b))"
  using vec_cache.intern_ok [of b "(e, n, v)"] cache_ok_upd [of mk_vector "vec_types b" "(e, n, v)"]
  by (simp add: types_ok_def)

lemma tb_array_of_ok:
  "types_ok b \<Longrightarrow> fst (tb_array_of e n b) = ArrayType e n \<and> types_ok (snd (tb_array_of e n b))"
  using arr_cache.intern_ok [of b "(e, n)"] cache_ok_upd [of mk_array "arr_types b" "(e, n)"]
  by (simp add: types_ok_def)

lemma tb_struct_of_ok:
  "types_ok b \<Longrightarrow> fst (tb_struct_of es p b) = StructType es p \<and>
     types_ok (snd (tb_struct_of es p b))"
  using struct_cache.intern_ok [of b "(es, p)"] cache_ok_upd [of mk_struct "struct_types b" "(es, p)"]
  by (simp add: types_ok_def)

lemma tb_named_struct_ok:
  "types_ok b \<Longrightarrow> fst (tb_named_struct k b) = NamedStructType k \<and>
     types_ok (snd (tb_named_struct k b))"
  using named_cache.intern_ok [of b k] by (simp add: types_ok_def cache_ok_upd)

lemma tb_add_named_struct_def_ok:
  "types_ok b \<Longrightarrow> tb_add_named_struct_def name def b = Some b' \<Longrightarrow> types_ok b'"
  by (auto simp: tb_add_named_struct_def_def types_ok_def split: option.splits)

lemmas builder_ok = tb_int_ok tb_pointer_ok tb_fp_ok tb_func_type_ok tb_vector_of_ok
  tb_array_of_ok tb_struct_of_ok tb_named_struct_ok

lemma types_lookup_ok:
  assumes "types_ok ts"
  shows "types_int ts bits = IntegerType bits"
    "types_pointer_in_addr_space ts a = PointerType a"
    "types_fp ts fpt = FPType fpt"
    "types_func_type ts r ps v = FuncType r ps v"
    "types_vector_of ts e n v = VectorType e n v"
    "types_array_of ts e n = ArrayType e n"
    "types_struct_of ts es p = StructType es p"
    "types_named_struct ts name = NamedStructType name"
  using assms
  by (auto simp: types_ok_def types_int_def types_pointer_in_addr_space_def types_fp_def
      types_func_type_def types_vector_of_def types_array_of_def types_struct_of_def
      types_named_struct_def unwrap_or_def TypeCache_lookup_def cache_ok_def split: option.split)

lemma get_for_type_ok: "types_ok ts \<Longrightarrow> get_for_type ts ty = ty"
  by (cases ty) (simp_all add: types_lookup_ok types_void_def, simp_all add: types_ok_def)

section \<open>Builders in use\<close>

text \<open>The builders that the parser can hold: those reached from the empty one by builder
  operations (and by writes to the cache of already translated LLVM types).\<close>

inductive builder_reach :: "TypesBuilder \<Rightarrow> bool" where
  start: "builder_reach TypesBuilder_new"
| int: "builder_reach b \<Longrightarrow> builder_reach (snd (tb_int bits b))"
| pointer: "builder_reach b \<Longrightarrow> builder_reach (snd (tb_pointer_in_addr_space a b))"
| fp: "builder_reach b \<Longrightarrow> builder_reach (snd (tb_fp fpt b))"
| func: "builder_reach b \<Longrightarrow> builder_reach (snd (tb_func_type r ps v b))"
| vector: "builder_reach b \<Longrightarrow> builder_reach (snd (tb_vector_of e n s b))"
| array: "builder_reach b \<Longrightarrow> builder_reach (snd (tb_array_of e n b))"
| struct: "builder_reach b \<Longrightarrow> builder_reach (snd (tb_struct_of es p b))"
| named: "builder_reach b \<Longrightarrow> builder_reach (snd (tb_named_struct name b))"
| add_def: "builder_reach b \<Longrightarrow> tb_add_named_struct_def name def b = Some b' \<Longrightarrow> builder_reach b'"
| memo: "builder_reach b \<Longrightarrow> builder_reach (b\<lparr>llvm_type_map := m\<rparr>)"

lemma builder_reach_types_ok: "builder_reach b \<Longrightarrow> types_ok b"
proof (induction rule: builder_reach.induct)
  case (memo b m)
  then show ?case by (simp add: types_ok_def)
qed (simp_all add: types_ok_new builder_ok tb_add_named_struct_def_ok)

end
