(* ===== verification/LLVM_Constant.thy ===== *)
theory LLVM_Constant
  imports LLVM_Types
begin

text \<open>
  Names, constants and operands of LLVM IR, from \<open>name.rs\<close>, \<open>constant.rs\<close> and \<open>operand.rs\<close> under
  \<open>llvm-ir-patched/src\<close>, with the variants that exist for LLVM 19.

  A \<open>ConstantRef\<close> is an \<open>Arc<Constant>\<close> and stands for the constant itself. Constants carry the
  suffix \<open>_c\<close> where the instruction of the same name exists too; the fields of a constant expression
  are the arguments of its constructor, in the order of the struct. Floating-point payloads are
  kept as their bit patterns. \<open>get_type\<close> of the trait \<open>Typed\<close> is partial: it panics on an empty
  vector constant and on element accesses to something that is not a vector, which is the value
  None here. Results: typing does not depend on what the type table happens to have interned, and
  well-formed constants and operands always have a type.
\<close>

section \<open>Names\<close>

datatype Name = Name string | Number usize

fun name_or_num :: "string \<Rightarrow> usize \<Rightarrow> Name \<times> usize" where
  "name_or_num s ctr = (if s = [] then (Number ctr, ctr + 1) else (Name s, ctr))"

fun show_Name :: "Name \<Rightarrow> string" where
  "show_Name (Name s) = ''%'' @ s"
| "show_Name (Number n) = ''%'' @ show_word n"

text \<open>Sequential numbering hands out distinct names as long as the counter does not wrap.\<close>

fun name_all :: "string list \<Rightarrow> usize \<Rightarrow> Name list" where
  "name_all [] ctr = []"
| "name_all (s # ss) ctr = (let (nm, ctr') = name_or_num s ctr in nm # name_all ss ctr')"

lemma unat_succ:
  assumes "unat (c :: usize) + n < 2 ^ 64" "0 < n"
  shows "unat (c + 1) = unat c + 1"
proof -
  have "unat c + unat (1 :: usize) < 2 ^ LENGTH(64)" using assms by simp
  then have "unat (c + 1) = unat c + unat (1 :: usize)" by (simp only: unat_add_lem)
  then show ?thesis by simp
qed

lemma name_all_Number:
  assumes "Number k \<in> set (name_all ss ctr)" "unat ctr + length ss < 2 ^ 64"
  shows "unat ctr \<le> unat k"
  using assms
proof (induction ss arbitrary: ctr)
  case (Cons s ss)
  have "unat (ctr + 1) = unat ctr + 1"
    using Cons.prems(2) unat_succ [of ctr "length (s # ss)"] by simp
  then show ?case using Cons by (fastforce split: if_splits)
qed simp

lemma name_all_Name: "Name s \<in> set (name_all ss ctr) \<Longrightarrow> s \<in> set ss"
  by (induction ss arbitrary: ctr) (auto split: if_splits)

lemma name_all_distinct:
  assumes "distinct (filter (\<lambda>s. s \<noteq> []) ss)" "unat ctr + length ss < 2 ^ 64"
  shows "distinct (name_all ss ctr)"
  using assms
proof (induction ss arbitrary: ctr)
  case (Cons s ss)
  have u: "unat (ctr + 1) = unat ctr + 1"
    using Cons.prems(2) unat_succ [of ctr "length (s # ss)"] by simp
  show ?case
  proof (cases "s = []")
    case True
    have "Number ctr \<notin> set (name_all ss (ctr + 1))"
      using name_all_Number [of ctr ss "ctr + 1"] u Cons.prems(2) by auto
    then show ?thesis using True Cons u by simp
  next
    case False
    then have "s \<notin> set ss" using Cons.prems(1) by simp
    then show ?thesis using False Cons name_all_Name [of s ss ctr] by auto
  qed
qed simp

section \<open>Constants\<close>

datatype Float =
    Float_Half | Float_BFloat | Float_Single "32 word" | Float_Double "64 word"
  | Float_Quadruple | Float_X86_FP80 | Float_PPC_FP128

datatype Constant =
    Int_c u32 u64
  | Float_c Float
  | Null_c TypeRef
  | AggregateZero_c TypeRef
  | Struct_c "string option" "Constant list" bool
  | Array_c TypeRef "Constant list"
  | Vector_c "Constant list"
  | Undef_c TypeRef
  | Poison_c TypeRef
  | BlockAddress_c
  | GlobalReference_c Name TypeRef
  | TokenNone_c
  | PtrAuth_c Constant Constant Constant Constant
  | Add_c Constant Constant
  | Sub_c Constant Constant
  | Mul_c Constant Constant
  | Xor_c Constant Constant
  | ExtractElement_c Constant Constant
  | InsertElement_c Constant Constant Constant
  | ShuffleVector_c Constant Constant Constant
  | GetElementPtr_c Constant "Constant list" bool
  | Trunc_c Constant TypeRef
  | PtrToInt_c Constant TypeRef
  | IntToPtr_c Constant TypeRef
  | BitCast_c Constant TypeRef
  | AddrSpaceCast_c Constant TypeRef

type_synonym ConstantRef = Constant

fun get_type_Float :: "Types \<Rightarrow> Float \<Rightarrow> TypeRef" where
  "get_type_Float ts Float_Half = types_fp ts Half"
| "get_type_Float ts Float_BFloat = types_fp ts BFloat"
| "get_type_Float ts (Float_Single _) = types_fp ts Single"
| "get_type_Float ts (Float_Double _) = types_fp ts Double"
| "get_type_Float ts Float_Quadruple = types_fp ts FP128"
| "get_type_Float ts Float_X86_FP80 = types_fp ts X86_FP80"
| "get_type_Float ts Float_PPC_FP128 = types_fp ts PPC_FP128"

text \<open>\<open>impl Typed for ExtractElement\<close> and \<open>impl Typed for ShuffleVector\<close>, on the types of their
  operands; None is the panic.\<close>

fun extract_element_type :: "TypeRef \<Rightarrow> TypeRef option" where
  "extract_element_type (VectorType element_type _ _) = Some element_type"
| "extract_element_type _ = None"

fun shuffle_vector_type :: "Types \<Rightarrow> TypeRef \<Rightarrow> TypeRef \<Rightarrow> TypeRef option" where
  "shuffle_vector_type ts (VectorType element_type _ _) (VectorType _ num_elements scalable) =
     Some (types_vector_of ts element_type num_elements scalable)"
| "shuffle_vector_type ts _ _ = None"

text \<open>\<open>get_type\<close> of the structs of constant expressions, on the types of their operands.\<close>

definition get_type_ExtractElement_c :: "TypeRef option \<Rightarrow> TypeRef option" where
  [simp]: "get_type_ExtractElement_c vector = (case vector of Some t \<Rightarrow> extract_element_type t | None \<Rightarrow> None)"

definition get_type_InsertElement_c :: "TypeRef option \<Rightarrow> TypeRef option" where
  [simp]: "get_type_InsertElement_c vector = vector"

definition get_type_ShuffleVector_c :: "Types \<Rightarrow> TypeRef option \<Rightarrow> TypeRef option \<Rightarrow> TypeRef option" where
  [simp]: "get_type_ShuffleVector_c ts operand0 msk =
     (case operand0 of
        Some t \<Rightarrow> (case msk of Some m \<Rightarrow> shuffle_vector_type ts t m | None \<Rightarrow> None)
      | None \<Rightarrow> None)"

definition get_type_GetElementPtr_c :: "Types \<Rightarrow> TypeRef option" where
  [simp]: "get_type_GetElementPtr_c ts = Some (types_pointer ts)"

fun get_type_Constant :: "Types \<Rightarrow> Constant \<Rightarrow> TypeRef option" where
  "get_type_Constant ts (Int_c bits _) = Some (types_int ts bits)"
| "get_type_Constant ts (Float_c f) = Some (get_type_Float ts f)"
| "get_type_Constant ts (Null_c t) = Some t"
| "get_type_Constant ts (AggregateZero_c t) = Some t"
| "get_type_Constant ts (Struct_c _ values is_packed) =
     (case those (map (get_type_Constant ts) values) of
        Some element_types \<Rightarrow> Some (types_struct_of ts element_types is_packed)
      | None \<Rightarrow> None)"
| "get_type_Constant ts (Array_c element_type elements) =
     Some (types_array_of ts element_type (of_nat (length elements)))"
| "get_type_Constant ts (Vector_c v) =
     (case v of
        [] \<Rightarrow> None
      | c # _ \<Rightarrow> (case get_type_Constant ts c of
                   Some t \<Rightarrow> Some (types_vector_of ts t (of_nat (length v)) False)
                 | None \<Rightarrow> None))"
| "get_type_Constant ts (Undef_c t) = Some t"
| "get_type_Constant ts (Poison_c t) = Some t"
| "get_type_Constant ts BlockAddress_c = Some (label_type ts)"
| "get_type_Constant ts (GlobalReference_c _ _) = Some (types_pointer ts)"
| "get_type_Constant ts TokenNone_c = Some (token_type ts)"
| "get_type_Constant ts (PtrAuth_c _ _ _ _) = Some (types_pointer ts)"
| "get_type_Constant ts (Add_c operand0 _) = get_type_Constant ts operand0"
| "get_type_Constant ts (Sub_c operand0 _) = get_type_Constant ts operand0"
| "get_type_Constant ts (Mul_c operand0 _) = get_type_Constant ts operand0"
| "get_type_Constant ts (Xor_c operand0 _) = get_type_Constant ts operand0"
| "get_type_Constant ts (ExtractElement_c vector _) =
     get_type_ExtractElement_c (get_type_Constant ts vector)"
| "get_type_Constant ts (InsertElement_c vector _ _) = get_type_InsertElement_c (get_type_Constant ts vector)"
| "get_type_Constant ts (ShuffleVector_c operand0 _ msk) =
     get_type_ShuffleVector_c ts (get_type_Constant ts operand0) (get_type_Constant ts msk)"
| "get_type_Constant ts (GetElementPtr_c _ _ _) = get_type_GetElementPtr_c ts"
| "get_type_Constant ts (Trunc_c _ to_type) = Some to_type"
| "get_type_Constant ts (PtrToInt_c _ to_type) = Some to_type"
| "get_type_Constant ts (IntToPtr_c _ to_type) = Some to_type"
| "get_type_Constant ts (BitCast_c _ to_type) = Some to_type"
| "get_type_Constant ts (AddrSpaceCast_c _ to_type) = Some to_type"

section \<open>Operands\<close>

datatype Operand =
    LocalOperand Name TypeRef
  | ConstantOperand ConstantRef
  | MetadataOperand

fun get_type_Operand :: "Types \<Rightarrow> Operand \<Rightarrow> TypeRef option" where
  "get_type_Operand ts (LocalOperand _ ty) = Some ty"
| "get_type_Operand ts (ConstantOperand c) = get_type_Constant ts c"
| "get_type_Operand ts MetadataOperand = Some (metadata_type ts)"

fun as_constant :: "Operand \<Rightarrow> Constant option" where
  "as_constant (ConstantOperand c) = Some c"
| "as_constant _ = None"

section \<open>Typing\<close>

lemma types_pointer_ok: "types_ok ts \<Longrightarrow> types_pointer ts = PointerType 0"
  by (simp add: types_pointer_def types_lookup_ok)

lemma types_fields_ok:
  "types_ok ts \<Longrightarrow> label_type ts = LabelType"
  "types_ok ts \<Longrightarrow> token_type ts = TokenType"
  "types_ok ts \<Longrightarrow> metadata_type ts = MetadataType"
  by (simp_all add: types_ok_def)

lemmas types_ok_simps = types_lookup_ok types_pointer_ok types_fields_ok

lemma shuffle_vector_type_indep:
  "types_ok ts \<Longrightarrow> types_ok ts' \<Longrightarrow> shuffle_vector_type ts t m = shuffle_vector_type ts' t m"
  by (induction ts t m rule: shuffle_vector_type.induct) (simp_all add: types_ok_simps)

lemma get_type_Float_indep:
  "types_ok ts \<Longrightarrow> types_ok ts' \<Longrightarrow> get_type_Float ts f = get_type_Float ts' f"
  by (cases f) (simp_all add: types_ok_simps)

text \<open>The type of a constant does not depend on which types the module has interned.\<close>

lemma get_type_Constant_indep:
  assumes "types_ok ts" "types_ok ts'"
  shows "get_type_Constant ts c = get_type_Constant ts' c"
proof (induction c)
  case (Struct_c nm vals p)
  then have "map (get_type_Constant ts) vals = map (get_type_Constant ts') vals" by simp
  then show ?case using assms
    by (simp add: types_ok_simps del: map_eq_conv split: option.split)
next
  case (Vector_c v)
  then show ?case using assms by (cases v) (simp_all add: types_ok_simps split: option.split)
next
  case (ShuffleVector_c a b m)
  then show ?case using shuffle_vector_type_indep [OF assms]
    by (simp split: option.split)
qed (simp_all add: assms types_ok_simps get_type_Float_indep [OF assms])

text \<open>Constants on which \<open>get_type\<close> cannot panic: vectors are not empty, and element accesses go
  to vectors.\<close>

definition is_vector_type :: "TypeRef option \<Rightarrow> bool" where
  "is_vector_type t = (case t of Some (VectorType _ _ _) \<Rightarrow> True | _ \<Rightarrow> False)"

fun constant_typed :: "Types \<Rightarrow> Constant \<Rightarrow> bool" where
  "constant_typed ts (Struct_c _ vals _) \<longleftrightarrow> list_all (constant_typed ts) vals"
| "constant_typed ts (Vector_c v) \<longleftrightarrow> v \<noteq> [] \<and> list_all (constant_typed ts) v"
| "constant_typed ts (Add_c a _) \<longleftrightarrow> constant_typed ts a"
| "constant_typed ts (Sub_c a _) \<longleftrightarrow> constant_typed ts a"
| "constant_typed ts (Mul_c a _) \<longleftrightarrow> constant_typed ts a"
| "constant_typed ts (Xor_c a _) \<longleftrightarrow> constant_typed ts a"
| "constant_typed ts (ExtractElement_c v _) \<longleftrightarrow> is_vector_type (get_type_Constant ts v)"
| "constant_typed ts (InsertElement_c v _ _) \<longleftrightarrow> constant_typed ts v"
| "constant_typed ts (ShuffleVector_c a _ m) \<longleftrightarrow>
     is_vector_type (get_type_Constant ts a) \<and> is_vector_type (get_type_Constant ts m)"
| "constant_typed ts _ \<longleftrightarrow> True"

fun operand_typed :: "Types \<Rightarrow> Operand \<Rightarrow> bool" where
  "operand_typed ts (ConstantOperand c) = constant_typed ts c"
| "operand_typed ts _ = True"

lemma those_Some_iff: "(\<exists>ys. those xs = Some ys) \<longleftrightarrow> None \<notin> set xs"
proof (induction xs)
  case (Cons x xs)
  then show ?case by (cases x) auto
qed simp

lemma is_vector_type_iff: "is_vector_type t \<longleftrightarrow> (\<exists>e n s. t = Some (VectorType e n s))"
  by (auto simp: is_vector_type_def split: option.splits Type.splits)

lemma get_type_Constant_total:
  "constant_typed ts c \<Longrightarrow> \<exists>t. get_type_Constant ts c = Some t"
proof (induction c)
  case (Struct_c nm vals p)
  then have "\<exists>ys. those (map (get_type_Constant ts) vals) = Some ys"
    by (fastforce simp: those_Some_iff list_all_iff)
  then show ?case by auto
next
  case (Vector_c v)
  then show ?case by (cases v) fastforce+
qed (auto simp: is_vector_type_iff)

lemma get_type_Operand_total:
  "operand_typed ts op \<Longrightarrow> \<exists>t. get_type_Operand ts op = Some t"
  by (cases op) (simp_all add: get_type_Constant_total)

lemma get_type_Constant_total_iff:
  "get_type_Constant ts c = None \<Longrightarrow> \<not> constant_typed ts c"
  using get_type_Constant_total by fastforce

end
