(* ===== verification/LLVM_Attributes.thy ===== *)
theory LLVM_Attributes
  imports LLVM_Constant
begin

text \<open>
  The small enumerations that instructions and functions carry: predicates (\<open>predicates.rs\<close>),
  debug locations (\<open>debugloc.rs\<close>), calling conventions and attributes (\<open>function.rs\<close>), with the
  variants of LLVM 19. Predicates and memory effects have their conversions; the printed names of
  the predicates are pairwise distinct.
\<close>

section \<open>Debug locations\<close>

record DebugLoc =
  line :: u32
  col :: "u32 option"
  filename :: string
  directory :: "string option"

text \<open>\<open>str::trim_start_matches\<close> with a non-empty pattern.\<close>

definition trim_start_matches :: "string \<Rightarrow> string \<Rightarrow> string" where
  "trim_start_matches pat s = strip_codes [pat] s"

definition show_DebugLoc :: "DebugLoc \<Rightarrow> string" where
  "show_DebugLoc d =
     (let pretty_directory = (case directory d of Some dir \<Rightarrow> dir | None \<Rightarrow> '''');
          need_slash =
            (case directory d of
               Some dir \<Rightarrow> dir \<noteq> [] \<and> last dir \<noteq> CHR ''/'' \<and> \<not> starts_with ''/'' (filename d)
             | None \<Rightarrow> False);
          pretty_filename =
            (if filename d = [] then ''<no filename available>''
             else if pretty_directory \<noteq> [] then trim_start_matches pretty_directory (filename d)
             else filename d);
          pretty_column = (case col d of Some c \<Rightarrow> '', col '' @ show_word c | None \<Rightarrow> '''')
      in pretty_directory @ (if need_slash then ''/'' else '''') @ pretty_filename @
         '', line '' @ show_word (line d) @ pretty_column)"

section \<open>Predicates\<close>

datatype (plugins only: code size) IntPredicate =
  EQ | NE | UGT | UGE | ULT | ULE | SGT | SGE | SLT | SLE

datatype (plugins only: code size) FPPredicate =
    FP_False | FP_OEQ | FP_OGT | FP_OGE | FP_OLT | FP_OLE | FP_ONE | FP_ORD
  | FP_UNO | FP_UEQ | FP_UGT | FP_UGE | FP_ULT | FP_ULE | FP_UNE | FP_True

primrec show_IntPredicate :: "IntPredicate \<Rightarrow> string" where
  "show_IntPredicate EQ = ''eq''"
| "show_IntPredicate NE = ''ne''"
| "show_IntPredicate UGT = ''ugt''"
| "show_IntPredicate UGE = ''uge''"
| "show_IntPredicate ULT = ''ult''"
| "show_IntPredicate ULE = ''ule''"
| "show_IntPredicate SGT = ''sgt''"
| "show_IntPredicate SGE = ''sge''"
| "show_IntPredicate SLT = ''slt''"
| "show_IntPredicate SLE = ''sle''"

primrec show_FPPredicate :: "FPPredicate \<Rightarrow> string" where
  "show_FPPredicate FP_False = ''false''"
| "show_FPPredicate FP_OEQ = ''oeq''"
| "show_FPPredicate FP_OGT = ''ogt''"
| "show_FPPredicate FP_OGE = ''oge''"
| "show_FPPredicate FP_OLT = ''olt''"
| "show_FPPredicate FP_OLE = ''ole''"
| "show_FPPredicate FP_ONE = ''one''"
| "show_FPPredicate FP_ORD = ''ord''"
| "show_FPPredicate FP_UNO = ''uno''"
| "show_FPPredicate FP_UEQ = ''ueq''"
| "show_FPPredicate FP_UGT = ''ugt''"
| "show_FPPredicate FP_UGE = ''uge''"
| "show_FPPredicate FP_ULT = ''ult''"
| "show_FPPredicate FP_ULE = ''ule''"
| "show_FPPredicate FP_UNE = ''une''"
| "show_FPPredicate FP_True = ''true''"

lemma show_IntPredicate_inj: "show_IntPredicate p = show_IntPredicate q \<longleftrightarrow> p = q"
  by (cases p; cases q; simp)

lemma show_FPPredicate_inj: "show_FPPredicate p = show_FPPredicate q \<longleftrightarrow> p = q"
  by (cases p; cases q; simp)

section \<open>Calling conventions and attributes\<close>

datatype (plugins only: code size) CallingConvention =
    CC_C | CC_Fast | CC_Cold | CC_GHC | CC_HiPE | CC_WebKit_JS | CC_AnyReg | CC_PreserveMost
  | CC_PreserveAll | CC_Swift | CC_CXX_FastTLS | CC_X86_StdCall | CC_X86_FastCall
  | CC_X86_RegCall | CC_X86_ThisCall | CC_X86_VectorCall | CC_X86_Intr | CC_X86_64_SysV
  | CC_ARM_APCS | CC_ARM_AAPCS | CC_ARM_AAPCS_VFP | CC_MSP430_INTR | CC_MSP430_Builtin
  | CC_PTX_Kernel | CC_PTX_Device | CC_SPIR_FUNC | CC_SPIR_KERNEL | CC_Intel_OCL_BI | CC_Win64
  | CC_HHVM | CC_HHVM_C | CC_AVR_Intr | CC_AVR_Signal | CC_AVR_Builtin | CC_AMDGPU_CS
  | CC_AMDGPU_ES | CC_AMDGPU_GS | CC_AMDGPU_HS | CC_AMDGPU_LS | CC_AMDGPU_PS | CC_AMDGPU_VS
  | CC_AMDGPU_Kernel | CC_Numbered u32

datatype (plugins only: code size) MemoryEffect = ME_None | ME_Read | ME_Write | ME_ReadWrite

text \<open>Panics (None) on anything but two bits.\<close>

definition MemoryEffect_from_llvm_bits :: "u64 \<Rightarrow> MemoryEffect option" where
  "MemoryEffect_from_llvm_bits val =
     (if val = 0 then Some ME_None else if val = 1 then Some ME_Read
      else if val = 2 then Some ME_Write else if val = 3 then Some ME_ReadWrite else None)"

datatype (plugins only: code size) FunctionAttribute =
    AlignStack u64
  | AllocSize u32 "u32 option"
  | AlwaysInline | Builtin | Cold | Convergent | InaccessibleMemOnly
  | InaccessibleMemOrArgMemOnly | InlineHint | JumpTable | MinimizeSize | Naked | NoBuiltin
  | NoCFCheck | NoDuplicate | FA_NoFree | NoImplicitFloat | NoInline | NoMerge | NonLazyBind
  | NoRedZone | NoReturn | NoRecurse | WillReturn | ReturnsTwice | NoSync | NoUnwind
  | NullPointerIsValid | OptForFuzzing | OptNone | OptSize | ReadNone | ReadOnly | WriteOnly
  | ArgMemOnly | SafeStack | SanitizeAddress | SanitizeMemory | SanitizeThread
  | SanitizeHWAddress | SanitizeMemTag | ShadowCallStack | SpeculativeLoadHardening
  | Speculatable | StackProtect | StackProtectReq | StackProtectStrong | StrictFP | UWTable
  | Memory MemoryEffect MemoryEffect MemoryEffect
  | FA_StringAttribute string string
  | FA_UnknownAttribute

datatype (plugins only: code size) ParameterAttribute =
    ZeroExt | SignExt | InReg | ByVal TypeRef | Preallocated TypeRef | InAlloca TypeRef
  | SRet TypeRef | Alignment u64 | NoAlias | NoCapture | NoFree | Nest | Returned | NonNull
  | Dereferenceable u64 | DereferenceableOrNull u64 | SwiftSelf | SwiftError | ImmArg | NoUndef
  | StringAttribute string string | UnknownAttribute | UnknownTypeAttribute TypeRef

end
