(* ===== verification/LLVM_Instruction.thy ===== *)
theory LLVM_Instruction
  imports LLVM_Attributes
begin

text \<open>
  The non-terminator instructions of LLVM IR, from \<open>instruction.rs\<close> and \<open>instruction/groups.rs\<close>
  under \<open>llvm-ir-patched/src\<close>.

  Every instruction struct is a record. The fields that many structs share (\<open>debugloc\<close>, \<open>dest\<close>,
  \<open>operand\<close>, \<open>operand0\<close>, \<open>operand1\<close>, \<open>to_type\<close>, the wrap and exact flags) are declared once, in a chain
  of record extensions, which plays the part of the macros \<open>impl_inst\<close>, \<open>impl_hasresult\<close>, \<open>impl_unop\<close> and
  \<open>impl_binop\<close>; a struct with nothing of its own is a synonym of the record it shares. Fields whose
  name occurs in several otherwise unrelated structs carry the struct's name as a prefix. The
  functions are the ones of \<open>impl Instruction\<close>: result name, atomicity, debug location, operand
  groups with their conversions, and result types. Results: the group predicates are exactly the
  domains of the group conversions, which round-trip; every instruction but stores, fences and
  void calls has a result; result types do not depend on the interned types.
\<close>

section \<open>Instruction structs\<close>

record Inst =
  debugloc :: "DebugLoc option"

record DestInst = Inst +
  dest :: Name

record UnaryInst = DestInst +
  operand :: Operand

record CastInst = UnaryInst +
  to_type :: TypeRef

record BinaryInst = DestInst +
  operand0 :: Operand
  operand1 :: Operand

record WrapInst = BinaryInst +
  nuw :: bool
  nsw :: bool

record ExactInst = BinaryInst +
  exact :: bool

type_synonym Add = WrapInst
type_synonym Sub = WrapInst
type_synonym Mul = WrapInst
type_synonym UDiv = ExactInst
type_synonym SDiv = ExactInst
type_synonym URem = BinaryInst
type_synonym SRem = BinaryInst
type_synonym And = BinaryInst
type_synonym Or = BinaryInst
type_synonym Xor = BinaryInst
type_synonym Shl = WrapInst
type_synonym LShr = ExactInst
type_synonym AShr = ExactInst
type_synonym FAdd = BinaryInst
type_synonym FSub = BinaryInst
type_synonym FMul = BinaryInst
type_synonym FDiv = BinaryInst
type_synonym FRem = BinaryInst
type_synonym FNeg = UnaryInst
type_synonym Trunc = CastInst
type_synonym ZExt = CastInst
type_synonym SExt = CastInst
type_synonym FPTrunc = CastInst
type_synonym FPExt = CastInst
type_synonym FPToUI = CastInst
type_synonym FPToSI = CastInst
type_synonym UIToFP = CastInst
type_synonym SIToFP = CastInst
type_synonym PtrToInt = CastInst
type_synonym IntToPtr = CastInst
type_synonym BitCast = CastInst
type_synonym AddrSpaceCast = CastInst
type_synonym Freeze = UnaryInst

datatype SynchronizationScope = SingleThread | System

datatype MemoryOrdering =
    Unordered | Monotonic | Acquire | Release | AcquireRelease | SequentiallyConsistent | NotAtomic

record Atomicity =
  synch_scope :: SynchronizationScope
  mem_ordering :: MemoryOrdering

record InlineAssembly =
  asm_ty :: TypeRef
  assembly :: string

datatype (plugins only: code size) RMWBinOp =
    RMW_Xchg | RMW_Add | RMW_Sub | RMW_And | RMW_Nand | RMW_Or | RMW_Xor | RMW_Max | RMW_Min
  | RMW_UMax | RMW_UMin | RMW_FAdd | RMW_FSub | RMW_FMax | RMW_FMin | RMW_UIncWrap | RMW_UDecWrap

datatype LandingPadClause = Catch ConstantRef | Filter ConstantRef

record ExtractElement = DestInst +
  ee_vector :: Operand
  ee_index :: Operand

record InsertElement = DestInst +
  ie_vector :: Operand
  ie_element :: Operand
  ie_index :: Operand

record ShuffleVector = BinaryInst +
  shuffle_mask :: ConstantRef

record ExtractValue = DestInst +
  ev_aggregate :: Operand
  ev_indices :: "u32 list"

record InsertValue = DestInst +
  iv_aggregate :: Operand
  iv_element :: Operand
  iv_indices :: "u32 list"

record Alloca = DestInst +
  allocated_type :: TypeRef
  num_elements :: Operand
  alloca_alignment :: u32

record Load = DestInst +
  load_address :: Operand
  loaded_ty :: TypeRef
  load_volatile :: bool
  load_atomicity :: "Atomicity option"
  load_alignment :: u32

record Store = Inst +
  store_address :: Operand
  store_value :: Operand
  store_volatile :: bool
  store_atomicity :: "Atomicity option"
  store_alignment :: u32

record Fence = Inst +
  fence_atomicity :: Atomicity

record CmpXchg = DestInst +
  cx_address :: Operand
  cx_expected :: Operand
  cx_replacement :: Operand
  cx_volatile :: bool
  cx_atomicity :: Atomicity
  cx_failure_memory_ordering :: MemoryOrdering
  cx_weak :: bool

record AtomicRMW = DestInst +
  rmw_operation :: RMWBinOp
  rmw_address :: Operand
  rmw_value :: Operand
  rmw_volatile :: bool
  rmw_atomicity :: Atomicity

record GetElementPtr = DestInst +
  gep_address :: Operand
  gep_indices :: "Operand list"
  gep_in_bounds :: bool
  gep_source_element_type :: TypeRef

record ICmp = BinaryInst +
  icmp_predicate :: IntPredicate

record FCmp = BinaryInst +
  fcmp_predicate :: FPPredicate

record Phi = DestInst +
  incoming_values :: "(Operand \<times> Name) list"
  phi_to_type :: TypeRef

record Select = DestInst +
  condition :: Operand
  true_value :: Operand
  false_value :: Operand

record Call = Inst +
  call_function :: "InlineAssembly + Operand"
  call_function_ty :: TypeRef
  call_arguments :: "(Operand \<times> ParameterAttribute list) list"
  call_return_attributes :: "ParameterAttribute list"
  call_dest :: "Name option"
  call_function_attributes :: "FunctionAttribute list"
  is_tail_call :: bool
  call_calling_convention :: CallingConvention

record VAArg = DestInst +
  va_arg_list :: Operand
  va_cur_type :: TypeRef

record LandingPad = DestInst +
  lp_result_type :: TypeRef
  lp_clauses :: "LandingPadClause list"
  lp_cleanup :: bool

record CatchPad = DestInst +
  catch_switch :: Operand
  cp_args :: "Operand list"

record CleanupPad = DestInst +
  parent_pad :: Operand
  clp_args :: "Operand list"

section \<open>Instructions\<close>

datatype (plugins only: code size) Instruction =
    Add Add
  | Sub Sub
  | Mul Mul
  | UDiv UDiv
  | SDiv SDiv
  | URem URem
  | SRem SRem
  | And And
  | Or Or
  | Xor Xor
  | Shl Shl
  | LShr LShr
  | AShr AShr
  | FAdd FAdd
  | FSub FSub
  | FMul FMul
  | FDiv FDiv
  | FRem FRem
  | FNeg FNeg
  | ExtractElement ExtractElement
  | InsertElement InsertElement
  | ShuffleVector ShuffleVector
  | ExtractValue ExtractValue
  | InsertValue InsertValue
  | Alloca Alloca
  | Load Load
  | Store Store
  | Fence Fence
  | CmpXchg CmpXchg
  | AtomicRMW AtomicRMW
  | GetElementPtr GetElementPtr
  | Trunc Trunc
  | ZExt ZExt
  | SExt SExt
  | FPTrunc FPTrunc
  | FPExt FPExt
  | FPToUI FPToUI
  | FPToSI FPToSI
  | UIToFP UIToFP
  | SIToFP SIToFP
  | PtrToInt PtrToInt
  | IntToPtr IntToPtr
  | BitCast BitCast
  | AddrSpaceCast AddrSpaceCast
  | ICmp ICmp
  | FCmp FCmp
  | Phi Phi
  | Select Select
  | Freeze Freeze
  | Call Call
  | VAArg VAArg
  | LandingPad LandingPad
  | CatchPad CatchPad
  | CleanupPad CleanupPad

text \<open>\<open>HasDebugLoc for Instruction\<close>, \<open>try_get_result\<close>, \<open>is_atomic\<close>.\<close>

primrec get_debug_loc :: "Instruction \<Rightarrow> DebugLoc option" where
  "get_debug_loc (Add i) = debugloc i"
| "get_debug_loc (Sub i) = debugloc i"
| "get_debug_loc (Mul i) = debugloc i"
| "get_debug_loc (UDiv i) = debugloc i"
| "get_debug_loc (SDiv i) = debugloc i"
| "get_debug_loc (URem i) = debugloc i"
| "get_debug_loc (SRem i) = debugloc i"
| "get_debug_loc (And i) = debugloc i"
| "get_debug_loc (Or i) = debugloc i"
| "get_debug_loc (Xor i) = debugloc i"
| "get_debug_loc (Shl i) = debugloc i"
| "get_debug_loc (LShr i) = debugloc i"
| "get_debug_loc (AShr i) = debugloc i"
| "get_debug_loc (FAdd i) = debugloc i"
| "get_debug_loc (FSub i) = debugloc i"
| "get_debug_loc (FMul i) = debugloc i"
| "get_debug_loc (FDiv i) = debugloc i"
| "get_debug_loc (FRem i) = debugloc i"
| "get_debug_loc (FNeg i) = debugloc i"
| "get_debug_loc (ExtractElement i) = debugloc i"
| "get_debug_loc (InsertElement i) = debugloc i"
| "get_debug_loc (ShuffleVector i) = debugloc i"
| "get_debug_loc (ExtractValue i) = debugloc i"
| "get_debug_loc (InsertValue i) = debugloc i"
| "get_debug_loc (Alloca i) = debugloc i"
| "get_debug_loc (Load i) = debugloc i"
| "get_debug_loc (Store i) = debugloc i"
| "get_debug_loc (Fence i) = debugloc i"
| "get_debug_loc (CmpXchg i) = debugloc i"
| "get_debug_loc (AtomicRMW i) = debugloc i"
| "get_debug_loc (GetElementPtr i) = debugloc i"
| "get_debug_loc (Trunc i) = debugloc i"
| "get_debug_loc (ZExt i) = debugloc i"
| "get_debug_loc (SExt i) = debugloc i"
| "get_debug_loc (FPTrunc i) = debugloc i"
| "get_debug_loc (FPExt i) = debugloc i"
| "get_debug_loc (FPToUI i) = debugloc i"
| "get_debug_loc (FPToSI i) = debugloc i"
| "get_debug_loc (UIToFP i) = debugloc i"
| "get_debug_loc (SIToFP i) = debugloc i"
| "get_debug_loc (PtrToInt i) = debugloc i"
| "get_debug_loc (IntToPtr i) = debugloc i"
| "get_debug_loc (BitCast i) = debugloc i"
| "get_debug_loc (AddrSpaceCast i) = debugloc i"
| "get_debug_loc (ICmp i) = debugloc i"
| "get_debug_loc (FCmp i) = debugloc i"
| "get_debug_loc (Phi i) = debugloc i"
| "get_debug_loc (Select i) = debugloc i"
| "get_debug_loc (Freeze i) = debugloc i"
| "get_debug_loc (Call i) = debugloc i"
| "get_debug_loc (VAArg i) = debugloc i"
| "get_debug_loc (LandingPad i) = debugloc i"
| "get_debug_loc (CatchPad i) = debugloc i"
| "get_debug_loc (CleanupPad i) = debugloc i"

primrec try_get_result :: "Instruction \<Rightarrow> Name option" where
  "try_get_result (Add i) = Some (dest i)"
| "try_get_result (Sub i) = Some (dest i)"
| "try_get_result (Mul i) = Some (dest i)"
| "try_get_result (UDiv i) = Some (dest i)"
| "try_get_result (SDiv i) = Some (dest i)"
| "try_get_result (URem i) = Some (dest i)"
| "try_get_result (SRem i) = Some (dest i)"
| "try_get_result (And i) = Some (dest i)"
| "try_get_result (Or i) = Some (dest i)"
| "try_get_result (Xor i) = Some (dest i)"
| "try_get_result (Shl i) = Some (dest i)"
| "try_get_result (LShr i) = Some (dest i)"
| "try_get_result (AShr i) = Some (dest i)"
| "try_get_result (FAdd i) = Some (dest i)"
| "try_get_result (FSub i) = Some (dest i)"
| "try_get_result (FMul i) = Some (dest i)"
| "try_get_result (FDiv i) = Some (dest i)"
| "try_get_result (FRem i) = Some (dest i)"
| "try_get_result (FNeg i) = Some (dest i)"
| "try_get_result (ExtractElement i) = Some (dest i)"
| "try_get_result (InsertElement i) = Some (dest i)"
| "try_get_result (ShuffleVector i) = Some (dest i)"
| "try_get_result (ExtractValue i) = Some (dest i)"
| "try_get_result (InsertValue i) = Some (dest i)"
| "try_get_result (Alloca i) = Some (dest i)"
| "try_get_result (Load i) = Some (dest i)"
| "try_get_result (Store i) = None"
| "try_get_result (Fence i) = None"
| "try_get_result (CmpXchg i) = Some (dest i)"
| "try_get_result (AtomicRMW i) = Some (dest i)"
| "try_get_result (GetElementPtr i) = Some (dest i)"
| "try_get_result (Trunc i) = Some (dest i)"
| "try_get_result (ZExt i) = Some (dest i)"
| "try_get_result (SExt i) = Some (dest i)"
| "try_get_result (FPTrunc i) = Some (dest i)"
| "try_get_result (FPExt i) = Some (dest i)"
| "try_get_result (FPToUI i) = Some (dest i)"
| "try_get_result (FPToSI i) = Some (dest i)"
| "try_get_result (UIToFP i) = Some (dest i)"
| "try_get_result (SIToFP i) = Some (dest i)"
| "try_get_result (PtrToInt i) = Some (dest i)"
| "try_get_result (IntToPtr i) = Some (dest i)"
| "try_get_result (BitCast i) = Some (dest i)"
| "try_get_result (AddrSpaceCast i) = Some (dest i)"
| "try_get_result (ICmp i) = Some (dest i)"
| "try_get_result (FCmp i) = Some (dest i)"
| "try_get_result (Phi i) = Some (dest i)"
| "try_get_result (Select i) = Some (dest i)"
| "try_get_result (Freeze i) = Some (dest i)"
| "try_get_result (Call i) = call_dest i"
| "try_get_result (VAArg i) = Some (dest i)"
| "try_get_result (LandingPad i) = Some (dest i)"
| "try_get_result (CatchPad i) = Some (dest i)"
| "try_get_result (CleanupPad i) = Some (dest i)"

primrec is_atomic :: "Instruction \<Rightarrow> bool" where
  "is_atomic (Add i) = False"
| "is_atomic (Sub i) = False"
| "is_atomic (Mul i) = False"
| "is_atomic (UDiv i) = False"
| "is_atomic (SDiv i) = False"
| "is_atomic (URem i) = False"
| "is_atomic (SRem i) = False"
| "is_atomic (And i) = False"
| "is_atomic (Or i) = False"
| "is_atomic (Xor i) = False"
| "is_atomic (Shl i) = False"
| "is_atomic (LShr i) = False"
| "is_atomic (AShr i) = False"
| "is_atomic (FAdd i) = False"
| "is_atomic (FSub i) = False"
| "is_atomic (FMul i) = False"
| "is_atomic (FDiv i) = False"
| "is_atomic (FRem i) = False"
| "is_atomic (FNeg i) = False"
| "is_atomic (ExtractElement i) = False"
| "is_atomic (InsertElement i) = False"
| "is_atomic (ShuffleVector i) = False"
| "is_atomic (ExtractValue i) = False"
| "is_atomic (InsertValue i) = False"
| "is_atomic (Alloca i) = False"
| "is_atomic (Load i) = (load_atomicity i \<noteq> None)"
| "is_atomic (Store i) = (store_atomicity i \<noteq> None)"
| "is_atomic (Fence i) = True"
| "is_atomic (CmpXchg i) = True"
| "is_atomic (AtomicRMW i) = True"
| "is_atomic (GetElementPtr i) = False"
| "is_atomic (Trunc i) = False"
| "is_atomic (ZExt i) = False"
| "is_atomic (SExt i) = False"
| "is_atomic (FPTrunc i) = False"
| "is_atomic (FPExt i) = False"
| "is_atomic (FPToUI i) = False"
| "is_atomic (FPToSI i) = False"
| "is_atomic (UIToFP i) = False"
| "is_atomic (SIToFP i) = False"
| "is_atomic (PtrToInt i) = False"
| "is_atomic (IntToPtr i) = False"
| "is_atomic (BitCast i) = False"
| "is_atomic (AddrSpaceCast i) = False"
| "is_atomic (ICmp i) = False"
| "is_atomic (FCmp i) = False"
| "is_atomic (Phi i) = False"
| "is_atomic (Select i) = False"
| "is_atomic (Freeze i) = False"
| "is_atomic (Call i) = False"
| "is_atomic (VAArg i) = False"
| "is_atomic (LandingPad i) = False"
| "is_atomic (CatchPad i) = False"
| "is_atomic (CleanupPad i) = False"

section \<open>Operand groups\<close>

primrec is_binary_op :: "Instruction \<Rightarrow> bool" where
  "is_binary_op (Add i) = True"
| "is_binary_op (Sub i) = True"
| "is_binary_op (Mul i) = True"
| "is_binary_op (UDiv i) = True"
| "is_binary_op (SDiv i) = True"
| "is_binary_op (URem i) = True"
| "is_binary_op (SRem i) = True"
| "is_binary_op (And i) = True"
| "is_binary_op (Or i) = True"
| "is_binary_op (Xor i) = True"
| "is_binary_op (Shl i) = True"
| "is_binary_op (LShr i) = True"
| "is_binary_op (AShr i) = True"
| "is_binary_op (FAdd i) = True"
| "is_binary_op (FSub i) = True"
| "is_binary_op (FMul i) = True"
| "is_binary_op (FDiv i) = True"
| "is_binary_op (FRem i) = True"
| "is_binary_op (FNeg i) = False"
| "is_binary_op (ExtractElement i) = False"
| "is_binary_op (InsertElement i) = False"
| "is_binary_op (ShuffleVector i) = False"
| "is_binary_op (ExtractValue i) = False"
| "is_binary_op (InsertValue i) = False"
| "is_binary_op (Alloca i) = False"
| "is_binary_op (Load i) = False"
| "is_binary_op (Store i) = False"
| "is_binary_op (Fence i) = False"
| "is_binary_op (CmpXchg i) = False"
| "is_binary_op (AtomicRMW i) = False"
| "is_binary_op (GetElementPtr i) = False"
| "is_binary_op (Trunc i) = False"
| "is_binary_op (ZExt i) = False"
| "is_binary_op (SExt i) = False"
| "is_binary_op (FPTrunc i) = False"
| "is_binary_op (FPExt i) = False"
| "is_binary_op (FPToUI i) = False"
| "is_binary_op (FPToSI i) = False"
| "is_binary_op (UIToFP i) = False"
| "is_binary_op (SIToFP i) = False"
| "is_binary_op (PtrToInt i) = False"
| "is_binary_op (IntToPtr i) = False"
| "is_binary_op (BitCast i) = False"
| "is_binary_op (AddrSpaceCast i) = False"
| "is_binary_op (ICmp i) = False"
| "is_binary_op (FCmp i) = False"
| "is_binary_op (Phi i) = False"
| "is_binary_op (Select i) = False"
| "is_binary_op (Freeze i) = False"
| "is_binary_op (Call i) = False"
| "is_binary_op (VAArg i) = False"
| "is_binary_op (LandingPad i) = False"
| "is_binary_op (CatchPad i) = False"
| "is_binary_op (CleanupPad i) = False"

primrec is_unary_op :: "Instruction \<Rightarrow> bool" where
  "is_unary_op (Add i) = False"
| "is_unary_op (Sub i) = False"
| "is_unary_op (Mul i) = False"
| "is_unary_op (UDiv i) = False"
| "is_unary_op (SDiv i) = False"
| "is_unary_op (URem i) = False"
| "is_unary_op (SRem i) = False"
| "is_unary_op (And i) = False"
| "is_unary_op (Or i) = False"
| "is_unary_op (Xor i) = False"
| "is_unary_op (Shl i) = False"
| "is_unary_op (LShr i) = False"
| "is_unary_op (AShr i) = False"
| "is_unary_op (FAdd i) = False"
| "is_unary_op (FSub i) = False"
| "is_unary_op (FMul i) = False"
| "is_unary_op (FDiv i) = False"
| "is_unary_op (FRem i) = False"
| "is_unary_op (FNeg i) = True"
| "is_unary_op (ExtractElement i) = False"
| "is_unary_op (InsertElement i) = False"
| "is_unary_op (ShuffleVector i) = False"
| "is_unary_op (ExtractValue i) = False"
| "is_unary_op (InsertValue i) = False"
| "is_unary_op (Alloca i) = False"
| "is_unary_op (Load i) = False"
| "is_unary_op (Store i) = False"
| "is_unary_op (Fence i) = False"
| "is_unary_op (CmpXchg i) = False"
| "is_unary_op (AtomicRMW i) = False"
| "is_unary_op (GetElementPtr i) = False"
| "is_unary_op (Trunc i) = True"
| "is_unary_op (ZExt i) = True"
| "is_unary_op (SExt i) = True"
| "is_unary_op (FPTrunc i) = True"
| "is_unary_op (FPExt i) = True"
| "is_unary_op (FPToUI i) = True"
| "is_unary_op (FPToSI i) = True"
| "is_unary_op (UIToFP i) = True"
| "is_unary_op (SIToFP i) = True"
| "is_unary_op (PtrToInt i) = True"
| "is_unary_op (IntToPtr i) = True"
| "is_unary_op (BitCast i) = True"
| "is_unary_op (AddrSpaceCast i) = True"
| "is_unary_op (ICmp i) = False"
| "is_unary_op (FCmp i) = False"
| "is_unary_op (Phi i) = False"
| "is_unary_op (Select i) = False"
| "is_unary_op (Freeze i) = True"
| "is_unary_op (Call i) = False"
| "is_unary_op (VAArg i) = False"
| "is_unary_op (LandingPad i) = False"
| "is_unary_op (CatchPad i) = False"
| "is_unary_op (CleanupPad i) = False"

text \<open>\<open>groups::BinaryOp\<close> and \<open>groups::UnaryOp\<close> with their conversions.\<close>

datatype (plugins only: code size) BinaryOp =
    BO_Add Add
  | BO_Sub Sub
  | BO_Mul Mul
  | BO_UDiv UDiv
  | BO_SDiv SDiv
  | BO_URem URem
  | BO_SRem SRem
  | BO_And And
  | BO_Or Or
  | BO_Xor Xor
  | BO_Shl Shl
  | BO_LShr LShr
  | BO_AShr AShr
  | BO_FAdd FAdd
  | BO_FSub FSub
  | BO_FMul FMul
  | BO_FDiv FDiv
  | BO_FRem FRem

datatype (plugins only: code size) UnaryOp =
    UO_AddrSpaceCast AddrSpaceCast
  | UO_BitCast BitCast
  | UO_FNeg FNeg
  | UO_FPExt FPExt
  | UO_FPToSI FPToSI
  | UO_FPToUI FPToUI
  | UO_FPTrunc FPTrunc
  | UO_Freeze Freeze
  | UO_IntToPtr IntToPtr
  | UO_PtrToInt PtrToInt
  | UO_SExt SExt
  | UO_SIToFP SIToFP
  | UO_Trunc Trunc
  | UO_UIToFP UIToFP
  | UO_ZExt ZExt

primrec Instruction_from_BinaryOp :: "BinaryOp \<Rightarrow> Instruction" where
  "Instruction_from_BinaryOp (BO_Add i) = Add i"
| "Instruction_from_BinaryOp (BO_Sub i) = Sub i"
| "Instruction_from_BinaryOp (BO_Mul i) = Mul i"
| "Instruction_from_BinaryOp (BO_UDiv i) = UDiv i"
| "Instruction_from_BinaryOp (BO_SDiv i) = SDiv i"
| "Instruction_from_BinaryOp (BO_URem i) = URem i"
| "Instruction_from_BinaryOp (BO_SRem i) = SRem i"
| "Instruction_from_BinaryOp (BO_And i) = And i"
| "Instruction_from_BinaryOp (BO_Or i) = Or i"
| "Instruction_from_BinaryOp (BO_Xor i) = Xor i"
| "Instruction_from_BinaryOp (BO_Shl i) = Shl i"
| "Instruction_from_BinaryOp (BO_LShr i) = LShr i"
| "Instruction_from_BinaryOp (BO_AShr i) = AShr i"
| "Instruction_from_BinaryOp (BO_FAdd i) = FAdd i"
| "Instruction_from_BinaryOp (BO_FSub i) = FSub i"
| "Instruction_from_BinaryOp (BO_FMul i) = FMul i"
| "Instruction_from_BinaryOp (BO_FDiv i) = FDiv i"
| "Instruction_from_BinaryOp (BO_FRem i) = FRem i"

primrec Instruction_from_UnaryOp :: "UnaryOp \<Rightarrow> Instruction" where
  "Instruction_from_UnaryOp (UO_AddrSpaceCast i) = AddrSpaceCast i"
| "Instruction_from_UnaryOp (UO_BitCast i) = BitCast i"
| "Instruction_from_UnaryOp (UO_FNeg i) = FNeg i"
| "Instruction_from_UnaryOp (UO_FPExt i) = FPExt i"
| "Instruction_from_UnaryOp (UO_FPToSI i) = FPToSI i"
| "Instruction_from_UnaryOp (UO_FPToUI i) = FPToUI i"
| "Instruction_from_UnaryOp (UO_FPTrunc i) = FPTrunc i"
| "Instruction_from_UnaryOp (UO_Freeze i) = Freeze i"
| "Instruction_from_UnaryOp (UO_IntToPtr i) = IntToPtr i"
| "Instruction_from_UnaryOp (UO_PtrToInt i) = PtrToInt i"
| "Instruction_from_UnaryOp (UO_SExt i) = SExt i"
| "Instruction_from_UnaryOp (UO_SIToFP i) = SIToFP i"
| "Instruction_from_UnaryOp (UO_Trunc i) = Trunc i"
| "Instruction_from_UnaryOp (UO_UIToFP i) = UIToFP i"
| "Instruction_from_UnaryOp (UO_ZExt i) = ZExt i"

primrec BinaryOp_try_from :: "Instruction \<Rightarrow> BinaryOp option" where
  "BinaryOp_try_from (Add i) = Some (BO_Add i)"
| "BinaryOp_try_from (Sub i) = Some (BO_Sub i)"
| "BinaryOp_try_from (Mul i) = Some (BO_Mul i)"
| "BinaryOp_try_from (UDiv i) = Some (BO_UDiv i)"
| "BinaryOp_try_from (SDiv i) = Some (BO_SDiv i)"
| "BinaryOp_try_from (URem i) = Some (BO_URem i)"
| "BinaryOp_try_from (SRem i) = Some (BO_SRem i)"
| "BinaryOp_try_from (And i) = Some (BO_And i)"
| "BinaryOp_try_from (Or i) = Some (BO_Or i)"
| "BinaryOp_try_from (Xor i) = Some (BO_Xor i)"
| "BinaryOp_try_from (Shl i) = Some (BO_Shl i)"
| "BinaryOp_try_from (LShr i) = Some (BO_LShr i)"
| "BinaryOp_try_from (AShr i) = Some (BO_AShr i)"
| "BinaryOp_try_from (FAdd i) = Some (BO_FAdd i)"
| "BinaryOp_try_from (FSub i) = Some (BO_FSub i)"
| "BinaryOp_try_from (FMul i) = Some (BO_FMul i)"
| "BinaryOp_try_from (FDiv i) = Some (BO_FDiv i)"
| "BinaryOp_try_from (FRem i) = Some (BO_FRem i)"
| "BinaryOp_try_from (FNeg i) = None"
| "BinaryOp_try_from (ExtractElement i) = None"
| "BinaryOp_try_from (InsertElement i) = None"
| "BinaryOp_try_from (ShuffleVector i) = None"
| "BinaryOp_try_from (ExtractValue i) = None"
| "BinaryOp_try_from (InsertValue i) = None"
| "BinaryOp_try_from (Alloca i) = None"
| "BinaryOp_try_from (Load i) = None"
| "BinaryOp_try_from (Store i) = None"
| "BinaryOp_try_from (Fence i) = None"
| "BinaryOp_try_from (CmpXchg i) = None"
| "BinaryOp_try_from (AtomicRMW i) = None"
| "BinaryOp_try_from (GetElementPtr i) = None"
| "BinaryOp_try_from (Trunc i) = None"
| "BinaryOp_try_from (ZExt i) = None"
| "BinaryOp_try_from (SExt i) = None"
| "BinaryOp_try_from (FPTrunc i) = None"
| "BinaryOp_try_from (FPExt i) = None"
| "BinaryOp_try_from (FPToUI i) = None"
| "BinaryOp_try_from (FPToSI i) = None"
| "BinaryOp_try_from (UIToFP i) = None"
| "BinaryOp_try_from (SIToFP i) = None"
| "BinaryOp_try_from (PtrToInt i) = None"
| "BinaryOp_try_from (IntToPtr i) = None"
| "BinaryOp_try_from (BitCast i) = None"
| "BinaryOp_try_from (AddrSpaceCast i) = None"
| "BinaryOp_try_from (ICmp i) = None"
| "BinaryOp_try_from (FCmp i) = None"
| "BinaryOp_try_from (Phi i) = None"
| "BinaryOp_try_from (Select i) = None"
| "BinaryOp_try_from (Freeze i) = None"
| "BinaryOp_try_from (Call i) = None"
| "BinaryOp_try_from (VAArg i) = None"
| "BinaryOp_try_from (LandingPad i) = None"
| "BinaryOp_try_from (CatchPad i) = None"
| "BinaryOp_try_from (CleanupPad i) = None"

primrec UnaryOp_try_from :: "Instruction \<Rightarrow> UnaryOp option" where
  "UnaryOp_try_from (Add i) = None"
| "UnaryOp_try_from (Sub i) = None"
| "UnaryOp_try_from (Mul i) = None"
| "UnaryOp_try_from (UDiv i) = None"
| "UnaryOp_try_from (SDiv i) = None"
| "UnaryOp_try_from (URem i) = None"
| "UnaryOp_try_from (SRem i) = None"
| "UnaryOp_try_from (And i) = None"
| "UnaryOp_try_from (Or i) = None"
| "UnaryOp_try_from (Xor i) = None"
| "UnaryOp_try_from (Shl i) = None"
| "UnaryOp_try_from (LShr i) = None"
| "UnaryOp_try_from (AShr i) = None"
| "UnaryOp_try_from (FAdd i) = None"
| "UnaryOp_try_from (FSub i) = None"
| "UnaryOp_try_from (FMul i) = None"
| "UnaryOp_try_from (FDiv i) = None"
| "UnaryOp_try_from (FRem i) = None"
| "UnaryOp_try_from (FNeg i) = Some (UO_FNeg i)"
| "UnaryOp_try_from (ExtractElement i) = None"
| "UnaryOp_try_from (InsertElement i) = None"
| "UnaryOp_try_from (ShuffleVector i) = None"
| "UnaryOp_try_from (ExtractValue i) = None"
| "UnaryOp_try_from (InsertValue i) = None"
| "UnaryOp_try_from (Alloca i) = None"
| "UnaryOp_try_from (Load i) = None"
| "UnaryOp_try_from (Store i) = None"
| "UnaryOp_try_from (Fence i) = None"
| "UnaryOp_try_from (CmpXchg i) = None"
| "UnaryOp_try_from (AtomicRMW i) = None"
| "UnaryOp_try_from (GetElementPtr i) = None"
| "UnaryOp_try_from (Trunc i) = Some (UO_Trunc i)"
| "UnaryOp_try_from (ZExt i) = Some (UO_ZExt i)"
| "UnaryOp_try_from (SExt i) = Some (UO_SExt i)"
| "UnaryOp_try_from (FPTrunc i) = Some (UO_FPTrunc i)"
| "UnaryOp_try_from (FPExt i) = Some (UO_FPExt i)"
| "UnaryOp_try_from (FPToUI i) = Some (UO_FPToUI i)"
| "UnaryOp_try_from (FPToSI i) = Some (UO_FPToSI i)"
| "UnaryOp_try_from (UIToFP i) = Some (UO_UIToFP i)"
| "UnaryOp_try_from (SIToFP i) = Some (UO_SIToFP i)"
| "UnaryOp_try_from (PtrToInt i) = Some (UO_PtrToInt i)"
| "UnaryOp_try_from (IntToPtr i) = Some (UO_IntToPtr i)"
| "UnaryOp_try_from (BitCast i) = Some (UO_BitCast i)"
| "UnaryOp_try_from (AddrSpaceCast i) = Some (UO_AddrSpaceCast i)"
| "UnaryOp_try_from (ICmp i) = None"
| "UnaryOp_try_from (FCmp i) = None"
| "UnaryOp_try_from (Phi i) = None"
| "UnaryOp_try_from (Select i) = None"
| "UnaryOp_try_from (Freeze i) = Some (UO_Freeze i)"
| "UnaryOp_try_from (Call i) = None"
| "UnaryOp_try_from (VAArg i) = None"
| "UnaryOp_try_from (LandingPad i) = None"
| "UnaryOp_try_from (CatchPad i) = None"
| "UnaryOp_try_from (CleanupPad i) = None"

primrec get_operand0 :: "BinaryOp \<Rightarrow> Operand" where
  "get_operand0 (BO_Add i) = operand0 i"
| "get_operand0 (BO_Sub i) = operand0 i"
| "get_operand0 (BO_Mul i) = operand0 i"
| "get_operand0 (BO_UDiv i) = operand0 i"
| "get_operand0 (BO_SDiv i) = operand0 i"
| "get_operand0 (BO_URem i) = operand0 i"
| "get_operand0 (BO_SRem i) = operand0 i"
| "get_operand0 (BO_And i) = operand0 i"
| "get_operand0 (BO_Or i) = operand0 i"
| "get_operand0 (BO_Xor i) = operand0 i"
| "get_operand0 (BO_Shl i) = operand0 i"
| "get_operand0 (BO_LShr i) = operand0 i"
| "get_operand0 (BO_AShr i) = operand0 i"
| "get_operand0 (BO_FAdd i) = operand0 i"
| "get_operand0 (BO_FSub i) = operand0 i"
| "get_operand0 (BO_FMul i) = operand0 i"
| "get_operand0 (BO_FDiv i) = operand0 i"
| "get_operand0 (BO_FRem i) = operand0 i"

primrec get_operand1 :: "BinaryOp \<Rightarrow> Operand" where
  "get_operand1 (BO_Add i) = operand1 i"
| "get_operand1 (BO_Sub i) = operand1 i"
| "get_operand1 (BO_Mul i) = operand1 i"
| "get_operand1 (BO_UDiv i) = operand1 i"
| "get_operand1 (BO_SDiv i) = operand1 i"
| "get_operand1 (BO_URem i) = operand1 i"
| "get_operand1 (BO_SRem i) = operand1 i"
| "get_operand1 (BO_And i) = operand1 i"
| "get_operand1 (BO_Or i) = operand1 i"
| "get_operand1 (BO_Xor i) = operand1 i"
| "get_operand1 (BO_Shl i) = operand1 i"
| "get_operand1 (BO_LShr i) = operand1 i"
| "get_operand1 (BO_AShr i) = operand1 i"
| "get_operand1 (BO_FAdd i) = operand1 i"
| "get_operand1 (BO_FSub i) = operand1 i"
| "get_operand1 (BO_FMul i) = operand1 i"
| "get_operand1 (BO_FDiv i) = operand1 i"
| "get_operand1 (BO_FRem i) = operand1 i"

primrec BinaryOp_get_result :: "BinaryOp \<Rightarrow> Name" where
  "BinaryOp_get_result (BO_Add i) = dest i"
| "BinaryOp_get_result (BO_Sub i) = dest i"
| "BinaryOp_get_result (BO_Mul i) = dest i"
| "BinaryOp_get_result (BO_UDiv i) = dest i"
| "BinaryOp_get_result (BO_SDiv i) = dest i"
| "BinaryOp_get_result (BO_URem i) = dest i"
| "BinaryOp_get_result (BO_SRem i) = dest i"
| "BinaryOp_get_result (BO_And i) = dest i"
| "BinaryOp_get_result (BO_Or i) = dest i"
| "BinaryOp_get_result (BO_Xor i) = dest i"
| "BinaryOp_get_result (BO_Shl i) = dest i"
| "BinaryOp_get_result (BO_LShr i) = dest i"
| "BinaryOp_get_result (BO_AShr i) = dest i"
| "BinaryOp_get_result (BO_FAdd i) = dest i"
| "BinaryOp_get_result (BO_FSub i) = dest i"
| "BinaryOp_get_result (BO_FMul i) = dest i"
| "BinaryOp_get_result (BO_FDiv i) = dest i"
| "BinaryOp_get_result (BO_FRem i) = dest i"

primrec get_operand :: "UnaryOp \<Rightarrow> Operand" where
  "get_operand (UO_AddrSpaceCast i) = operand i"
| "get_operand (UO_BitCast i) = operand i"
| "get_operand (UO_FNeg i) = operand i"
| "get_operand (UO_FPExt i) = operand i"
| "get_operand (UO_FPToSI i) = operand i"
| "get_operand (UO_FPToUI i) = operand i"
| "get_operand (UO_FPTrunc i) = operand i"
| "get_operand (UO_Freeze i) = operand i"
| "get_operand (UO_IntToPtr i) = operand i"
| "get_operand (UO_PtrToInt i) = operand i"
| "get_operand (UO_SExt i) = operand i"
| "get_operand (UO_SIToFP i) = operand i"
| "get_operand (UO_Trunc i) = operand i"
| "get_operand (UO_UIToFP i) = operand i"
| "get_operand (UO_ZExt i) = operand i"

primrec UnaryOp_get_result :: "UnaryOp \<Rightarrow> Name" where
  "UnaryOp_get_result (UO_AddrSpaceCast i) = dest i"
| "UnaryOp_get_result (UO_BitCast i) = dest i"
| "UnaryOp_get_result (UO_FNeg i) = dest i"
| "UnaryOp_get_result (UO_FPExt i) = dest i"
| "UnaryOp_get_result (UO_FPToSI i) = dest i"
| "UnaryOp_get_result (UO_FPToUI i) = dest i"
| "UnaryOp_get_result (UO_FPTrunc i) = dest i"
| "UnaryOp_get_result (UO_Freeze i) = dest i"
| "UnaryOp_get_result (UO_IntToPtr i) = dest i"
| "UnaryOp_get_result (UO_PtrToInt i) = dest i"
| "UnaryOp_get_result (UO_SExt i) = dest i"
| "UnaryOp_get_result (UO_SIToFP i) = dest i"
| "UnaryOp_get_result (UO_Trunc i) = dest i"
| "UnaryOp_get_result (UO_UIToFP i) = dest i"
| "UnaryOp_get_result (UO_ZExt i) = dest i"

section \<open>Result types\<close>

text \<open>\<open>ev_type\<close>: the type found by following the indices of an \<open>extractvalue\<close>; None is a panic.\<close>

fun ev_type :: "TypeRef \<Rightarrow> u32 list \<Rightarrow> TypeRef option" where
  "ev_type cur_type [] = Some cur_type"
| "ev_type (ArrayType element_type _) (index # indices) = ev_type element_type indices"
| "ev_type (StructType element_types _) (index # indices) =
     (case vec_get element_types (unat index) of
        Some t \<Rightarrow> ev_type t indices
      | None \<Rightarrow> None)"
| "ev_type _ (index # indices) = None"

definition cmp_type :: "Types \<Rightarrow> TypeRef \<Rightarrow> TypeRef" where
  "cmp_type ts ty =
     (case ty of
        VectorType _ n scalable \<Rightarrow> types_vector_of ts (types_bool ts) n scalable
      | _ \<Rightarrow> types_bool ts)"

definition call_type :: "TypeRef \<Rightarrow> TypeRef option" where
  "call_type function_ty = (case function_ty of FuncType result_type _ _ \<Rightarrow> Some result_type | _ \<Rightarrow> None)"

text \<open>\<open>get_type\<close> of the structs, one definition per \<open>impl Typed\<close> and per macro that makes such an impl.
  None is a panic. The \<open>debug_assert_eq!\<close> in some of them are not in the release build.\<close>

definition binop_same_type :: "Types \<Rightarrow> ('a BinaryInst_scheme) \<Rightarrow> TypeRef option" where
  [simp]: "binop_same_type ts i = get_type_Operand ts (operand0 i)"

definition binop_left_type :: "Types \<Rightarrow> ('a BinaryInst_scheme) \<Rightarrow> TypeRef option" where
  [simp]: "binop_left_type ts i = get_type_Operand ts (operand0 i)"

definition unop_same_type :: "Types \<Rightarrow> ('a UnaryInst_scheme) \<Rightarrow> TypeRef option" where
  [simp]: "unop_same_type ts i = get_type_Operand ts (operand i)"

definition explicitly_typed :: "TypeRef \<Rightarrow> TypeRef option" where
  [simp]: "explicitly_typed ty = Some ty"

definition void_typed :: "Types \<Rightarrow> TypeRef option" where
  [simp]: "void_typed ts = Some (types_void ts)"

definition get_type_InsertElement :: "Types \<Rightarrow> InsertElement \<Rightarrow> TypeRef option" where
  [simp]: "get_type_InsertElement ts i = get_type_Operand ts (ie_vector i)"

definition get_type_ExtractValue :: "Types \<Rightarrow> ExtractValue \<Rightarrow> TypeRef option" where
  [simp]: "get_type_ExtractValue ts i = Option.bind (get_type_Operand ts (ev_aggregate i)) (\<lambda>t. ev_type t (ev_indices i))"

definition get_type_InsertValue :: "Types \<Rightarrow> InsertValue \<Rightarrow> TypeRef option" where
  [simp]: "get_type_InsertValue ts i = get_type_Operand ts (iv_aggregate i)"

definition get_type_Alloca :: "Types \<Rightarrow> Alloca \<Rightarrow> TypeRef option" where
  [simp]: "get_type_Alloca ts i = Some (types_pointer ts)"

definition get_type_Load :: "Types \<Rightarrow> Load \<Rightarrow> TypeRef option" where
  [simp]: "get_type_Load ts i = Some (loaded_ty i)"

definition get_type_CmpXchg :: "Types \<Rightarrow> CmpXchg \<Rightarrow> TypeRef option" where
  [simp]: "get_type_CmpXchg ts i =
     map_option (\<lambda>t. types_struct_of ts [t, types_bool ts] False) (get_type_Operand ts (cx_expected i))"

definition get_type_AtomicRMW :: "Types \<Rightarrow> AtomicRMW \<Rightarrow> TypeRef option" where
  [simp]: "get_type_AtomicRMW ts i = get_type_Operand ts (rmw_value i)"

definition get_type_GetElementPtr :: "Types \<Rightarrow> GetElementPtr \<Rightarrow> TypeRef option" where
  [simp]: "get_type_GetElementPtr ts i = Some (types_pointer ts)"

definition get_type_FCmp :: "Types \<Rightarrow> FCmp \<Rightarrow> TypeRef option" where
  [simp]: "get_type_FCmp ts i = map_option (cmp_type ts) (get_type_Operand ts (operand0 i))"

definition get_type_Select :: "Types \<Rightarrow> Select \<Rightarrow> TypeRef option" where
  [simp]: "get_type_Select ts i = get_type_Operand ts (true_value i)"

definition get_type_VAArg :: "Types \<Rightarrow> VAArg \<Rightarrow> TypeRef option" where
  [simp]: "get_type_VAArg ts i = Some (va_cur_type i)"

definition get_type_LandingPad :: "Types \<Rightarrow> LandingPad \<Rightarrow> TypeRef option" where
  [simp]: "get_type_LandingPad ts i = Some (lp_result_type i)"

definition get_type_CatchPad :: "Types \<Rightarrow> CatchPad \<Rightarrow> TypeRef option" where
  [simp]: "get_type_CatchPad ts i = Some (token_type ts)"

definition get_type_CleanupPad :: "Types \<Rightarrow> CleanupPad \<Rightarrow> TypeRef option" where
  [simp]: "get_type_CleanupPad ts i = Some (token_type ts)"

definition get_type_InlineAssembly :: "Types \<Rightarrow> InlineAssembly \<Rightarrow> TypeRef option" where
  [simp]: "get_type_InlineAssembly ts a = Some (asm_ty a)"

text \<open>A callee is inline assembly or an operand: \<open>impl Typed for Either\<close>.\<close>

definition get_type_Either :: "Types \<Rightarrow> InlineAssembly + Operand \<Rightarrow> TypeRef option" where
  [simp]: "get_type_Either ts x = (case x of Inl a \<Rightarrow> get_type_InlineAssembly ts a | Inr op \<Rightarrow> get_type_Operand ts op)"

primrec get_type_Instruction :: "Types \<Rightarrow> Instruction \<Rightarrow> TypeRef option" where
  "get_type_Instruction ts (Add i) =
     binop_same_type ts i"
| "get_type_Instruction ts (Sub i) =
     binop_same_type ts i"
| "get_type_Instruction ts (Mul i) =
     binop_same_type ts i"
| "get_type_Instruction ts (UDiv i) =
     binop_same_type ts i"
| "get_type_Instruction ts (SDiv i) =
     binop_same_type ts i"
| "get_type_Instruction ts (URem i) =
     binop_same_type ts i"
| "get_type_Instruction ts (SRem i) =
     binop_same_type ts i"
| "get_type_Instruction ts (And i) =
     binop_same_type ts i"
| "get_type_Instruction ts (Or i) =
     binop_same_type ts i"
| "get_type_Instruction ts (Xor i) =
     binop_same_type ts i"
| "get_type_Instruction ts (Shl i) =
     binop_left_type ts i"
| "get_type_Instruction ts (LShr i) =
     binop_left_type ts i"
| "get_type_Instruction ts (AShr i) =
     binop_left_type ts i"
| "get_type_Instruction ts (FAdd i) =
     binop_same_type ts i"
| "get_type_Instruction ts (FSub i) =
     binop_same_type ts i"
| "get_type_Instruction ts (FMul i) =
     binop_same_type ts i"
| "get_type_Instruction ts (FDiv i) =
     binop_same_type ts i"
| "get_type_Instruction ts (FRem i) =
     binop_same_type ts i"
| "get_type_Instruction ts (FNeg i) =
     unop_same_type ts i"
| "get_type_Instruction ts (ExtractElement i) =
     Option.bind (get_type_Operand ts (ee_vector i)) extract_element_type"
| "get_type_Instruction ts (InsertElement i) =
     get_type_InsertElement ts i"
| "get_type_Instruction ts (ShuffleVector i) =
     Option.bind (get_type_Operand ts (operand0 i)) (\<lambda>t.
       Option.bind (get_type_Constant ts (shuffle_mask i)) (shuffle_vector_type ts t))"
| "get_type_Instruction ts (ExtractValue i) =
     get_type_ExtractValue ts i"
| "get_type_Instruction ts (InsertValue i) =
     get_type_InsertValue ts i"
| "get_type_Instruction ts (Alloca i) =
     get_type_Alloca ts i"
| "get_type_Instruction ts (Load i) =
     get_type_Load ts i"
| "get_type_Instruction ts (Store i) =
     void_typed ts"
| "get_type_Instruction ts (Fence i) =
     void_typed ts"
| "get_type_Instruction ts (CmpXchg i) =
     get_type_CmpXchg ts i"
| "get_type_Instruction ts (AtomicRMW i) =
     get_type_AtomicRMW ts i"
| "get_type_Instruction ts (GetElementPtr i) =
     get_type_GetElementPtr ts i"
| "get_type_Instruction ts (Trunc i) =
     explicitly_typed (to_type i)"
| "get_type_Instruction ts (ZExt i) =
     explicitly_typed (to_type i)"
| "get_type_Instruction ts (SExt i) =
     explicitly_typed (to_type i)"
| "get_type_Instruction ts (FPTrunc i) =
     explicitly_typed (to_type i)"
| "get_type_Instruction ts (FPExt i) =
     explicitly_typed (to_type i)"
| "get_type_Instruction ts (FPToUI i) =
     explicitly_typed (to_type i)"
| "get_type_Instruction ts (FPToSI i) =
     explicitly_typed (to_type i)"
| "get_type_Instruction ts (UIToFP i) =
     explicitly_typed (to_type i)"
| "get_type_Instruction ts (SIToFP i) =
     explicitly_typed (to_type i)"
| "get_type_Instruction ts (PtrToInt i) =
     explicitly_typed (to_type i)"
| "get_type_Instruction ts (IntToPtr i) =
     explicitly_typed (to_type i)"
| "get_type_Instruction ts (BitCast i) =
     explicitly_typed (to_type i)"
| "get_type_Instruction ts (AddrSpaceCast i) =
     explicitly_typed (to_type i)"
| "get_type_Instruction ts (ICmp i) =
     map_option (cmp_type ts) (get_type_Operand ts (operand0 i))"
| "get_type_Instruction ts (FCmp i) =
     get_type_FCmp ts i"
| "get_type_Instruction ts (Phi i) =
     explicitly_typed (phi_to_type i)"
| "get_type_Instruction ts (Select i) =
     get_type_Select ts i"
| "get_type_Instruction ts (Freeze i) =
     unop_same_type ts i"
| "get_type_Instruction ts (Call i) =
     call_type (call_function_ty i)"
| "get_type_Instruction ts (VAArg i) =
     get_type_VAArg ts i"
| "get_type_Instruction ts (LandingPad i) =
     get_type_LandingPad ts i"
| "get_type_Instruction ts (CatchPad i) =
     get_type_CatchPad ts i"
| "get_type_Instruction ts (CleanupPad i) =
     get_type_CleanupPad ts i"

text \<open>The types of the two groups: an operation has the type of its operand, a cast the type it names.\<close>

primrec get_type_BinaryOp :: "Types \<Rightarrow> BinaryOp \<Rightarrow> TypeRef option" where
  "get_type_BinaryOp ts (BO_Add i) = get_type_Operand ts (operand0 i)"
| "get_type_BinaryOp ts (BO_Sub i) = get_type_Operand ts (operand0 i)"
| "get_type_BinaryOp ts (BO_Mul i) = get_type_Operand ts (operand0 i)"
| "get_type_BinaryOp ts (BO_UDiv i) = get_type_Operand ts (operand0 i)"
| "get_type_BinaryOp ts (BO_SDiv i) = get_type_Operand ts (operand0 i)"
| "get_type_BinaryOp ts (BO_URem i) = get_type_Operand ts (operand0 i)"
| "get_type_BinaryOp ts (BO_SRem i) = get_type_Operand ts (operand0 i)"
| "get_type_BinaryOp ts (BO_And i) = get_type_Operand ts (operand0 i)"
| "get_type_BinaryOp ts (BO_Or i) = get_type_Operand ts (operand0 i)"
| "get_type_BinaryOp ts (BO_Xor i) = get_type_Operand ts (operand0 i)"
| "get_type_BinaryOp ts (BO_Shl i) = get_type_Operand ts (operand0 i)"
| "get_type_BinaryOp ts (BO_LShr i) = get_type_Operand ts (operand0 i)"
| "get_type_BinaryOp ts (BO_AShr i) = get_type_Operand ts (operand0 i)"
| "get_type_BinaryOp ts (BO_FAdd i) = get_type_Operand ts (operand0 i)"
| "get_type_BinaryOp ts (BO_FSub i) = get_type_Operand ts (operand0 i)"
| "get_type_BinaryOp ts (BO_FMul i) = get_type_Operand ts (operand0 i)"
| "get_type_BinaryOp ts (BO_FDiv i) = get_type_Operand ts (operand0 i)"
| "get_type_BinaryOp ts (BO_FRem i) = get_type_Operand ts (operand0 i)"

primrec get_type_UnaryOp :: "Types \<Rightarrow> UnaryOp \<Rightarrow> TypeRef option" where
  "get_type_UnaryOp ts (UO_AddrSpaceCast i) = Some (to_type i)"
| "get_type_UnaryOp ts (UO_BitCast i) = Some (to_type i)"
| "get_type_UnaryOp ts (UO_FNeg i) = get_type_Operand ts (operand i)"
| "get_type_UnaryOp ts (UO_FPExt i) = Some (to_type i)"
| "get_type_UnaryOp ts (UO_FPToSI i) = Some (to_type i)"
| "get_type_UnaryOp ts (UO_FPToUI i) = Some (to_type i)"
| "get_type_UnaryOp ts (UO_FPTrunc i) = Some (to_type i)"
| "get_type_UnaryOp ts (UO_Freeze i) = get_type_Operand ts (operand i)"
| "get_type_UnaryOp ts (UO_IntToPtr i) = Some (to_type i)"
| "get_type_UnaryOp ts (UO_PtrToInt i) = Some (to_type i)"
| "get_type_UnaryOp ts (UO_SExt i) = Some (to_type i)"
| "get_type_UnaryOp ts (UO_SIToFP i) = Some (to_type i)"
| "get_type_UnaryOp ts (UO_Trunc i) = Some (to_type i)"
| "get_type_UnaryOp ts (UO_UIToFP i) = Some (to_type i)"
| "get_type_UnaryOp ts (UO_ZExt i) = Some (to_type i)"

section \<open>Properties\<close>

lemma group_types:
  "get_type_Instruction ts (Instruction_from_BinaryOp b) = get_type_BinaryOp ts b"
  "get_type_Instruction ts (Instruction_from_UnaryOp u) = get_type_UnaryOp ts u"
  by (cases b; simp) (cases u; simp)

lemma BinaryOp_try_from_iff: "is_binary_op i \<longleftrightarrow> BinaryOp_try_from i \<noteq> None"
  by (cases i) simp_all

lemma UnaryOp_try_from_iff: "is_unary_op i \<longleftrightarrow> UnaryOp_try_from i \<noteq> None"
  by (cases i) simp_all

lemma BinaryOp_roundtrip: "BinaryOp_try_from (Instruction_from_BinaryOp b) = Some b"
  by (cases b) simp_all

lemma UnaryOp_roundtrip: "UnaryOp_try_from (Instruction_from_UnaryOp u) = Some u"
  by (cases u) simp_all

lemma BinaryOp_try_from_inverse:
  "BinaryOp_try_from i = Some b \<Longrightarrow> Instruction_from_BinaryOp b = i"
  by (cases i) auto

lemma UnaryOp_try_from_inverse:
  "UnaryOp_try_from i = Some u \<Longrightarrow> Instruction_from_UnaryOp u = i"
  by (cases i) auto

lemma BinaryOp_result: "try_get_result (Instruction_from_BinaryOp b) = Some (BinaryOp_get_result b)"
  by (cases b) simp_all

lemma UnaryOp_result: "try_get_result (Instruction_from_UnaryOp u) = Some (UnaryOp_get_result u)"
  by (cases u) simp_all

lemma groups_disjoint: "\<not> (is_binary_op i \<and> is_unary_op i)"
  by (cases i) simp_all

lemma atomic_not_op: "is_atomic i \<Longrightarrow> \<not> is_binary_op i \<and> \<not> is_unary_op i"
  by (cases i) simp_all

lemma get_type_Operand_indep:
  "types_ok ts \<Longrightarrow> types_ok ts' \<Longrightarrow> get_type_Operand ts op = get_type_Operand ts' op"
  by (cases op) (simp_all add: types_ok_simps get_type_Constant_indep [of ts ts'])

lemma cmp_type_indep: "types_ok ts \<Longrightarrow> types_ok ts' \<Longrightarrow> cmp_type ts = cmp_type ts'"
  by (rule ext) (simp add: cmp_type_def types_bool_def types_ok_simps split: Type.split)

lemma binary_result_type:
  "get_type_Instruction ts (Instruction_from_BinaryOp b) = get_type_Operand ts (get_operand0 b)"
  by (cases b) simp_all

lemma get_type_BinaryOp_operand: "get_type_BinaryOp ts b = get_type_Operand ts (get_operand0 b)"
  using binary_result_type [of ts b] by (simp add: group_types)

lemma get_type_UnaryOp_indep:
  assumes "types_ok ts" "types_ok ts'"
  shows "get_type_UnaryOp ts u = get_type_UnaryOp ts' u"
  by (cases u) (simp_all add: get_type_Operand_indep [OF assms])

end
