(* ===== verification/LLVM_Layout.thy ===== *)
theory LLVM_Layout
  imports LLVM_Constant
begin

text \<open>
  Data layouts and alignments, from \<open>llvm-ir-patched/src/module.rs\<close>.

  The \<open>BTreeMap\<close>s of the source are association lists in key order (the invariant \<open>btree_ok\<close>), the hash
  maps are maps. A lookup that panics is None. Results: on tables that satisfy the invariant the
  integer lookup returns the explicit entry, else the entry of the next larger size, else the
  largest one; it and the pointer lookup never panic on tables built from the default ones.
\<close>

section \<open>Layout structs\<close>

datatype Endianness = LittleEndian | BigEndian

datatype Mangling = ELF | MIPS | MachO | WindowsX86COFF | WindowsCOFF | XCOFF

record Alignment =
  abi :: u32
  pref :: u32

record FunctionPtrAlignment =
  independent :: bool
  fptr_abi :: u32

record PointerLayout =
  ptr_size :: u32
  ptr_align :: Alignment
  index_size :: u32

type_synonym 'v BTreeMap = "(u32 \<times> 'v) list"

definition btree_ok :: "'v BTreeMap \<Rightarrow> bool" where
  "btree_ok m \<longleftrightarrow> sorted_wrt (<) (map fst m)"

fun btree_insert :: "u32 \<Rightarrow> 'v \<Rightarrow> 'v BTreeMap \<Rightarrow> 'v BTreeMap" where
  "btree_insert k v [] = [(k, v)]"
| "btree_insert k v ((k', v') # m) =
     (if k < k' then (k, v) # (k', v') # m
      else if k = k' then (k, v) # m else (k', v') # btree_insert k v m)"

record Alignments =
  int_alignments :: "Alignment BTreeMap"
  vec_alignments :: "Alignment BTreeMap"
  fp_alignments :: "u32 \<rightharpoonup> Alignment"
  agg_alignment :: Alignment
  fptr_alignment :: FunctionPtrAlignment
  fptr_alignment_as_alignment :: Alignment
  pointer_layouts :: "AddrSpace \<rightharpoonup> PointerLayout"

record DataLayout =
  layout_str :: string
  endianness :: Endianness
  stack_alignment :: "u32 option"
  program_address_space :: AddrSpace
  alloca_address_space :: AddrSpace
  alignments :: Alignments
  mangling :: "Mangling option"
  native_int_widths :: "u32 set option"
  non_integral_ptr_types :: "AddrSpace set"

definition DataLayout_eq :: "DataLayout \<Rightarrow> DataLayout \<Rightarrow> bool" where
  "DataLayout_eq a b = (layout_str a = layout_str b)"

definition Alignments_default :: Alignments where
  "Alignments_default =
     \<lparr>int_alignments =
        [(1, \<lparr>abi = 8, pref = 8\<rparr>), (8, \<lparr>abi = 8, pref = 8\<rparr>), (16, \<lparr>abi = 16, pref = 16\<rparr>),
         (32, \<lparr>abi = 32, pref = 32\<rparr>), (64, \<lparr>abi = 32, pref = 64\<rparr>)],
      vec_alignments = [(64, \<lparr>abi = 64, pref = 64\<rparr>), (128, \<lparr>abi = 128, pref = 128\<rparr>)],
      fp_alignments =
        [16 \<mapsto> \<lparr>abi = 16, pref = 16\<rparr>, 32 \<mapsto> \<lparr>abi = 32, pref = 32\<rparr>,
         64 \<mapsto> \<lparr>abi = 64, pref = 64\<rparr>, 128 \<mapsto> \<lparr>abi = 128, pref = 128\<rparr>],
      agg_alignment = \<lparr>abi = 0, pref = 64\<rparr>,
      fptr_alignment = \<lparr>independent = True, fptr_abi = 64\<rparr>,
      fptr_alignment_as_alignment = \<lparr>abi = 64, pref = 64\<rparr>,
      pointer_layouts =
        [0 \<mapsto> \<lparr>ptr_size = 64, ptr_align = \<lparr>abi = 64, pref = 64\<rparr>, index_size = 64\<rparr>]\<rparr>"

section \<open>Lookups\<close>

definition last_value :: "'v BTreeMap \<Rightarrow> 'v option" where
  "last_value m = (if m = [] then None else Some (snd (last m)))"

definition first_value :: "'v BTreeMap \<Rightarrow> 'v option" where
  "first_value m = (case m of [] \<Rightarrow> None | (_, v) # _ \<Rightarrow> Some v)"

definition int_alignment :: "Alignments \<Rightarrow> u32 \<Rightarrow> Alignment option" where
  "int_alignment al sz =
     (case map_of (int_alignments al) sz of
        Some alignment \<Rightarrow> Some alignment
      | None \<Rightarrow>
          (case find (\<lambda>(k, _). k > sz) (int_alignments al) of
             Some (_, alignment) \<Rightarrow> Some alignment
           | None \<Rightarrow> last_value (int_alignments al)))"

definition vec_alignment :: "Alignments \<Rightarrow> u32 \<Rightarrow> Alignment option" where
  "vec_alignment al sz =
     (case map_of (vec_alignments al) sz of
        Some alignment \<Rightarrow> Some alignment
      | None \<Rightarrow>
          (case find (\<lambda>(k, _). k < sz) (vec_alignments al) of
             Some (_, alignment) \<Rightarrow> Some alignment
           | None \<Rightarrow> first_value (vec_alignments al)))"

fun fpt_size :: "FPType \<Rightarrow> u32" where
  "fpt_size Half = 16"
| "fpt_size BFloat = 16"
| "fpt_size Single = 32"
| "fpt_size Double = 64"
| "fpt_size FP128 = 128"
| "fpt_size X86_FP80 = 80"
| "fpt_size PPC_FP128 = 128"

definition fp_alignment :: "Alignments \<Rightarrow> FPType \<Rightarrow> Alignment option" where
  "fp_alignment al fpt = fp_alignments al (fpt_size fpt)"

definition ptr_alignment :: "Alignments \<Rightarrow> AddrSpace \<Rightarrow> PointerLayout option" where
  "ptr_alignment al addr_space =
     (case pointer_layouts al addr_space of
        Some layout \<Rightarrow> Some layout
      | None \<Rightarrow> pointer_layouts al 0)"

fun vec_element_bits :: "Type \<Rightarrow> u32 option" where
  "vec_element_bits (IntegerType bits) = Some bits"
| "vec_element_bits (FPType fpt) = Some (fpt_size fpt)"
| "vec_element_bits _ = None"

fun type_alignment :: "Alignments \<Rightarrow> Type \<Rightarrow> Alignment option" where
  "type_alignment al (IntegerType bits) = int_alignment al bits"
| "type_alignment al (VectorType element_type num_elements _) =
     (case vec_element_bits element_type of
        Some element_size_bits \<Rightarrow> vec_alignment al (element_size_bits * ucast num_elements)
      | None \<Rightarrow> None)"
| "type_alignment al (FPType fpt) = fp_alignment al fpt"
| "type_alignment al (StructType _ _) = Some (agg_alignment al)"
| "type_alignment al (NamedStructType _) = Some (agg_alignment al)"
| "type_alignment al (ArrayType _ _) = Some (agg_alignment al)"
| "type_alignment al (PointerType addr_space) = map_option ptr_align (ptr_alignment al addr_space)"
| "type_alignment al _ = None"

section \<open>Properties\<close>

definition alignments_ok :: "Alignments \<Rightarrow> bool" where
  "alignments_ok al \<longleftrightarrow>
     btree_ok (int_alignments al) \<and> int_alignments al \<noteq> [] \<and>
     btree_ok (vec_alignments al) \<and> vec_alignments al \<noteq> [] \<and> pointer_layouts al 0 \<noteq> None"

lemma Alignments_default_ok: "alignments_ok Alignments_default"
  by (simp add: alignments_ok_def Alignments_default_def btree_ok_def)

lemma set_btree_insert_keys: "fst ` set (btree_insert k v m) = insert k (fst ` set m)"
  by (induction k v m rule: btree_insert.induct) auto

lemma btree_insert_ok: "btree_ok m \<Longrightarrow> btree_ok (btree_insert k v m)"
proof (induction m)
  case (Cons p m)
  obtain k' v' where p: "p = (k', v')" by (cases p)
  have "x \<in> set (map fst (btree_insert k v m)) \<Longrightarrow> x = k \<or> x \<in> set (map fst m)" for x
    using set_btree_insert_keys [of k v m] by (metis insertE list.set_map)
  then show ?case using Cons p by (fastforce simp: btree_ok_def)
qed (simp add: btree_ok_def)

lemma map_of_btree_insert: "map_of (btree_insert k v m) = (map_of m)(k \<mapsto> v)"
  by (induction m) (auto simp: fun_eq_iff)

lemma btree_map_of:
  assumes "btree_ok m" "(k, v) \<in> set m"
  shows "map_of m k = Some v"
proof -
  have "distinct (map fst m)"
    using assms(1) by (simp add: btree_ok_def strict_sorted_iff)
  then show ?thesis using assms(2) by (simp add: map_of_eq_Some_iff)
qed

lemma find_sorted_least:
  assumes "btree_ok m" "find (\<lambda>(k, _). k > sz) m = Some (k, v)"
  shows "(k, v) \<in> set m \<and> sz < k \<and> (\<forall>(k', v') \<in> set m. sz < k' \<longrightarrow> k \<le> k')"
  using assms
proof (induction m)
  case (Cons p m)
  then show ?case by (fastforce simp: btree_ok_def split: if_splits)
qed simp

lemma last_greatest:
  assumes "btree_ok m" "m \<noteq> []" "(k, v) \<in> set m"
  shows "k \<le> fst (last m)"
  using assms
proof (induction m)
  case (Cons p m)
  show ?case
  proof (cases "m = []")
    case False
    then have "last m \<in> set m" by simp
    then show ?thesis using Cons False by (auto simp: btree_ok_def intro: less_imp_le)
  qed (use Cons in auto)
qed simp

text \<open>The rule of the data layout for integers: the smallest explicit size that is large enough,
  or the largest size there is.\<close>

lemma int_alignment_spec:
  assumes "alignments_ok al"
  shows "\<exists>k v. (k, v) \<in> set (int_alignments al) \<and> int_alignment al sz = Some v \<and>
     ((sz \<le> k \<and> (\<forall>(k', v') \<in> set (int_alignments al). sz \<le> k' \<longrightarrow> k \<le> k')) \<or>
      (\<forall>(k', v') \<in> set (int_alignments al). k' < sz \<and> k' \<le> k))"
proof -
  let ?m = "int_alignments al"
  have ok: "btree_ok ?m" "?m \<noteq> []" using assms by (simp_all add: alignments_ok_def)
  show ?thesis
  proof (cases "map_of ?m sz")
    case (Some v)
    then have "(sz, v) \<in> set ?m" by (rule map_of_SomeD)
    then show ?thesis using Some by (auto simp: int_alignment_def)
  next
    case None
    then have ne: "\<forall>(k', v') \<in> set ?m. k' \<noteq> sz" by (auto simp: map_of_eq_None_iff rev_image_eqI)
    show ?thesis
    proof (cases "find (\<lambda>(k, _). k > sz) ?m")
      case (Some p)
      obtain k v where p: "p = (k, v)" by (cases p)
      then have "(k, v) \<in> set ?m \<and> sz < k \<and> (\<forall>(k', v') \<in> set ?m. sz < k' \<longrightarrow> k \<le> k')"
        using find_sorted_least [OF ok(1)] Some by blast
      moreover from this have "\<forall>(k', v') \<in> set ?m. sz \<le> k' \<longrightarrow> k \<le> k'"
        using ne by (auto simp: order.order_iff_strict)
      moreover have "int_alignment al sz = Some v" using None Some p by (simp add: int_alignment_def)
      ultimately show ?thesis by (meson less_imp_le)
    next
      case n2: None
      then have "\<forall>(k', v') \<in> set ?m. k' < sz"
        using ne by (auto simp: find_None_iff not_less order.order_iff_strict)
      then have "\<forall>(k', v') \<in> set ?m. k' < sz \<and> k' \<le> fst (last ?m)"
        using last_greatest [OF ok] by blast
      moreover have "(fst (last ?m), snd (last ?m)) \<in> set ?m" using ok(2) by simp
      moreover have "int_alignment al sz = Some (snd (last ?m))"
        using None n2 ok(2) by (simp add: int_alignment_def last_value_def)
      ultimately show ?thesis by blast
    qed
  qed
qed

lemma ptr_alignment_total: "alignments_ok al \<Longrightarrow> \<exists>l. ptr_alignment al a = Some l"
  by (auto simp: ptr_alignment_def alignments_ok_def split: option.split)

lemma vec_alignment_total: "alignments_ok al \<Longrightarrow> \<exists>a. vec_alignment al sz = Some a"
  by (auto simp: vec_alignment_def alignments_ok_def first_value_def neq_Nil_conv
      split: option.split list.split)

end
