(* ===== verification/LLVM_Module.thy ===== *)
theory LLVM_Module
  imports LLVM_Instruction LLVM_Layout
begin

text \<open>
  Terminators, basic blocks, functions and modules, from \<open>terminator.rs\<close>, \<open>basicblock.rs\<close>,
  \<open>function.rs\<close> and \<open>module.rs\<close> under \<open>llvm-ir-patched/src\<close>, with the lookups of \<open>impl Module\<close> and
  \<open>impl Function\<close>. A block ends in exactly one terminator; the analyzer only walks the instructions.
  Results: a lookup by name returns the first function, declaration or block with that name, and
  nothing when there is none; with distinct names it returns the one that was put in.
\<close>

section \<open>Terminators\<close>

record Ret = Inst +
  return_operand :: "Operand option"

record Br = Inst +
  br_dest :: Name

record CondBr = Inst +
  condbr_condition :: Operand
  true_dest :: Name
  false_dest :: Name

record Switch = Inst +
  switch_operand :: Operand
  switch_dests :: "(ConstantRef \<times> Name) list"
  default_dest :: Name

record IndirectBr = Inst +
  ibr_operand :: Operand
  possible_dests :: "Name list"

record Invoke = Inst +
  invoke_function :: "InlineAssembly + Operand"
  invoke_function_ty :: TypeRef
  invoke_arguments :: "(Operand \<times> ParameterAttribute list) list"
  invoke_return_attributes :: "ParameterAttribute list"
  invoke_result :: Name
  invoke_return_label :: Name
  exception_label :: Name
  invoke_function_attributes :: "FunctionAttribute list"
  invoke_calling_convention :: CallingConvention

record Resume = Inst +
  resume_operand :: Operand

type_synonym Unreachable = Inst

record CleanupRet = Inst +
  cleanup_pad :: Operand
  unwind_dest :: "Name option"

record CatchRet = Inst +
  catch_pad :: Operand
  successor :: Name

record CatchSwitch = Inst +
  cs_parent_pad :: Operand
  catch_handlers :: "Name list"
  default_unwind_dest :: "Name option"
  cs_result :: Name

record CallBr = Inst +
  callbr_function :: "InlineAssembly + Operand"
  callbr_arguments :: "(Operand \<times> ParameterAttribute list) list"
  callbr_return_attributes :: "ParameterAttribute list"
  callbr_result :: Name
  callbr_return_label :: Name
  callbr_other_labels :: unit
  callbr_function_attributes :: "FunctionAttribute list"
  callbr_calling_convention :: CallingConvention

datatype (plugins only: code size) Terminator =
    Ret Ret
  | Br Br
  | CondBr CondBr
  | Switch Switch
  | IndirectBr IndirectBr
  | Invoke Invoke
  | Resume Resume
  | Unreachable Unreachable
  | CleanupRet CleanupRet
  | CatchRet CatchRet
  | CatchSwitch CatchSwitch
  | CallBr CallBr

primrec terminator_debug_loc :: "Terminator \<Rightarrow> DebugLoc option" where
  "terminator_debug_loc (Ret t) = debugloc t"
| "terminator_debug_loc (Br t) = debugloc t"
| "terminator_debug_loc (CondBr t) = debugloc t"
| "terminator_debug_loc (Switch t) = debugloc t"
| "terminator_debug_loc (IndirectBr t) = debugloc t"
| "terminator_debug_loc (Invoke t) = debugloc t"
| "terminator_debug_loc (Resume t) = debugloc t"
| "terminator_debug_loc (Unreachable t) = debugloc t"
| "terminator_debug_loc (CleanupRet t) = debugloc t"
| "terminator_debug_loc (CatchRet t) = debugloc t"
| "terminator_debug_loc (CatchSwitch t) = debugloc t"
| "terminator_debug_loc (CallBr t) = debugloc t"

primrec terminator_try_get_result :: "Terminator \<Rightarrow> Name option" where
  "terminator_try_get_result (Ret t) = None"
| "terminator_try_get_result (Br t) = None"
| "terminator_try_get_result (CondBr t) = None"
| "terminator_try_get_result (Switch t) = None"
| "terminator_try_get_result (IndirectBr t) = None"
| "terminator_try_get_result (Invoke t) = Some (invoke_result t)"
| "terminator_try_get_result (Resume t) = None"
| "terminator_try_get_result (Unreachable t) = None"
| "terminator_try_get_result (CleanupRet t) = None"
| "terminator_try_get_result (CatchRet t) = None"
| "terminator_try_get_result (CatchSwitch t) = Some (cs_result t)"
| "terminator_try_get_result (CallBr t) = Some (callbr_result t)"

text \<open>\<open>get_type\<close> of the structs; None is a panic. \<open>CatchSwitch\<close> is unimplemented, and \<open>CallBr\<close> expects a
  function type on its callee.\<close>

definition get_type_Invoke :: "Types \<Rightarrow> Invoke \<Rightarrow> TypeRef option" where
  [simp]: "get_type_Invoke ts t = call_type (invoke_function_ty t)"

definition get_type_CatchSwitch :: "Types \<Rightarrow> CatchSwitch \<Rightarrow> TypeRef option" where
  [simp]: "get_type_CatchSwitch ts t = None"

definition get_type_CallBr :: "Types \<Rightarrow> CallBr \<Rightarrow> TypeRef option" where
  [simp]: "get_type_CallBr ts t = Option.bind (get_type_Either ts (callbr_function t)) call_type"

primrec get_type_Terminator :: "Types \<Rightarrow> Terminator \<Rightarrow> TypeRef option" where
  "get_type_Terminator ts (Ret t) = void_typed ts"
| "get_type_Terminator ts (Br t) = void_typed ts"
| "get_type_Terminator ts (CondBr t) = void_typed ts"
| "get_type_Terminator ts (Switch t) = void_typed ts"
| "get_type_Terminator ts (IndirectBr t) = void_typed ts"
| "get_type_Terminator ts (Invoke t) = get_type_Invoke ts t"
| "get_type_Terminator ts (Resume t) = void_typed ts"
| "get_type_Terminator ts (Unreachable t) = void_typed ts"
| "get_type_Terminator ts (CleanupRet t) = void_typed ts"
| "get_type_Terminator ts (CatchRet t) = void_typed ts"
| "get_type_Terminator ts (CatchSwitch t) = get_type_CatchSwitch ts t"
| "get_type_Terminator ts (CallBr t) = get_type_CallBr ts t"

section \<open>Blocks and functions\<close>

record BasicBlock =
  bb_name :: Name
  instrs :: "Instruction list"
  bb_term :: Terminator

definition BasicBlock_new :: "Name \<Rightarrow> BasicBlock" where
  "BasicBlock_new nm = \<lparr>bb_name = nm, instrs = [], bb_term = Unreachable \<lparr>debugloc = None\<rparr>\<rparr>"

datatype (plugins only: code size) Linkage =
    Private | Internal | External | ExternalWeak | AvailableExternally | LinkOnceAny | LinkOnceODR
  | LinkOnceODRAutoHide | WeakAny | WeakODR | Common | Appending | DLLImport | DLLExport | Ghost
  | LinkerPrivate | LinkerPrivateWeak

datatype Visibility = Visibility_Default | Hidden | Protected

datatype DLLStorageClass = DLL_Default | DLL_Import | DLL_Export

datatype ThreadLocalMode =
  NotThreadLocal | GeneralDynamic | LocalDynamic | InitialExec | LocalExec

datatype UnnamedAddr = UA_Local | UA_Global

datatype SelectionKind = SK_Any | SK_ExactMatch | SK_Largest | SK_NoDuplicates | SK_SameSize

record Comdat =
  comdat_name :: string
  selection_kind :: SelectionKind

record Parameter =
  param_name :: Name
  param_ty :: TypeRef
  param_attributes :: "ParameterAttribute list"

definition get_type_Parameter :: "Types \<Rightarrow> Parameter \<Rightarrow> TypeRef" where
  [simp]: "get_type_Parameter ts p = param_ty p"

record Function =
  func_name :: string
  func_parameters :: "Parameter list"
  func_is_var_arg :: bool
  func_return_type :: TypeRef
  basic_blocks :: "BasicBlock list"
  func_function_attributes :: "FunctionAttribute list"
  func_return_attributes :: "ParameterAttribute list"
  func_linkage :: Linkage
  func_visibility :: Visibility
  func_dll_storage_class :: DLLStorageClass
  func_calling_convention :: CallingConvention
  func_section :: "string option"
  func_comdat :: "Comdat option"
  func_alignment :: u32
  garbage_collector_name :: "string option"
  personality_function :: "ConstantRef option"
  func_debugloc :: "DebugLoc option"

definition get_type_Function :: "Types \<Rightarrow> Function \<Rightarrow> TypeRef" where
  "get_type_Function ts f =
     types_func_type ts (func_return_type f) (map param_ty (func_parameters f)) (func_is_var_arg f)"

definition get_bb_by_name :: "Function \<Rightarrow> Name \<Rightarrow> BasicBlock option" where
  "get_bb_by_name f nm = find (\<lambda>bb. bb_name bb = nm) (basic_blocks f)"

definition Function_new :: "string \<Rightarrow> Function" where
  "Function_new nm =
     \<lparr>func_name = nm, func_parameters = [], func_is_var_arg = False,
      func_return_type = types_void blank_for_testing, basic_blocks = [],
      func_function_attributes = [], func_return_attributes = [], func_linkage = Private,
      func_visibility = Visibility_Default, func_dll_storage_class = DLL_Default,
      func_calling_convention = CC_C, func_section = None, func_comdat = None,
      func_alignment = 4, garbage_collector_name = None, personality_function = None,
      func_debugloc = None\<rparr>"

record FunctionDeclaration =
  decl_name :: string
  decl_parameters :: "Parameter list"
  decl_is_var_arg :: bool
  decl_return_type :: TypeRef
  decl_return_attributes :: "ParameterAttribute list"
  decl_linkage :: Linkage
  decl_visibility :: Visibility
  decl_dll_storage_class :: DLLStorageClass
  decl_calling_convention :: CallingConvention
  decl_alignment :: u32
  decl_garbage_collector_name :: "string option"
  decl_debugloc :: "DebugLoc option"

section \<open>Modules\<close>

record GlobalVariable =
  gv_name :: Name
  gv_linkage :: Linkage
  gv_visibility :: Visibility
  is_constant :: bool
  gv_ty :: TypeRef
  gv_addr_space :: AddrSpace
  gv_dll_storage_class :: DLLStorageClass
  gv_thread_local_mode :: ThreadLocalMode
  gv_unnamed_addr :: "UnnamedAddr option"
  initializer :: "ConstantRef option"
  gv_section :: "string option"
  gv_comdat :: "Comdat option"
  gv_alignment :: u32
  gv_debugloc :: "DebugLoc option"

definition get_type_GlobalVariable :: "Types \<Rightarrow> GlobalVariable \<Rightarrow> TypeRef" where
  [simp]: "get_type_GlobalVariable ts v = gv_ty v"

record GlobalAlias =
  ga_name :: Name
  aliasee :: ConstantRef
  ga_linkage :: Linkage
  ga_visibility :: Visibility
  ga_ty :: TypeRef
  ga_addr_space :: AddrSpace
  ga_dll_storage_class :: DLLStorageClass
  ga_thread_local_mode :: ThreadLocalMode
  ga_unnamed_addr :: "UnnamedAddr option"

definition get_type_GlobalAlias :: "Types \<Rightarrow> GlobalAlias \<Rightarrow> TypeRef" where
  [simp]: "get_type_GlobalAlias ts a = ga_ty a"

record GlobalIFunc =
  gi_name :: Name
  gi_linkage :: Linkage
  gi_visibility :: Visibility
  gi_ty :: TypeRef
  resolver_fn :: ConstantRef

definition get_type_GlobalIFunc :: "Types \<Rightarrow> GlobalIFunc \<Rightarrow> TypeRef" where
  [simp]: "get_type_GlobalIFunc ts f = gi_ty f"

record Module =
  mod_name :: string
  source_file_name :: string
  data_layout :: DataLayout
  target_triple :: "string option"
  module_functions :: "Function list"
  func_declarations :: "FunctionDeclaration list"
  global_vars :: "GlobalVariable list"
  global_aliases :: "GlobalAlias list"
  global_ifuncs :: "GlobalIFunc list"
  inline_assembly :: string
  module_types :: Types

definition module_type_of :: "Module \<Rightarrow> Operand \<Rightarrow> TypeRef option" where
  "module_type_of m op = get_type_Operand (module_types m) op"

definition get_func_by_name :: "Module \<Rightarrow> string \<Rightarrow> Function option" where
  "get_func_by_name m nm = find (\<lambda>f. func_name f = nm) (module_functions m)"

definition get_func_decl_by_name :: "Module \<Rightarrow> string \<Rightarrow> FunctionDeclaration option" where
  "get_func_decl_by_name m nm = find (\<lambda>d. decl_name d = nm) (func_declarations m)"

definition get_global_var_by_name :: "Module \<Rightarrow> Name \<Rightarrow> GlobalVariable option" where
  "get_global_var_by_name m nm = find (\<lambda>g. gv_name g = nm) (global_vars m)"

definition get_global_alias_by_name :: "Module \<Rightarrow> Name \<Rightarrow> GlobalAlias option" where
  "get_global_alias_by_name m nm = find (\<lambda>g. ga_name g = nm) (global_aliases m)"

definition get_global_ifunc_by_name :: "Module \<Rightarrow> Name \<Rightarrow> GlobalIFunc option" where
  "get_global_ifunc_by_name m nm = find (\<lambda>g. gi_name g = nm) (global_ifuncs m)"

section \<open>The contract of the lookups\<close>

text \<open>All lookups are a linear search by name; \<open>lookup\<close> searches \<open>items c\<close> for the key \<open>key\<close>.\<close>

locale name_lookup =
  fixes items :: "'c \<Rightarrow> 'a list"
    and key :: "'a \<Rightarrow> 'k"
    and lookup :: "'c \<Rightarrow> 'k \<Rightarrow> 'a option"
  assumes lookup_eq: "lookup c k = find (\<lambda>x. key x = k) (items c)"
begin

lemma lookup_SomeD: "lookup c k = Some x \<Longrightarrow> x \<in> set (items c) \<and> key x = k"
  by (auto simp: lookup_eq find_Some_iff)

lemma lookup_None_iff: "lookup c k = None \<longleftrightarrow> k \<notin> key ` set (items c)"
  by (auto simp: lookup_eq find_None_iff)

lemma lookup_distinct:
  assumes "distinct (map key (items c))" "x \<in> set (items c)"
  shows "lookup c (key x) = Some x"
proof (cases "lookup c (key x)")
  case None
  then show ?thesis using assms(2) by (auto simp: lookup_None_iff)
next
  case (Some y)
  then have "y \<in> set (items c)" "key y = key x" using lookup_SomeD by blast+
  then show ?thesis using Some assms by (auto simp: distinct_map inj_on_def)
qed

end

interpretation func_lookup: name_lookup module_functions func_name get_func_by_name
  by unfold_locales (simp add: get_func_by_name_def)

interpretation decl_lookup: name_lookup func_declarations decl_name get_func_decl_by_name
  by unfold_locales (simp add: get_func_decl_by_name_def)

interpretation var_lookup: name_lookup global_vars gv_name get_global_var_by_name
  by unfold_locales (simp add: get_global_var_by_name_def)

interpretation alias_lookup: name_lookup global_aliases ga_name get_global_alias_by_name
  by unfold_locales (simp add: get_global_alias_by_name_def)

interpretation ifunc_lookup: name_lookup global_ifuncs gi_name get_global_ifunc_by_name
  by unfold_locales (simp add: get_global_ifunc_by_name_def)

interpretation bb_lookup: name_lookup basic_blocks bb_name get_bb_by_name
  by unfold_locales (simp add: get_bb_by_name_def)

end
