(* ===== verification/Type_Size.thy ===== *)
theory Type_Size
  imports LLVM_Types
begin

text \<open>
  Sizes of types, \<open>resolve_named_type\<close> and \<open>type_size\<close> in \<open>skv-analyzer/src/main.rs\<close>.

  Both functions recurse through the definitions of named structs without a bound of their own. The
  models take the allowed depth of recursion as their first argument; the outer option is None when
  it is exhausted, the inner one is the \<open>Option<u64>\<close> of the source. Arithmetic is that of the release
  build: the product of an array wraps around, the sum of a struct is checked. Results: more depth
  never changes an answer, modules whose named structs do not contain themselves by value need
  only a finite depth, and the answer is the mathematical size whenever that fits in 64 bits.
\<close>

section \<open>Definitions\<close>

fun resolve_named_type :: "nat \<Rightarrow> Types \<Rightarrow> Type \<Rightarrow> Type option option" where
  "resolve_named_type n ts (NamedStructType name) =
     (case named_struct_def ts name of
        Some (Defined inner) \<Rightarrow>
          (case n of 0 \<Rightarrow> None | Suc k \<Rightarrow> resolve_named_type k ts inner)
      | _ \<Rightarrow> Some None)"
| "resolve_named_type n ts ty = Some (Some ty)"

fun sum_sizes :: "(Type \<Rightarrow> u64 option option) \<Rightarrow> u64 \<Rightarrow> Type list \<Rightarrow> u64 option option" where
  "sum_sizes size_of tot [] = Some (Some tot)"
| "sum_sizes size_of tot (elem # elems) =
     (case size_of elem of
        None \<Rightarrow> None
      | Some None \<Rightarrow> Some None
      | Some (Some s) \<Rightarrow>
          (case checked_add tot s of
             None \<Rightarrow> Some None
           | Some tot' \<Rightarrow> sum_sizes size_of tot' elems))"

definition type_size_body ::
  "(Type \<Rightarrow> u64 option option) \<Rightarrow> Type \<Rightarrow> u64 option option" where
  "type_size_body size_of ty =
     (case ty of
        IntegerType bits \<Rightarrow> Some (Some (div_ceil (ucast bits) 8))
      | PointerType _ \<Rightarrow> Some (Some 8)
      | ArrayType element_type k \<Rightarrow>
          map_option (map_option (\<lambda>s. s * k)) (size_of element_type)
      | StructType element_types _ \<Rightarrow> sum_sizes size_of 0 element_types
      | _ \<Rightarrow> Some None)"

primrec type_size :: "nat \<Rightarrow> Types \<Rightarrow> Type \<Rightarrow> u64 option option" where
  "type_size 0 ts ty = None"
| "type_size (Suc n) ts ty =
     (case resolve_named_type n ts ty of
        None \<Rightarrow> None
      | Some None \<Rightarrow> Some None
      | Some (Some t) \<Rightarrow> type_size_body (type_size n ts) t)"

section \<open>More depth does not change an answer\<close>

lemma resolve_named_type_mono:
  "resolve_named_type n ts ty = Some r \<Longrightarrow> n \<le> m \<Longrightarrow> resolve_named_type m ts ty = Some r"
proof (induction n arbitrary: ty m)
  case 0
  then show ?case
    by (cases ty) (simp_all split: option.splits NamedStructDef.splits)
next
  case (Suc n)
  obtain k where m: "m = Suc k" "n \<le> k" using Suc.prems(2) by (cases m) auto
  show ?case
  proof (cases ty)
    case (NamedStructType name)
    then show ?thesis using Suc.prems(1) Suc.IH [of _ k] m
      by (simp split: option.splits NamedStructDef.splits)
  qed (use Suc.prems in simp_all)
qed

lemma sum_sizes_mono:
  assumes "\<And>ty r. ty \<in> set tys \<Longrightarrow> f ty = Some r \<Longrightarrow> g ty = Some r"
    and "sum_sizes f tot tys = Some r"
  shows "sum_sizes g tot tys = Some r"
  using assms
proof (induction tys arbitrary: tot)
  case (Cons ty tys)
  then obtain s where s: "f ty = Some s" by (auto split: option.splits)
  then have "g ty = Some s" using Cons.prems(1) by simp
  then show ?case using Cons s by (auto split: option.splits)
qed simp

lemma type_size_body_mono:
  assumes "\<And>ty r. f ty = Some r \<Longrightarrow> g ty = Some r" "type_size_body f t = Some r"
  shows "type_size_body g t = Some r"
proof (cases t)
  case (StructType tys p)
  then show ?thesis using assms sum_sizes_mono [of tys f g] by (simp add: type_size_body_def)
next
  case (ArrayType e n)
  then obtain s where "f e = Some s" using assms(2) by (auto simp: type_size_body_def)
  then show ?thesis using ArrayType assms by (simp add: type_size_body_def)
qed (use assms in \<open>simp_all add: type_size_body_def\<close>)

lemma type_size_mono:
  "type_size n ts ty = Some r \<Longrightarrow> n \<le> m \<Longrightarrow> type_size m ts ty = Some r"
proof (induction n arbitrary: m ty r)
  case (Suc n)
  obtain k where m: "m = Suc k" "n \<le> k" using Suc.prems(2) by (cases m) auto
  obtain r' where r': "resolve_named_type n ts ty = Some r'"
    using Suc.prems(1) by (auto split: option.splits)
  then have rk: "resolve_named_type k ts ty = Some r'" using m resolve_named_type_mono by blast
  show ?case
  proof (cases r')
    case None
    then show ?thesis using Suc.prems(1) r' rk m by simp
  next
    case (Some t)
    then have "type_size_body (type_size n ts) t = Some r" using Suc.prems(1) r' by simp
    then have "type_size_body (type_size k ts) t = Some r"
      using type_size_body_mono [of "type_size n ts" "type_size k ts" t r] Suc.IH m(2) by blast
    then show ?thesis using Some rk m by simp
  qed
qed simp

section \<open>A finite depth is enough\<close>

text \<open>The named structs that a type contains by value (a pointer is opaque).\<close>

fun value_names :: "Type \<Rightarrow> string set" where
  "value_names (NamedStructType name) = {name}"
| "value_names (ArrayType e _) = value_names e"
| "value_names (StructType es _) = (\<Union>e \<in> set es. value_names e)"
| "value_names _ = {}"

text \<open>No struct contains itself by value: every definition mentions only structs of lower rank.\<close>

definition structs_ranked :: "Types \<Rightarrow> (string \<Rightarrow> nat) \<Rightarrow> bool" where
  "structs_ranked ts rank \<longleftrightarrow>
     (\<forall>name inner. named_struct_def ts name = Some (Defined inner) \<longrightarrow>
        (\<forall>nm \<in> value_names inner. rank nm < rank name))"

definition sized :: "Types \<Rightarrow> Type \<Rightarrow> bool" where
  "sized ts ty \<longleftrightarrow> (\<exists>n r. type_size n ts ty = Some r)"

lemma sum_sizes_defined:
  assumes "\<And>ty. ty \<in> set tys \<Longrightarrow> f ty \<noteq> None"
  shows "sum_sizes f tot tys \<noteq> None"
  using assms by (induction tys arbitrary: tot) (auto split: option.splits)

lemma type_size_common:
  assumes "\<And>ty. ty \<in> set tys \<Longrightarrow> sized ts ty"
  shows "\<exists>n. \<forall>ty \<in> set tys. type_size n ts ty \<noteq> None"
  using assms
proof (induction tys)
  case (Cons ty tys)
  then obtain n where n: "\<forall>t \<in> set tys. type_size n ts t \<noteq> None" by auto
  obtain k r where k: "type_size k ts ty = Some r" using Cons.prems [of ty] by (auto simp: sized_def)
  have "type_size (max n k) ts t \<noteq> None" if "t \<in> set (ty # tys)" for t
    using that n k type_size_mono [of n ts t _ "max n k"] type_size_mono [of k ts t _ "max n k"]
    by fastforce
  then show ?case by blast
qed simp

text \<open>What the recursion reaches after following a chain of names: the type itself when it is not
  a name, and the definition when it is one.\<close>

lemma sized_struct:
  assumes "\<And>ty. ty \<in> set es \<Longrightarrow> sized ts ty"
  shows "sized ts (StructType es p)"
proof -
  obtain n where "\<forall>ty \<in> set es. type_size n ts ty \<noteq> None"
    using type_size_common [of es ts] assms by blast
  then have "sum_sizes (type_size n ts) 0 es \<noteq> None" using sum_sizes_defined by metis
  then have "type_size (Suc n) ts (StructType es p) \<noteq> None" by (simp add: type_size_body_def)
  then show ?thesis unfolding sized_def by blast
qed

lemma sized_array: "sized ts e \<Longrightarrow> sized ts (ArrayType e n)"
proof -
  assume "sized ts e"
  then obtain k r where "type_size k ts e = Some r" by (auto simp: sized_def)
  then have "type_size (Suc k) ts (ArrayType e n) \<noteq> None" by (simp add: type_size_body_def)
  then show ?thesis unfolding sized_def by blast
qed

lemma type_size_named_unfold:
  assumes "named_struct_def ts name = Some (Defined inner)" "type_size (Suc k) ts inner = Some r"
  shows "type_size (Suc (Suc k)) ts (NamedStructType name) = Some r"
proof -
  obtain r' where r': "resolve_named_type k ts inner = Some r'"
    using assms(2) by (auto split: option.splits)
  have res: "resolve_named_type (Suc k) ts (NamedStructType name) = Some r'"
    using assms(1) r' by simp
  show ?thesis
  proof (cases r')
    case None
    then show ?thesis using assms(2) r' res by simp
  next
    case s: (Some t)
    then have "type_size_body (type_size k ts) t = Some r" using assms(2) r' by simp
    then have "type_size_body (type_size (Suc k) ts) t = Some r"
      using type_size_body_mono [of "type_size k ts" "type_size (Suc k) ts" t r]
        type_size_mono [of k ts _ _ "Suc k"] by (metis le_SucI order_refl)
    then show ?thesis using s res by (simp only: type_size.simps option.case)
  qed
qed

lemma sized_named:
  assumes "\<And>inner. named_struct_def ts name = Some (Defined inner) \<Longrightarrow> sized ts inner"
  shows "sized ts (NamedStructType name)"
proof (cases "named_struct_def ts name")
  case None
  then have "type_size (Suc 0) ts (NamedStructType name) = Some None" by simp
  then show ?thesis unfolding sized_def by blast
next
  case (Some d)
  show ?thesis
  proof (cases d)
    case Opaque
    then have "type_size (Suc 0) ts (NamedStructType name) = Some None" using Some by simp
    then show ?thesis unfolding sized_def by blast
  next
    case (Defined inner)
    then obtain n r where n: "type_size n ts inner = Some r"
      using assms Some by (auto simp: sized_def)
    then obtain k where "n = Suc k" by (cases n) auto
    then have "type_size (Suc (Suc k)) ts (NamedStructType name) = Some r"
      using type_size_named_unfold n Some Defined by blast
    then show ?thesis unfolding sized_def by blast
  qed
qed

lemma sized_by_rank:
  assumes "structs_ranked ts rank" "\<forall>nm \<in> value_names ty. rank nm < k"
  shows "sized ts ty"
  using assms(2)
proof (induction k arbitrary: ty)
  case 0
  then show ?case
  proof (induction ty)
    case (StructType es p)
    then show ?case by (auto intro!: sized_struct)
  next
    case (ArrayType e n)
    then show ?case by (auto intro!: sized_array)
  qed (unfold sized_def, (intro exI [of _ "Suc 0"], simp add: type_size_body_def)+)
next
  case (Suc k)
  note outer = Suc.IH
  show ?case using Suc.prems
  proof (induction ty)
    case (StructType es p)
    then show ?case by (auto intro!: sized_struct)
  next
    case (ArrayType e n)
    then show ?case by (auto intro!: sized_array)
  next
    case (NamedStructType name)
    show ?case
    proof (rule sized_named)
      fix inner assume "named_struct_def ts name = Some (Defined inner)"
      then have "\<forall>nm \<in> value_names inner. rank nm < rank name"
        using assms(1) by (auto simp: structs_ranked_def)
      moreover have "rank name \<le> k" using NamedStructType by simp
      ultimately show "sized ts inner" using outer by fastforce
    qed
  qed (unfold sized_def, (intro exI [of _ "Suc 0"], simp add: type_size_body_def)+)
qed

lemma type_size_enough_fuel:
  assumes "structs_ranked ts rank"
  shows "\<exists>N r. \<forall>n \<ge> N. type_size n ts ty = Some r"
proof -
  have "finite (value_names ty)" by (induction ty) auto
  then obtain k where "\<forall>nm \<in> value_names ty. rank nm < k"
    using finite_nat_set_iff_bounded [of "rank ` value_names ty"] by auto
  then have "sized ts ty" using sized_by_rank [OF assms] by blast
  then obtain n r where "type_size n ts ty = Some r" by (auto simp: sized_def)
  then show ?thesis using type_size_mono by blast
qed

section \<open>The mathematical size\<close>

inductive has_size :: "Types \<Rightarrow> Type \<Rightarrow> nat \<Rightarrow> bool" and
  have_sizes :: "Types \<Rightarrow> Type list \<Rightarrow> nat \<Rightarrow> bool" for ts where
  int: "has_size ts (IntegerType bits) ((unat bits + 7) div 8)"
| ptr: "has_size ts (PointerType a) 8"
| array: "has_size ts e s \<Longrightarrow> s < 2 ^ 64 \<Longrightarrow> has_size ts (ArrayType e n) (s * unat n)"
| struct: "have_sizes ts es s \<Longrightarrow> has_size ts (StructType es p) s"
| named: "named_struct_def ts name = Some (Defined inner) \<Longrightarrow> has_size ts inner s \<Longrightarrow>
    has_size ts (NamedStructType name) s"
| nil: "have_sizes ts [] 0"
| cons: "has_size ts e s \<Longrightarrow> have_sizes ts es t \<Longrightarrow> have_sizes ts (e # es) (s + t)"

lemma int_size_word: "unat (div_ceil (ucast (bits :: u32)) (8 :: u64)) = (unat bits + 7) div 8"
proof -
  have "unat bits < 2 ^ 32" using unsigned_less [of bits] by simp
  then have "unat (ucast bits :: u64) = unat bits"
    by (simp add: unsigned_ucast_eq take_bit_nat_eq_self)
  then show ?thesis by (simp add: unat_div_ceil)
qed

lemma of_nat_word_size: "unat (w :: 'a::len word) = s \<Longrightarrow> w = of_nat s"
  by auto

lemma checked_add_of_nat:
  assumes "unat tot + s < 2 ^ 64"
  shows "checked_add tot (of_nat s) = Some (tot + of_nat s :: u64)"
    and "unat (tot + of_nat s :: u64) = unat tot + s"
proof -
  have u: "unat (of_nat s :: u64) = s"
    using assms by (simp add: unat_of_nat take_bit_nat_eq_self)
  then show "checked_add tot (of_nat s) = Some (tot + of_nat s :: u64)"
    using assms by (simp add: checked_add_def)
  then have "unat (tot + of_nat s :: u64) = unat tot + unat (of_nat s :: u64)"
    by (simp only: checked_add_Some)
  then show "unat (tot + of_nat s :: u64) = unat tot + s" using u by simp
qed

text \<open>The array case: if there is no element the product is 0, otherwise the element is no larger.\<close>

lemma has_size_type_size:
  "has_size ts ty s \<Longrightarrow> s < 2 ^ 64 \<Longrightarrow> \<exists>n. \<forall>m \<ge> n. type_size m ts ty = Some (Some (of_nat s))"
  "have_sizes ts es s \<Longrightarrow>
     \<exists>n. \<forall>m \<ge> n. \<forall>tot. unat tot + s < 2 ^ 64 \<longrightarrow>
       sum_sizes (type_size m ts) tot es = Some (Some (tot + of_nat s))"
proof (induction rule: has_size_have_sizes.inducts)
  case (int bits)
  have "div_ceil (ucast bits) (8 :: u64) = of_nat ((unat bits + 7) div 8)"
    by (rule of_nat_word_size) (rule int_size_word)
  then have "type_size (Suc n) ts (IntegerType bits) = Some (Some (of_nat ((unat bits + 7) div 8)))" for n
    by (simp add: type_size_body_def)
  then show ?case by (metis Suc_le_D)
next
  case (ptr a)
  have "type_size (Suc n) ts (PointerType a) = Some (Some (of_nat 8))" for n
    by (simp add: type_size_body_def)
  then show ?case by (metis Suc_le_D)
next
  case (array e s n)
  then obtain k where k: "\<forall>m \<ge> k. type_size m ts e = Some (Some (of_nat s))" by blast
  have "type_size (Suc m) ts (ArrayType e n) = Some (Some (of_nat (s * unat n)))" if "k \<le> m" for m
    using that k by (simp add: type_size_body_def)
  then show ?case by (metis Suc_le_D Suc_le_mono)
next
  case (struct es s p)
  then obtain k where "\<forall>m \<ge> k. \<forall>tot. unat tot + s < 2 ^ 64 \<longrightarrow>
      sum_sizes (type_size m ts) tot es = Some (Some (tot + of_nat s))" by blast
  then have "type_size (Suc m) ts (StructType es p) = Some (Some (of_nat s))" if "k \<le> m" for m
    using that struct.prems by (simp add: type_size_body_def)
  then show ?case by (metis Suc_le_D Suc_le_mono)
next
  case (named name inner s)
  then obtain k where "\<forall>m \<ge> k. type_size m ts inner = Some (Some (of_nat s))" by blast
  then have "type_size (Suc (Suc m)) ts (NamedStructType name) = Some (Some (of_nat s))"
    if "k \<le> Suc m" for m
    using that type_size_named_unfold [OF named(1)] by blast
  then show ?case by (metis Suc_le_D Suc_le_mono le_SucI)
next
  case nil
  show ?case by simp
next
  case (cons e s es t)
  show ?case
  proof (cases "s < 2 ^ 64")
    case True
    then obtain k l where k: "\<forall>m \<ge> k. type_size m ts e = Some (Some (of_nat s))"
      and l: "\<forall>m \<ge> l. \<forall>tot. unat tot + t < 2 ^ 64 \<longrightarrow>
        sum_sizes (type_size m ts) tot es = Some (Some (tot + of_nat t))"
      using cons.IH by blast
    have "sum_sizes (type_size m ts) tot (e # es) = Some (Some (tot + of_nat (s + t)))"
      if m: "max k l \<le> m" and tot: "unat tot + (s + t) < 2 ^ 64" for m tot
    proof -
      have "unat tot + s < 2 ^ 64" using tot by linarith
      note c = checked_add_of_nat [OF this]
      have "sum_sizes (type_size m ts) (tot + of_nat s) es =
          Some (Some (tot + of_nat s + of_nat t))"
        using l m c(2) tot by (simp add: add.assoc)
      then show ?thesis using k m c(1) by (simp add: add.assoc)
    qed
    then show ?thesis by blast
  next
    case False
    then show ?thesis by (intro exI [of _ 0]) simp
  qed
qed

end
