(* ===== verification/Verdict.thy ===== *)
theory Verdict
  imports Rust_Text
begin

text \<open>
  Policies, analysis results and verdicts, from the first part of \<open>skv-analyzer/src/main.rs\<close>: the
  value enums of the command line with their labels, \<open>AnalysisResult\<close> and \<open>mark_unknown\<close>, the
  \<open>Verdict\<close> record, \<open>verdict_from_result\<close> and its JSON form. Results: the status of a result never
  improves under \<open>mark_unknown\<close>, exit codes identify the outcome, and the JSON message field decodes
  back to the message; it is free of raw control characters exactly when the message has none but
  newlines.
\<close>

section \<open>Policies\<close>

datatype ProofFormat = Lfsc | Rup

fun ProofFormat_label :: "ProofFormat \<Rightarrow> string" where
  "ProofFormat_label Lfsc = ''lfsc''"
| "ProofFormat_label Rup = ''rup''"

datatype RingMode = Ring0 | RingM1 | RingM2

fun RingMode_label :: "RingMode \<Rightarrow> string" where
  "RingMode_label Ring0 = ''Ring 0''"
| "RingMode_label RingM1 = ''Ring -1''"
| "RingMode_label RingM2 = ''Ring -2''"

fun token_ring :: "RingMode \<Rightarrow> int option" where
  "token_ring Ring0 = None"
| "token_ring RingM1 = Some (- 1)"
| "token_ring RingM2 = Some (- 2)"

datatype HitlMode = Hitl_Off | Hitl_Require

fun HitlMode_label :: "HitlMode \<Rightarrow> string" where
  "HitlMode_label Hitl_Off = ''off''"
| "HitlMode_label Hitl_Require = ''require''"

datatype RuntimeFallbackPolicy = Fallback_Auto | ArmMte | IntegriTag | SoftwareTargeted

text \<open>\<open>cfg!(target_arch = ...)\<close> is the name of the architecture the binary was built for.\<close>

fun resolved :: "string \<Rightarrow> RuntimeFallbackPolicy \<Rightarrow> string" where
  "resolved target_arch Fallback_Auto =
     (if target_arch = ''aarch64'' then ''arm-mte''
      else if target_arch = ''x86_64'' then ''integritag''
      else ''software-targeted'')"
| "resolved target_arch ArmMte = ''arm-mte''"
| "resolved target_arch IntegriTag = ''integritag''"
| "resolved target_arch SoftwareTargeted = ''software-targeted''"

datatype InlineAsmPolicy = Conservative | Trap

datatype DmaPolicy = Dma_Verify | RequireIommu | Dma_Ignore

section \<open>Results\<close>

datatype AnalysisResult = Pass | Fail string | Unknown string

definition mark_unknown :: "string \<Rightarrow> AnalysisResult \<Rightarrow> AnalysisResult" where
  "mark_unknown reason final_result =
     (if final_result = Pass then Unknown reason else final_result)"

fun is_Fail :: "AnalysisResult \<Rightarrow> bool" where
  "is_Fail (Fail _) = True"
| "is_Fail _ = False"

text \<open>The order of severity and the order \<open>result_le\<close> in which the analysis moves: from \<open>Pass\<close> to any
  result, from an \<open>Unknown\<close> to a \<open>Fail\<close>, and never back.\<close>

fun severity :: "AnalysisResult \<Rightarrow> nat" where
  "severity Pass = 0"
| "severity (Unknown _) = 1"
| "severity (Fail _) = 2"

definition result_le :: "AnalysisResult \<Rightarrow> AnalysisResult \<Rightarrow> bool" where
  "result_le a b \<longleftrightarrow> a = b \<or> severity a < severity b"

lemma result_le_refl [simp, intro]: "result_le a a"
  by (simp add: result_le_def)

lemma result_le_trans: "result_le a b \<Longrightarrow> result_le b c \<Longrightarrow> result_le a c"
  by (auto simp: result_le_def)

lemma result_le_antisym: "result_le a b \<Longrightarrow> result_le b a \<Longrightarrow> a = b"
  by (auto simp: result_le_def)

lemma result_le_Pass [simp]: "result_le a Pass \<longleftrightarrow> a = Pass"
  by (cases a) (auto simp: result_le_def)

lemma result_le_Unknown: "result_le (Unknown r) b \<Longrightarrow> b = Unknown r \<or> is_Fail b"
  by (cases b) (auto simp: result_le_def)

lemma result_le_Fail [simp]: "\<not> is_Fail a \<Longrightarrow> result_le a (Fail r)"
  by (cases a) (auto simp: result_le_def)

lemma result_le_mark_unknown [simp, intro]: "result_le a (mark_unknown r a)"
  by (cases a) (auto simp: mark_unknown_def result_le_def)

lemma mark_unknown_neq_Pass [simp]: "mark_unknown r a \<noteq> Pass"
  by (simp add: mark_unknown_def)

lemma is_Fail_mark_unknown [simp]: "is_Fail (mark_unknown r a) \<longleftrightarrow> is_Fail a"
  by (cases a) (simp_all add: mark_unknown_def)

lemma is_Fail_iff: "is_Fail a \<longleftrightarrow> (\<exists>r. a = Fail r)"
  by (cases a) auto

section \<open>Verdicts\<close>

record Verdict =
  status :: string
  code :: int
  message :: string
  verdict_key_fingerprint :: "string option"
  verdict_token_sha256 :: "string option"
  runtime_fallback :: string
  verdict_hitl_mode :: string
  hitl_seen_vcs :: nat
  hitl_blocked_vcs :: nat
  hitl_seen_classes :: nat
  hitl_blocked_classes :: nat
  verdict_inline_asm_vcs :: nat
  verdict_dma_vcs :: nat
  verdict_irq_race_vcs :: nat

definition escape_message :: "string \<Rightarrow> string" where
  "escape_message m =
     replace_char (CHR 0x0A) [CHR 0x5C, CHR ''n'']
       (replace_char (CHR 0x22) [CHR 0x5C, CHR 0x22] (replace_char (CHR 0x5C) [CHR 0x5C, CHR 0x5C] m))"

definition quoted :: "string \<Rightarrow> string" where
  "quoted s = [CHR 0x22] @ s @ [CHR 0x22]"

definition json_opt :: "string option \<Rightarrow> string" where
  "json_opt v = (case v of Some s \<Rightarrow> quoted s | None \<Rightarrow> ''null'')"

definition json_field :: "string \<Rightarrow> string \<Rightarrow> string" where
  "json_field k v = quoted k @ '':'' @ v"

definition to_json :: "Verdict \<Rightarrow> string" where
  "to_json v =
     ''{'' @ json_field ''status'' (quoted (status v)) @
     '','' @ json_field ''code'' (show_int (code v)) @
     '','' @ json_field ''message'' (quoted (escape_message (message v))) @
     '','' @ json_field ''key_fingerprint'' (json_opt (verdict_key_fingerprint v)) @
     '','' @ json_field ''token_sha256'' (json_opt (verdict_token_sha256 v)) @
     '','' @ json_field ''runtime_fallback'' (quoted (runtime_fallback v)) @
     '','' @ json_field ''hitl_mode'' (quoted (verdict_hitl_mode v)) @
     '','' @ json_field ''hitl_seen_vcs'' (show_nat (hitl_seen_vcs v)) @
     '','' @ json_field ''hitl_blocked_vcs'' (show_nat (hitl_blocked_vcs v)) @
     '','' @ json_field ''hitl_seen_classes'' (show_nat (hitl_seen_classes v)) @
     '','' @ json_field ''hitl_blocked_classes'' (show_nat (hitl_blocked_classes v)) @
     '','' @ json_field ''inline_asm_vcs'' (show_nat (verdict_inline_asm_vcs v)) @
     '','' @ json_field ''dma_vcs'' (show_nat (verdict_dma_vcs v)) @
     '','' @ json_field ''irq_race_vcs'' (show_nat (verdict_irq_race_vcs v)) @ ''}''"

definition verdict_from_result ::
  "AnalysisResult \<Rightarrow> string option \<Rightarrow> string option \<Rightarrow> string \<Rightarrow> string \<Rightarrow>
   nat \<Rightarrow> nat \<Rightarrow> nat \<Rightarrow> nat \<Rightarrow> nat \<Rightarrow> nat \<Rightarrow> nat \<Rightarrow> Verdict" where
  "verdict_from_result result kfp tsha rfb hmode seen blocked seen_cl blocked_cl asm_vcs dma irq =
     (case result of
        Pass \<Rightarrow>
          \<lparr>status = ''pass'', code = 0, message = ''Proved safe for all checked accesses.'',
           verdict_key_fingerprint = kfp, verdict_token_sha256 = tsha, runtime_fallback = rfb,
           verdict_hitl_mode = hmode, hitl_seen_vcs = seen, hitl_blocked_vcs = blocked,
           hitl_seen_classes = seen_cl, hitl_blocked_classes = blocked_cl,
           verdict_inline_asm_vcs = asm_vcs, verdict_dma_vcs = dma, verdict_irq_race_vcs = irq\<rparr>
      | Fail msg \<Rightarrow>
          \<lparr>status = ''fail'', code = 10, message = msg,
           verdict_key_fingerprint = kfp, verdict_token_sha256 = tsha, runtime_fallback = rfb,
           verdict_hitl_mode = hmode, hitl_seen_vcs = seen, hitl_blocked_vcs = blocked,
           hitl_seen_classes = seen_cl, hitl_blocked_classes = blocked_cl,
           verdict_inline_asm_vcs = asm_vcs, verdict_dma_vcs = dma, verdict_irq_race_vcs = irq\<rparr>
      | Unknown reason \<Rightarrow>
          \<lparr>status = ''unknown'', code = 20, message = reason,
           verdict_key_fingerprint = kfp, verdict_token_sha256 = tsha, runtime_fallback = rfb,
           verdict_hitl_mode = hmode, hitl_seen_vcs = seen, hitl_blocked_vcs = blocked,
           hitl_seen_classes = seen_cl, hitl_blocked_classes = blocked_cl,
           verdict_inline_asm_vcs = asm_vcs, verdict_dma_vcs = dma, verdict_irq_race_vcs = irq\<rparr>)"

text \<open>\<open>verdict.code as u8\<close>, the process exit code.\<close>

definition exit_code :: "Verdict \<Rightarrow> u8" where
  "exit_code v = of_int (code v)"

lemma verdict_counters [simp]:
  "verdict_key_fingerprint (verdict_from_result r kfp tsha rfb hmode a b c d e f g) = kfp"
  "verdict_token_sha256 (verdict_from_result r kfp tsha rfb hmode a b c d e f g) = tsha"
  "hitl_seen_vcs (verdict_from_result r kfp tsha rfb hmode a b c d e f g) = a"
  "hitl_blocked_vcs (verdict_from_result r kfp tsha rfb hmode a b c d e f g) = b"
  by (simp_all add: verdict_from_result_def split: AnalysisResult.split)

lemma exit_code_verdict:
  "exit_code (verdict_from_result r kfp tsha rfb hmode a b c d e f g) =
     (case r of Pass \<Rightarrow> 0 | Fail _ \<Rightarrow> 10 | Unknown _ \<Rightarrow> 20)"
  by (simp add: exit_code_def verdict_from_result_def split: AnalysisResult.split)

section \<open>Reading the message back\<close>

text \<open>The body of a JSON string, read up to the first quote that is not escaped. Only the escapes
  that the printer produces are decoded; a raw control character is rejected, as RFC 8259 asks.\<close>

fun read_json_body :: "string \<Rightarrow> (string \<times> string) option" where
  "read_json_body [] = None"
| "read_json_body (c # cs) =
     (if c = CHR 0x22 then Some ([], cs)
      else if c = CHR 0x5C then
        (case cs of
           [] \<Rightarrow> None
         | e # cs' \<Rightarrow>
             (if e = CHR 0x22 \<or> e = CHR 0x5C then map_option (apfst (Cons e)) (read_json_body cs')
              else if e = CHR ''n'' then map_option (apfst (Cons (CHR 0x0A))) (read_json_body cs')
              else None))
      else if (of_char c :: nat) < 32 then None
      else map_option (apfst (Cons c)) (read_json_body cs))"

definition printable_message :: "string \<Rightarrow> bool" where
  "printable_message m \<longleftrightarrow> list_all (\<lambda>c. c = CHR 0x0A \<or> 32 \<le> (of_char c :: nat)) m"

lemma escape_message_simps:
  "escape_message [] = []"
  "escape_message (c # m) =
     (if c = CHR 0x5C then [CHR 0x5C, CHR 0x5C] else if c = CHR 0x22 then [CHR 0x5C, CHR 0x22]
      else if c = CHR 0x0A then [CHR 0x5C, CHR ''n''] else [c]) @ escape_message m"
  by (simp_all add: escape_message_def)

lemma read_json_body_escapes:
  "read_json_body (CHR 0x22 # r) = Some ([], r)"
  "read_json_body (CHR 0x5C # CHR 0x22 # r) = map_option (apfst (Cons (CHR 0x22))) (read_json_body r)"
  "read_json_body (CHR 0x5C # CHR 0x5C # r) = map_option (apfst (Cons (CHR 0x5C))) (read_json_body r)"
  "read_json_body (CHR 0x5C # CHR ''n'' # r) = map_option (apfst (Cons (CHR 0x0A))) (read_json_body r)"
  by simp_all

lemma read_json_body_plain:
  assumes "c \<noteq> CHR 0x22" "c \<noteq> CHR 0x5C"
  shows "read_json_body (c # r) =
    (if (of_char c :: nat) < 32 then None else map_option (apfst (Cons c)) (read_json_body r))"
  using assms by simp

declare read_json_body.simps(2) [simp del]

lemma read_escape_message:
  "read_json_body (escape_message m @ CHR 0x22 # rest) =
     (if printable_message m then Some (m, rest) else None)"
proof (induction m)
  case Nil
  show ?case
    by (simp only: escape_message_simps append_Nil read_json_body_escapes)
      (simp add: printable_message_def)
next
  case (Cons c m)
  consider "c = CHR 0x22" | "c = CHR 0x5C" | "c = CHR 0x0A" |
    "c \<noteq> CHR 0x22" "c \<noteq> CHR 0x5C" "c \<noteq> CHR 0x0A" by blast
  then show ?case
  proof cases
    case 4
    then have "read_json_body (escape_message (c # m) @ CHR 0x22 # rest) =
        read_json_body (c # (escape_message m @ CHR 0x22 # rest))"
      by (simp add: escape_message_simps)
    then show ?thesis using 4 Cons
      by (simp add: read_json_body_plain printable_message_def)
  qed (use Cons in \<open>simp_all add: escape_message_simps read_json_body_escapes printable_message_def\<close>)
qed

lemma escape_message_inj:
  assumes "escape_message m = escape_message m'" "printable_message m" "printable_message m'"
  shows "m = m'"
proof -
  have "Some (m, []) = read_json_body (escape_message m @ CHR 0x22 # [])"
    by (simp only: read_escape_message assms(2) if_True)
  also have "\<dots> = Some (m', [])"
    by (simp only: assms(1) read_escape_message assms(3) if_True)
  finally show ?thesis by simp
qed

end
