(* ===== verification/Filesystem.thy ===== *)
theory Filesystem
  imports Rust_Text
begin

unbundle bit_operations_syntax

text \<open>
  The file operations of the analyzer and the checks around them, from
  \<open>skv-analyzer/src/main.rs\<close>: \<open>nix_like_euid\<close>, \<open>ensure_secure_owned_file\<close>, \<open>write_output_file\<close> and the
  reads of \<open>std::fs\<close> they rest on.

  A \<open>world\<close> maps paths to inodes (kind, owner, permission bits, contents) and says which system calls
  fail; it also holds the effective user of the process, the text of \<open>/proc/self/status\<close>, the clock
  and where a symbolic link leads. \<open>symlink_metadata\<close> does not follow links; reading and opening do. An operation returns \<open>Inl\<close> of the outermost error message
  (what the \<open>Display\<close> of an \<open>anyhow\<close> error prints) or \<open>Inr\<close> of its value, with the world it leaves
  behind, so that partial effects of a failed write are visible. Results: the ownership check
  accepts exactly regular files of the effective user that group and others cannot write, and
  \<open>write_output_file\<close> touches no other path, never writes through a file that fails this check and
  leaves mode 0600 and the whole contents behind when it succeeds.
\<close>

section \<open>The world\<close>

type_synonym path = string
type_synonym error = string

datatype file_kind = RegularFile | Symlink | OtherKind

record inode =
  kind :: file_kind
  uid :: u32
  fmode :: u32
  readable :: bool
  content :: string

datatype syscall =
  Sys_open_write | Sys_set_permissions | Sys_write | Sys_sync | Sys_lock | Sys_stat | Sys_read |
  Sys_truncate | Sys_seek

record world =
  files :: "path \<rightharpoonup> inode"
  euid :: u32
  umask :: u32
  proc_status :: "string option"
  clock :: int
  sys_fails :: "syscall \<Rightarrow> path \<Rightarrow> bool"
  resolve :: "path \<Rightarrow> path"

text \<open>The path that is opened: a link is followed, anything else is itself.\<close>

definition target :: "world \<Rightarrow> path \<Rightarrow> path" where
  "target w p =
     (case files w p of
        Some f \<Rightarrow> (if kind f = Symlink then resolve w p else p)
      | None \<Rightarrow> p)"

section \<open>Reading\<close>

text \<open>Whether the byte \<open>a\<close> and the bytes after it make up a character, and how many bytes of \<open>r\<close> belong to
  it: all of the character's if it is complete, otherwise those that could still have begun one.\<close>

definition utf8_char :: "nat \<Rightarrow> nat list \<Rightarrow> bool \<times> nat" where
  "utf8_char a r =
     (let cont = (\<lambda>b :: nat. 128 \<le> b \<and> b \<le> 191)
      in if a \<le> 127 then (True, 0)
         else if 194 \<le> a \<and> a \<le> 223 then
           (case r of b # _ \<Rightarrow> if cont b then (True, 1) else (False, 0) | _ \<Rightarrow> (False, 0))
         else if 224 \<le> a \<and> a \<le> 239 then
           (case r of
              b # r' \<Rightarrow>
                if if a = 224 then 160 \<le> b \<and> b \<le> 191 else if a = 237 then 128 \<le> b \<and> b \<le> 159 else cont b then
                  (case r' of c # _ \<Rightarrow> if cont c then (True, 2) else (False, 1) | _ \<Rightarrow> (False, 1))
                else (False, 0)
            | _ \<Rightarrow> (False, 0))
         else if 240 \<le> a \<and> a \<le> 244 then
           (case r of
              b # r' \<Rightarrow>
                if if a = 240 then 144 \<le> b \<and> b \<le> 191 else if a = 244 then 128 \<le> b \<and> b \<le> 143 else cont b then
                  (case r' of
                     c # r'' \<Rightarrow>
                       if cont c then
                         (case r'' of d # _ \<Rightarrow> if cont d then (True, 3) else (False, 2) | _ \<Rightarrow> (False, 2))
                       else (False, 1)
                   | _ \<Rightarrow> (False, 1))
                else (False, 0)
            | _ \<Rightarrow> (False, 0))
         else (False, 0))"

lemma utf8_char_ascii [simp]: "a \<le> 127 \<Longrightarrow> utf8_char a r = (True, 0)"
  by (simp add: utf8_char_def)

fun utf8_bytes :: "nat list \<Rightarrow> bool" where
  "utf8_bytes [] = True"
| "utf8_bytes (a # r) = (let (ok, k) = utf8_char a r in ok \<and> utf8_bytes (drop k r))"

definition valid_utf8 :: "string \<Rightarrow> bool" where
  "valid_utf8 s = utf8_bytes (map of_char s)"

text \<open>\<open>String::from_utf8_lossy\<close>: a character is copied; the bytes that begin one without completing it, or
  else a single byte, become the replacement character.\<close>

fun from_utf8_lossy :: "string \<Rightarrow> string" where
  "from_utf8_lossy [] = []"
| "from_utf8_lossy (c # r) =
     (let (ok, k) = utf8_char (of_char c) (map of_char r)
      in (if ok then c # take k r else [CHR 0xEF, CHR 0xBF, CHR 0xBD]) @ from_utf8_lossy (drop k r))"

text \<open>\<open>Path::to_string_lossy\<close>; \<open>Path::display\<close> prints the same text.\<close>

definition to_string_lossy :: "path \<Rightarrow> string" where
  "to_string_lossy p = from_utf8_lossy p"

lemma from_utf8_lossy_valid: "valid_utf8 s \<Longrightarrow> from_utf8_lossy s = s"
proof (induction s rule: from_utf8_lossy.induct)
  case (2 c r)
  obtain ok k where k: "utf8_char (of_char c) (map of_char r) = (ok, k)" by fastforce
  then have "ok" "valid_utf8 (drop k r)"
    using 2(2) by (simp_all add: valid_utf8_def drop_map)
  then show ?case using 2(1) [of "(ok, k)" ok k] k by simp
qed simp

lemma to_string_lossy_valid [simp]: "valid_utf8 p \<Longrightarrow> to_string_lossy p = p"
  by (simp add: to_string_lossy_def from_utf8_lossy_valid)

definition fs_read :: "world \<Rightarrow> path \<Rightarrow> string option" where
  "fs_read w p =
     (case files w (target w p) of
        Some f \<Rightarrow> (if readable f then Some (content f) else None)
      | None \<Rightarrow> None)"

definition fs_read_to_string :: "world \<Rightarrow> path \<Rightarrow> string option" where
  "fs_read_to_string w p =
     (case fs_read w p of
        Some s \<Rightarrow> (if valid_utf8 s then Some s else None)
      | None \<Rightarrow> None)"

definition symlink_metadata :: "world \<Rightarrow> path \<Rightarrow> inode option" where
  "symlink_metadata w p = files w p"

text \<open>A line of \<open>/proc/self/status\<close>: the effective uid is the second number after \<open>Uid:\<close>.\<close>

definition euid_of_line :: "string \<Rightarrow> u32 option" where
  "euid_of_line l =
     (case strip_prefix ''Uid:'' l of
        None \<Rightarrow> None
      | Some rest \<Rightarrow>
          (case split_whitespace rest of
             _ # e # _ \<Rightarrow> parse_u32 e
           | _ \<Rightarrow> None))"

fun first_euid :: "string list \<Rightarrow> u32" where
  "first_euid [] = 0"
| "first_euid (l # ls) = (case euid_of_line l of Some v \<Rightarrow> v | None \<Rightarrow> first_euid ls)"

definition nix_like_euid :: "world \<Rightarrow> u32" where
  "nix_like_euid w =
     first_euid (lines (case proc_status w of Some s \<Rightarrow> s | None \<Rightarrow> ''''))"

section \<open>Ownership checks\<close>

definition group_world_writable :: "inode \<Rightarrow> bool" where
  "group_world_writable f \<longleftrightarrow> fmode f AND 0x12 \<noteq> 0"

definition ensure_secure_owned_file :: "world \<Rightarrow> path \<Rightarrow> string \<Rightarrow> error + unit" where
  "ensure_secure_owned_file w p label =
     (case symlink_metadata w p of
        None \<Rightarrow> Inl (''Failed to stat '' @ label @ '': '' @ to_string_lossy p)
      | Some meta \<Rightarrow>
          if kind meta \<noteq> RegularFile then Inl (label @ '' must be a regular file'')
          else if uid meta \<noteq> nix_like_euid w then
            Inl (label @ '' must be owned by current effective user'')
          else if group_world_writable meta then
            Inl (label @ '' must not be group/world writable'')
          else Inr ())"

definition secure_file :: "world \<Rightarrow> inode \<Rightarrow> bool" where
  "secure_file w f \<longleftrightarrow>
     kind f = RegularFile \<and> uid f = nix_like_euid w \<and> \<not> group_world_writable f"

lemma ensure_secure_owned_file_iff:
  "ensure_secure_owned_file w p label = Inr () \<longleftrightarrow>
     (\<exists>f. files w p = Some f \<and> secure_file w f)"
  by (auto simp: ensure_secure_owned_file_def symlink_metadata_def secure_file_def
      split: option.split)

section \<open>Writing output files\<close>

definition output_precheck :: "world \<Rightarrow> path \<Rightarrow> error option" where
  "output_precheck w p =
     (case symlink_metadata w p of
        None \<Rightarrow> None
      | Some meta \<Rightarrow>
          if kind meta \<noteq> RegularFile then Some ''output path must be a regular file''
          else if uid meta \<noteq> nix_like_euid w then
            Some ''output file must be owned by current effective user''
          else if group_world_writable meta then
            Some ''output file must not be group/world writable''
          else None)"

text \<open>\<open>OpenOptions::new().create(true).truncate(true).write(true).open(path)\<close>: an existing file is
  emptied, a new one belongs to the process with the default mode less the umask.\<close>

definition open_truncate :: "world \<Rightarrow> path \<Rightarrow> world option" where
  "open_truncate w p =
     (if sys_fails w Sys_open_write p then None
      else
        Some (w\<lparr>files := (files w)(p \<mapsto>
          (case files w p of
             Some f \<Rightarrow> f\<lparr>content := ''''\<rparr>
           | None \<Rightarrow>
               \<lparr>kind = RegularFile, uid = euid w, fmode = 0x1B6 AND NOT (umask w),
                readable = True, content = ''''\<rparr>))\<rparr>))"

definition update_inode :: "(inode \<Rightarrow> inode) \<Rightarrow> path \<Rightarrow> world \<Rightarrow> world" where
  "update_inode g p w = w\<lparr>files := (files w)(p := map_option g (files w p))\<rparr>"

definition write_output_file :: "world \<Rightarrow> path \<Rightarrow> string \<Rightarrow> (error + unit) \<times> world" where
  "write_output_file w p text =
     (case output_precheck w p of
        Some e \<Rightarrow> (Inl e, w)
      | None \<Rightarrow>
          (case open_truncate w p of
             None \<Rightarrow> (Inl (''Failed to open output file: '' @ to_string_lossy p), w)
           | Some w1 \<Rightarrow>
               if sys_fails w Sys_set_permissions p then
                 (Inl (''Failed to set secure permissions on '' @ to_string_lossy p), w1)
               else
                 let w2 = update_inode (\<lambda>f. f\<lparr>fmode := 0x180\<rparr>) p w1
                 in if sys_fails w Sys_write p then (Inl (''Failed writing output file: '' @ to_string_lossy p), w2)
                    else
                      let w3 = update_inode (\<lambda>f. f\<lparr>content := text\<rparr>) p w2
                      in if sys_fails w Sys_sync p then
                           (Inl (''Failed syncing output file: '' @ to_string_lossy p), w3)
                         else (Inr (), w3)))"

text \<open>\<open>with_context\<close>: the message of an error is replaced by its context.\<close>

definition with_context :: "error \<Rightarrow> error + 'a \<Rightarrow> error + 'a" where
  "with_context msg r = (case r of Inl _ \<Rightarrow> Inl msg | Inr v \<Rightarrow> Inr v)"

lemma with_context_Inr [simp]: "with_context msg r = Inr v \<longleftrightarrow> r = Inr v"
  by (auto simp: with_context_def split: sum.split)

section \<open>Properties\<close>

lemma files_update_inode [fs_simps]:
  "files (update_inode g p w) q = (if q = p then map_option g (files w p) else files w q)"
  by (simp add: update_inode_def)

lemma update_inode_other [fs_simps]:
  "euid (update_inode g p w) = euid w"
  "proc_status (update_inode g p w) = proc_status w"
  "sys_fails (update_inode g p w) = sys_fails w"
  by (simp_all add: update_inode_def)

lemma open_truncate_SomeD:
  assumes "open_truncate w p = Some w1"
  shows "q \<noteq> p \<Longrightarrow> files w1 q = files w q"
    and "proc_status w1 = proc_status w"
    and "\<exists>f. files w1 p = Some f \<and> content f = [] \<and>
           (case files w p of Some f0 \<Rightarrow> kind f = kind f0 \<and> uid f = uid f0
                            | None \<Rightarrow> kind f = RegularFile \<and> uid f = euid w)"
  using assms by (auto simp: open_truncate_def split: if_splits option.splits)

lemma write_output_file_frame:
  assumes "write_output_file w p text = (r, w')" "q \<noteq> p"
  shows "files w' q = files w q"
  using assms open_truncate_SomeD(1) [of w p _ q]
  by (auto simp: write_output_file_def Let_def fs_simps split: option.splits if_splits)

lemma write_output_file_rejects:
  assumes "files w p = Some f" "\<not> secure_file w f"
  shows "\<exists>e. write_output_file w p text = (Inl e, w)"
  using assms by (auto simp: write_output_file_def output_precheck_def secure_file_def
      symlink_metadata_def)

lemma write_output_file_success:
  assumes "write_output_file w p text = (Inr (), w')"
  shows "\<exists>f. files w' p = Some f \<and> content f = text \<and> fmode f = 0x180 \<and> kind f = RegularFile \<and>
    (uid f = nix_like_euid w \<or> (files w p = None \<and> uid f = euid w))"
proof -
  obtain w1 where pre: "output_precheck w p = None" and op: "open_truncate w p = Some w1"
    and w': "files w' = files (update_inode (\<lambda>f. f\<lparr>content := text\<rparr>) p
               (update_inode (\<lambda>f. f\<lparr>fmode := 0x180\<rparr>) p w1))"
    using assms
    by (auto simp: write_output_file_def Let_def split: option.splits if_splits)
  obtain f where f: "files w1 p = Some f"
    and own: "case files w p of Some f0 \<Rightarrow> kind f = kind f0 \<and> uid f = uid f0
              | None \<Rightarrow> kind f = RegularFile \<and> uid f = euid w"
    using open_truncate_SomeD(3) [OF op] by blast
  have "files w' p = Some (f\<lparr>fmode := 0x180, content := text\<rparr>)"
    using w' f by (simp add: fs_simps)
  then show ?thesis using own pre
    by (auto simp: output_precheck_def symlink_metadata_def split: option.splits if_splits)
qed

end
