(* ===== verification/Hitl.thy ===== *)
theory Hitl
  imports Verdict Filesystem "HOL-Library.List_Lexorder" "HOL-Library.Char_ord"
begin

text \<open>
  The human-in-the-loop gate, from \<open>skv-analyzer/src/main.rs\<close>: \<open>HitlGate\<close> with
  \<open>should_run_solver\<close>, the identifiers of verification conditions and of their classes, loading of
  approvals, emission of the seen and blocked conditions, and \<open>enforce_hitl_policy\<close>.

  The locale \<open>approval_gate\<close> is what the analyzer relies on: a question is answered by the approvals
  alone, which a question never changes, and every question and every refusal is recorded. It is
  interpreted for condition identifiers and for class identifiers. Results: with the gate off
  nothing is ever blocked, with the gate on exactly the unapproved questions are, require mode
  turns any blocked condition into a failure, identifiers are uniquely readable, and the emitted
  lists are sorted, duplicate-free and complete.
\<close>

section \<open>The gate\<close>

record HitlGate =
  gate_mode :: HitlMode
  approved :: "string set"
  approved_classes :: "string set"
  seen :: "string list"
  blocked :: "string list"
  seen_classes :: "string list"
  blocked_classes :: "string list"

definition should_run_solver :: "string \<Rightarrow> string \<Rightarrow> HitlGate \<Rightarrow> bool \<times> HitlGate" where
  "should_run_solver vc_id vc_class g =
     (let g1 = g\<lparr>seen := seen g @ [vc_id], seen_classes := seen_classes g @ [vc_class]\<rparr>
      in if gate_mode g1 = Hitl_Off then (True, g1)
         else if vc_id \<in> approved g1 \<or> vc_class \<in> approved_classes g1 then (True, g1)
         else (False, g1\<lparr>blocked := blocked g1 @ [vc_id],
                         blocked_classes := blocked_classes g1 @ [vc_class]\<rparr>))"

text \<open>The gate that \<open>run\<close> starts with.\<close>

definition new_gate :: "HitlMode \<Rightarrow> string set \<Rightarrow> string set \<Rightarrow> HitlGate" where
  "new_gate m ids classes =
     \<lparr>gate_mode = m, approved = ids, approved_classes = classes, seen = [], blocked = [],
      seen_classes = [], blocked_classes = []\<rparr>"

section \<open>Identifiers\<close>

definition vc_id :: "string \<Rightarrow> nat \<Rightarrow> nat \<Rightarrow> string \<Rightarrow> string" where
  "vc_id function_name bb_idx instr_idx knd =
     function_name @ ''::bb'' @ show_nat bb_idx @ ''::i'' @ show_nat instr_idx @ ''::'' @ knd"

definition vc_class_id :: "string \<Rightarrow> u64 \<Rightarrow> string" where
  "vc_class_id knd access_size = ''class::'' @ knd @ ''::size'' @ show_word access_size"

section \<open>Approvals and emission\<close>

definition load_hitl_approvals :: "world \<Rightarrow> path \<Rightarrow> error + string set" where
  "load_hitl_approvals w p =
     (case ensure_secure_owned_file w p ''HITL approvals file'' of
        Inl e \<Rightarrow> Inl e
      | Inr _ \<Rightarrow>
          (case fs_read_to_string w p of
             None \<Rightarrow> Inl (''Failed to read HITL approvals file: '' @ to_string_lossy p)
           | Some raw \<Rightarrow>
               Inr (set (filter (\<lambda>t. \<not> (t = [] \<or> starts_with ''#'' t)) (map trim (lines raw))))))"

definition sort_dedup :: "string list \<Rightarrow> string list" where
  "sort_dedup xs = remdups_adj (sort xs)"

fun json_items :: "string list \<Rightarrow> string" where
  "json_items [] = ''''"
| "json_items [x] = quoted (escape_json x)"
| "json_items (x # y # ys) = quoted (escape_json x) @ '','' @ json_items (y # ys)"

definition json_array :: "string list \<Rightarrow> string" where
  "json_array items = ''['' @ json_items items @ '']''"

definition hitl_vcs_json :: "HitlGate \<Rightarrow> string" where
  "hitl_vcs_json g =
     (let s = sort_dedup (seen g); b = sort_dedup (blocked g);
          sc = sort_dedup (seen_classes g); bc = sort_dedup (blocked_classes g)
      in ''{'' @ json_field ''hitl_mode'' (quoted (HitlMode_label (gate_mode g))) @
         '','' @ json_field ''seen_count'' (show_nat (length s)) @
         '','' @ json_field ''blocked_count'' (show_nat (length b)) @
         '','' @ json_field ''seen_class_count'' (show_nat (length sc)) @
         '','' @ json_field ''blocked_class_count'' (show_nat (length bc)) @
         '','' @ json_field ''seen_vcs'' (json_array s) @
         '','' @ json_field ''blocked_vcs'' (json_array b) @
         '','' @ json_field ''seen_classes'' (json_array sc) @
         '','' @ json_field ''blocked_classes'' (json_array bc) @ ''}'' @ [CHR 0x0A])"

definition emit_hitl_vcs :: "world \<Rightarrow> path \<Rightarrow> HitlGate \<Rightarrow> (error + unit) \<times> world" where
  "emit_hitl_vcs w p g =
     apfst (with_context (''Failed to write VC emission file: '' @ to_string_lossy p))
       (write_output_file w p (hitl_vcs_json g))"

definition enforce_hitl_policy :: "AnalysisResult \<Rightarrow> HitlMode \<Rightarrow> nat \<Rightarrow> AnalysisResult" where
  "enforce_hitl_policy result m blocked_vcs =
     (if m = Hitl_Require \<and> blocked_vcs > 0 then
        Fail (''HITL require mode rejected '' @ show_nat blocked_vcs @
              '' unapproved verification condition(s)'')
      else result)"

section \<open>The contract of the gate\<close>

definition gate_permits :: "HitlGate \<Rightarrow> string \<Rightarrow> string \<Rightarrow> bool" where
  "gate_permits g vc cl \<longleftrightarrow>
     gate_mode g = Hitl_Off \<or> vc \<in> approved g \<or> cl \<in> approved_classes g"

locale approval_gate =
  fixes ask :: "string \<Rightarrow> string \<Rightarrow> 'g \<Rightarrow> bool \<times> 'g"
    and permits :: "'g \<Rightarrow> string \<Rightarrow> string \<Rightarrow> bool"
    and key :: "string \<times> string \<Rightarrow> string"
    and asked :: "'g \<Rightarrow> string list"
    and refused :: "'g \<Rightarrow> string list"
  assumes ask_answer: "fst (ask vc cl g) = permits g vc cl"
    and ask_keeps: "permits (snd (ask vc cl g)) = permits g"
    and ask_asked: "asked (snd (ask vc cl g)) = asked g @ [key (vc, cl)]"
    and ask_refused:
      "refused (snd (ask vc cl g)) = refused g @ (if permits g vc cl then [] else [key (vc, cl)])"
begin

text \<open>A run of questions, in the order in which the analysis asks them.\<close>

lemma run_permits: "permits (fold (\<lambda>(vc, cl) g. snd (ask vc cl g)) qs g) = permits g"
  by (induction qs arbitrary: g) (auto simp: ask_keeps)

lemma run_asked: "asked (fold (\<lambda>(vc, cl) g. snd (ask vc cl g)) qs g) = asked g @ map key qs"
  by (induction qs arbitrary: g) (auto simp: ask_asked)

lemma run_refused:
  "refused (fold (\<lambda>(vc, cl) g. snd (ask vc cl g)) qs g) =
     refused g @ map key (filter (\<lambda>(vc, cl). \<not> permits g vc cl) qs)"
  by (induction qs arbitrary: g) (auto simp: ask_keeps ask_refused)

lemma run_refused_subset:
  assumes "set (refused g) \<subseteq> set (asked g)"
  shows "set (refused (fold (\<lambda>(vc, cl) g. snd (ask vc cl g)) qs g)) \<subseteq>
         set (asked (fold (\<lambda>(vc, cl) g. snd (ask vc cl g)) qs g))"
  using assms by (auto simp: run_refused run_asked)

end

interpretation vc_gate: approval_gate should_run_solver gate_permits fst seen blocked
  by unfold_locales (auto simp: should_run_solver_def gate_permits_def Let_def fun_eq_iff)

interpretation class_gate:
  approval_gate should_run_solver gate_permits snd seen_classes blocked_classes
  by unfold_locales (auto simp: should_run_solver_def gate_permits_def Let_def fun_eq_iff)

lemma should_run_solver_config [gate_simps]:
  "gate_mode (snd (should_run_solver vc cl g)) = gate_mode g"
  "approved (snd (should_run_solver vc cl g)) = approved g"
  "approved_classes (snd (should_run_solver vc cl g)) = approved_classes g"
  by (simp_all add: should_run_solver_def Let_def)

lemmas gate_asked [gate_simps] =
  vc_gate.ask_answer vc_gate.ask_keeps vc_gate.ask_asked vc_gate.ask_refused
  class_gate.ask_asked class_gate.ask_refused

lemma gate_permits_Off: "gate_mode g = Hitl_Off \<Longrightarrow> gate_permits g vc cl"
  by (simp add: gate_permits_def)

section \<open>Properties\<close>

lemma last_sep_unique:
  assumes "xs @ c # ys = xs' @ c # ys'" "c \<notin> set ys" "c \<notin> set ys'"
  shows "xs = xs' \<and> ys = ys'"
proof -
  have "rev ys @ c # rev xs = rev ys' @ c # rev xs'"
    using arg_cong [OF assms(1), of rev] by simp
  moreover have "a @ c # b = a' @ c # b' \<Longrightarrow> c \<notin> set a \<Longrightarrow> c \<notin> set a' \<Longrightarrow> a = a' \<and> b = b'"
    for a a' b b'
  proof (induction a arbitrary: a')
    case Nil
    then show ?case by (cases a') auto
  next
    case (Cons x a)
    then show ?case by (cases a') auto
  qed
  ultimately show ?thesis using assms(2,3) by (metis rev_rev_ident set_rev)
qed

lemma not_digit_show_nat: "\<not> is_digit c \<Longrightarrow> c \<notin> set (show_nat n)"
  using show_nat_digits by blast

text \<open>Two conditions with the same identifier are the same kind of access at the same place.\<close>

lemma vc_id_inj:
  assumes eq: "vc_id f b i k = vc_id f' b' i' k'" and k: "CHR '':'' \<notin> set k" "CHR '':'' \<notin> set k'"
  shows "f = f' \<and> b = b' \<and> i = i' \<and> k = k'"
proof -
  have 1: "(f @ ''::bb'' @ show_nat b @ ''::i'' @ show_nat i @ '':'') = 
      (f' @ ''::bb'' @ show_nat b' @ ''::i'' @ show_nat i' @ '':'') \<and> k = k'"
    using eq k last_sep_unique [of "f @ ''::bb'' @ show_nat b @ ''::i'' @ show_nat i @ '':''" "CHR '':''" k
        "f' @ ''::bb'' @ show_nat b' @ ''::i'' @ show_nat i' @ '':''" k']
    by (simp add: vc_id_def)
  then have "(f @ ''::bb'' @ show_nat b @ ''::'') @ CHR ''i'' # show_nat i =
      (f' @ ''::bb'' @ show_nat b' @ ''::'') @ CHR ''i'' # show_nat i'"
    using append_same_eq [of _ "'':''"] by simp
  then have 2: "f @ ''::bb'' @ show_nat b @ ''::'' = f' @ ''::bb'' @ show_nat b' @ ''::'' \<and>
      show_nat i = show_nat i'"
    by (rule last_sep_unique) (simp_all add: not_digit_show_nat is_digit_def)
  then have "(f @ ''::b'') @ CHR ''b'' # show_nat b = (f' @ ''::b'') @ CHR ''b'' # show_nat b'"
    using append_same_eq [of _ "''::''"] by simp
  then have "f @ ''::b'' = f' @ ''::b'' \<and> show_nat b = show_nat b'"
    by (rule last_sep_unique) (simp_all add: not_digit_show_nat is_digit_def)
  then show ?thesis using 1 2 by simp
qed

lemma vc_class_id_inj: "vc_class_id k n = vc_class_id k' n' \<longleftrightarrow> k = k' \<and> n = n'"
proof
  assume "vc_class_id k n = vc_class_id k' n'"
  then have "(''class::'' @ k @ ''::siz'') @ CHR ''e'' # show_nat (unat n) =
      (''class::'' @ k' @ ''::siz'') @ CHR ''e'' # show_nat (unat n')"
    by (simp add: vc_class_id_def show_word_def)
  then have "''class::'' @ k @ ''::siz'' = ''class::'' @ k' @ ''::siz'' \<and>
      show_nat (unat n) = show_nat (unat n')"
    by (rule last_sep_unique) (simp_all add: not_digit_show_nat is_digit_def)
  then show "k = k' \<and> n = n'" by (simp add: word_unat_eq_iff)
qed simp

lemma sort_dedup_spec:
  "sorted (sort_dedup xs)" "distinct (sort_dedup xs)" "set (sort_dedup xs) = set xs"
  "length (sort_dedup xs) = distinct_count xs"
proof -
  show "sorted (sort_dedup xs)" by (simp add: sort_dedup_def)
  show d: "distinct (sort_dedup xs)" by (simp add: sort_dedup_def set_remdups_adj_sorted)
  show s: "set (sort_dedup xs) = set xs" by (simp add: sort_dedup_def)
  show "length (sort_dedup xs) = distinct_count xs"
    using d s by (simp add: distinct_count_card distinct_card [symmetric])
qed

lemma load_hitl_approvals_ok:
  assumes "load_hitl_approvals w p = Inr S"
  shows "\<exists>f. files w p = Some f \<and> secure_file w f \<and>
     S = {t. \<exists>l \<in> set (lines (content f)). t = trim l \<and> t \<noteq> [] \<and> \<not> starts_with ''#'' t}"
proof -
  obtain raw where "ensure_secure_owned_file w p ''HITL approvals file'' = Inr ()"
    and raw: "fs_read_to_string w p = Some raw"
    and S: "S = set (filter (\<lambda>t. \<not> (t = [] \<or> starts_with ''#'' t)) (map trim (lines raw)))"
    using assms by (auto simp: load_hitl_approvals_def split: sum.splits option.splits)
  then obtain f where f: "files w p = Some f" "secure_file w f"
    by (auto simp: ensure_secure_owned_file_iff)
  have "raw = content f" using raw f
    by (auto simp: fs_read_to_string_def fs_read_def target_def secure_file_def split: if_splits)
  then show ?thesis using f S by auto
qed

lemma enforce_hitl_policy_Pass:
  "enforce_hitl_policy r m n = Pass \<longleftrightarrow> r = Pass \<and> (m = Hitl_Off \<or> n = 0)"
  by (cases m) (auto simp: enforce_hitl_policy_def)

end
