(* ===== verification/Access_Check.thy ===== *)
theory Access_Check
  imports Hitl
begin

text \<open>
  The bound check of an access, \<open>check_access\<close> in \<open>skv-analyzer/src/main.rs\<close>, with the part of
  the \<open>z3\<close> crate it uses.

  The analyzer only builds closed linear terms over the mathematical integers, so the terms are a
  datatype with an evaluation. The solver is a stack of frames of asserted formulas with \<open>push\<close>,
  \<open>assert\<close>, \<open>check\<close> and \<open>pop\<close>; its state also keeps the list of queries it has been asked, so that
  the order of gate and solver can be stated. The decision procedure itself is the parameter
  \<open>check_sat\<close>; \<open>solver_sound\<close> is what is documented of it: an answer \<open>Sat\<close> or \<open>Unsat\<close> is right, and
  \<open>Unknown\<close> may always be given (the timeout is 5 seconds).
\<close>

section \<open>Terms and the solver\<close>

datatype Int_ast = Z_const int | Z_add Int_ast Int_ast | Z_sub Int_ast Int_ast

datatype Bool_ast = Z_gt Int_ast Int_ast | Z_lt Int_ast Int_ast | Z_or "Bool_ast list"

definition Int_from_u64 :: "u64 \<Rightarrow> Int_ast" where
  "Int_from_u64 w = Z_const (uint w)"

primrec ival :: "Int_ast \<Rightarrow> int" where
  "ival (Z_const n) = n"
| "ival (Z_add a b) = ival a + ival b"
| "ival (Z_sub a b) = ival a - ival b"

fun bval :: "Bool_ast \<Rightarrow> bool" where
  "bval (Z_gt a b) \<longleftrightarrow> ival a > ival b"
| "bval (Z_lt a b) \<longleftrightarrow> ival a < ival b"
| "bval (Z_or bs) \<longleftrightarrow> (\<exists>b \<in> set bs. bval b)"

lemma ival_from_u64 [simp]: "ival (Int_from_u64 w) = uint w"
  by (simp add: Int_from_u64_def)

datatype SatResult = Sat | Unsat | SatResult_Unknown

record Solver =
  frames :: "Bool_ast list list"
  queries :: "Bool_ast list list"

definition Solver_new :: Solver where
  "Solver_new = \<lparr>frames = [[]], queries = []\<rparr>"

definition solver_push :: "Solver \<Rightarrow> Solver" where
  "solver_push s = s\<lparr>frames := [] # frames s\<rparr>"

definition solver_assert :: "Bool_ast \<Rightarrow> Solver \<Rightarrow> Solver" where
  "solver_assert c s =
     s\<lparr>frames := (case frames s of [] \<Rightarrow> [[c]] | f # fs \<Rightarrow> (c # f) # fs)\<rparr>"

definition solver_check :: "(Bool_ast list \<Rightarrow> SatResult) \<Rightarrow> Solver \<Rightarrow> SatResult \<times> Solver" where
  "solver_check check_sat s =
     (check_sat (concat (frames s)), s\<lparr>queries := queries s @ [concat (frames s)]\<rparr>)"

definition solver_pop :: "nat \<Rightarrow> Solver \<Rightarrow> Solver" where
  "solver_pop n s = s\<lparr>frames := drop n (frames s)\<rparr>"

definition solver_sound :: "(Bool_ast list \<Rightarrow> SatResult) \<Rightarrow> bool" where
  "solver_sound check_sat \<longleftrightarrow>
     (\<forall>cs. (check_sat cs = Sat \<longrightarrow> list_all bval cs) \<and> (check_sat cs = Unsat \<longrightarrow> \<not> list_all bval cs))"

text \<open>A decision procedure that always answers; it evaluates the closed formulas.\<close>

definition deciding_check :: "Bool_ast list \<Rightarrow> SatResult" where
  "deciding_check cs = (if list_all bval cs then Sat else Unsat)"

lemma deciding_check_sound: "solver_sound deciding_check"
  by (simp add: solver_sound_def deciding_check_def)

section \<open>check\_access\<close>

datatype AccessCheckResult = Oob | Safe | SolverUnknown | HitlBlocked

definition oob_cond :: "Int_ast \<Rightarrow> Int_ast \<Rightarrow> u64 \<Rightarrow> Bool_ast" where
  "oob_cond alloc_size offset access_size =
     (let end = Z_add offset (Int_from_u64 access_size)
      in Z_or [Z_gt end alloc_size, Z_lt offset (Int_from_u64 0)])"

fun of_sat :: "SatResult \<Rightarrow> AccessCheckResult" where
  "of_sat Sat = Oob"
| "of_sat Unsat = Safe"
| "of_sat SatResult_Unknown = SolverUnknown"

definition check_access ::
  "(Bool_ast list \<Rightarrow> SatResult) \<Rightarrow> Int_ast \<Rightarrow> Int_ast \<Rightarrow> u64 \<Rightarrow> string \<Rightarrow> string \<Rightarrow>
   Solver \<Rightarrow> HitlGate \<Rightarrow> AccessCheckResult \<times> Solver \<times> HitlGate" where
  "check_access check_sat alloc_size offset access_size vc cl solver gate =
     (let (run, gate1) = should_run_solver vc cl gate
      in if \<not> run then (HitlBlocked, solver, gate1)
         else
           let s1 = solver_push solver;
               s2 = solver_assert (oob_cond alloc_size offset access_size) s1;
               (sat, s3) = solver_check check_sat s2;
               s4 = solver_pop 1 s3
           in (of_sat sat, s4, gate1))"

section \<open>Properties\<close>

text \<open>The specification of an access: it lies inside the allocation.\<close>

definition in_bounds :: "Int_ast \<Rightarrow> Int_ast \<Rightarrow> u64 \<Rightarrow> bool" where
  "in_bounds alloc_size offset access_size \<longleftrightarrow>
     0 \<le> ival offset \<and> ival offset + uint access_size \<le> ival alloc_size"

lemma oob_cond_iff: "bval (oob_cond sz off n) \<longleftrightarrow> \<not> in_bounds sz off n"
  by (auto simp: oob_cond_def in_bounds_def)

lemma check_access_eq:
  "check_access check_sat sz off n vc cl s g =
     (if gate_permits g vc cl
      then (of_sat (check_sat (oob_cond sz off n # concat (frames s))),
            s\<lparr>queries := queries s @ [oob_cond sz off n # concat (frames s)]\<rparr>,
            snd (should_run_solver vc cl g))
      else (HitlBlocked, s, snd (should_run_solver vc cl g)))"
proof -
  have "fst (should_run_solver vc cl g) = gate_permits g vc cl" by (rule vc_gate.ask_answer)
  then show ?thesis
    by (cases "should_run_solver vc cl g")
       (simp add: check_access_def Let_def solver_push_def solver_assert_def solver_check_def
          solver_pop_def)
qed

text \<open>The solver is left as it was found but for the log, and the gate decides alone whether it is
  asked at all.\<close>

lemma check_access_frames:
  "check_access check_sat sz off n vc cl s g = (r, s', g') \<Longrightarrow> frames s' = frames s"
  by (auto simp: check_access_eq split: if_splits)

lemma check_access_gate:
  "check_access check_sat sz off n vc cl s g = (r, s', g') \<Longrightarrow>
     g' = snd (should_run_solver vc cl g)"
  by (auto simp: check_access_eq split: if_splits)

lemma check_access_blocked:
  "check_access check_sat sz off n vc cl s g = (r, s', g') \<Longrightarrow>
     \<not> gate_permits g vc cl \<Longrightarrow> r = HitlBlocked \<and> s' = s"
  by (simp add: check_access_eq)

lemma check_access_Safe:
  assumes "solver_sound check_sat" "concat (frames s) = []"
    "check_access check_sat sz off n vc cl s g = (Safe, s', g')"
  shows "in_bounds sz off n"
proof -
  have "of_sat (check_sat [oob_cond sz off n]) = Safe"
    using assms(2,3) by (auto simp: check_access_eq simp del: concat_eq_Nil_conv split: if_splits)
  then have "check_sat [oob_cond sz off n] = Unsat"
    by (cases "check_sat [oob_cond sz off n]") simp_all
  then have "\<not> list_all bval [oob_cond sz off n]"
    using assms(1) unfolding solver_sound_def by blast
  then show ?thesis by (simp add: oob_cond_iff)
qed

lemma check_access_Oob:
  assumes "solver_sound check_sat" "concat (frames s) = []"
    "check_access check_sat sz off n vc cl s g = (Oob, s', g')"
  shows "\<not> in_bounds sz off n"
proof -
  have "of_sat (check_sat [oob_cond sz off n]) = Oob"
    using assms(2,3) by (auto simp: check_access_eq simp del: concat_eq_Nil_conv split: if_splits)
  then have "check_sat [oob_cond sz off n] = Sat"
    by (cases "check_sat [oob_cond sz off n]") simp_all
  then have "list_all bval [oob_cond sz off n]"
    using assms(1) unfolding solver_sound_def by blast
  then show ?thesis by (simp add: oob_cond_iff)
qed

end
