(* ===== verification/Analyzer.thy ===== *)
theory Analyzer
  imports LLVM_Module Type_Size Access_Check
begin

text \<open>
  The memory-safety analysis, \<open>analyze\<close> in \<open>skv-analyzer/src/main.rs\<close>, with the functions it calls.

  The local variables of \<open>analyze\<close> are the record \<open>astate\<close> (together with the gate, which it borrows
  mutably, and the solver); what stays fixed during one iteration of the innermost loop is the
  record \<open>actx\<close>. Every arm of the big \<open>match\<close> is a definition \<open>handle_...\<close> that returns the new state
  and how control goes on: \<open>Next\<close> (end of the arm or \<open>continue\<close>), \<open>Break\<close> (out of the instruction
  loop) or \<open>Crash\<close> (a panic in \<open>type_of\<close> or recursion deeper than the configured depth). The three
  loops are structural recursions over the instructions of a block, the blocks of a function and the
  functions of a module. Parameters: the decision procedure of Z3, the allowed recursion depth, and
  the order in which a \<open>HashSet\<close> is iterated.
\<close>

section \<open>Inline assembly\<close>

definition SAFE_ASM_PATTERNS :: "string list" where
  "SAFE_ASM_PATTERNS =
     [''rdtsc'', ''rdtscp'', ''cpuid'', ''pause'', ''mfence'', ''sfence'', ''lfence'', ''cli'',
      ''sti'', ''nop'', ''rep nop'', ''ud2'', ''int3'', ''wbinvd'', ''invlpg'', ''xgetbv'']"

definition is_safe_inline_asm :: "string \<Rightarrow> bool" where
  "is_safe_inline_asm asm_string =
     (let normalized = to_ascii_lowercase (trim asm_string)
      in list_ex (\<lambda>pattern. normalized = pattern \<or> starts_with pattern normalized) SAFE_ASM_PATTERNS
         \<or> normalized = [])"

section \<open>Abstract values and state\<close>

datatype PtrVal = Kmalloc nat Int_ast | DmaAlloc nat Int_ast | PtrVal_Unknown

datatype IntVal = PtrOffset nat Int_ast | IntVal_Unknown

fun ptrval_alloc_info :: "PtrVal \<Rightarrow> (nat \<times> Int_ast) option" where
  "ptrval_alloc_info (Kmalloc alloc_id offset) = Some (alloc_id, offset)"
| "ptrval_alloc_info (DmaAlloc alloc_id offset) = Some (alloc_id, offset)"
| "ptrval_alloc_info PtrVal_Unknown = None"

record config =
  check_sat :: "Bool_ast list \<Rightarrow> SatResult"
  max_depth :: nat
  inline_asm_policy :: InlineAsmPolicy
  dma_policy :: DmaPolicy
  set_iter :: "nat set \<Rightarrow> nat list"

record astate =
  ptr_env :: "Name \<rightharpoonup> PtrVal"
  int_env :: "Name \<rightharpoonup> IntVal"
  alloc_sizes :: "nat \<rightharpoonup> Int_ast"
  freed_allocs :: "nat set"
  alloc_counter :: nat
  final_result :: AnalysisResult
  alloca_store_map :: "Name \<rightharpoonup> PtrVal"
  alloca_names :: "Name set"
  inline_asm_vcs :: nat
  dma_vcs :: nat
  dma_allocs_in_func :: "nat set"
  iommu_mapped_in_func :: "nat set"
  irq_race_vcs :: nat
  hitl_gate :: HitlGate
  solver :: Solver

record actx =
  cfg :: config
  modul :: Module
  fname :: string
  bb_idx :: nat
  instr_idx :: nat
  has_irq_risk :: bool

datatype ctl = Next | Break | Crash

definition init_state :: "HitlGate \<Rightarrow> astate" where
  "init_state gate =
     \<lparr>ptr_env = Map.empty, int_env = Map.empty, alloc_sizes = Map.empty, freed_allocs = {},
      alloc_counter = 0, final_result = Pass, alloca_store_map = Map.empty, alloca_names = {},
      inline_asm_vcs = 0, dma_vcs = 0, dma_allocs_in_func = {}, iommu_mapped_in_func = {},
      irq_race_vcs = 0, hitl_gate = gate, solver = Solver_new\<rparr>"

definition mark :: "string \<Rightarrow> astate \<Rightarrow> astate" where
  "mark reason st = st\<lparr>final_result := mark_unknown reason (final_result st)\<rparr>"

definition fail :: "string \<Rightarrow> astate \<Rightarrow> astate" where
  "fail msg st = st\<lparr>final_result := Fail msg\<rparr>"

section \<open>Operands of calls\<close>

definition function_name_of_call :: "Call \<Rightarrow> string option" where
  "function_name_of_call call =
     (case call_function call of
        Inr (ConstantOperand (GlobalReference_c (Name s) _)) \<Rightarrow> Some s
      | _ \<Rightarrow> None)"

definition operand_const_u64 :: "Operand \<Rightarrow> u64 option" where
  "operand_const_u64 op = (case op of ConstantOperand (Int_c _ v) \<Rightarrow> Some v | _ \<Rightarrow> None)"

definition operand_local_name :: "Operand \<Rightarrow> Name option" where
  "operand_local_name op = (case op of LocalOperand nm _ \<Rightarrow> Some nm | _ \<Rightarrow> None)"

definition int_const_ast :: "Operand \<Rightarrow> Int_ast option" where
  "int_const_ast op = map_option Int_from_u64 (operand_const_u64 op)"

definition call_arg :: "Call \<Rightarrow> nat \<Rightarrow> Operand option" where
  "call_arg call i = map_option fst (vec_get (call_arguments call) i)"

section \<open>infer\_gep\_offset\<close>

text \<open>None: the run crashed (no type for the base, or recursion too deep). \<open>Some None\<close>: the offset
  cannot be inferred.\<close>

definition gep_elem_size :: "nat \<Rightarrow> Module \<Rightarrow> Operand \<Rightarrow> u64 option option" where
  "gep_elem_size depth m address =
     (case module_type_of m address of
        None \<Rightarrow> None
      | Some base_ty \<Rightarrow>
          (case base_ty of
             PointerType _ \<Rightarrow> Some (Some 8)
           | other \<Rightarrow> type_size depth (module_types m) other))"

fun gep_loop ::
  "nat \<Rightarrow> Module \<Rightarrow> Operand \<Rightarrow> nat \<Rightarrow> Operand list \<Rightarrow> Int_ast \<Rightarrow> Int_ast option option" where
  "gep_loop depth m address i [] computed = Some (Some computed)"
| "gep_loop depth m address i (idx # idxs) computed =
     (case operand_const_u64 idx of
        None \<Rightarrow> Some None
      | Some idx_val \<Rightarrow>
          (if i = 0 then
             (case gep_elem_size depth m address of
                None \<Rightarrow> None
              | Some None \<Rightarrow> Some None
              | Some (Some elem_size) \<Rightarrow>
                  gep_loop depth m address (Suc i) idxs
                    (Z_add computed (Int_from_u64 (saturating_mul idx_val elem_size))))
           else
             gep_loop depth m address (Suc i) idxs
               (Z_add computed (Int_from_u64 (saturating_mul idx_val 4)))))"

definition infer_gep_offset ::
  "nat \<Rightarrow> GetElementPtr \<Rightarrow> Int_ast \<Rightarrow> Module \<Rightarrow> Int_ast option option" where
  "infer_gep_offset depth gep base_offset m =
     gep_loop depth m (gep_address gep) 0 (gep_indices gep) base_offset"

section \<open>Interrupt handlers\<close>

definition func_instrs :: "Function \<Rightarrow> Instruction list" where
  "func_instrs f = concat (map instrs (basic_blocks f))"

definition irq_registration :: "Instruction \<Rightarrow> string option" where
  "irq_registration i =
     (case i of
        Call call \<Rightarrow>
          (if function_name_of_call call = Some ''request_irq'' then
             (case call_arg call 1 of
                Some (ConstantOperand (GlobalReference_c (Name s) _)) \<Rightarrow> Some s
              | _ \<Rightarrow> None)
           else None)
      | _ \<Rightarrow> None)"

definition is_kfree_call :: "Instruction \<Rightarrow> bool" where
  "is_kfree_call i =
     (case i of Call call \<Rightarrow> function_name_of_call call = Some ''kfree'' | _ \<Rightarrow> False)"

definition handler_names :: "Module \<Rightarrow> string set" where
  "handler_names m =
     set (List.map_filter irq_registration (concat (map func_instrs (module_functions m))))"

definition scan_irq_handlers :: "Module \<Rightarrow> string set" where
  "scan_irq_handlers m =
     set (map func_name
            (filter (\<lambda>f. func_name f \<in> handler_names m \<and> list_ex is_kfree_call (func_instrs f))
               (module_functions m)))"

section \<open>Allocation and release\<close>

definition fresh_alloc :: "u64 \<Rightarrow> (nat \<Rightarrow> Int_ast \<Rightarrow> PtrVal) \<Rightarrow> Name option \<Rightarrow> astate \<Rightarrow> astate" where
  "fresh_alloc sz mk dst st =
     (let i = alloc_counter st;
          st1 = st\<lparr>alloc_counter := i + 1,
                   alloc_sizes := (alloc_sizes st)(i \<mapsto> Int_from_u64 sz)\<rparr>
      in case dst of
           Some d \<Rightarrow> st1\<lparr>ptr_env := (ptr_env st1)(d \<mapsto> mk i (Int_from_u64 0))\<rparr>
         | None \<Rightarrow> st1)"

definition handle_alloca :: "Alloca \<Rightarrow> astate \<Rightarrow> ctl \<times> astate" where
  [handler_defs]: "handle_alloca i st = (Next, st\<lparr>alloca_names := insert (dest i) (alloca_names st)\<rparr>)"

definition handle_kmalloc :: "Call \<Rightarrow> astate \<Rightarrow> ctl \<times> astate" where
  [handler_defs]: "handle_kmalloc call st =
     (case call_arg call 0 of
        None \<Rightarrow> (Next, mark ''kmalloc/kzalloc missing size argument'' st)
      | Some size_op \<Rightarrow>
          (case operand_const_u64 size_op of
             None \<Rightarrow> (Next, mark ''kmalloc/kzalloc with non-constant size unsupported'' st)
           | Some sz \<Rightarrow> (Next, fresh_alloc sz Kmalloc (call_dest call) st)))"

definition handle_kcalloc :: "Call \<Rightarrow> astate \<Rightarrow> ctl \<times> astate" where
  [handler_defs]: "handle_kcalloc call st =
     (case call_arg call 0 of
        None \<Rightarrow> (Next, mark ''kcalloc missing nmemb argument'' st)
      | Some nmemb_op \<Rightarrow>
          (case call_arg call 1 of
             None \<Rightarrow> (Next, mark ''kcalloc missing size argument'' st)
           | Some size_op \<Rightarrow>
               (case (operand_const_u64 nmemb_op, operand_const_u64 size_op) of
                  (Some nmemb, Some elem_size) \<Rightarrow>
                    (case checked_mul nmemb elem_size of
                       None \<Rightarrow> (Break, fail ''kcalloc size multiplication overflow'' st)
                     | Some total_size \<Rightarrow>
                         (Next, fresh_alloc total_size Kmalloc (call_dest call) st))
                | _ \<Rightarrow> (Next, mark ''kcalloc with non-constant nmemb/size unsupported'' st))))"

definition handle_kfree :: "actx \<Rightarrow> Call \<Rightarrow> astate \<Rightarrow> ctl \<times> astate" where
  [handler_defs]: "handle_kfree ctx call st =
     (case call_arg call 0 of
        None \<Rightarrow> (Next, mark ''kfree missing pointer argument'' st)
      | Some ptr_op \<Rightarrow>
          (case operand_local_name ptr_op of
             None \<Rightarrow> (Next, mark ''kfree on non-local operand unsupported'' st)
           | Some nm \<Rightarrow>
               (case ptr_env st nm of
                  Some (Kmalloc alloc_id _) \<Rightarrow>
                    (if alloc_id \<in> freed_allocs st then
                       (Break, fail (''Double free detected in function '' @ fname ctx) st)
                     else (Next, st\<lparr>freed_allocs := insert alloc_id (freed_allocs st)\<rparr>))
                | _ \<Rightarrow> (Next, st))))"

section \<open>Bound checks\<close>

definition ctx_vc :: "actx \<Rightarrow> string \<Rightarrow> string" where
  "ctx_vc ctx knd = vc_id (fname ctx) (bb_idx ctx) (instr_idx ctx) knd"

definition bounds_check ::
  "actx \<Rightarrow> Int_ast \<Rightarrow> Int_ast \<Rightarrow> u64 \<Rightarrow> string \<Rightarrow> string \<Rightarrow> astate \<Rightarrow> AccessCheckResult \<times> astate" where
  "bounds_check ctx alloc_size offset access_size vc cl st =
     (let (r, s', g') = check_access (check_sat (cfg ctx)) alloc_size offset access_size vc cl
                          (solver st) (hitl_gate st)
      in (r, st\<lparr>solver := s', hitl_gate := g'\<rparr>))"

definition ask_gate :: "string \<Rightarrow> string \<Rightarrow> astate \<Rightarrow> bool \<times> astate" where
  "ask_gate vc cl st =
     (let (run, g') = should_run_solver vc cl (hitl_gate st) in (run, st\<lparr>hitl_gate := g'\<rparr>))"

text \<open>The \<open>match\<close> on the result of a bound check that memset, memcpy, store and load share: the
  message of an out-of-bounds access and of an undecided one differ.\<close>

definition on_check ::
  "string \<Rightarrow> string \<Rightarrow> string \<Rightarrow> AccessCheckResult \<times> astate \<Rightarrow> ctl \<times> astate" where
  "on_check oob_msg unknown_msg vc rs =
     (case fst rs of
        Oob \<Rightarrow> (Break, fail oob_msg (snd rs))
      | Safe \<Rightarrow> (Next, snd rs)
      | SolverUnknown \<Rightarrow> (Next, mark unknown_msg (snd rs))
      | HitlBlocked \<Rightarrow> (Next, mark (''HITL gate blocked unapproved VC: '' @ vc) (snd rs)))"

definition handle_memset :: "actx \<Rightarrow> Call \<Rightarrow> astate \<Rightarrow> ctl \<times> astate" where
  [handler_defs]: "handle_memset ctx call st =
     (case call_arg call 0 of
        None \<Rightarrow> (Next, st)
      | Some dest_op \<Rightarrow>
          (case call_arg call 2 of
             None \<Rightarrow> (Next, mark ''memset missing length argument'' st)
           | Some len_op \<Rightarrow>
               (case operand_local_name dest_op of
                  None \<Rightarrow> (Next, st)
                | Some dest_name \<Rightarrow>
                    (case operand_const_u64 len_op of
                       None \<Rightarrow> (Next, mark ''memset with non-constant length unsupported'' st)
                     | Some len \<Rightarrow>
                         (case ptr_env st dest_name of
                            Some (Kmalloc alloc_id offset) \<Rightarrow>
                              (if alloc_id \<in> freed_allocs st then
                                 (Break, fail (''Use-after-free in memset in function '' @ fname ctx) st)
                               else
                                 (case alloc_sizes st alloc_id of
                                    None \<Rightarrow> (Next, mark ''Missing allocation size metadata'' st)
                                  | Some alloc_size \<Rightarrow>
                                      let vc = ctx_vc ctx ''memset''
                                      in on_check
                                           (''Out-of-bounds memset in function '' @ fname ctx)
                                           ''Solver returned unknown for memset bound check'' vc
                                           (bounds_check ctx alloc_size offset len vc
                                              (vc_class_id ''memset'' len) st)))
                          | _ \<Rightarrow> (Next, st))))))"

text \<open>One turn of the loop over the two pointers of memcpy; \<open>Break\<close> leaves that loop only.\<close>

definition memcpy_side ::
  "actx \<Rightarrow> u64 \<Rightarrow> Operand \<Rightarrow> string \<Rightarrow> astate \<Rightarrow> ctl \<times> astate" where
  [handler_defs]: "memcpy_side ctx len op knd st =
     (case operand_local_name op of
        None \<Rightarrow> (Next, st)
      | Some nm \<Rightarrow>
          (case ptr_env st nm of
             Some (Kmalloc alloc_id offset) \<Rightarrow>
               (if alloc_id \<in> freed_allocs st then
                  (Break, fail (''Use-after-free in memcpy '' @ knd @ '' in function '' @ fname ctx) st)
                else
                  (case alloc_sizes st alloc_id of
                     None \<Rightarrow> (Next, mark ''Missing allocation size metadata'' st)
                   | Some alloc_size \<Rightarrow>
                       let vc = ctx_vc ctx (''memcpy_'' @ knd)
                       in on_check
                            (''Out-of-bounds memcpy '' @ knd @ '' in function '' @ fname ctx)
                            ''Solver returned unknown for memcpy bound check'' vc
                            (bounds_check ctx alloc_size offset len vc
                               (vc_class_id (''memcpy_'' @ knd) len) st)))
           | _ \<Rightarrow> (Next, st)))"

definition handle_memcpy :: "actx \<Rightarrow> Call \<Rightarrow> astate \<Rightarrow> ctl \<times> astate" where
  [handler_defs]: "handle_memcpy ctx call st =
     (case call_arg call 0 of
        None \<Rightarrow> (Next, st)
      | Some dest_op \<Rightarrow>
          (case call_arg call 1 of
             None \<Rightarrow> (Next, mark ''memcpy missing source argument'' st)
           | Some src_op \<Rightarrow>
               (case call_arg call 2 of
                  None \<Rightarrow> (Next, mark ''memcpy missing length argument'' st)
                | Some len_op \<Rightarrow>
                    (case operand_const_u64 len_op of
                       None \<Rightarrow> (Next, mark ''memcpy with non-constant length unsupported'' st)
                     | Some len \<Rightarrow>
                         let (c1, st1) = memcpy_side ctx len dest_op ''destination'' st;
                             st2 = (if c1 = Break then st1
                                    else snd (memcpy_side ctx len src_op ''source'' st1))
                         in (if is_Fail (final_result st2) then Break else Next, st2)))))"

section \<open>Inline assembly calls\<close>

definition handle_inline_asm :: "actx \<Rightarrow> Call \<Rightarrow> astate \<Rightarrow> ctl \<times> astate" where
  [handler_defs]: "handle_inline_asm ctx call st =
     (case call_function call of
        Inr _ \<Rightarrow> (Next, st)
      | Inl asm \<Rightarrow>
          (case inline_asm_policy (cfg ctx) of
             Trap \<Rightarrow>
               (Break, fail (''Inline assembly detected in function '' @ fname ctx @ '' (trap policy)'')
                  (st\<lparr>inline_asm_vcs := inline_asm_vcs st + 1\<rparr>))
           | Conservative \<Rightarrow>
               (if is_safe_inline_asm (assembly asm) then (Next, st)
                else
                  let st1 = st\<lparr>inline_asm_vcs := inline_asm_vcs st + 1\<rparr>;
                      vc = ctx_vc ctx ''inline_asm'';
                      (run, st2) = ask_gate vc ''class::inline_asm::opaque'' st1
                  in if \<not> run then (Next, mark (''HITL gate blocked inline asm VC: '' @ vc) st2)
                     else
                       (Next, mark (''Opaque inline assembly in function '' @ fname ctx @ '': '' @
                                [CHR 0x27] @ assembly asm @ [CHR 0x27]) st2))))"

section \<open>DMA calls\<close>

definition handle_dma_alloc :: "actx \<Rightarrow> Call \<Rightarrow> astate \<Rightarrow> ctl \<times> astate" where
  [handler_defs]: "handle_dma_alloc ctx call st =
     (case call_arg call 1 of
        None \<Rightarrow> (Next, mark ''dma_alloc_coherent missing size argument'' st)
      | Some size_op \<Rightarrow>
          (case operand_const_u64 size_op of
             None \<Rightarrow> (Next, mark ''dma_alloc_coherent with non-constant size'' st)
           | Some sz \<Rightarrow>
               let i = alloc_counter st;
                   st1 = fresh_alloc sz DmaAlloc (call_dest call) st;
                   st2 = st1\<lparr>dma_allocs_in_func := insert i (dma_allocs_in_func st1),
                             dma_vcs := dma_vcs st1 + 1\<rparr>
               in (Next, snd (ask_gate (ctx_vc ctx ''dma_alloc'') (vc_class_id ''dma_alloc'' sz) st2))))"

definition on_dma_check :: "actx \<Rightarrow> string \<Rightarrow> AccessCheckResult \<times> astate \<Rightarrow> ctl \<times> astate" where
  "on_dma_check ctx vc rs =
     (let st1 = (snd rs)\<lparr>dma_vcs := dma_vcs (snd rs) + 1\<rparr>
      in case fst rs of
           Oob \<Rightarrow> (Break, fail (''DMA mapping exceeds allocation bounds in function '' @ fname ctx) st1)
         | Safe \<Rightarrow> (Next, snd rs)
         | SolverUnknown \<Rightarrow> (Next, mark ''Solver unknown for DMA mapping bound check'' st1)
         | HitlBlocked \<Rightarrow> (Next, mark (''HITL gate blocked DMA VC: '' @ vc) st1))"

definition handle_dma_map :: "actx \<Rightarrow> Call \<Rightarrow> astate \<Rightarrow> ctl \<times> astate" where
  [handler_defs]: "handle_dma_map ctx call st =
     (case call_arg call 1 of
        None \<Rightarrow> (Next, mark ''dma_map_single missing ptr argument'' st)
      | Some ptr_op \<Rightarrow>
          (case call_arg call 2 of
             None \<Rightarrow> (Next, mark ''dma_map_single missing size argument'' st)
           | Some size_op \<Rightarrow>
               (case operand_const_u64 size_op of
                  None \<Rightarrow> (Next, mark ''dma_map_single with non-constant size'' st)
                | Some map_size \<Rightarrow>
                    (case operand_local_name ptr_op of
                       None \<Rightarrow> (Next, st)
                     | Some nm \<Rightarrow>
                         (case ptr_env st nm of
                            None \<Rightarrow> (Next, st)
                          | Some pv \<Rightarrow>
                              (case ptrval_alloc_info pv of
                                 None \<Rightarrow> (Next, st)
                               | Some (alloc_id, offset) \<Rightarrow>
                                   (case alloc_sizes st alloc_id of
                                      None \<Rightarrow> (Next, st)
                                    | Some alloc_size \<Rightarrow>
                                        let vc = ctx_vc ctx ''dma_map''
                                        in on_dma_check ctx vc
                                             (bounds_check ctx alloc_size offset map_size vc
                                                (vc_class_id ''dma_bounds'' map_size) st))))))))"

definition handle_iommu_map :: "astate \<Rightarrow> ctl \<times> astate" where
  [handler_defs]: "handle_iommu_map st =
     (Next, st\<lparr>iommu_mapped_in_func := iommu_mapped_in_func st \<union> dma_allocs_in_func st\<rparr>)"

section \<open>Calls\<close>

definition handle_call :: "actx \<Rightarrow> Call \<Rightarrow> astate \<Rightarrow> ctl \<times> astate" where
  "handle_call ctx call st =
     (if is_Fail (final_result st) then (Break, st)
      else
        case function_name_of_call call of
          None \<Rightarrow> handle_inline_asm ctx call st
        | Some nm \<Rightarrow>
            if nm = ''kmalloc'' \<or> nm = ''kzalloc'' then handle_kmalloc call st
            else if nm = ''kcalloc'' then handle_kcalloc call st
            else if nm = ''kfree'' then handle_kfree ctx call st
            else if nm = ''memset'' then handle_memset ctx call st
            else if nm = ''memcpy'' \<or> nm = ''__memcpy'' then handle_memcpy ctx call st
            else if nm = ''dma_alloc_coherent'' \<and> dma_policy (cfg ctx) \<noteq> Dma_Ignore then
              handle_dma_alloc ctx call st
            else if nm = ''dma_map_single'' \<and> dma_policy (cfg ctx) \<noteq> Dma_Ignore then
              handle_dma_map ctx call st
            else if nm = ''iommu_map'' then handle_iommu_map st
            else (Next, st))"

section \<open>Pointer arithmetic\<close>

definition set_ptr :: "Name \<Rightarrow> PtrVal \<Rightarrow> astate \<Rightarrow> astate" where
  "set_ptr nm v st = st\<lparr>ptr_env := (ptr_env st)(nm \<mapsto> v)\<rparr>"

definition set_int :: "Name \<Rightarrow> IntVal \<Rightarrow> astate \<Rightarrow> astate" where
  "set_int nm v st = st\<lparr>int_env := (int_env st)(nm \<mapsto> v)\<rparr>"

definition gep_result ::
  "actx \<Rightarrow> GetElementPtr \<Rightarrow> (nat \<Rightarrow> Int_ast \<Rightarrow> PtrVal) \<Rightarrow> nat \<Rightarrow> Int_ast \<Rightarrow> string \<Rightarrow> astate \<Rightarrow> ctl \<times> astate" where
  [handler_defs]: "gep_result ctx gep mk alloc_id offset msg st =
     (case infer_gep_offset (max_depth (cfg ctx)) gep offset (modul ctx) of
        None \<Rightarrow> (Crash, st)
      | Some (Some new_offset) \<Rightarrow> (Next, set_ptr (dest gep) (mk alloc_id new_offset) st)
      | Some None \<Rightarrow> (Next, mark msg (set_ptr (dest gep) PtrVal_Unknown st)))"

definition handle_gep :: "actx \<Rightarrow> GetElementPtr \<Rightarrow> astate \<Rightarrow> ctl \<times> astate" where
  [handler_defs]: "handle_gep ctx gep st =
     (case gep_address gep of
        LocalOperand base_name _ \<Rightarrow>
          (case (case ptr_env st base_name of
                   Some v \<Rightarrow> Some v
                 | None \<Rightarrow> alloca_store_map st base_name) of
             Some (Kmalloc alloc_id offset) \<Rightarrow>
               gep_result ctx gep Kmalloc alloc_id offset
                 ''GEP with unsupported index/type pattern'' st
           | Some (DmaAlloc alloc_id offset) \<Rightarrow>
               gep_result ctx gep DmaAlloc alloc_id offset
                 ''GEP with unsupported index/type pattern (DMA)'' st
           | _ \<Rightarrow> (Next, set_ptr (dest gep) PtrVal_Unknown st))
      | _ \<Rightarrow> (Next, mark ''GEP base is not a local operand''
                (set_ptr (dest gep) PtrVal_Unknown st)))"

definition handle_ptrtoint :: "PtrToInt \<Rightarrow> astate \<Rightarrow> ctl \<times> astate" where
  [handler_defs]: "handle_ptrtoint cast st =
     (case operand cast of
        LocalOperand base_name _ \<Rightarrow>
          (Next, set_int (dest cast)
             (case ptr_env st base_name of
                Some (Kmalloc alloc_id offset) \<Rightarrow> PtrOffset alloc_id offset
              | _ \<Rightarrow> IntVal_Unknown) st)
      | _ \<Rightarrow> (Next, mark ''PtrToInt from non-local operand unsupported''
                (set_int (dest cast) IntVal_Unknown st)))"

definition handle_inttoptr :: "IntToPtr \<Rightarrow> astate \<Rightarrow> ctl \<times> astate" where
  [handler_defs]: "handle_inttoptr cast st =
     (case operand cast of
        LocalOperand base_name _ \<Rightarrow>
          (Next, set_ptr (dest cast)
             (case int_env st base_name of
                Some (PtrOffset alloc_id offset) \<Rightarrow> Kmalloc alloc_id offset
              | _ \<Rightarrow> PtrVal_Unknown) st)
      | _ \<Rightarrow> (Next, mark ''IntToPtr from non-local operand unsupported''
                (set_ptr (dest cast) PtrVal_Unknown st)))"

definition operand_int_val :: "astate \<Rightarrow> Operand \<Rightarrow> IntVal option" where
  "operand_int_val st op = Option.bind (operand_local_name op) (int_env st)"

definition handle_add :: "Add \<Rightarrow> astate \<Rightarrow> ctl \<times> astate" where
  [handler_defs]: "handle_add add st =
     (let lhs_ptr = operand_int_val st (operand0 add);
          rhs_ptr = operand_int_val st (operand1 add);
          tracked = (lhs_ptr \<noteq> None \<or> rhs_ptr \<noteq> None);
          out = (case lhs_ptr of
                   Some (PtrOffset alloc_id offset) \<Rightarrow>
                     map_option (\<lambda>rhs. PtrOffset alloc_id (Z_add offset rhs))
                       (int_const_ast (operand1 add))
                 | _ \<Rightarrow>
                     (case rhs_ptr of
                        Some (PtrOffset alloc_id offset) \<Rightarrow>
                          map_option (\<lambda>lhs. PtrOffset alloc_id (Z_add offset lhs))
                            (int_const_ast (operand0 add))
                      | _ \<Rightarrow> None))
      in case out of
           Some v \<Rightarrow> (Next, set_int (dest add) v st)
         | None \<Rightarrow>
             if tracked then
               (Next, mark ''Unsupported pointer-derived integer add pattern''
                  (set_int (dest add) IntVal_Unknown st))
             else (Next, st))"

definition handle_sub :: "Sub \<Rightarrow> astate \<Rightarrow> ctl \<times> astate" where
  [handler_defs]: "handle_sub sub st =
     (let lhs_ptr = operand_int_val st (operand0 sub);
          rhs_ptr = operand_int_val st (operand1 sub);
          rhs_was_ptr = (rhs_ptr \<noteq> None);
          tracked = (lhs_ptr \<noteq> None \<or> rhs_was_ptr);
          out = (case lhs_ptr of
                   Some (PtrOffset alloc_id offset) \<Rightarrow>
                     map_option (\<lambda>rhs. PtrOffset alloc_id (Z_sub offset rhs))
                       (int_const_ast (operand1 sub))
                 | _ \<Rightarrow> None);
          st1 = (case out of
                   Some v \<Rightarrow> set_int (dest sub) v st
                 | None \<Rightarrow>
                     if tracked then
                       mark ''Unsupported pointer-derived integer sub pattern''
                         (set_int (dest sub) IntVal_Unknown st)
                     else st)
      in (Next,
          if rhs_was_ptr then
            mark ''Subtracting pointer-derived integer as RHS is unsupported'' st1
          else st1))"

definition handle_bitcast :: "BitCast \<Rightarrow> astate \<Rightarrow> ctl \<times> astate" where
  [handler_defs]: "handle_bitcast cast st =
     (case operand cast of
        LocalOperand base_name _ \<Rightarrow>
          (Next, set_ptr (dest cast) (unwrap_or (ptr_env st base_name) PtrVal_Unknown) st)
      | _ \<Rightarrow> (Next, mark ''BitCast from non-local operand unsupported''
                (set_ptr (dest cast) PtrVal_Unknown st)))"

section \<open>Loads and stores\<close>

text \<open>The check for a racing interrupt handler that follows the bound check of a load or store.\<close>

definition irq_race_check :: "actx \<Rightarrow> string \<Rightarrow> string \<Rightarrow> nat \<Rightarrow> astate \<Rightarrow> astate" where
  "irq_race_check ctx knd what alloc_id st =
     (if has_irq_risk ctx then
        let vc = ctx_vc ctx knd;
            st1 = st\<lparr>irq_race_vcs := irq_race_vcs st + 1\<rparr>;
            (run, st2) = ask_gate vc (''class::irq_race::alloc'' @ show_nat alloc_id) st1
        in if \<not> run then mark (''HITL gate blocked IRQ race VC: '' @ vc) st2
           else mark (''Potential IRQ race: interrupt handler may free allocation '' @
                  show_nat alloc_id @ '' before '' @ what @ '' in '' @ fname ctx) st2
      else st)"

text \<open>The part of the load and store arms that checks an access of the given type through \<open>pv\<close>;
  None as type stands for a panic while the type was computed.\<close>

definition check_deref ::
  "actx \<Rightarrow> string \<Rightarrow> string \<Rightarrow> PtrVal \<Rightarrow> TypeRef option \<Rightarrow> astate \<Rightarrow> ctl \<times> astate" where
  [handler_defs]: "check_deref ctx what no_size_msg pv ty st =
     (case ptrval_alloc_info pv of
        None \<Rightarrow> (Next, st)
      | Some (alloc_id, offset) \<Rightarrow>
          (if alloc_id \<in> freed_allocs st then
             (Break, fail (''Use-after-free '' @ what @ '' in function '' @ fname ctx) st)
           else
             (case Option.bind ty (type_size (max_depth (cfg ctx)) (module_types (modul ctx))) of
                None \<Rightarrow> (Crash, st)
              | Some None \<Rightarrow> (Next, mark no_size_msg st)
              | Some (Some sz) \<Rightarrow>
                  (case alloc_sizes st alloc_id of
                     None \<Rightarrow> (Next, mark ''Missing allocation size metadata'' st)
                   | Some alloc_size \<Rightarrow>
                       let vc = ctx_vc ctx what;
                           (c, st1) = on_check
                             (''Out-of-bounds '' @ what @ '' in function '' @ fname ctx)
                             (''Solver returned unknown for '' @ what @ '' bound check'') vc
                             (bounds_check ctx alloc_size offset sz vc (vc_class_id what sz) st)
                       in if c = Break then (Break, st1)
                          else (Next, irq_race_check ctx (''irq_race_'' @ what) what alloc_id st1)))))"

definition spill_pointer :: "Name \<Rightarrow> Operand \<Rightarrow> astate \<Rightarrow> astate" where
  "spill_pointer dest_name val st =
     (if dest_name \<in> alloca_names st then
        (case val of
           LocalOperand val_name _ \<Rightarrow>
             (case ptr_env st val_name of
                Some pv \<Rightarrow> st\<lparr>alloca_store_map := (alloca_store_map st)(dest_name \<mapsto> pv)\<rparr>
              | None \<Rightarrow> st)
         | _ \<Rightarrow> st)
      else st)"

definition handle_store :: "actx \<Rightarrow> Store \<Rightarrow> astate \<Rightarrow> ctl \<times> astate" where
  [handler_defs]: "handle_store ctx store st =
     (case store_address store of
        LocalOperand dest_name _ \<Rightarrow>
          let st1 = spill_pointer dest_name (store_value store) st
          in (case ptr_env st1 dest_name of
                None \<Rightarrow> (Next, st1)
              | Some pv \<Rightarrow>
                  check_deref ctx ''store'' ''Store with unknown value type size'' pv
                    (module_type_of (modul ctx) (store_value store)) st1)
      | _ \<Rightarrow> (Next, st))"

definition reload_pointer :: "Name \<Rightarrow> Name \<Rightarrow> astate \<Rightarrow> astate" where
  "reload_pointer src_name dst st =
     (if src_name \<in> alloca_names st then
        (case alloca_store_map st src_name of
           Some pv \<Rightarrow> set_ptr dst pv st
         | None \<Rightarrow> st)
      else st)"

definition handle_load :: "actx \<Rightarrow> Load \<Rightarrow> astate \<Rightarrow> ctl \<times> astate" where
  [handler_defs]: "handle_load ctx load st =
     (case load_address load of
        LocalOperand src_name _ \<Rightarrow>
          let st1 = reload_pointer src_name (dest load) st
          in (case ptr_env st1 src_name of
                None \<Rightarrow> (Next, st1)
              | Some pv \<Rightarrow>
                  check_deref ctx ''load'' ''Load with unknown type size'' pv
                    (Some (loaded_ty load)) st1)
      | _ \<Rightarrow> (Next, st))"

section \<open>The loops\<close>

definition step_instr :: "actx \<Rightarrow> Instruction \<Rightarrow> astate \<Rightarrow> ctl \<times> astate" where
  "step_instr ctx instr st =
     (case instr of
        Alloca i \<Rightarrow> handle_alloca i st
      | Call call \<Rightarrow> handle_call ctx call st
      | GetElementPtr gep \<Rightarrow> handle_gep ctx gep st
      | PtrToInt cast \<Rightarrow> handle_ptrtoint cast st
      | IntToPtr cast \<Rightarrow> handle_inttoptr cast st
      | Add add \<Rightarrow> handle_add add st
      | Sub sub \<Rightarrow> handle_sub sub st
      | BitCast cast \<Rightarrow> handle_bitcast cast st
      | Store store \<Rightarrow> handle_store ctx store st
      | Load load \<Rightarrow> handle_load ctx load st
      | _ \<Rightarrow> (Next, st))"

text \<open>Leaving the instruction loop by \<open>break\<close> or at its end is the same to the caller; only a crash
  is passed on.\<close>

fun run_instrs :: "actx \<Rightarrow> Instruction list \<Rightarrow> astate \<Rightarrow> ctl \<times> astate" where
  "run_instrs ctx [] st = (Next, st)"
| "run_instrs ctx (instr # rest) st =
     (case step_instr ctx instr st of
        (Next, st') \<Rightarrow> run_instrs (ctx\<lparr>instr_idx := instr_idx ctx + 1\<rparr>) rest st'
      | (Break, st') \<Rightarrow> (Break, st')
      | (Crash, st') \<Rightarrow> (Crash, st'))"

fun run_blocks :: "actx \<Rightarrow> BasicBlock list \<Rightarrow> astate \<Rightarrow> ctl \<times> astate" where
  "run_blocks ctx [] st = (Next, st)"
| "run_blocks ctx (bb # rest) st =
     (case run_instrs (ctx\<lparr>instr_idx := 0\<rparr>) (instrs bb) st of
        (Crash, st') \<Rightarrow> (Crash, st')
      | (_, st') \<Rightarrow>
          if is_Fail (final_result st') then (Break, st')
          else run_blocks (ctx\<lparr>bb_idx := bb_idx ctx + 1\<rparr>) rest st')"

fun run_functions :: "actx \<Rightarrow> Function list \<Rightarrow> astate \<Rightarrow> ctl \<times> astate" where
  "run_functions ctx [] st = (Next, st)"
| "run_functions ctx (f # rest) st =
     (case run_blocks (ctx\<lparr>fname := func_name f, bb_idx := 0\<rparr>) (basic_blocks f) st of
        (Crash, st') \<Rightarrow> (Crash, st')
      | (_, st') \<Rightarrow>
          if is_Fail (final_result st') then (Break, st')
          else run_functions ctx rest st')"

definition init_ctx :: "config \<Rightarrow> Module \<Rightarrow> actx" where
  "init_ctx c m =
     \<lparr>cfg = c, modul = m, fname = [], bb_idx = 0, instr_idx = 0,
      has_irq_risk = (scan_irq_handlers m \<noteq> {})\<rparr>"

definition enforce_iommu :: "config \<Rightarrow> astate \<Rightarrow> astate" where
  "enforce_iommu c st =
     (if dma_policy c = RequireIommu then
        (case find (\<lambda>i. i \<notin> iommu_mapped_in_func st) (set_iter c (dma_allocs_in_func st)) of
           Some i \<Rightarrow>
             fail (''DMA allocation '' @ show_nat i @
                   '' has no paired iommu_map call (require-iommu policy)'') st
         | None \<Rightarrow> st)
      else st)"

record AnalysisOutcome =
  oc_result :: AnalysisResult
  oc_hitl_seen_vcs :: nat
  oc_hitl_blocked_vcs :: nat
  oc_hitl_seen_classes :: nat
  oc_hitl_blocked_classes :: nat
  oc_inline_asm_vcs :: nat
  oc_dma_vcs :: nat
  oc_irq_race_vcs :: nat

definition outcome_of :: "astate \<Rightarrow> AnalysisOutcome" where
  "outcome_of st =
     \<lparr>oc_result = final_result st,
      oc_hitl_seen_vcs = distinct_count (seen (hitl_gate st)),
      oc_hitl_blocked_vcs = distinct_count (blocked (hitl_gate st)),
      oc_hitl_seen_classes = distinct_count (seen_classes (hitl_gate st)),
      oc_hitl_blocked_classes = distinct_count (blocked_classes (hitl_gate st)),
      oc_inline_asm_vcs = inline_asm_vcs st, oc_dma_vcs = dma_vcs st,
      oc_irq_race_vcs = irq_race_vcs st\<rparr>"

text \<open>The last state of the run; None when it crashed.\<close>

definition final_state :: "config \<Rightarrow> Module \<Rightarrow> HitlGate \<Rightarrow> astate option" where
  "final_state c m gate =
     (case run_functions (init_ctx c m) (module_functions m) (init_state gate) of
        (Crash, _) \<Rightarrow> None
      | (_, st) \<Rightarrow> Some (enforce_iommu c st))"

definition analyze :: "config \<Rightarrow> Module \<Rightarrow> HitlGate \<Rightarrow> (AnalysisOutcome \<times> HitlGate) option" where
  "analyze c m gate =
     map_option (\<lambda>st. (outcome_of st, hitl_gate st)) (final_state c m gate)"

end
