(* ===== verification/Analyzer_Steps.thy ===== *)
theory Analyzer_Steps
  imports Analyzer
begin

text \<open>
  The analysis as a state machine. The relation \<open>upd\<close> lists the elementary updates that the
  handlers of \<open>analyze\<close> compose; every handler is a sequence of them (\<open>step_upds\<close>), ends its block
  exactly when it fails, and so invariants are proved by rule induction on \<open>upd\<close> alone. The locale
  \<open>analysis_preorder\<close> carries a reflexive and transitive relation between states from one step to
  the three loops and to every state the run goes through; \<open>analysis_invariant\<close> is its instance for a
  property of states. \<open>trace\<close> is the list of instructions the run visits, each with the context and
  the state in which it is visited.
\<close>

section \<open>Elementary updates\<close>

text \<open>The allocation \<open>a\<close> can be named by some abstract value of the state.\<close>

definition tracks :: "astate \<Rightarrow> nat \<Rightarrow> bool" where
  "tracks st a \<longleftrightarrow>
     (\<exists>nm pv off. (ptr_env st nm = Some pv \<or> alloca_store_map st nm = Some pv) \<and>
        ptrval_alloc_info pv = Some (a, off)) \<or>
     (\<exists>nm off. int_env st nm = Some (PtrOffset a off))"

definition ptr_ok :: "astate \<Rightarrow> PtrVal \<Rightarrow> bool" where
  "ptr_ok st pv \<longleftrightarrow> (\<forall>a off. ptrval_alloc_info pv = Some (a, off) \<longrightarrow> tracks st a)"

definition int_ok :: "astate \<Rightarrow> IntVal \<Rightarrow> bool" where
  "int_ok st v \<longleftrightarrow> (\<forall>a off. v = PtrOffset a off \<longrightarrow> tracks st a)"

inductive upd :: "actx \<Rightarrow> astate \<Rightarrow> astate \<Rightarrow> bool" for ctx where
  mark: "upd ctx st (mark r st)"
| fail: "\<not> is_Fail (final_result st) \<Longrightarrow> upd ctx st (fail msg st)"
| alloca: "upd ctx st (st\<lparr>alloca_names := insert nm (alloca_names st)\<rparr>)"
| kmalloc: "upd ctx st (fresh_alloc sz Kmalloc d st)"
| dma_alloc: "dma_policy (cfg ctx) \<noteq> Dma_Ignore \<Longrightarrow>
    st1 = fresh_alloc sz DmaAlloc d st \<Longrightarrow>
    upd ctx st (st1\<lparr>dma_allocs_in_func := insert (alloc_counter st) (dma_allocs_in_func st1),
                    dma_vcs := Suc (dma_vcs st1)\<rparr>)"
| free: "ptr_env st nm = Some (Kmalloc a off) \<Longrightarrow> a \<notin> freed_allocs st \<Longrightarrow>
    upd ctx st (st\<lparr>freed_allocs := insert a (freed_allocs st)\<rparr>)"
| ptr: "ptr_ok st pv \<Longrightarrow> upd ctx st (set_ptr nm pv st)"
| int: "int_ok st v \<Longrightarrow> upd ctx st (set_int nm v st)"
| spill: "ptr_ok st pv \<Longrightarrow> upd ctx st (st\<lparr>alloca_store_map := (alloca_store_map st)(nm \<mapsto> pv)\<rparr>)"
| ask: "upd ctx st (snd (ask_gate vc cl st))"
| check: "upd ctx st (snd (bounds_check ctx sz off n vc cl st))"
| asm_count: "upd ctx st (st\<lparr>inline_asm_vcs := Suc (inline_asm_vcs st)\<rparr>)"
| dma_count: "dma_policy (cfg ctx) \<noteq> Dma_Ignore \<Longrightarrow> upd ctx st (st\<lparr>dma_vcs := Suc (dma_vcs st)\<rparr>)"
| irq_count: "has_irq_risk ctx \<Longrightarrow> upd ctx st (st\<lparr>irq_race_vcs := Suc (irq_race_vcs st)\<rparr>)"
| iommu: "upd ctx st (st\<lparr>iommu_mapped_in_func := iommu_mapped_in_func st \<union> dma_allocs_in_func st\<rparr>)"

abbreviation upds :: "actx \<Rightarrow> astate \<Rightarrow> astate \<Rightarrow> bool" where
  "upds ctx \<equiv> (upd ctx)\<^sup>*\<^sup>*"

lemma ptr_ok_lookup:
  "ptr_env st nm = Some pv \<Longrightarrow> ptr_ok st pv"
  "alloca_store_map st nm = Some pv \<Longrightarrow> ptr_ok st pv"
  by (auto simp: ptr_ok_def tracks_def)

lemma ptr_ok_Unknown [simp]: "ptr_ok st PtrVal_Unknown"
  by (simp add: ptr_ok_def)

lemma int_ok_Unknown [simp]: "int_ok st IntVal_Unknown"
  by (simp add: int_ok_def)

lemma tracks_intros:
  "ptr_env st nm = Some (Kmalloc a off) \<Longrightarrow> tracks st a"
  "ptr_env st nm = Some (DmaAlloc a off) \<Longrightarrow> tracks st a"
  "alloca_store_map st nm = Some (Kmalloc a off) \<Longrightarrow> tracks st a"
  "alloca_store_map st nm = Some (DmaAlloc a off) \<Longrightarrow> tracks st a"
  "int_env st nm = Some (PtrOffset a off) \<Longrightarrow> tracks st a"
  by (force simp: tracks_def)+

lemma ptr_ok_tracks [simp]:
  "ptr_ok st (Kmalloc a off) \<longleftrightarrow> tracks st a" "ptr_ok st (DmaAlloc a off) \<longleftrightarrow> tracks st a"
  "int_ok st (PtrOffset a off) \<longleftrightarrow> tracks st a"
  by (auto simp: ptr_ok_def int_ok_def)

section \<open>Handlers are sequences of updates\<close>

definition does :: "actx \<Rightarrow> astate \<Rightarrow> ctl \<times> astate \<Rightarrow> bool" where
  "does ctx st r \<longleftrightarrow> upds ctx st (snd r)"

text \<open>How a handler ends: it breaks out of the block exactly when it fails.\<close>

definition ends :: "ctl \<times> astate \<Rightarrow> bool" where
  "ends r \<longleftrightarrow> (fst r = Break \<longrightarrow> is_Fail (final_result (snd r))) \<and>
     (fst r = Next \<longrightarrow> \<not> is_Fail (final_result (snd r))) \<and>
     (fst r = Crash \<longrightarrow> \<not> is_Fail (final_result (snd r)))"

lemma ends_simps [simp]:
  "ends (Next, st) \<longleftrightarrow> \<not> is_Fail (final_result st)"
  "ends (Crash, st) \<longleftrightarrow> \<not> is_Fail (final_result st)"
  "ends (Break, st) \<longleftrightarrow> is_Fail (final_result st)"
  by (simp_all add: ends_def)

lemma final_result_simps [simp]:
  "final_result (mark r st) = mark_unknown r (final_result st)"
  "final_result (fail msg st) = Fail msg"
  "final_result (set_ptr nm pv st) = final_result st"
  "final_result (set_int nm v st) = final_result st"
  "final_result (fresh_alloc sz mk d st) = final_result st"
  "final_result (snd (ask_gate vc cl st)) = final_result st"
  "final_result (snd (bounds_check ctx asz off n vc cl st)) = final_result st"
  "final_result (spill_pointer nm val st) = final_result st"
  "final_result (reload_pointer nm nm' st) = final_result st"
  by (simp_all add: mark_def fail_def set_ptr_def set_int_def fresh_alloc_def ask_gate_def
      bounds_check_def spill_pointer_def reload_pointer_def Let_def split: option.split
      prod.split Operand.split)

lemma upds_mark: "upds ctx st st' \<Longrightarrow> upds ctx st (mark r st')"
  by (rule rtranclp.rtrancl_into_rtrancl) (auto intro: upd.mark)

lemma upds_fail: "upds ctx st st' \<Longrightarrow> \<not> is_Fail (final_result st') \<Longrightarrow> upds ctx st (fail msg st')"
  by (rule rtranclp.rtrancl_into_rtrancl) (auto intro: upd.fail)

lemma upds_ask: "upds ctx st st' \<Longrightarrow> upds ctx st (snd (ask_gate vc cl st'))"
  by (rule rtranclp.rtrancl_into_rtrancl) (auto intro: upd.ask)

lemma upds_check: "upds ctx st st' \<Longrightarrow> upds ctx st (snd (bounds_check ctx sz off n vc cl st'))"
  by (rule rtranclp.rtrancl_into_rtrancl) (auto intro: upd.check)

lemma upds_step: "upds ctx st st' \<Longrightarrow> upd ctx st' st'' \<Longrightarrow> upds ctx st st''"
  by (rule rtranclp.rtrancl_into_rtrancl)

lemma on_check_does:
  assumes "upds ctx st st'" "\<not> is_Fail (final_result st')"
  shows "does ctx st (on_check m1 m2 vc (bounds_check ctx sz off n vc' cl st'))"
    and "ends (on_check m1 m2 vc (bounds_check ctx sz off n vc' cl st'))"
  using assms
  by (auto simp: does_def on_check_def intro!: upds_mark upds_fail upds_check
      split: AccessCheckResult.split)

lemma spill_upds: "upds ctx st (spill_pointer nm val st)"
  by (auto simp: spill_pointer_def split: Operand.split option.split
      intro!: r_into_rtranclp upd.spill ptr_ok_lookup(1))

lemma reload_upds: "upds ctx st (reload_pointer nm d st)"
  by (auto simp: reload_pointer_def split: option.split
      intro!: r_into_rtranclp upd.ptr ptr_ok_lookup(2))

lemma irq_race_mark:
  assumes "has_irq_risk ctx"
  obtains r vc cl where "irq_race_check ctx knd what a st =
    mark r (snd (ask_gate vc cl (st\<lparr>irq_race_vcs := Suc (irq_race_vcs st)\<rparr>)))"
proof (cases "fst (ask_gate (ctx_vc ctx knd) (''class::irq_race::alloc'' @ show_nat a)
    (st\<lparr>irq_race_vcs := irq_race_vcs st + 1\<rparr>))")
  case True
  show thesis
    by (rule that, unfold irq_race_check_def Let_def split_beta)
      (simp only: assms True not_True_eq_False if_True if_False Suc_eq_plus1)
next
  case False
  show thesis
    by (rule that, unfold irq_race_check_def Let_def split_beta)
      (simp only: assms False not_False_eq_True if_True Suc_eq_plus1)
qed

lemma irq_race_upds:
  assumes "upds ctx st st'"
  shows "upds ctx st (irq_race_check ctx knd what a st')"
proof (cases "has_irq_risk ctx")
  case True
  have "upds ctx st (st'\<lparr>irq_race_vcs := Suc (irq_race_vcs st')\<rparr>)"
    using upds_step [OF assms upd.irq_count] True by blast
  then show ?thesis
    using irq_race_mark [OF True, of knd what a st'] upds_mark upds_ask by metis
qed (simp add: irq_race_check_def assms)

lemma irq_race_result [simp]:
  "is_Fail (final_result (irq_race_check ctx knd what a st)) \<longleftrightarrow> is_Fail (final_result st)"
proof (cases "has_irq_risk ctx")
  case True
  obtain r vc cl where "irq_race_check ctx knd what a st =
    mark r (snd (ask_gate vc cl (st\<lparr>irq_race_vcs := Suc (irq_race_vcs st)\<rparr>)))"
    using irq_race_mark [OF True] by blast
  then show ?thesis by simp
qed (simp add: irq_race_check_def)

text \<open>One lemma per handler: it is a sequence of updates, and it breaks exactly when it fails.\<close>

definition proper :: "actx \<Rightarrow> astate \<Rightarrow> ctl \<times> astate \<Rightarrow> bool" where
  "proper ctx st r \<longleftrightarrow> does ctx st r \<and> ends r"

lemma proper_Next: "upds ctx st st' \<Longrightarrow> \<not> is_Fail (final_result st') \<Longrightarrow> proper ctx st (Next, st')"
  by (simp add: proper_def does_def)

lemma proper_Crash: "upds ctx st st' \<Longrightarrow> \<not> is_Fail (final_result st') \<Longrightarrow> proper ctx st (Crash, st')"
  by (simp add: proper_def does_def)

lemma proper_fail: "upds ctx st st' \<Longrightarrow> \<not> is_Fail (final_result st') \<Longrightarrow> proper ctx st (Break, fail msg st')"
  by (simp add: proper_def does_def upds_fail)

lemma proper_on_check:
  "upds ctx st st' \<Longrightarrow> \<not> is_Fail (final_result st') \<Longrightarrow>
     proper ctx st (on_check m1 m2 vc (bounds_check ctx sz off n vc' cl st'))"
  by (simp add: proper_def on_check_does)

lemmas proper_intros = proper_Next proper_Crash proper_fail proper_on_check
lemmas upds_intros = rtranclp.rtrancl_refl upds_mark

lemma upds_one: "upd ctx st st' \<Longrightarrow> upds ctx st st'"
  by (rule r_into_rtranclp)

lemma proper_alloca:
  assumes nf: "\<not> is_Fail (final_result st)"
  shows "proper ctx st (handle_alloca i st)"
  using nf by (auto simp: handle_alloca_def intro!: proper_Next upds_one [OF upd.alloca])

lemma proper_kmalloc:
  assumes nf: "\<not> is_Fail (final_result st)"
  shows "proper ctx st (handle_kmalloc call st)"
  using nf by (auto simp: handle_kmalloc_def intro!: proper_Next upds_intros upds_one [OF upd.kmalloc]
      split: option.split)

lemma proper_kcalloc:
  assumes nf: "\<not> is_Fail (final_result st)"
  shows "proper ctx st (handle_kcalloc call st)"
  using nf by (auto simp: handle_kcalloc_def intro!: proper_Next proper_fail upds_intros upds_one [OF upd.kmalloc] split: option.split)

lemma proper_kfree:
  assumes nf: "\<not> is_Fail (final_result st)"
  shows "proper ctx st (handle_kfree ctx call st)"
  using nf by (auto simp: handle_kfree_def intro!: proper_Next proper_fail upds_intros
      upds_one [OF upd.free] split: option.split PtrVal.split)

lemma proper_memset:
  assumes nf: "\<not> is_Fail (final_result st)"
  shows "proper ctx st (handle_memset ctx call st)"
  using nf by (auto simp: handle_memset_def Let_def intro!: proper_intros upds_intros
      split: option.split PtrVal.split)

lemma proper_inline_asm:
  assumes nf: "\<not> is_Fail (final_result st)"
  shows "proper ctx st (handle_inline_asm ctx call st)"
  using nf by (auto simp: handle_inline_asm_def Let_def split_beta intro!: proper_Next proper_fail
      upds_intros upds_ask upds_one [OF upd.asm_count] split: sum.split InlineAsmPolicy.split)

lemma proper_iommu_map:
  assumes nf: "\<not> is_Fail (final_result st)"
  shows "proper ctx st (handle_iommu_map st)"
  using nf by (auto simp: handle_iommu_map_def intro!: proper_Next upds_one [OF upd.iommu])

lemma proper_gep:
  assumes nf: "\<not> is_Fail (final_result st)"
  shows "proper ctx st (handle_gep ctx gep st)"
  using nf
  by (auto simp: handle_gep_def gep_result_def intro!: proper_Next proper_Crash upds_intros upds_one [OF upd.ptr] intro: tracks_intros split: option.splits PtrVal.split Operand.split)

lemma proper_ptrtoint:
  assumes nf: "\<not> is_Fail (final_result st)"
  shows "proper ctx st (handle_ptrtoint cast st)"
  using nf
  by (auto simp: handle_ptrtoint_def intro!: proper_Next upds_intros upds_one [OF upd.int]
      intro: tracks_intros split: option.splits PtrVal.split Operand.split)

lemma proper_inttoptr:
  assumes nf: "\<not> is_Fail (final_result st)"
  shows "proper ctx st (handle_inttoptr cast st)"
  using nf
  by (auto simp: handle_inttoptr_def intro!: proper_Next upds_intros upds_one [OF upd.ptr]
      intro: tracks_intros split: option.splits IntVal.split Operand.split)

lemma proper_bitcast:
  assumes nf: "\<not> is_Fail (final_result st)"
  shows "proper ctx st (handle_bitcast cast st)"
  using nf
  by (auto simp: handle_bitcast_def unwrap_or_def intro!: proper_Next upds_intros upds_one [OF upd.ptr]
      intro: ptr_ok_lookup(1) split: option.splits Operand.split)

lemma operand_int_tracks: "operand_int_val st op = Some (PtrOffset a off) \<Longrightarrow> tracks st a"
  by (auto simp: operand_int_val_def bind_eq_Some_conv intro: tracks_intros)

lemma proper_add:
  assumes nf: "\<not> is_Fail (final_result st)"
  shows "proper ctx st (handle_add add st)"
  using nf
  by (auto simp: handle_add_def Let_def intro!: proper_Next upds_intros upds_one [OF upd.int]
      intro: operand_int_tracks split: option.splits IntVal.splits)

lemma proper_sub:
  assumes nf: "\<not> is_Fail (final_result st)"
  shows "proper ctx st (handle_sub sub st)"
  using nf
  by (auto simp: handle_sub_def Let_def intro!: proper_Next upds_intros upds_one [OF upd.int]
      intro: operand_int_tracks split: option.splits IntVal.splits)

lemma proper_memcpy_side:
  assumes nf: "\<not> is_Fail (final_result st)" and "upds ctx st0 st"
  shows "proper ctx st0 (memcpy_side ctx len op knd st)"
  using nf assms by (auto simp: memcpy_side_def Let_def intro!: proper_intros upds_intros
      split: option.split PtrVal.split)

lemma proper_dma_alloc:
  assumes nf: "\<not> is_Fail (final_result st)" and "dma_policy (cfg ctx) \<noteq> Dma_Ignore"
  shows "proper ctx st (handle_dma_alloc ctx call st)"
  using nf assms by (auto simp: handle_dma_alloc_def Let_def intro!: proper_Next upds_intros upds_ask
      upds_one [OF upd.dma_alloc [OF _ refl]] split: option.split)

lemma on_check_not_Crash: "fst (on_check m1 m2 vc rs) \<noteq> Crash"
  by (simp add: on_check_def split: AccessCheckResult.split)

lemma proper_then_irq:
  assumes "proper ctx st0 r" "fst r \<noteq> Crash"
  shows "proper ctx st0 (case r of (c, st1) \<Rightarrow>
      if c = Break then (Break, st1) else (Next, irq_race_check ctx k what a st1))"
proof -
  obtain c st1 where r: "r = (c, st1)" by (cases r)
  show ?thesis using assms r by (cases c) (auto simp: proper_def does_def irq_race_upds)
qed

lemma proper_check_deref:
  assumes nf: "\<not> is_Fail (final_result st)" and "upds ctx st0 st"
  shows "proper ctx st0 (check_deref ctx what msg pv ty st)"
  using assms
  by (auto simp: check_deref_def Let_def simp del: append_Cons
      intro!: proper_intros upds_intros proper_then_irq on_check_not_Crash split: option.split)

lemma properD:
  assumes "proper ctx st (c, st')"
  shows "upds ctx st st'" "is_Fail (final_result st') \<longleftrightarrow> c = Break"
  using assms by (cases c; simp add: proper_def does_def)+

lemma proper_memcpy:
  assumes nf: "\<not> is_Fail (final_result st)"
  shows "proper ctx st (handle_memcpy ctx call st)"
proof -
  have two: "proper ctx st (let (c1, st1) = memcpy_side ctx len d ''destination'' st;
            st2 = (if c1 = Break then st1 else snd (memcpy_side ctx len s ''source'' st1))
        in (if is_Fail (final_result st2) then Break else Next, st2))" for len d s
  proof -
    obtain c1 st1 where 1: "memcpy_side ctx len d ''destination'' st = (c1, st1)"
      by (cases "memcpy_side ctx len d ''destination'' st")
    have p1: "proper ctx st (c1, st1)"
      using proper_memcpy_side [OF nf, of ctx st len d "''destination''"] 1 by simp
    obtain c2 st2 where 2: "memcpy_side ctx len s ''source'' st1 = (c2, st2)"
      by (cases "memcpy_side ctx len s ''source'' st1")
    have p2: "proper ctx st (c2, st2)" if "c1 \<noteq> Break"
      using proper_memcpy_side [of st1 ctx st len s "''source''"] properD [OF p1] that 2 by simp
    show ?thesis using 1 2 properD [OF p1] p2
      by (cases "c1 = Break") (auto simp: Let_def proper_def does_def)
  qed
  then show ?thesis
    using nf by (auto simp: handle_memcpy_def intro!: proper_Next upds_intros split: option.split)
qed

lemma proper_on_dma_check:
  assumes nf: "\<not> is_Fail (final_result st)" and "dma_policy (cfg ctx) \<noteq> Dma_Ignore"
  shows "proper ctx st (on_dma_check ctx vc (bounds_check ctx sz off n vc cl st))"
proof -
  obtain r st1 where b: "bounds_check ctx sz off n vc cl st = (r, st1)"
    by (cases "bounds_check ctx sz off n vc cl st")
  have "upds ctx st st1" using upds_check [of ctx st st sz off n vc cl] b by simp
  moreover from this have "upds ctx st (st1\<lparr>dma_vcs := Suc (dma_vcs st1)\<rparr>)"
    using upds_step upd.dma_count assms(2) by blast
  moreover have "final_result st1 = final_result st"
    using final_result_simps(7) [of ctx sz off n vc cl st] b by simp
  ultimately show ?thesis using nf b
    by (cases r) (auto simp: on_dma_check_def Let_def intro!: proper_intros upds_mark)
qed

lemma proper_dma_map:
  assumes nf: "\<not> is_Fail (final_result st)" and "dma_policy (cfg ctx) \<noteq> Dma_Ignore"
  shows "proper ctx st (handle_dma_map ctx call st)"
  using assms by (auto simp: handle_dma_map_def Let_def
      intro!: proper_Next upds_intros proper_on_dma_check split: option.split)

lemma proper_store:
  assumes nf: "\<not> is_Fail (final_result st)"
  shows "proper ctx st (handle_store ctx store st)"
  using nf by (auto simp: handle_store_def Let_def intro!: proper_Next proper_check_deref spill_upds
      upds_intros split: option.split Operand.split)

lemma proper_load:
  assumes nf: "\<not> is_Fail (final_result st)"
  shows "proper ctx st (handle_load ctx load st)"
  using nf by (auto simp: handle_load_def Let_def intro!: proper_Next proper_check_deref reload_upds
      upds_intros split: option.split Operand.split)

lemma proper_stay: "\<not> is_Fail (final_result st) \<Longrightarrow> proper ctx st (Next, st)"
  by (rule proper_Next) simp_all

lemmas proper_call_handlers = proper_kmalloc proper_kcalloc proper_kfree proper_memset
  proper_memcpy proper_inline_asm proper_dma_alloc proper_dma_map proper_iommu_map proper_stay

lemma proper_call:
  assumes nf: "\<not> is_Fail (final_result st)"
  shows "proper ctx st (handle_call ctx call st)"
  using nf proper_call_handlers [OF nf] by (simp add: handle_call_def split: option.split)

text \<open>Only ten kinds of instructions do anything.\<close>

lemma step_instr_cases:
  assumes "P (Next, st)"
    and "\<And>i. P (handle_alloca i st)" "\<And>call. P (handle_call ctx call st)"
    and "\<And>gep. P (handle_gep ctx gep st)" "\<And>i. P (handle_ptrtoint i st)"
    and "\<And>i. P (handle_inttoptr i st)" "\<And>i. P (handle_add i st)" "\<And>i. P (handle_sub i st)"
    and "\<And>i. P (handle_bitcast i st)" "\<And>i. P (handle_store ctx i st)"
    and "\<And>i. P (handle_load ctx i st)"
  shows "P (step_instr ctx instr st)"
  by (cases instr) (simp_all add: step_instr_def assms)

lemma proper_step:
  assumes nf: "\<not> is_Fail (final_result st)"
  shows "proper ctx st (step_instr ctx instr st)"
  by (rule step_instr_cases [where P = "proper ctx st"];
      intro proper_stay proper_alloca proper_call proper_gep proper_ptrtoint proper_inttoptr
        proper_add proper_sub proper_bitcast proper_store proper_load nf)

lemma step_upds:
  assumes "\<not> is_Fail (final_result st)" "step_instr ctx instr st = (c, st')"
  shows "upds ctx st st'" "is_Fail (final_result st') \<longleftrightarrow> c = Break"
  using proper_step [OF assms(1), of ctx instr] assms(2) properD by metis+

section \<open>The trace of a run\<close>

type_synonym visit = "actx \<times> Instruction \<times> astate"

fun trace_instrs :: "actx \<Rightarrow> Instruction list \<Rightarrow> astate \<Rightarrow> visit list" where
  "trace_instrs ctx [] st = []"
| "trace_instrs ctx (instr # rest) st =
     (ctx, instr, st) #
     (case step_instr ctx instr st of
        (Next, st') \<Rightarrow> trace_instrs (ctx\<lparr>instr_idx := instr_idx ctx + 1\<rparr>) rest st'
      | _ \<Rightarrow> [])"

fun trace_blocks :: "actx \<Rightarrow> BasicBlock list \<Rightarrow> astate \<Rightarrow> visit list" where
  "trace_blocks ctx [] st = []"
| "trace_blocks ctx (bb # rest) st =
     trace_instrs (ctx\<lparr>instr_idx := 0\<rparr>) (instrs bb) st @
     (case run_instrs (ctx\<lparr>instr_idx := 0\<rparr>) (instrs bb) st of
        (Crash, st') \<Rightarrow> []
      | (_, st') \<Rightarrow>
          if is_Fail (final_result st') then []
          else trace_blocks (ctx\<lparr>bb_idx := bb_idx ctx + 1\<rparr>) rest st')"

fun trace_functions :: "actx \<Rightarrow> Function list \<Rightarrow> astate \<Rightarrow> visit list" where
  "trace_functions ctx [] st = []"
| "trace_functions ctx (f # rest) st =
     trace_blocks (ctx\<lparr>fname := func_name f, bb_idx := 0\<rparr>) (basic_blocks f) st @
     (case run_blocks (ctx\<lparr>fname := func_name f, bb_idx := 0\<rparr>) (basic_blocks f) st of
        (Crash, st') \<Rightarrow> []
      | (_, st') \<Rightarrow>
          if is_Fail (final_result st') then [] else trace_functions ctx rest st')"

definition trace :: "config \<Rightarrow> Module \<Rightarrow> HitlGate \<Rightarrow> visit list" where
  "trace c m gate = trace_functions (init_ctx c m) (module_functions m) (init_state gate)"

section \<open>From one update to the whole run\<close>

definition ctx_of :: "config \<Rightarrow> Module \<Rightarrow> actx \<Rightarrow> bool" where
  "ctx_of c m ctx \<longleftrightarrow>
     cfg ctx = c \<and> modul ctx = m \<and> has_irq_risk ctx = (scan_irq_handlers m \<noteq> {})"

lemma ctx_of_simps [simp]:
  "ctx_of c m (ctx\<lparr>instr_idx := i\<rparr>) = ctx_of c m ctx"
  "ctx_of c m (ctx\<lparr>bb_idx := i\<rparr>) = ctx_of c m ctx"
  "ctx_of c m (ctx\<lparr>fname := f\<rparr>) = ctx_of c m ctx"
  "ctx_of c m (init_ctx c m)"
  by (simp_all add: ctx_of_def init_ctx_def)

lemma run_instrs_end:
  assumes "\<not> is_Fail (final_result st)" "run_instrs ctx is st = (k, st')"
  shows "is_Fail (final_result st') \<longleftrightarrow> k = Break"
  using assms
proof (induction ctx "is" st rule: run_instrs.induct)
  case (2 ctx i rest st)
  obtain c1 st1 where s: "step_instr ctx i st = (c1, st1)" by (cases "step_instr ctx i st")
  then show ?case using 2 step_upds(2) [OF 2(2) s] by (cases c1) auto
qed simp

lemma run_blocks_end:
  assumes "\<not> is_Fail (final_result st)" "run_blocks ctx bbs st = (k, st')"
  shows "is_Fail (final_result st') \<longleftrightarrow> k = Break"
  using assms
proof (induction ctx bbs st rule: run_blocks.induct)
  case (2 ctx bb rest st)
  obtain k1 st1 where s: "run_instrs (ctx\<lparr>instr_idx := 0\<rparr>) (instrs bb) st = (k1, st1)"
    by (cases "run_instrs (ctx\<lparr>instr_idx := 0\<rparr>) (instrs bb) st")
  then show ?case using 2 run_instrs_end [OF 2(3) s]
    by (cases k1) (auto split: if_splits)
qed simp

lemma run_functions_end:
  assumes "\<not> is_Fail (final_result st)" "run_functions ctx fs st = (k, st')"
  shows "is_Fail (final_result st') \<longleftrightarrow> k = Break"
  using assms
proof (induction ctx fs st rule: run_functions.induct)
  case (2 ctx f rest st)
  let ?c = "ctx\<lparr>fname := func_name f, bb_idx := 0\<rparr>"
  obtain k1 st1 where s: "run_blocks ?c (basic_blocks f) st = (k1, st1)"
    by (cases "run_blocks ?c (basic_blocks f) st")
  then show ?case using 2 run_blocks_end [OF 2(3) s]
    by (cases k1) (auto split: if_splits)
qed simp

lemma run_blocks_unfold:
  assumes s: "run_instrs (ctx\<lparr>instr_idx := 0\<rparr>) (instrs bb) st = (k1, st1)"
  shows run_blocks_stop: "k1 = Crash \<or> is_Fail (final_result st1) \<Longrightarrow>
      snd (run_blocks ctx (bb # rest) st) = st1"
    and trace_blocks_stop: "k1 = Crash \<or> is_Fail (final_result st1) \<Longrightarrow>
      trace_blocks ctx (bb # rest) st = trace_instrs (ctx\<lparr>instr_idx := 0\<rparr>) (instrs bb) st"
    and run_blocks_go: "\<not> (k1 = Crash \<or> is_Fail (final_result st1)) \<Longrightarrow>
      run_blocks ctx (bb # rest) st = run_blocks (ctx\<lparr>bb_idx := bb_idx ctx + 1\<rparr>) rest st1"
    and trace_blocks_go: "\<not> (k1 = Crash \<or> is_Fail (final_result st1)) \<Longrightarrow>
      trace_blocks ctx (bb # rest) st = trace_instrs (ctx\<lparr>instr_idx := 0\<rparr>) (instrs bb) st @ trace_blocks (ctx\<lparr>bb_idx := bb_idx ctx + 1\<rparr>) rest st1"
  using s by (cases k1; simp)+

lemma run_functions_unfold:
  assumes s: "run_blocks (ctx\<lparr>fname := func_name f, bb_idx := 0\<rparr>) (basic_blocks f) st = (k1, st1)"
  shows run_functions_stop: "k1 = Crash \<or> is_Fail (final_result st1) \<Longrightarrow>
      snd (run_functions ctx (f # rest) st) = st1"
    and trace_functions_stop: "k1 = Crash \<or> is_Fail (final_result st1) \<Longrightarrow>
      trace_functions ctx (f # rest) st = trace_blocks (ctx\<lparr>fname := func_name f, bb_idx := 0\<rparr>) (basic_blocks f) st"
    and run_functions_go: "\<not> (k1 = Crash \<or> is_Fail (final_result st1)) \<Longrightarrow>
      run_functions ctx (f # rest) st = run_functions ctx rest st1"
    and trace_functions_go: "\<not> (k1 = Crash \<or> is_Fail (final_result st1)) \<Longrightarrow>
      trace_functions ctx (f # rest) st = trace_blocks (ctx\<lparr>fname := func_name f, bb_idx := 0\<rparr>) (basic_blocks f) st @ trace_functions ctx rest st1"
  using s by (cases k1; simp)+

definition last_state :: "config \<Rightarrow> Module \<Rightarrow> HitlGate \<Rightarrow> astate" where
  "last_state c m gate = snd (run_functions (init_ctx c m) (module_functions m) (init_state gate))"

lemma init_state_simps [simp]:
  "final_result (init_state gate) = Pass" "hitl_gate (init_state gate) = gate"
  "solver (init_state gate) = Solver_new"
  by (simp_all add: init_state_def)

lemma final_state_last:
  "final_state c m gate = Some st \<Longrightarrow> st = enforce_iommu c (last_state c m gate)"
  by (auto simp: final_state_def last_state_def split: prod.splits ctl.splits)

text \<open>A visit lies between the first and the last state of its loop, and is not a failed state.\<close>

definition between ::
  "config \<Rightarrow> Module \<Rightarrow> (astate \<Rightarrow> astate \<Rightarrow> bool) \<Rightarrow> astate \<Rightarrow> astate \<Rightarrow> visit \<Rightarrow> bool" where
  "between c m R st st' v \<longleftrightarrow>
     (case v of (ctx, i, s) \<Rightarrow>
        ctx_of c m ctx \<and> \<not> is_Fail (final_result s) \<and> R st s \<and> R (snd (step_instr ctx i s)) st')"

locale analysis_preorder =
  fixes c :: config and m :: Module and R :: "astate \<Rightarrow> astate \<Rightarrow> bool"
  assumes R_refl: "R st st"
    and R_trans: "R st1 st2 \<Longrightarrow> R st2 st3 \<Longrightarrow> R st1 st3"
    and R_upd: "ctx_of c m ctx \<Longrightarrow> upd ctx st st' \<Longrightarrow> R st st'"
begin

lemma R_upds: "upds ctx st st' \<Longrightarrow> ctx_of c m ctx \<Longrightarrow> R st st'"
  by (induction rule: rtranclp_induct) (auto intro: R_refl R_trans R_upd)

lemma R_step:
  "\<not> is_Fail (final_result st) \<Longrightarrow> ctx_of c m ctx \<Longrightarrow> R st (snd (step_instr ctx i st))"
  using step_upds(1) R_upds by (metis prod.collapse)

lemma R_run_instrs:
  "\<not> is_Fail (final_result st) \<Longrightarrow> ctx_of c m ctx \<Longrightarrow> R st (snd (run_instrs ctx is st))"
proof (induction ctx "is" st rule: run_instrs.induct)
  case (2 ctx i rest st)
  obtain c1 st1 where s: "step_instr ctx i st = (c1, st1)" by (cases "step_instr ctx i st")
  then show ?case
    using 2 R_step [of st ctx i] step_upds(2) [OF 2(2) s] R_trans by (cases c1) fastforce+
qed (simp add: R_refl)

lemma R_run_blocks:
  "\<not> is_Fail (final_result st) \<Longrightarrow> ctx_of c m ctx \<Longrightarrow> R st (snd (run_blocks ctx bbs st))"
proof (induction ctx bbs st rule: run_blocks.induct)
  case (2 ctx bb rest st)
  let ?c = "ctx\<lparr>instr_idx := 0\<rparr>"
  obtain k1 st1 where s: "run_instrs ?c (instrs bb) st = (k1, st1)"
    by (cases "run_instrs ?c (instrs bb) st")
  have "R st st1" using R_run_instrs [of st ?c "instrs bb"] 2 s by simp
  then show ?case using 2 s R_trans by (cases k1) (auto split: if_splits)
qed (simp add: R_refl)

lemma R_run_functions:
  "\<not> is_Fail (final_result st) \<Longrightarrow> ctx_of c m ctx \<Longrightarrow> R st (snd (run_functions ctx fs st))"
proof (induction ctx fs st rule: run_functions.induct)
  case (2 ctx f rest st)
  let ?c = "ctx\<lparr>fname := func_name f, bb_idx := 0\<rparr>"
  obtain k1 st1 where s: "run_blocks ?c (basic_blocks f) st = (k1, st1)"
    by (cases "run_blocks ?c (basic_blocks f) st")
  have "R st st1" using R_run_blocks [of st ?c "basic_blocks f"] 2 s by simp
  then show ?case using 2 s R_trans by (cases k1) (auto split: if_splits)
qed (simp add: R_refl)

lemma R_last: "R (init_state gate) (last_state c m gate)"
  unfolding last_state_def by (rule R_run_functions) simp_all

lemma between_mono: "between c m R st1 st2 v \<Longrightarrow> R st st1 \<Longrightarrow> R st2 st' \<Longrightarrow> between c m R st st' v"
  by (auto simp: between_def intro: R_trans)

lemma between_append:
  assumes "\<forall>v \<in> set xs. between c m R st st1 v" "\<forall>v \<in> set ys. between c m R st1 st2 v"
    and "R st st1" "R st1 st2"
  shows "\<forall>v \<in> set (xs @ ys). between c m R st st2 v"
  using assms between_mono R_refl by (metis Un_iff set_append)

lemma between_instrs:
  "v \<in> set (trace_instrs ctx is st) \<Longrightarrow> \<not> is_Fail (final_result st) \<Longrightarrow> ctx_of c m ctx \<Longrightarrow>
     between c m R st (snd (run_instrs ctx is st)) v"
proof (induction ctx "is" st rule: run_instrs.induct)
  case (2 ctx i rest st)
  obtain c1 st1 where s: "step_instr ctx i st = (c1, st1)" by (cases "step_instr ctx i st")
  have r1: "R st st1" using R_step [of st ctx i] 2 s by simp
  show ?case
  proof (cases c1)
    case Next
    let ?c = "ctx\<lparr>instr_idx := instr_idx ctx + 1\<rparr>"
    have nf: "\<not> is_Fail (final_result st1)" using step_upds(2) [OF 2(3) s] Next by simp
    have "R st1 (snd (run_instrs ?c rest st1))" using R_run_instrs [OF nf, of ?c rest] 2 by simp
    moreover have "between c m R st1 (snd (run_instrs ?c rest st1)) v" if "v \<noteq> (ctx, i, st)"
      using 2 s Next nf that by simp
    ultimately show ?thesis
      using 2 s Next r1 between_mono [OF _ r1 R_refl] R_refl
      by (cases "v = (ctx, i, st)") (auto simp: between_def)
  qed (use 2 s R_refl in \<open>auto simp: between_def\<close>)
qed simp

lemma between_blocks:
  "\<not> is_Fail (final_result st) \<Longrightarrow> ctx_of c m ctx \<Longrightarrow>
     \<forall>v \<in> set (trace_blocks ctx bbs st). between c m R st (snd (run_blocks ctx bbs st)) v"
proof (induction bbs arbitrary: ctx st)
  case (Cons bb rest)
  obtain k1 st1 where s: "run_instrs (ctx\<lparr>instr_idx := 0\<rparr>) (instrs bb) st = (k1, st1)"
    by (cases "run_instrs (ctx\<lparr>instr_idx := 0\<rparr>) (instrs bb) st")
  have r1: "R st st1"
    using R_run_instrs [of st "ctx\<lparr>instr_idx := 0\<rparr>" "instrs bb"] Cons.prems s by simp
  have here: "\<forall>v \<in> set (trace_instrs (ctx\<lparr>instr_idx := 0\<rparr>) (instrs bb) st). between c m R st st1 v"
    using between_instrs [of _ "ctx\<lparr>instr_idx := 0\<rparr>" "instrs bb" st] Cons.prems s by simp
  show ?case
  proof (cases "k1 = Crash \<or> is_Fail (final_result st1)")
    case True
    then show ?thesis using here unfolding trace_blocks_stop [OF s True] run_blocks_stop [OF s True] by simp
  next
    case False
    then show ?thesis
      unfolding trace_blocks_go [OF s False] run_blocks_go [OF s False]
      by (intro between_append [OF here _ r1] Cons.IH R_run_blocks) (use Cons.prems in auto)
  qed
qed simp

lemma between_functions:
  "\<not> is_Fail (final_result st) \<Longrightarrow> ctx_of c m ctx \<Longrightarrow>
     \<forall>v \<in> set (trace_functions ctx fs st). between c m R st (snd (run_functions ctx fs st)) v"
proof (induction fs arbitrary: st)
  case (Cons f rest)
  obtain k1 st1 where
    s: "run_blocks (ctx\<lparr>fname := func_name f, bb_idx := 0\<rparr>) (basic_blocks f) st = (k1, st1)"
    by (cases "run_blocks (ctx\<lparr>fname := func_name f, bb_idx := 0\<rparr>) (basic_blocks f) st")
  have r1: "R st st1"
    using R_run_blocks [of st "ctx\<lparr>fname := func_name f, bb_idx := 0\<rparr>" "basic_blocks f"] Cons.prems s
    by simp
  have here: "\<forall>v \<in> set (trace_blocks (ctx\<lparr>fname := func_name f, bb_idx := 0\<rparr>) (basic_blocks f) st).
      between c m R st st1 v"
    using between_blocks [of st "ctx\<lparr>fname := func_name f, bb_idx := 0\<rparr>" "basic_blocks f"] Cons.prems s
    by simp
  show ?case
  proof (cases "k1 = Crash \<or> is_Fail (final_result st1)")
    case True
    then show ?thesis using here unfolding trace_functions_stop [OF s True] run_functions_stop [OF s True] by simp
  next
    case False
    then show ?thesis
      unfolding trace_functions_go [OF s False] run_functions_go [OF s False]
      by (intro between_append [OF here _ r1] Cons.IH R_run_functions) (use Cons.prems in auto)
  qed
qed simp

lemma between_trace:
  "v \<in> set (trace c m gate) \<Longrightarrow> between c m R (init_state gate) (last_state c m gate) v"
  unfolding trace_def last_state_def
  using between_functions [of "init_state gate" "init_ctx c m"] by simp

end

locale analysis_invariant =
  fixes c :: config and m :: Module and I :: "astate \<Rightarrow> bool"
  assumes I_upd: "ctx_of c m ctx \<Longrightarrow> I st \<Longrightarrow> upd ctx st st' \<Longrightarrow> I st'"

sublocale analysis_invariant \<subseteq> analysis_preorder c m "\<lambda>st st'. I st \<longrightarrow> I st'"
  by unfold_locales (auto intro: I_upd)

context analysis_invariant
begin

lemma I_last: "I (init_state gate) \<Longrightarrow> I (last_state c m gate)"
  using R_last by blast

lemma I_trace:
  assumes "I (init_state gate)" "(ctx, i, s) \<in> set (trace c m gate)"
  shows "I s" "ctx_of c m ctx" "\<not> is_Fail (final_result s)"
  using between_trace [OF assms(2)] assms(1) by (auto simp: between_def)

end

end
