(* ===== verification/Analyzer_Invariants.thy ===== *)
theory Analyzer_Invariants
  imports Analyzer_Steps
begin

text \<open>
  Invariants of a run of the analysis, each an interpretation of one of the locales of
  \<open>Analyzer_Steps\<close> on the model's own updates: results only get worse, allocation identifiers are
  fresh and every abstract pointer has a recorded size, the solver is left balanced after every
  query, the approvals of the gate never change and its logs only grow, and no more queries reach
  the solver than the gate let through.
\<close>

section \<open>What an update changes\<close>

lemmas update_defs = mark_def fail_def set_ptr_def set_int_def fresh_alloc_def ask_gate_def
  bounds_check_def

lemma bounds_check_gate: "hitl_gate (snd (bounds_check ctx sz off n vc cl st)) =
    snd (should_run_solver vc cl (hitl_gate st))"
  by (auto simp: bounds_check_def split: prod.splits dest: check_access_gate)

lemma ask_gate_gate: "hitl_gate (snd (ask_gate vc cl st)) = snd (should_run_solver vc cl (hitl_gate st))"
  by (simp add: ask_gate_def split_beta)

lemma bounds_check_frames: "frames (solver (snd (bounds_check ctx sz off n vc cl st))) = frames (solver st)"
  by (auto simp: bounds_check_def split: prod.splits dest: check_access_frames)

lemma bounds_check_queries:
  "queries (solver (snd (bounds_check ctx sz off n vc cl st))) =
     queries (solver st) @
     (if gate_permits (hitl_gate st) vc cl then [oob_cond sz off n # concat (frames (solver st))]
      else [])"
  by (auto simp: bounds_check_def check_access_eq split: prod.splits if_splits)

lemma ask_gate_keeps [simp]: "solver (snd (ask_gate vc cl st)) = solver st"
  by (simp add: ask_gate_def split_beta)

text \<open>The part of the state that only the handlers of memory operations touch.\<close>

definition heap_part where
  "heap_part st = (ptr_env st, int_env st, alloca_store_map st, alloc_sizes st, freed_allocs st,
     alloc_counter st, dma_allocs_in_func st, iommu_mapped_in_func st)"

lemma heap_part_keeps [simp]:
  "heap_part (mark r st) = heap_part st" "heap_part (fail msg st) = heap_part st"
  "heap_part (snd (ask_gate vc cl st)) = heap_part st"
  "heap_part (snd (bounds_check ctx sz off n vc cl st)) = heap_part st"
  "heap_part (st\<lparr>alloca_names := ns\<rparr>) = heap_part st"
  "heap_part (st\<lparr>inline_asm_vcs := k\<rparr>) = heap_part st"
  "heap_part (st\<lparr>dma_vcs := k\<rparr>) = heap_part st"
  "heap_part (st\<lparr>irq_race_vcs := k\<rparr>) = heap_part st"
  by (simp_all add: heap_part_def update_defs split_beta)

lemma heap_partD:
  assumes "heap_part st = heap_part st'"
  shows "ptr_env st = ptr_env st'" "int_env st = int_env st'"
    "alloca_store_map st = alloca_store_map st'" "alloc_sizes st = alloc_sizes st'"
    "freed_allocs st = freed_allocs st'" "alloc_counter st = alloc_counter st'"
    "dma_allocs_in_func st = dma_allocs_in_func st'"
    "iommu_mapped_in_func st = iommu_mapped_in_func st'"
  using assms by (simp_all add: heap_part_def)

text \<open>The other part: the gate and the solver.\<close>

lemma gate_solver_keeps [simp]:
  "hitl_gate (mark r st) = hitl_gate st" "hitl_gate (fail msg st) = hitl_gate st"
  "hitl_gate (set_ptr nm pv st) = hitl_gate st" "hitl_gate (set_int nm v st) = hitl_gate st"
  "hitl_gate (fresh_alloc w mk d st) = hitl_gate st"
  "solver (mark r st) = solver st" "solver (fail msg st) = solver st"
  "solver (set_ptr nm pv st) = solver st" "solver (set_int nm v st) = solver st"
  "solver (fresh_alloc w mk d st) = solver st"
  by (simp_all add: update_defs Let_def split: option.split)

section \<open>Results only get worse\<close>

lemma upd_result: "upd ctx st st' \<Longrightarrow> result_le (final_result st) (final_result st')"
  by (induction rule: upd.induct) simp_all

interpretation result_order:
  analysis_preorder c m "\<lambda>st st'. result_le (final_result st) (final_result st')" for c m
  by unfold_locales (auto intro: result_le_trans upd_result)

section \<open>Allocations\<close>

definition wf_state :: "astate \<Rightarrow> bool" where
  "wf_state st \<longleftrightarrow>
     dom (alloc_sizes st) = {..<alloc_counter st} \<and>
     (\<forall>a. tracks st a \<longrightarrow> a < alloc_counter st) \<and>
     freed_allocs st \<subseteq> {..<alloc_counter st} \<and>
     dma_allocs_in_func st \<subseteq> {..<alloc_counter st} \<and>
     iommu_mapped_in_func st \<subseteq> dma_allocs_in_func st \<and>
     (\<forall>sz \<in> ran (alloc_sizes st). \<exists>w. sz = Int_from_u64 w)"

lemma tracks_heap_part: "heap_part st = heap_part st' \<Longrightarrow> tracks st = tracks st'"
  by (simp add: tracks_def fun_eq_iff heap_part_def)

lemma tracks_keeps [simp]:
  "tracks (st\<lparr>freed_allocs := x\<rparr>) = tracks st" "tracks (st\<lparr>iommu_mapped_in_func := x\<rparr>) = tracks st"
  "tracks (st\<lparr>dma_allocs_in_func := x, dma_vcs := k\<rparr>) = tracks st"
  by (simp_all add: tracks_def fun_eq_iff)

lemma wf_heap_part: "heap_part st = heap_part st' \<Longrightarrow> wf_state st' \<Longrightarrow> wf_state st"
  using tracks_heap_part [of st st'] by (simp add: wf_state_def heap_part_def)

lemma tracks_set_ptr: "tracks (set_ptr nm pv st) a \<Longrightarrow> ptr_ok st pv \<Longrightarrow> tracks st a"
  by (auto simp: tracks_def set_ptr_def ptr_ok_def split: if_splits)

lemma tracks_set_int: "tracks (set_int nm v st) a \<Longrightarrow> int_ok st v \<Longrightarrow> tracks st a"
  by (auto simp: tracks_def set_int_def int_ok_def split: if_splits)

lemma tracks_spill:
  "tracks (st\<lparr>alloca_store_map := (alloca_store_map st)(nm \<mapsto> pv)\<rparr>) a \<Longrightarrow> ptr_ok st pv \<Longrightarrow> tracks st a"
  by (auto simp: tracks_def ptr_ok_def split: if_splits)

lemma tracks_fresh_alloc:
  assumes "tracks (fresh_alloc w mk d st) a" "mk = Kmalloc \<or> mk = DmaAlloc"
  shows "tracks st a \<or> a = alloc_counter st"
proof -
  have "ptr_env (fresh_alloc w mk d st) nm = Some pv \<Longrightarrow>
      ptr_env st nm = Some pv \<or> pv = mk (alloc_counter st) (Int_from_u64 0)" for nm pv
    by (auto simp: fresh_alloc_def Let_def split: option.splits if_splits)
  moreover have "alloca_store_map (fresh_alloc w mk d st) = alloca_store_map st"
    "int_env (fresh_alloc w mk d st) = int_env st"
    by (simp_all add: fresh_alloc_def Let_def split: option.split)
  moreover have "ptrval_alloc_info (mk i off) = Some (i, off)" for i off using assms(2) by auto
  ultimately show ?thesis using assms(1) unfolding tracks_def
    by (metis (no_types, lifting) option.inject prod.inject)
qed

lemma fresh_alloc_fields [simp]:
  "alloc_counter (fresh_alloc w mk d st) = Suc (alloc_counter st)"
  "alloc_sizes (fresh_alloc w mk d st) = (alloc_sizes st)(alloc_counter st \<mapsto> Int_from_u64 w)"
  "freed_allocs (fresh_alloc w mk d st) = freed_allocs st"
  "dma_allocs_in_func (fresh_alloc w mk d st) = dma_allocs_in_func st"
  "iommu_mapped_in_func (fresh_alloc w mk d st) = iommu_mapped_in_func st"
  by (simp_all add: fresh_alloc_def Let_def split: option.split)

lemma wf_fresh_alloc:
  assumes "wf_state st" "mk = Kmalloc \<or> mk = DmaAlloc"
  shows "wf_state (fresh_alloc w mk d st)"
proof -
  have "\<forall>sz \<in> ran ((alloc_sizes st)(alloc_counter st \<mapsto> Int_from_u64 w)). \<exists>v. sz = Int_from_u64 v"
    using assms(1) by (auto simp: wf_state_def ran_def)
  moreover have "\<forall>a. tracks (fresh_alloc w mk d st) a \<longrightarrow> a < Suc (alloc_counter st)"
    using assms(1) tracks_fresh_alloc [OF _ assms(2)] unfolding wf_state_def by (metis less_Suc_eq)
  ultimately show ?thesis using assms(1) by (auto simp: wf_state_def lessThan_Suc)
qed

lemma wf_tracked_size:
  assumes "wf_state st" "tracks st a"
  shows "\<exists>w. alloc_sizes st a = Some (Int_from_u64 w)"
proof -
  have "a \<in> dom (alloc_sizes st)" using assms by (auto simp: wf_state_def)
  then obtain sz where "alloc_sizes st a = Some sz" by blast
  then show ?thesis using assms(1) by (auto simp: wf_state_def intro: ranI)
qed

lemma wf_upd:
  assumes "upd ctx st st'" "wf_state st"
  shows "wf_state st'"
  using assms(1)
proof cases
  case (dma_alloc st1 sz d)
  have "wf_state st1" using wf_fresh_alloc [OF assms(2)] dma_alloc by simp
  then show ?thesis
    using dma_alloc by (auto simp: wf_state_def)
next
  case (free nm a off)
  then have "tracks st a" by (auto intro: tracks_intros)
  then show ?thesis using free assms(2) by (auto simp: wf_state_def)
next
  case (ptr pv nm)
  then have "tracks st' a \<Longrightarrow> tracks st a" for a by (auto intro: tracks_set_ptr)
  then show ?thesis using ptr assms(2) by (auto simp: wf_state_def set_ptr_def)
next
  case (int v nm)
  then have "tracks st' a \<Longrightarrow> tracks st a" for a by (auto intro: tracks_set_int)
  then show ?thesis using int assms(2) by (auto simp: wf_state_def set_int_def)
next
  case (spill pv nm)
  then have "tracks st' a \<Longrightarrow> tracks st a" for a by (auto intro: tracks_spill)
  then show ?thesis using spill assms(2) by (auto simp: wf_state_def)
next
  case iommu
  then show ?thesis using assms(2) by (auto simp: wf_state_def)
qed (use assms(2) wf_fresh_alloc in \<open>auto intro: wf_heap_part [of _ st]\<close>)

lemma wf_init: "wf_state (init_state gate)"
  by (auto simp: wf_state_def init_state_def tracks_def)

interpretation wf: analysis_invariant c m wf_state for c m
  by unfold_locales (rule wf_upd)

text \<open>Recorded sizes are never changed, and what is freed stays freed.\<close>

definition heap_grows :: "astate \<Rightarrow> astate \<Rightarrow> bool" where
  "heap_grows st st' \<longleftrightarrow>
     (wf_state st \<longrightarrow> wf_state st' \<and> alloc_sizes st \<subseteq>\<^sub>m alloc_sizes st') \<and>
     freed_allocs st \<subseteq> freed_allocs st' \<and> dma_allocs_in_func st \<subseteq> dma_allocs_in_func st' \<and>
     alloc_counter st \<le> alloc_counter st' \<and> iommu_mapped_in_func st \<subseteq> iommu_mapped_in_func st'"

lemma heap_grows_heap_part: "heap_part st' = heap_part st \<Longrightarrow> heap_grows st st'"
  using wf_heap_part [of st' st] by (simp add: heap_grows_def heap_part_def)

lemma alloc_sizes_fresh: "wf_state st \<Longrightarrow> alloc_sizes st (alloc_counter st) = None"
  by (auto simp: wf_state_def)

lemma upd_heap_grows:
  assumes "upd ctx st st'"
  shows "heap_grows st st'"
  using assms
proof cases
  case (kmalloc sz d)
  then show ?thesis using wf_upd [OF assms] by (auto simp: heap_grows_def alloc_sizes_fresh map_le_def)
next
  case (dma_alloc st1 sz d)
  then show ?thesis using wf_upd [OF assms] by (auto simp: heap_grows_def alloc_sizes_fresh map_le_def)
next
  case (ptr pv nm)
  then show ?thesis using wf_upd [OF assms] by (simp add: heap_grows_def set_ptr_def)
next
  case (int v nm)
  then show ?thesis using wf_upd [OF assms] by (simp add: heap_grows_def set_int_def)
next
  case (free nm a off)
  then show ?thesis using wf_upd [OF assms] by (auto simp: heap_grows_def)
next
  case (spill pv nm)
  then show ?thesis using wf_upd [OF assms] by (simp add: heap_grows_def)
next
  case iommu
  then show ?thesis using wf_upd [OF assms] by (auto simp: heap_grows_def)
qed (simp_all add: heap_grows_heap_part)

interpretation heap_order: analysis_preorder c m heap_grows for c m
  by unfold_locales (auto simp: upd_heap_grows, auto simp: heap_grows_def intro: map_le_trans)

section \<open>The solver and the gate\<close>

lemma upd_frames: "upd ctx st st' \<Longrightarrow> frames (solver st') = frames (solver st)"
  by (induction rule: upd.induct) (simp_all add: bounds_check_frames)

interpretation balanced: analysis_invariant c m "\<lambda>st. frames (solver st) = [[]]" for c m
  by unfold_locales (simp add: upd_frames)

definition gate_extends :: "HitlGate \<Rightarrow> HitlGate \<Rightarrow> bool" where
  "gate_extends g g' \<longleftrightarrow>
     gate_mode g' = gate_mode g \<and> approved g' = approved g \<and> approved_classes g' = approved_classes g \<and>
     (\<exists>qs. g' = fold (\<lambda>(vc, cl) g. snd (should_run_solver vc cl g)) qs g)"

lemma gate_extends_ask: "gate_extends g (snd (should_run_solver vc cl g))"
  unfolding gate_extends_def by (auto simp: gate_simps intro!: exI [of _ "[(vc, cl)]"])

lemma gate_extends_refl [simp]: "gate_extends g g"
  unfolding gate_extends_def by (auto intro!: exI [of _ "[]"])

lemma gate_extends_trans: "gate_extends g1 g2 \<Longrightarrow> gate_extends g2 g3 \<Longrightarrow> gate_extends g1 g3"
  unfolding gate_extends_def by (metis fold_append comp_apply)

lemma upd_gate: "upd ctx st st' \<Longrightarrow> gate_extends (hitl_gate st) (hitl_gate st')"
  by (induction rule: upd.induct) (simp_all add: bounds_check_gate ask_gate_gate gate_extends_ask)

interpretation gate_order:
  analysis_preorder c m "\<lambda>st st'. gate_extends (hitl_gate st) (hitl_gate st')" for c m
  by unfold_locales (auto intro: upd_gate gate_extends_trans)

text \<open>Every query to the solver is a question the gate has let through.\<close>

definition queries_gated :: "astate \<Rightarrow> bool" where
  "queries_gated st \<longleftrightarrow>
     length (queries (solver st)) + length (blocked (hitl_gate st)) \<le> length (seen (hitl_gate st))"

lemma upd_queries_gated: "upd ctx st st' \<Longrightarrow> queries_gated st \<Longrightarrow> queries_gated st'"
  by (induction rule: upd.induct)
     (auto simp: queries_gated_def bounds_check_gate ask_gate_gate bounds_check_queries gate_simps)

interpretation gated: analysis_invariant c m queries_gated for c m
  by unfold_locales (rule upd_queries_gated)

text \<open>A gate that permits nothing keeps the solver idle.\<close>

definition closed_idle :: "astate \<Rightarrow> bool" where
  "closed_idle st \<longleftrightarrow> (\<forall>vc cl. \<not> gate_permits (hitl_gate st) vc cl) \<and> queries (solver st) = []"

lemma upd_closed_idle: "upd ctx st st' \<Longrightarrow> closed_idle st \<Longrightarrow> closed_idle st'"
  by (induction rule: upd.induct)
     (auto simp: closed_idle_def bounds_check_gate ask_gate_gate bounds_check_queries gate_simps)

interpretation closed: analysis_invariant c m closed_idle for c m
  by unfold_locales (rule upd_closed_idle)

lemma closed_gate_no_queries:
  assumes "\<And>vc cl. \<not> gate_permits gate vc cl"
  shows "queries (solver (last_state c m gate)) = []"
proof -
  have "closed_idle (init_state gate)" using assms by (simp add: closed_idle_def Solver_new_def)
  then show ?thesis using closed.I_last [of gate c m] by (simp add: closed_idle_def)
qed

end
