(* ===== verification/Analyzer_Accesses.thy ===== *)
theory Analyzer_Accesses
  imports Analyzer_Invariants
begin

text \<open>
  The specification the analysis is measured against. \<open>accesses\<close> lists the accesses an instruction
  makes through tracked pointers, read off the instruction and the abstract environments with no
  reference to the checks: stores and loads through any tracked pointer, memset and memcpy through
  kmalloc pointers, DMA mappings through any tracked pointer. \<open>access_ok\<close> says that the memory is
  live (a DMA mapping is not required to be), that the length is known and that the bytes lie inside
  the allocation; \<open>violation\<close> says that an instruction is definitely wrong. Results: a step that keeps \<open>Pass\<close> made
  only good accesses; a step fails only on a violation; and it does fail on one, when the gate lets
  its checks through and the solver answers.
\<close>

section \<open>Accesses\<close>

definition local_ptr :: "astate \<Rightarrow> Operand \<Rightarrow> PtrVal option" where
  "local_ptr st op = Option.bind (operand_local_name op) (ptr_env st)"

datatype access_kind = Deref | LibCall | DmaMap

record access =
  acc_alloc :: nat
  acc_offset :: Int_ast
  acc_len :: "u64 option"
  acc_kind :: access_kind

definition kmalloc_access :: "PtrVal option \<Rightarrow> u64 option \<Rightarrow> access list" where
  "kmalloc_access pv n =
     (case pv of
        Some (Kmalloc a off) \<Rightarrow> [\<lparr>acc_alloc = a, acc_offset = off, acc_len = n, acc_kind = LibCall\<rparr>]
      | _ \<Rightarrow> [])"

definition any_access :: "access_kind \<Rightarrow> PtrVal option \<Rightarrow> u64 option \<Rightarrow> access list" where
  "any_access k pv n =
     (case Option.bind pv ptrval_alloc_info of
        Some (a, off) \<Rightarrow> [\<lparr>acc_alloc = a, acc_offset = off, acc_len = n, acc_kind = k\<rparr>]
      | None \<Rightarrow> [])"

definition arg_ptr :: "Call \<Rightarrow> nat \<Rightarrow> astate \<Rightarrow> PtrVal option" where
  "arg_ptr call i st = Option.bind (call_arg call i) (local_ptr st)"

definition arg_const :: "Call \<Rightarrow> nat \<Rightarrow> u64 option" where
  "arg_const call i = Option.bind (call_arg call i) operand_const_u64"

definition type_len :: "actx \<Rightarrow> TypeRef option \<Rightarrow> u64 option" where
  "type_len ctx ty =
     Option.bind (Option.bind ty (type_size (max_depth (cfg ctx)) (module_types (modul ctx)))) id"

definition call_accesses :: "actx \<Rightarrow> Call \<Rightarrow> astate \<Rightarrow> access list" where
  "call_accesses ctx call st =
     (case function_name_of_call call of
        None \<Rightarrow> []
      | Some nm \<Rightarrow>
          if nm = ''memset'' then kmalloc_access (arg_ptr call 0 st) (arg_const call 2)
          else if nm = ''memcpy'' \<or> nm = ''__memcpy'' then
            kmalloc_access (arg_ptr call 0 st) (arg_const call 2) @
            kmalloc_access (arg_ptr call 1 st) (arg_const call 2)
          else if nm = ''dma_map_single'' \<and> dma_policy (cfg ctx) \<noteq> Dma_Ignore then
            any_access DmaMap (arg_ptr call 1 st) (arg_const call 2)
          else [])"

definition accesses :: "actx \<Rightarrow> Instruction \<Rightarrow> astate \<Rightarrow> access list" where
  "accesses ctx i st =
     (case i of
        Call call \<Rightarrow> call_accesses ctx call st
      | Store store \<Rightarrow>
          any_access Deref (local_ptr st (store_address store))
            (type_len ctx (module_type_of (modul ctx) (store_value store)))
      | Load load \<Rightarrow>
          (case load_address load of
             LocalOperand src _ \<Rightarrow>
               any_access Deref (ptr_env (reload_pointer src (dest load) st) src)
                 (type_len ctx (Some (loaded_ty load)))
           | _ \<Rightarrow> [])
      | _ \<Rightarrow> [])"

definition access_ok :: "astate \<Rightarrow> access \<Rightarrow> bool" where
  "access_ok st acc \<longleftrightarrow>
     (acc_kind acc \<noteq> DmaMap \<longrightarrow> acc_alloc acc \<notin> freed_allocs st) \<and>
     (\<exists>sz n. alloc_sizes st (acc_alloc acc) = Some sz \<and> acc_len acc = Some n \<and>
        in_bounds sz (acc_offset acc) n)"

definition access_bad :: "astate \<Rightarrow> access \<Rightarrow> bool" where
  "access_bad st acc \<longleftrightarrow>
     (acc_alloc acc \<in> freed_allocs st \<and>
        (acc_kind acc = Deref \<or> acc_kind acc = LibCall \<and> acc_len acc \<noteq> None)) \<or>
     (\<exists>sz n. alloc_sizes st (acc_alloc acc) = Some sz \<and> acc_len acc = Some n \<and>
        \<not> in_bounds sz (acc_offset acc) n)"

definition call_violation :: "actx \<Rightarrow> Call \<Rightarrow> astate \<Rightarrow> bool" where
  "call_violation ctx call st \<longleftrightarrow>
     (case function_name_of_call call of
        None \<Rightarrow> (\<exists>asm. call_function call = Inl asm) \<and> inline_asm_policy (cfg ctx) = Trap
      | Some nm \<Rightarrow>
          (nm = ''kfree'' \<and>
             (\<exists>a off. arg_ptr call 0 st = Some (Kmalloc a off) \<and> a \<in> freed_allocs st)) \<or>
          (nm = ''kcalloc'' \<and>
             (\<exists>n k. arg_const call 0 = Some n \<and> arg_const call 1 = Some k \<and>
                unat n * unat k \<ge> 2 ^ 64)))"

definition violation :: "actx \<Rightarrow> Instruction \<Rightarrow> astate \<Rightarrow> bool" where
  "violation ctx i st \<longleftrightarrow>
     (\<exists>acc \<in> set (accesses ctx i st). access_bad st acc) \<or>
     (\<exists>call. i = Call call \<and> call_violation ctx call st)"

text \<open>Nothing stands in the way of a decision: the gate is open and the solver answers.\<close>

definition decided :: "actx \<Rightarrow> astate \<Rightarrow> bool" where
  "decided ctx st \<longleftrightarrow>
     gate_mode (hitl_gate st) = Hitl_Off \<and> (\<forall>cs. check_sat (cfg ctx) cs \<noteq> SatResult_Unknown)"

definition sound_ctx :: "actx \<Rightarrow> astate \<Rightarrow> bool" where
  "sound_ctx ctx st \<longleftrightarrow>
     solver_sound (check_sat (cfg ctx)) \<and> frames (solver st) = [[]] \<and> wf_state st \<and>
     \<not> is_Fail (final_result st)"

section \<open>One bound check\<close>

lemma bounds_check_Safe:
  assumes "fst (bounds_check ctx sz off n vc cl st) = Safe" "solver_sound (check_sat (cfg ctx))"
    "frames (solver st) = [[]]"
  shows "in_bounds sz off n"
  using assms check_access_Safe [OF assms(2), of "solver st" sz off n vc cl "hitl_gate st"]
  by (cases "check_access (check_sat (cfg ctx)) sz off n vc cl (solver st) (hitl_gate st)")
     (auto simp: bounds_check_def)

lemma bounds_check_Oob:
  assumes "fst (bounds_check ctx sz off n vc cl st) = Oob" "solver_sound (check_sat (cfg ctx))"
    "frames (solver st) = [[]]"
  shows "\<not> in_bounds sz off n"
  using assms check_access_Oob [OF assms(2), of "solver st" sz off n vc cl "hitl_gate st"]
  by (cases "check_access (check_sat (cfg ctx)) sz off n vc cl (solver st) (hitl_gate st)")
     (auto simp: bounds_check_def)

lemma bounds_check_decided:
  assumes "decided ctx st"
  shows "fst (bounds_check ctx sz off n vc cl st) \<in> {Safe, Oob}"
proof -
  have "of_sat (check_sat (cfg ctx) cs) \<in> {Safe, Oob}" for cs
    using assms by (cases "check_sat (cfg ctx) cs") (auto simp: decided_def)
  moreover have "gate_permits (hitl_gate st) vc cl"
    using assms by (simp add: decided_def gate_permits_Off)
  ultimately show ?thesis by (simp add: bounds_check_def check_access_eq)
qed

text \<open>The three readings of a check, for the arms that share \<open>on_check\<close>.\<close>

lemma on_check_Pass:
  assumes "final_result (snd (on_check m1 m2 vc (bounds_check ctx sz off n vc' cl st))) = Pass"
    "sound_ctx ctx st"
  shows "in_bounds sz off n"
  using assms
  by (cases "fst (bounds_check ctx sz off n vc' cl st)")
     (auto simp: on_check_def sound_ctx_def intro: bounds_check_Safe)

lemma on_check_Break:
  assumes "fst (on_check m1 m2 vc (bounds_check ctx sz off n vc' cl st)) = Break" "sound_ctx ctx st"
  shows "\<not> in_bounds sz off n"
  using assms
  by (cases "fst (bounds_check ctx sz off n vc' cl st)")
     (auto simp: on_check_def sound_ctx_def dest: bounds_check_Oob)

lemma on_check_decided:
  assumes "decided ctx st" "sound_ctx ctx st" "\<not> in_bounds sz off n"
  shows "fst (on_check m1 m2 vc (bounds_check ctx sz off n vc' cl st)) = Break"
  using bounds_check_decided [OF assms(1), of sz off n vc' cl] assms(2,3)
    bounds_check_Safe [of ctx sz off n vc' cl st]
  by (auto simp: on_check_def sound_ctx_def)

section \<open>One step\<close>

text \<open>What a handler's result says of the accesses it made, given the state it started in.\<close>

definition judges :: "actx \<Rightarrow> astate \<Rightarrow> ctl \<times> astate \<Rightarrow> bool \<Rightarrow> bool \<Rightarrow> bool" where
  "judges ctx st r ok bad \<longleftrightarrow>
     (fst r \<noteq> Crash \<longrightarrow> final_result (snd r) = Pass \<longrightarrow> ok) \<and>
     (fst r = Break \<longrightarrow> bad) \<and> (bad \<longrightarrow> decided ctx st \<longrightarrow> fst r = Break)"

definition all_ok :: "astate \<Rightarrow> access list \<Rightarrow> bool" where
  "all_ok st accs \<longleftrightarrow> (\<forall>acc \<in> set accs. access_ok st acc)"

definition some_bad :: "astate \<Rightarrow> access list \<Rightarrow> bool" where
  "some_bad st accs \<longleftrightarrow> (\<exists>acc \<in> set accs. access_bad st acc)"

lemma all_some_simps [simp]:
  "all_ok st []" "\<not> some_bad st []"
  "all_ok st (acc # accs) \<longleftrightarrow> access_ok st acc \<and> all_ok st accs"
  "some_bad st (acc # accs) \<longleftrightarrow> access_bad st acc \<or> some_bad st accs"
  "all_ok st (accs @ accs') \<longleftrightarrow> all_ok st accs \<and> all_ok st accs'"
  "some_bad st (accs @ accs') \<longleftrightarrow> some_bad st accs \<or> some_bad st accs'"
  by (auto simp: all_ok_def some_bad_def)

lemma judges_quiet: "judges ctx st (Next, st') True False"
  by (simp add: judges_def)

lemma judges_marked:
  "\<not> bad \<Longrightarrow> judges ctx st (Next, mark r st') ok bad"
  by (simp add: judges_def)

lemma judges_failed: "bad \<Longrightarrow> judges ctx st (Break, fail r st') ok bad"
  by (simp add: judges_def)

lemma judges_on_check:
  assumes "sound_ctx ctx st" "alloc_sizes st a = Some sz" "k \<noteq> DmaMap \<longrightarrow> a \<notin> freed_allocs st"
  shows "judges ctx st (on_check m1 m2 vc (bounds_check ctx sz off n vc' cl st))
           (access_ok st \<lparr>acc_alloc = a, acc_offset = off, acc_len = Some n, acc_kind = k\<rparr>)
           (access_bad st \<lparr>acc_alloc = a, acc_offset = off, acc_len = Some n, acc_kind = k\<rparr>)"
  using assms on_check_Pass [OF _ assms(1)] on_check_Break [OF _ assms(1)]
    on_check_decided [OF _ assms(1)]
  by (auto simp: judges_def access_ok_def access_bad_def)

lemma kmalloc_size:
  assumes "sound_ctx ctx st" "ptr_env st nm = Some pv" "ptrval_alloc_info pv = Some (a, off)"
  obtains w where "alloc_sizes st a = Some (Int_from_u64 w)"
  using assms wf_tracked_size [of st a] by (auto simp: sound_ctx_def tracks_def)

lemma judges_mono: "judges ctx st r ok bad \<Longrightarrow> (ok \<Longrightarrow> ok') \<Longrightarrow> bad = bad' \<Longrightarrow> judges ctx st r ok' bad'"
  by (auto simp: judges_def)

text \<open>The check that memset and each side of memcpy make.\<close>

lemma judges_kmalloc_check:
  assumes "sound_ctx ctx st"
  shows "judges ctx st
     (case ptr_env st nm of
        Some (Kmalloc a off) \<Rightarrow>
          (if a \<in> freed_allocs st then (Break, fail m0 st)
           else (case alloc_sizes st a of
                   None \<Rightarrow> (Next, mark m1 st)
                 | Some sz \<Rightarrow> on_check m2 m3 vc (bounds_check ctx sz off n vc cl st)))
      | _ \<Rightarrow> (Next, st))
     (all_ok st (kmalloc_access (ptr_env st nm) (Some n)))
     (some_bad st (kmalloc_access (ptr_env st nm) (Some n)))"
proof (cases "ptr_env st nm")
  case (Some pv)
  show ?thesis
  proof (cases pv)
    case (Kmalloc a off)
    then obtain w where "alloc_sizes st a = Some (Int_from_u64 w)"
      using kmalloc_size [OF assms Some] by auto
    then show ?thesis
      using Some Kmalloc judges_on_check [OF assms, of a "Int_from_u64 w" LibCall]
      by (simp add: kmalloc_access_def judges_failed access_bad_def)
  qed (simp_all add: Some kmalloc_access_def judges_quiet)
qed (simp add: kmalloc_access_def judges_quiet)

lemma kmalloc_access_no_len: "\<not> some_bad st (kmalloc_access pv None)"
  by (auto simp: kmalloc_access_def access_bad_def split: option.split PtrVal.split)

lemma kmalloc_access_None [simp]: "kmalloc_access None n = []"
  by (simp add: kmalloc_access_def)

lemma judges_memset:
  assumes "sound_ctx ctx st" and accs: "accs = kmalloc_access (arg_ptr call 0 st) (arg_const call 2)"
  shows "judges ctx st (handle_memset ctx call st) (all_ok st accs) (some_bad st accs)"
  unfolding handle_memset_def Let_def accs arg_ptr_def arg_const_def local_ptr_def
  by (cases "call_arg call 0"; cases "call_arg call 2";
      cases "operand_local_name (the (call_arg call 0))";
      cases "operand_const_u64 (the (call_arg call 2))")
     (simp_all add: judges_quiet judges_marked kmalloc_access_no_len judges_kmalloc_check [OF assms(1)])

lemma judges_memcpy_side:
  assumes "sound_ctx ctx st" and accs: "accs = kmalloc_access (local_ptr st op) (Some n)"
  shows "judges ctx st (memcpy_side ctx n op knd st) (all_ok st accs) (some_bad st accs)"
  unfolding memcpy_side_def Let_def accs local_ptr_def
  by (cases "operand_local_name op") (simp_all add: judges_quiet judges_kmalloc_check [OF assms(1)])

lemma upds_sound_ctx:
  "upds ctx st st' \<Longrightarrow> sound_ctx ctx st \<Longrightarrow> \<not> is_Fail (final_result st') \<Longrightarrow> sound_ctx ctx st'"
proof -
  assume "upds ctx st st'"
  then have "frames (solver st') = frames (solver st) \<and> (wf_state st \<longrightarrow> wf_state st')"
    by (induction rule: rtranclp_induct) (auto simp: upd_frames intro: wf_upd)
  then show "sound_ctx ctx st \<Longrightarrow> \<not> is_Fail (final_result st') \<Longrightarrow> sound_ctx ctx st'"
    by (simp add: sound_ctx_def)
qed

lemma upds_decided: "upds ctx st st' \<Longrightarrow> decided ctx st' \<longleftrightarrow> decided ctx st"
proof (induction rule: rtranclp_induct)
  case (step st1 st2)
  then show ?case using upd_gate [OF step(2)] by (simp add: decided_def gate_extends_def)
qed simp

lemma upds_result: "upds ctx st st' \<Longrightarrow> result_le (final_result st) (final_result st')"
  by (induction rule: rtranclp_induct) (auto intro: result_le_trans upd_result)

lemma heap_part_judged:
  assumes "heap_part st' = heap_part st"
  shows "local_ptr st' = local_ptr st" "all_ok st' = all_ok st" "some_bad st' = some_bad st"
  using heap_partD [OF assms]
  by (intro ext, simp add: local_ptr_def all_ok_def some_bad_def access_ok_def access_bad_def)+

lemma heap_part_on_check [simp]:
  "heap_part (snd (on_check m1 m2 vc (bounds_check ctx sz off n vc' cl st))) = heap_part st"
  by (simp add: on_check_def split: AccessCheckResult.split)

lemma heap_part_memcpy_side: "heap_part (snd (memcpy_side ctx n op knd st)) = heap_part st"
  unfolding memcpy_side_def Let_def by (simp split: option.split PtrVal.split)

text \<open>Two checks in sequence, the second only when the first did not break.\<close>

lemma judges_seq:
  assumes j1: "judges ctx st (k1, st1) ok1 bad1" and p1: "proper ctx st (k1, st1)"
    and j2: "\<not> is_Fail (final_result st1) \<Longrightarrow> judges ctx st1 (k2, st2) ok2 bad2"
    and p2: "\<not> is_Fail (final_result st1) \<Longrightarrow> proper ctx st1 (k2, st2)"
    and nc: "k1 \<noteq> Crash" "k2 \<noteq> Crash"
    and st': "st' = (if k1 = Break then st1 else st2)"
  shows "judges ctx st (if is_Fail (final_result st') then Break else Next, st') (ok1 \<and> ok2) (bad1 \<or> bad2)"
proof -
  have e1: "is_Fail (final_result st1) \<longleftrightarrow> k1 = Break" using properD [OF p1] nc by auto
  have d: "decided ctx st1 \<longleftrightarrow> decided ctx st" using properD [OF p1] upds_decided by blast
  show ?thesis
  proof (cases "k1 = Break")
    case True
    then show ?thesis using j1 e1 st' by (auto simp: judges_def)
  next
    case False
    have e2: "is_Fail (final_result st2) \<longleftrightarrow> k2 = Break" using properD p2 e1 False nc by blast
    have le: "result_le (final_result st1) (final_result st2)"
      using properD(1) [OF p2] e1 False upds_result by blast
    have "final_result st1 = Pass" if "final_result st2 = Pass" using le that by simp
    then show ?thesis using j1 j2 e1 e2 d False nc st'
      by (auto simp: judges_def)
  qed
qed

lemma memcpy_side_not_Crash: "fst (memcpy_side ctx n op knd st) \<noteq> Crash"
  unfolding memcpy_side_def Let_def
  by (simp add: on_check_not_Crash split: option.split PtrVal.split)

lemma call_arg_below: "call_arg call i = None \<Longrightarrow> i \<le> j \<Longrightarrow> call_arg call j = None"
  by (auto simp: call_arg_def vec_get_def split: if_splits)

lemma judges_memcpy_checks:
  assumes sc: "sound_ctx ctx st"
    and args: "call_arg call 0 = Some dop" "call_arg call 1 = Some sop" "call_arg call 2 = Some lop"
      "operand_const_u64 lop = Some n"
    and accs: "accs = kmalloc_access (local_ptr st dop) (Some n) @ kmalloc_access (local_ptr st sop) (Some n)"
  shows "judges ctx st (handle_memcpy ctx call st) (all_ok st accs) (some_bad st accs)"
proof -
  obtain k1 st1 where s1: "memcpy_side ctx n dop ''destination'' st = (k1, st1)"
    by (cases "memcpy_side ctx n dop ''destination'' st")
  obtain k2 st2 where s2: "memcpy_side ctx n sop ''source'' st1 = (k2, st2)"
    by (cases "memcpy_side ctx n sop ''source'' st1")
  have nf: "\<not> is_Fail (final_result st)" using sc by (simp add: sound_ctx_def)
  have p1: "proper ctx st (k1, st1)" using proper_memcpy_side [OF nf rtranclp.rtrancl_refl, of ctx n dop "''destination''"] s1 by simp
  have hp: "heap_part st1 = heap_part st" using heap_part_memcpy_side [of ctx n dop "''destination''" st] s1 by simp
  have sc1: "sound_ctx ctx st1" if "\<not> is_Fail (final_result st1)"
    using upds_sound_ctx [OF properD(1) [OF p1] sc that] .
  have j: "judges ctx st (if is_Fail (final_result st') then Break else Next, st')
      (all_ok st (kmalloc_access (local_ptr st dop) (Some n)) \<and>
       all_ok st (kmalloc_access (local_ptr st sop) (Some n)))
      (some_bad st (kmalloc_access (local_ptr st dop) (Some n)) \<or>
       some_bad st (kmalloc_access (local_ptr st sop) (Some n)))"
    if st': "st' = (if k1 = Break then st1 else st2)" for st'
  proof (rule judges_seq [OF _ p1 _ _ _ _ st'])
    show "judges ctx st (k1, st1) (all_ok st (kmalloc_access (local_ptr st dop) (Some n)))
        (some_bad st (kmalloc_access (local_ptr st dop) (Some n)))"
      using judges_memcpy_side [OF sc refl, of n dop "''destination''"] s1 by simp
    show "k1 \<noteq> Crash" "k2 \<noteq> Crash" using memcpy_side_not_Crash s1 s2 by (metis fst_conv)+
    assume f: "\<not> is_Fail (final_result st1)"
    show "judges ctx st1 (k2, st2) (all_ok st (kmalloc_access (local_ptr st sop) (Some n)))
        (some_bad st (kmalloc_access (local_ptr st sop) (Some n)))"
      using judges_memcpy_side [OF sc1 [OF f] refl, of n sop "''source''"] s2 heap_part_judged [OF hp]
      by simp
    show "proper ctx st1 (k2, st2)" using proper_memcpy_side [OF f rtranclp.rtrancl_refl, of ctx n sop "''source''"] s2 by simp
  qed
  then show ?thesis using args s1 s2 accs j [OF refl]
    by (cases "k1 = Break") (simp_all add: handle_memcpy_def)
qed

lemma judges_memcpy:
  assumes "sound_ctx ctx st"
    and accs: "accs = kmalloc_access (arg_ptr call 0 st) (arg_const call 2) @
      kmalloc_access (arg_ptr call 1 st) (arg_const call 2)"
  shows "judges ctx st (handle_memcpy ctx call st) (all_ok st accs) (some_bad st accs)"
proof (cases "arg_const call 2")
  case None
  then have "\<not> some_bad st accs" by (simp add: accs kmalloc_access_no_len)
  moreover have "accs = []" if "call_arg call 0 = None"
    using that call_arg_below [OF that] by (simp add: accs arg_ptr_def)
  ultimately show ?thesis using None
    by (auto simp: handle_memcpy_def arg_const_def judges_quiet judges_marked bind_eq_None_conv split: option.split)
next
  case (Some n)
  then obtain lop where l: "call_arg call 2 = Some lop" "operand_const_u64 lop = Some n"
    by (auto simp: arg_const_def bind_eq_Some_conv)
  then obtain dop sop where "call_arg call 0 = Some dop" "call_arg call 1 = Some sop"
    using call_arg_below [of call 0 2] call_arg_below [of call 1 2] by fastforce
  then show ?thesis
    using judges_memcpy_checks [OF assms(1) _ _ l] Some by (simp add: accs arg_ptr_def)
qed

lemma judges_on_dma_check:
  assumes "sound_ctx ctx st" "alloc_sizes st a = Some sz"
  shows "judges ctx st (on_dma_check ctx vc (bounds_check ctx sz off n vc' cl st))
           (access_ok st \<lparr>acc_alloc = a, acc_offset = off, acc_len = Some n, acc_kind = DmaMap\<rparr>)
           (access_bad st \<lparr>acc_alloc = a, acc_offset = off, acc_len = Some n, acc_kind = DmaMap\<rparr>)"
  using assms bounds_check_Safe [of ctx sz off n vc' cl st] bounds_check_Oob [of ctx sz off n vc' cl st]
    bounds_check_decided [of ctx st sz off n vc' cl]
  by (cases "fst (bounds_check ctx sz off n vc' cl st)")
     (auto simp: judges_def on_dma_check_def Let_def access_ok_def access_bad_def sound_ctx_def)

lemma any_access_no_len: "\<not> some_bad st (any_access DmaMap pv None)"
  by (auto simp: any_access_def access_bad_def split: option.split)

lemma any_access_None [simp]: "any_access k None n = []"
  by (simp add: any_access_def)

lemma judges_dma_map:
  assumes "sound_ctx ctx st" and accs: "accs = any_access DmaMap (arg_ptr call 1 st) (arg_const call 2)"
  shows "judges ctx st (handle_dma_map ctx call st) (all_ok st accs) (some_bad st accs)"
proof (cases "arg_const call 2")
  case None
  then have "\<not> some_bad st accs" by (simp add: accs any_access_no_len)
  then show ?thesis using None
    by (auto simp: handle_dma_map_def arg_const_def judges_marked bind_eq_None_conv split: option.split)
next
  case (Some n)
  then obtain lop where l: "call_arg call 2 = Some lop" "operand_const_u64 lop = Some n"
    by (auto simp: arg_const_def bind_eq_Some_conv)
  then obtain pop where p: "call_arg call 1 = Some pop" using call_arg_below [of call 1 2] by fastforce
  show ?thesis
  proof (cases "Option.bind (local_ptr st pop) ptrval_alloc_info")
    case None
    then show ?thesis using l p
      by (auto simp: accs handle_dma_map_def arg_ptr_def any_access_def local_ptr_def judges_quiet
          bind_eq_None_conv split: option.split)
  next
    case (Some ao)
    then obtain nm pv a off where nm: "operand_local_name pop = Some nm" "ptr_env st nm = Some pv"
      and pv: "ptrval_alloc_info pv = Some (a, off)"
      by (cases ao) (auto simp: local_ptr_def bind_eq_Some_conv)
    obtain w where "alloc_sizes st a = Some (Int_from_u64 w)" using kmalloc_size [OF assms(1) nm(2) pv] .
    then show ?thesis
      using l p nm pv judges_on_dma_check [OF assms(1), of a "Int_from_u64 w"]
      by (simp add: accs handle_dma_map_def arg_ptr_def any_access_def local_ptr_def Let_def
          \<open>arg_const call 2 = Some n\<close>)
  qed
qed

lemma judges_after_irq:
  assumes "judges ctx st (k, st1) ok bad" "k \<noteq> Crash"
  shows "judges ctx st (if k = Break then (Break, st1) else (Next, irq_race_check ctx knd what a st1)) ok bad"
proof -
  have "final_result st1 = Pass" if "final_result (irq_race_check ctx knd what a st1) = Pass"
    using that by (auto simp: irq_race_check_def ask_gate_def split_beta Let_def split: if_splits)
  then show ?thesis using assms by (cases k) (auto simp: judges_def)
qed

lemma judges_check_deref:
  assumes "sound_ctx ctx st" "ptr_env st nm = Some pv"
    and accs: "accs = any_access Deref (Some pv) (type_len ctx ty)"
  shows "judges ctx st (check_deref ctx what m pv ty st) (all_ok st accs) (some_bad st accs)"
proof (cases "ptrval_alloc_info pv")
  case None
  then show ?thesis by (simp add: accs check_deref_def any_access_def judges_quiet)
next
  case (Some ao)
  then obtain a off where pv: "ptrval_alloc_info pv = Some (a, off)" by (cases ao) auto
  obtain w where w: "alloc_sizes st a = Some (Int_from_u64 w)" using kmalloc_size [OF assms(1,2) pv] .
  show ?thesis
  proof (cases "a \<in> freed_allocs st")
    case True
    then show ?thesis using pv
      by (simp add: accs check_deref_def any_access_def judges_failed access_bad_def)
  next
    case False
    define sz where "sz = Option.bind ty (type_size (max_depth (cfg ctx)) (module_types (modul ctx)))"
    have len: "type_len ctx ty = Option.bind sz id" by (simp add: type_len_def sz_def)
    consider "sz = None" | "sz = Some None" | n where "sz = Some (Some n)" by (metis not_None_eq)
    then show ?thesis
    proof cases
      case (3 n)
      obtain k st1 where s: "on_check (''Out-of-bounds '' @ what @ '' in function '' @ fname ctx)
          (''Solver returned unknown for '' @ what @ '' bound check'') (ctx_vc ctx what)
          (bounds_check ctx (Int_from_u64 w) off n (ctx_vc ctx what) (vc_class_id what n) st) = (k, st1)"
        by fastforce
      have accs1: "accs = [\<lparr>acc_alloc = a, acc_offset = off, acc_len = Some n, acc_kind = Deref\<rparr>]"
        using 3 pv by (simp add: accs any_access_def len)
      have "judges ctx st (k, st1) (all_ok st accs) (some_bad st accs)"
        unfolding s [symmetric] accs1 using judges_on_check [OF assms(1) w, of Deref] False by simp
      moreover have "k \<noteq> Crash" using s on_check_not_Crash by (metis fst_conv)
      ultimately show ?thesis
        using pv False 3 w s unfolding sz_def
        by (simp add: check_deref_def judges_after_irq del: append_Cons append.simps)
    qed (use False pv sz_def in \<open>auto simp: accs check_deref_def any_access_def judges_def len access_bad_def\<close>)
  qed
qed

text \<open>Spilling a pointer changes nothing an access is judged by; reloading changes one binding.\<close>

lemma spill_keeps [simp]:
  "ptr_env (spill_pointer nm val st) = ptr_env st"
  "freed_allocs (spill_pointer nm val st) = freed_allocs st"
  "alloc_sizes (spill_pointer nm val st) = alloc_sizes st"
  "freed_allocs (reload_pointer nm d st) = freed_allocs st"
  "alloc_sizes (reload_pointer nm d st) = alloc_sizes st"
  by (simp_all add: spill_pointer_def reload_pointer_def set_ptr_def split: Operand.split option.split)

lemma judges_from:
  assumes "judges ctx st' r (all_ok st' accs) (some_bad st' accs)" "upds ctx st st'"
    "freed_allocs st' = freed_allocs st" "alloc_sizes st' = alloc_sizes st"
  shows "judges ctx st r (all_ok st accs) (some_bad st accs)"
proof -
  have "all_ok st' accs = all_ok st accs" "some_bad st' accs = some_bad st accs"
    using assms(3,4) by (simp_all add: all_ok_def some_bad_def access_ok_def access_bad_def)
  then show ?thesis using assms(1) upds_decided [OF assms(2)] by (simp add: judges_def)
qed

lemma judges_store:
  assumes "sound_ctx ctx st" and accs: "accs = accesses ctx (Store store) st"
  shows "judges ctx st (handle_store ctx store st) (all_ok st accs) (some_bad st accs)"
proof (cases "store_address store")
  case (LocalOperand nm ty)
  let ?st = "spill_pointer nm (store_value store) st"
  have sc: "sound_ctx ctx ?st"
    using upds_sound_ctx [OF spill_upds assms(1)] assms(1) by (simp add: sound_ctx_def)
  show ?thesis
  proof (cases "ptr_env st nm")
    case (Some pv)
    then have "ptr_env ?st nm = Some pv" by simp
    from judges_from [OF judges_check_deref [OF sc this refl] spill_upds] show ?thesis
      using LocalOperand Some
      by (simp add: handle_store_def Let_def accs accesses_def local_ptr_def operand_local_name_def)
  qed (use LocalOperand in \<open>simp add: handle_store_def Let_def accs accesses_def local_ptr_def
      operand_local_name_def judges_quiet\<close>)
qed (simp_all add: handle_store_def accs accesses_def local_ptr_def operand_local_name_def judges_quiet)

lemma judges_load:
  assumes "sound_ctx ctx st" and accs: "accs = accesses ctx (Load load) st"
  shows "judges ctx st (handle_load ctx load st) (all_ok st accs) (some_bad st accs)"
proof (cases "load_address load")
  case (LocalOperand nm ty)
  let ?st = "reload_pointer nm (dest load) st"
  have sc: "sound_ctx ctx ?st"
    using upds_sound_ctx [OF reload_upds assms(1)] assms(1) by (simp add: sound_ctx_def)
  show ?thesis
  proof (cases "ptr_env ?st nm")
    case (Some pv)
    from judges_from [OF judges_check_deref [OF sc this refl] reload_upds] show ?thesis
      using LocalOperand Some
      by (simp add: handle_load_def Let_def accs accesses_def)
  qed (use LocalOperand in \<open>simp add: handle_load_def Let_def accs accesses_def judges_quiet\<close>)
qed (simp_all add: handle_load_def accs accesses_def judges_quiet)

lemma judges_kfree:
  "judges ctx st (handle_kfree ctx call st) True
     (\<exists>a off. arg_ptr call 0 st = Some (Kmalloc a off) \<and> a \<in> freed_allocs st)"
  by (auto simp: handle_kfree_def judges_def arg_ptr_def local_ptr_def split: option.splits PtrVal.splits)

lemma judges_kcalloc:
  "judges ctx st (handle_kcalloc call st) True
     (\<exists>n k. arg_const call 0 = Some n \<and> arg_const call 1 = Some k \<and> unat n * unat k \<ge> 2 ^ 64)"
  by (auto simp: handle_kcalloc_def judges_def arg_const_def checked_mul_def split: option.splits if_splits)

lemma judges_inline_asm:
  "judges ctx st (handle_inline_asm ctx call st) True
     ((\<exists>asm. call_function call = Inl asm) \<and> inline_asm_policy (cfg ctx) = Trap)"
  by (auto simp: handle_inline_asm_def judges_def Let_def split_beta
      split: sum.splits InlineAsmPolicy.splits if_splits)

lemma judges_only_Next: "fst r = Next \<Longrightarrow> judges ctx st r True False"
  by (simp add: judges_def)

lemma only_Next:
  "fst (handle_alloca i st) = Next" "fst (handle_kmalloc call st) = Next"
  "fst (handle_dma_alloc ctx call st) = Next" "fst (handle_iommu_map st) = Next"
  "fst (handle_ptrtoint c1 st) = Next" "fst (handle_inttoptr c2 st) = Next"
  "fst (handle_add a st) = Next" "fst (handle_sub s st) = Next" "fst (handle_bitcast c3 st) = Next"
  by (simp_all add: handler_defs Let_def split: option.split Operand.split)

lemma gep_no_Break: "fst (handle_gep ctx gep st) \<noteq> Break"
  by (simp add: handler_defs split: option.split Operand.split PtrVal.split)

lemmas judges_quiet_handlers = only_Next [THEN judges_only_Next]

lemmas call_defs = handle_call_def call_accesses_def call_violation_def

lemma judges_call:
  assumes "sound_ctx ctx st"
  shows "judges ctx st (handle_call ctx call st) (all_ok st (call_accesses ctx call st))
     (some_bad st (call_accesses ctx call st) \<or> call_violation ctx call st)"
proof (cases "function_name_of_call call")
  case None
  then show ?thesis using judges_inline_asm [of ctx st call] assms
    by (simp add: handle_call_def call_accesses_def call_violation_def sound_ctx_def)
next
  case (Some nm)
  have nf: "\<not> is_Fail (final_result st)" using assms by (simp add: sound_ctx_def)
  consider "nm = ''memset''" | "nm = ''memcpy'' \<or> nm = ''__memcpy''"
    | "nm = ''dma_map_single''" "dma_policy (cfg ctx) \<noteq> Dma_Ignore" | "nm = ''kfree''" | "nm = ''kcalloc''"
    | "nm = ''kmalloc'' \<or> nm = ''kzalloc''"
    | "nm = ''dma_alloc_coherent''" "dma_policy (cfg ctx) \<noteq> Dma_Ignore" | "nm = ''iommu_map''"
    | "nm \<noteq> ''memset''" "nm \<noteq> ''memcpy''" "nm \<noteq> ''__memcpy''" "nm \<noteq> ''kfree''" "nm \<noteq> ''kcalloc''"
      "nm \<noteq> ''kmalloc''" "nm \<noteq> ''kzalloc''" "nm \<noteq> ''iommu_map''"
      "\<not> (nm = ''dma_map_single'' \<and> dma_policy (cfg ctx) \<noteq> Dma_Ignore)"
      "\<not> (nm = ''dma_alloc_coherent'' \<and> dma_policy (cfg ctx) \<noteq> Dma_Ignore)"
    by argo
  then show ?thesis
  proof cases
    case 1
    with judges_memset [OF assms refl, of call] show ?thesis using Some nf
      by (auto simp: call_defs)
  next
    case 2
    with judges_memcpy [OF assms refl, of call] show ?thesis using Some nf
      by (auto simp: call_defs)
  next
    case 3
    with judges_dma_map [OF assms refl, of call] show ?thesis using Some nf
      by (auto simp: call_defs)
  next
    case 4
    with judges_kfree [of ctx st call] show ?thesis using Some nf
      by (auto simp: call_defs)
  next
    case 5
    with judges_kcalloc [of ctx st call] show ?thesis using Some nf
      by (auto simp: call_defs)
  next
    case 6
    then show ?thesis using Some nf
      by (elim disjE; simp add: call_defs judges_quiet_handlers)
  next
    case 7
    then show ?thesis using Some nf
      by (simp add: call_defs judges_quiet_handlers)
  next
    case 8
    then show ?thesis using Some nf
      by (simp add: call_defs judges_quiet_handlers)
  next
    case 9
    with judges_quiet [of ctx st st] show ?thesis using Some nf
      by (auto simp: call_defs)
  qed
qed

lemma judges_step:
  assumes "sound_ctx ctx st"
  shows "judges ctx st (step_instr ctx i st) (all_ok st (accesses ctx i st)) (violation ctx i st)"
proof -
  have v: "violation ctx i st \<longleftrightarrow> some_bad st (accesses ctx i st) \<or>
      (\<exists>call. i = Call call \<and> call_violation ctx call st)"
    by (simp add: violation_def some_bad_def)
  have g: "judges ctx st (handle_gep ctx gep st) True False" for gep
    using gep_no_Break [of ctx gep st] by (simp add: judges_def)
  show ?thesis unfolding v
    by (cases i) (simp_all add: step_instr_def accesses_def judges_call [OF assms] g judges_quiet
      judges_quiet_handlers judges_store [OF assms refl, unfolded accesses_def Instruction.simps]
      judges_load [OF assms refl, unfolded accesses_def Instruction.simps])
qed

end
