(* ===== verification/Analyzer_Soundness.thy ===== *)
theory Analyzer_Soundness
  imports Analyzer_Accesses
begin

text \<open>
  What the result of \<open>analyze\<close> means. From the facts on one step (\<open>judges_step\<close>) and the locales of
  \<open>Analyzer_Steps\<close>: which instructions a run visits, that \<open>Pass\<close> means that every tracked access of
  every instruction is good, that \<open>Fail\<close> is always caused by a violation of a visited instruction or
  by the DMA policy, and that with an open gate and a solver that answers every visited violation
  is reported. The same for interrupt handlers, inline assembly and IOMMU mappings, and when the
  analysis is certain not to panic.
\<close>

section \<open>What a run visits\<close>

type_synonym place = "string \<times> nat \<times> nat \<times> Instruction"

definition place_of :: "visit \<Rightarrow> place" where
  "place_of v = (case v of (ctx, i, st) \<Rightarrow> (fname ctx, bb_idx ctx, instr_idx ctx, i))"

definition block_places :: "string \<Rightarrow> nat \<times> BasicBlock \<Rightarrow> place list" where
  "block_places f = (\<lambda>(b, bb). map (\<lambda>(n, i). (f, b, n, i)) (enumerate 0 (instrs bb)))"

definition function_places :: "Function \<Rightarrow> place list" where
  "function_places f = concat (map (block_places (func_name f)) (enumerate 0 (basic_blocks f)))"

definition places :: "Module \<Rightarrow> place list" where
  "places m = concat (map function_places (module_functions m))"

lemma trace_instrs_places:
  "fst (run_instrs ctx is st) = Next \<Longrightarrow>
     map place_of (trace_instrs ctx is st) =
     map (\<lambda>(n, i). (fname ctx, bb_idx ctx, n, i)) (enumerate (instr_idx ctx) is)"
proof (induction ctx "is" st rule: run_instrs.induct)
  case (2 ctx i rest st)
  then show ?case
    by (cases "step_instr ctx i st"; cases "fst (step_instr ctx i st)") (auto simp: place_of_def)
qed simp

lemma trace_blocks_places:
  "\<not> is_Fail (final_result st) \<Longrightarrow> fst (run_blocks ctx bbs st) = Next \<Longrightarrow>
     map place_of (trace_blocks ctx bbs st) =
     concat (map (block_places (fname ctx)) (enumerate (bb_idx ctx) bbs))"
proof (induction bbs arbitrary: ctx st)
  case (Cons bb rest)
  obtain k1 st1 where s: "run_instrs (ctx\<lparr>instr_idx := 0\<rparr>) (instrs bb) st = (k1, st1)"
    by (cases "run_instrs (ctx\<lparr>instr_idx := 0\<rparr>) (instrs bb) st")
  have go: "\<not> (k1 = Crash \<or> is_Fail (final_result st1))"
    using Cons.prems(2) s by (cases k1) auto
  then have "k1 = Next" using run_instrs_end [OF Cons.prems(1) s] by (cases k1) auto
  then have "map place_of (trace_instrs (ctx\<lparr>instr_idx := 0\<rparr>) (instrs bb) st) =
      block_places (fname ctx) (bb_idx ctx, bb)"
    using trace_instrs_places [of "ctx\<lparr>instr_idx := 0\<rparr>" "instrs bb" st] s
    by (simp add: block_places_def)
  then show ?case
    using Cons.IH [of st1 "ctx\<lparr>bb_idx := bb_idx ctx + 1\<rparr>"] Cons.prems(2) go
    unfolding trace_blocks_go [OF s go] run_blocks_go [OF s go] by simp
qed simp

lemma trace_functions_places:
  "\<not> is_Fail (final_result st) \<Longrightarrow> fst (run_functions ctx fs st) = Next \<Longrightarrow>
     map place_of (trace_functions ctx fs st) = concat (map function_places fs)"
proof (induction fs arbitrary: st)
  case (Cons f rest)
  let ?c = "ctx\<lparr>fname := func_name f, bb_idx := 0\<rparr>"
  obtain k1 st1 where s: "run_blocks ?c (basic_blocks f) st = (k1, st1)"
    by (cases "run_blocks ?c (basic_blocks f) st")
  have go: "\<not> (k1 = Crash \<or> is_Fail (final_result st1))"
    using Cons.prems(2) s by (cases k1) auto
  then have "k1 = Next" using run_blocks_end [OF Cons.prems(1) s] by (cases k1) auto
  then have "map place_of (trace_blocks ?c (basic_blocks f) st) = function_places f"
    using trace_blocks_places [OF Cons.prems(1), of ?c "basic_blocks f"] s
    by (simp add: function_places_def)
  then show ?case
    using Cons.IH [of st1] Cons.prems(2) go
    unfolding trace_functions_go [OF s go] run_functions_go [OF s go] by simp
qed simp

section \<open>From the last state to the result\<close>

lemma analyze_final:
  "analyze c m gate = Some (oc, g) \<longleftrightarrow>
     (\<exists>st. final_state c m gate = Some st \<and> oc = outcome_of st \<and> g = hitl_gate st)"
  by (auto simp: analyze_def)

lemma enforce_iommu_Pass:
  "final_result (enforce_iommu c st) = Pass \<longleftrightarrow>
     final_result st = Pass \<and>
     (dma_policy c = RequireIommu \<longrightarrow> set (set_iter c (dma_allocs_in_func st)) \<subseteq> iommu_mapped_in_func st)"
  by (auto simp: enforce_iommu_def find_None_iff find_Some_iff split: option.split dest: nth_mem)

lemma enforce_iommu_gate [simp]: "hitl_gate (enforce_iommu c st) = hitl_gate st"
  by (simp add: enforce_iommu_def split: option.split)

lemma final_state_run:
  assumes "final_state c m gate = Some st"
  shows "fst (run_functions (init_ctx c m) (module_functions m) (init_state gate)) \<noteq> Crash"
    and "st = enforce_iommu c (last_state c m gate)"
  using assms final_state_last by (auto simp: final_state_def split: ctl.splits prod.splits)

lemma oc_result_outcome [simp]: "oc_result (outcome_of st) = final_result st"
  by (simp add: outcome_of_def)

text \<open>A run that does not fail visits every instruction of the module, in order.\<close>

lemma analyze_visits_all:
  assumes "analyze c m gate = Some (oc, g)" "\<not> is_Fail (oc_result oc)"
  shows "map place_of (trace c m gate) = places m"
proof -
  let ?r = "run_functions (init_ctx c m) (module_functions m) (init_state gate)"
  obtain st where st: "final_state c m gate = Some st" "oc = outcome_of st"
    using assms(1) by (auto simp: analyze_final)
  have "\<not> is_Fail (final_result (enforce_iommu c (last_state c m gate)))"
    using assms(2) st final_state_run(2) by simp
  then have "\<not> is_Fail (final_result (last_state c m gate))"
    by (auto simp: enforce_iommu_def split: if_splits option.splits)
  then have "fst ?r \<noteq> Break"
    using run_functions_end [of "init_state gate" "init_ctx c m" "module_functions m" "fst ?r" "snd ?r"]
    by (simp add: last_state_def)
  then have "fst ?r = Next" using final_state_run(1) [OF st(1)] by (cases "fst ?r") auto
  then show ?thesis
    unfolding trace_def places_def by (intro trace_functions_places) simp_all
qed

section \<open>Pass is sound\<close>

lemma sound_visit:
  assumes "(ctx, i, st) \<in> set (trace c m gate)" "solver_sound (check_sat c)"
  shows "sound_ctx ctx st" "ctx_of c m ctx"
proof -
  have "wf_state st" "ctx_of c m ctx" "\<not> is_Fail (final_result st)"
    using wf.I_trace [OF wf_init assms(1)] by blast+
  moreover have "frames (solver st) = [[]]"
    using balanced.I_trace(1) [OF _ assms(1)] by (simp add: Solver_new_def)
  ultimately show "sound_ctx ctx st" "ctx_of c m ctx"
    using assms(2) by (simp_all add: sound_ctx_def ctx_of_def)
qed

text \<open>The results of the steps lie below the result of the run.\<close>

lemma step_below_last:
  assumes "(ctx, i, st) \<in> set (trace c m gate)"
  shows "result_le (final_result (snd (step_instr ctx i st))) (final_result (last_state c m gate))"
  using result_order.between_trace [OF assms] by (simp add: between_def)

text \<open>How the loops end is how one of the visited instructions ends.\<close>

definition ctl_of :: "visit \<Rightarrow> ctl" where
  "ctl_of v = (case v of (ctx, i, st) \<Rightarrow> fst (step_instr ctx i st))"

definition ends_as :: "visit list \<Rightarrow> ctl \<Rightarrow> bool" where
  "ends_as tr k \<longleftrightarrow> (k \<noteq> Next \<longrightarrow> (\<exists>v \<in> set tr. ctl_of v = k)) \<and> (\<forall>v \<in> set tr. ctl_of v \<in> {Next, k})"

lemma ends_as_append: "ends_as xs Next \<Longrightarrow> ends_as ys k \<Longrightarrow> ends_as (xs @ ys) k"
  by (auto simp: ends_as_def)

lemma ends_as_instrs: "ends_as (trace_instrs ctx is st) (fst (run_instrs ctx is st))"
proof (induction ctx "is" st rule: run_instrs.induct)
  case (2 ctx i rest st)
  then show ?case
    by (cases "step_instr ctx i st"; cases "fst (step_instr ctx i st)") (auto simp: ends_as_def ctl_of_def)
qed (simp add: ends_as_def)

lemma ends_as_blocks:
  "\<not> is_Fail (final_result st) \<Longrightarrow> ends_as (trace_blocks ctx bbs st) (fst (run_blocks ctx bbs st))"
proof (induction bbs arbitrary: ctx st)
  case (Cons bb rest)
  obtain k1 st1 where s: "run_instrs (ctx\<lparr>instr_idx := 0\<rparr>) (instrs bb) st = (k1, st1)"
    by (cases "run_instrs (ctx\<lparr>instr_idx := 0\<rparr>) (instrs bb) st")
  have e: "ends_as (trace_instrs (ctx\<lparr>instr_idx := 0\<rparr>) (instrs bb) st) k1"
    "is_Fail (final_result st1) \<longleftrightarrow> k1 = Break"
    using ends_as_instrs [of "ctx\<lparr>instr_idx := 0\<rparr>" "instrs bb" st] run_instrs_end [OF Cons.prems s] s
    by simp_all
  show ?case
    using e s Cons.IH [of st1] ends_as_append [of _ "trace_blocks (ctx\<lparr>bb_idx := bb_idx ctx + 1\<rparr>) rest st1"]
    by (cases k1) simp_all
qed (simp add: ends_as_def)

lemma ends_as_functions:
  "\<not> is_Fail (final_result st) \<Longrightarrow> ends_as (trace_functions ctx fs st) (fst (run_functions ctx fs st))"
proof (induction fs arbitrary: st)
  case (Cons f rest)
  let ?c = "ctx\<lparr>fname := func_name f, bb_idx := 0\<rparr>"
  obtain k1 st1 where s: "run_blocks ?c (basic_blocks f) st = (k1, st1)"
    by (cases "run_blocks ?c (basic_blocks f) st")
  have e: "ends_as (trace_blocks ?c (basic_blocks f) st) k1" "is_Fail (final_result st1) \<longleftrightarrow> k1 = Break"
    using ends_as_blocks [OF Cons.prems, of ?c "basic_blocks f"] run_blocks_end [OF Cons.prems s] s
    by simp_all
  show ?case
    using e s Cons.IH [of st1] ends_as_append [of _ "trace_functions ctx rest st1"]
    by (cases k1) simp_all
qed (simp add: ends_as_def)

lemma ends_as_trace:
  "ends_as (trace c m gate) (fst (run_functions (init_ctx c m) (module_functions m) (init_state gate)))"
  unfolding trace_def by (rule ends_as_functions) simp

lemma last_state_Fail:
  "is_Fail (final_result (last_state c m gate)) \<longleftrightarrow>
     fst (run_functions (init_ctx c m) (module_functions m) (init_state gate)) = Break"
  unfolding last_state_def by (rule run_functions_end) (simp_all add: prod_eq_iff)

lemma pass_last:
  assumes "analyze c m gate = Some (oc, g)" "oc_result oc = Pass"
  shows "final_result (last_state c m gate) = Pass"
    and "fst (run_functions (init_ctx c m) (module_functions m) (init_state gate)) \<noteq> Crash"
  using assms final_state_run [of c m gate] by (auto simp: analyze_final enforce_iommu_Pass)

text \<open>Every step of a run that passes ends without a crash and in \<open>Pass\<close>.\<close>

lemma pass_step:
  assumes "analyze c m gate = Some (oc, g)" "oc_result oc = Pass"
    "(ctx, i, st) \<in> set (trace c m gate)"
  shows "fst (step_instr ctx i st) \<noteq> Crash" "final_result (snd (step_instr ctx i st)) = Pass"
proof -
  show "final_result (snd (step_instr ctx i st)) = Pass"
    using step_below_last [OF assms(3)] pass_last(1) [OF assms(1,2)] by simp
  show "fst (step_instr ctx i st) \<noteq> Crash"
    using ends_as_trace [of c m gate] pass_last(2) [OF assms(1,2)] assms(3)
    by (force simp: ends_as_def ctl_of_def)
qed

lemma pass_accesses_ok:
  assumes "solver_sound (check_sat c)" "analyze c m gate = Some (oc, g)" "oc_result oc = Pass"
    "(ctx, i, st) \<in> set (trace c m gate)" "acc \<in> set (accesses ctx i st)"
  shows "access_ok st acc"
  using judges_step [OF sound_visit(1) [OF assms(4,1)], of i] pass_step [OF assms(2,3,4)] assms(5)
  by (simp add: judges_def all_ok_def)

section \<open>Fail is caused by a violation\<close>

lemma enforce_iommu_Fail:
  "is_Fail (final_result (enforce_iommu c st)) \<Longrightarrow>
     is_Fail (final_result st) \<or>
     (dma_policy c = RequireIommu \<and>
        \<not> set (set_iter c (dma_allocs_in_func st)) \<subseteq> iommu_mapped_in_func st)"
  by (auto simp: enforce_iommu_def find_Some_iff split: option.splits if_splits dest: nth_mem)

lemma enforce_iommu_keeps_Fail:
  "is_Fail (final_result st) \<Longrightarrow> is_Fail (final_result (enforce_iommu c st))"
  by (simp add: enforce_iommu_def split: option.split)

lemma fail_has_violation:
  assumes "solver_sound (check_sat c)" "is_Fail (final_result (last_state c m gate))"
  shows "\<exists>(ctx, i, st) \<in> set (trace c m gate). violation ctx i st"
proof -
  obtain ctx i st where v: "(ctx, i, st) \<in> set (trace c m gate)" "fst (step_instr ctx i st) = Break"
    using ends_as_trace [of c m gate] assms(2) by (auto simp: last_state_Fail ends_as_def ctl_of_def)
  then have "violation ctx i st"
    using judges_step [OF sound_visit(1) [OF v(1) assms(1)], of i] by (simp add: judges_def)
  then show ?thesis using v(1) by blast
qed

lemma decided_visit:
  assumes "(ctx, i, st) \<in> set (trace c m gate)" "gate_mode gate = Hitl_Off"
    "\<forall>cs. check_sat c cs \<noteq> SatResult_Unknown"
  shows "decided ctx st"
proof -
  have "gate_extends gate (hitl_gate st)" "ctx_of c m ctx"
    using gate_order.between_trace [OF assms(1)] by (simp_all add: between_def)
  then show ?thesis using assms(2,3) by (simp add: decided_def gate_extends_def ctx_of_def)
qed

lemma violation_fails:
  assumes "solver_sound (check_sat c)" "gate_mode gate = Hitl_Off"
    "\<forall>cs. check_sat c cs \<noteq> SatResult_Unknown"
    "(ctx, i, st) \<in> set (trace c m gate)" "violation ctx i st"
  shows "is_Fail (final_result (last_state c m gate))"
proof -
  have "fst (step_instr ctx i st) = Break"
    using judges_step [OF sound_visit(1) [OF assms(4,1)], of i] decided_visit [OF assms(4,2,3)] assms(5)
    by (simp add: judges_def)
  then show ?thesis
    using ends_as_trace [of c m gate] assms(4) by (force simp: last_state_Fail ends_as_def ctl_of_def)
qed

section \<open>Interrupts, inline assembly, DMA\<close>

lemma irq_race_not_Pass: "has_irq_risk ctx \<Longrightarrow> final_result (irq_race_check ctx knd what a st) \<noteq> Pass"
  by (simp add: irq_race_check_def Let_def split_beta)

lemma check_deref_irq:
  assumes "has_irq_risk ctx" "ptrval_alloc_info pv \<noteq> None" "fst (check_deref ctx what msg pv ty st) \<noteq> Crash"
  shows "final_result (snd (check_deref ctx what msg pv ty st)) \<noteq> Pass"
  using assms irq_race_not_Pass [OF assms(1)]
  unfolding check_deref_def Let_def
  by (auto simp: on_check_def split_beta split: option.splits if_splits AccessCheckResult.splits)

lemma any_access_tracked: "acc \<in> set (any_access k pv n) \<Longrightarrow> \<exists>p. pv = Some p \<and> ptrval_alloc_info p \<noteq> None"
  by (cases pv; cases "ptrval_alloc_info (the pv)") (auto simp: any_access_def)

lemma library_kinds:
  "\<forall>acc \<in> set (kmalloc_access p n). acc_kind acc \<noteq> Deref"
  "\<forall>acc \<in> set (any_access DmaMap p n). acc_kind acc \<noteq> Deref"
  by (auto simp: kmalloc_access_def any_access_def split: option.split PtrVal.split)

lemma call_accesses_kind: "\<forall>acc \<in> set (call_accesses ctx call st). acc_kind acc \<noteq> Deref"
  by (cases "function_name_of_call call") 
     (simp_all add: call_accesses_def ball_Un library_kinds, use library_kinds in blast)

lemma step_irq:
  assumes "has_irq_risk ctx" "acc \<in> set (accesses ctx i st)" "acc_kind acc = Deref"
    "fst (step_instr ctx i st) \<noteq> Crash"
  shows "final_result (snd (step_instr ctx i st)) \<noteq> Pass"
proof (cases i)
  case (Store store)
  then obtain p where p: "local_ptr st (store_address store) = Some p" "ptrval_alloc_info p \<noteq> None"
    using assms(2) any_access_tracked by (fastforce simp: accesses_def)
  then obtain nm ty where nm: "store_address store = LocalOperand nm ty" "ptr_env st nm = Some p"
    by (auto simp: local_ptr_def operand_local_name_def bind_eq_Some_conv split: Operand.splits)
  then show ?thesis using Store p assms(4) check_deref_irq [OF assms(1) p(2)]
    by (simp add: step_instr_def handle_store_def Let_def)
next
  case (Load load)
  then obtain nm ty where nm: "load_address load = LocalOperand nm ty"
    using assms(2) by (cases "load_address load") (auto simp: accesses_def)
  then obtain p where p: "ptr_env (reload_pointer nm (dest load) st) nm = Some p" "ptrval_alloc_info p \<noteq> None"
    using assms(2) Load any_access_tracked by (fastforce simp: accesses_def)
  then show ?thesis using Load nm assms(4) check_deref_irq [OF assms(1) p(2)]
    by (simp add: step_instr_def handle_load_def Let_def)
next
  case (Call call)
  then have "acc_kind acc \<noteq> Deref"
    using assms(2) call_accesses_kind [of ctx call st] by (auto simp: accesses_def)
  then show ?thesis using assms(3) by simp
qed (use assms(2) in \<open>simp_all add: accesses_def\<close>)

lemma step_inline_asm:
  assumes "call_function call = Inl asm" "\<not> is_Fail (final_result st)"
    "inline_asm_policy (cfg ctx) = Trap \<or> \<not> is_safe_inline_asm (assembly asm)"
  shows "final_result (snd (step_instr ctx (Call call) st)) \<noteq> Pass"
proof -
  have "function_name_of_call call = None" using assms(1) by (simp add: function_name_of_call_def)
  then show ?thesis using assms
    by (cases "inline_asm_policy (cfg ctx)")
       (auto simp: step_instr_def handle_call_def handle_inline_asm_def Let_def split_beta)
qed

section \<open>The analysis does not panic\<close>

text \<open>The types whose sizes an instruction asks for, and the operands whose types it asks for.\<close>

definition typed_operands :: "Instruction \<Rightarrow> Operand list" where
  "typed_operands i =
     (case i of Store store \<Rightarrow> [store_value store] | GetElementPtr gep \<Rightarrow> [gep_address gep] | _ \<Rightarrow> [])"

definition sized_types :: "Module \<Rightarrow> Instruction \<Rightarrow> TypeRef list" where
  "sized_types m i =
     (case i of Load load \<Rightarrow> [loaded_ty load] | _ \<Rightarrow> []) @
     List.map_filter (module_type_of m) (typed_operands i)"

definition measurable :: "nat \<Rightarrow> Module \<Rightarrow> Instruction \<Rightarrow> bool" where
  "measurable depth m i \<longleftrightarrow>
     list_all (\<lambda>op. module_type_of m op \<noteq> None) (typed_operands i) \<and>
     list_all (\<lambda>ty. type_size depth (module_types m) ty \<noteq> None) (sized_types m i)"

lemma gep_loop_no_crash:
  "gep_elem_size depth m address \<noteq> None \<Longrightarrow> gep_loop depth m address k idxs acc \<noteq> None"
  by (induction depth m address k idxs acc rule: gep_loop.induct) (auto split: option.splits)

lemma check_deref_no_crash:
  assumes "Option.bind ty (type_size (max_depth (cfg ctx)) (module_types (modul ctx))) \<noteq> None"
  shows "fst (check_deref ctx what msg pv ty st) \<noteq> Crash"
  using assms on_check_not_Crash
  by (auto simp: check_deref_def Let_def split_beta split: option.splits)

lemma library_no_crash:
  "fst (handle_kcalloc call st) \<noteq> Crash" "fst (handle_kfree ctx call st) \<noteq> Crash"
  "fst (handle_memset ctx call st) \<noteq> Crash" "fst (handle_inline_asm ctx call st) \<noteq> Crash"
  "fst (handle_dma_map ctx call st) \<noteq> Crash" "fst (handle_memcpy ctx call st) \<noteq> Crash"
proof -
  show "fst (handle_kcalloc call st) \<noteq> Crash" "fst (handle_kfree ctx call st) \<noteq> Crash"
    by (simp_all add: handle_kcalloc_def handle_kfree_def split: option.split PtrVal.split)
  show "fst (handle_memset ctx call st) \<noteq> Crash"
    unfolding handle_memset_def Let_def
    by (simp add: on_check_not_Crash split: option.split PtrVal.split)
  show "fst (handle_inline_asm ctx call st) \<noteq> Crash"
    by (simp add: handle_inline_asm_def Let_def split_beta split: sum.split InlineAsmPolicy.split)
  show "fst (handle_dma_map ctx call st) \<noteq> Crash"
    unfolding handle_dma_map_def Let_def on_dma_check_def
    by (simp split: option.split AccessCheckResult.split)
  show "fst (handle_memcpy ctx call st) \<noteq> Crash"
    unfolding handle_memcpy_def Let_def by (simp add: split_beta split: option.split)
qed

lemma call_no_crash: "fst (handle_call ctx call st) \<noteq> Crash"
  by (cases "function_name_of_call call") (simp_all add: handle_call_def library_no_crash only_Next)

lemma gep_result_no_crash:
  "infer_gep_offset (max_depth (cfg ctx)) gep off (modul ctx) \<noteq> None \<Longrightarrow>
     fst (gep_result ctx gep mk a off msg st) \<noteq> Crash"
  by (auto simp: gep_result_def split: option.split)

lemma step_no_crash:
  assumes "measurable (max_depth (cfg ctx)) (modul ctx) i"
  shows "fst (step_instr ctx i st) \<noteq> Crash"
proof (cases i)
  case (GetElementPtr gep)
  then obtain ty where ty: "module_type_of (modul ctx) (gep_address gep) = Some ty"
    "type_size (max_depth (cfg ctx)) (module_types (modul ctx)) ty \<noteq> None"
    using assms by (auto simp: measurable_def typed_operands_def sized_types_def map_filter_def)
  then have "gep_elem_size (max_depth (cfg ctx)) (modul ctx) (gep_address gep) \<noteq> None"
    by (cases ty) (auto simp: gep_elem_size_def)
  then have "infer_gep_offset (max_depth (cfg ctx)) gep off (modul ctx) \<noteq> None" for off
    unfolding infer_gep_offset_def by (rule gep_loop_no_crash)
  then show ?thesis using GetElementPtr
    by (simp add: step_instr_def handle_gep_def gep_result_no_crash split: option.split Operand.split PtrVal.split)
next
  case (Store store)
  then show ?thesis using assms check_deref_no_crash [of "module_type_of (modul ctx) (store_value store)" ctx]
    by (auto simp: step_instr_def handle_store_def Let_def measurable_def typed_operands_def sized_types_def
        map_filter_def split: option.splits Operand.splits)
next
  case (Load load)
  then show ?thesis using assms check_deref_no_crash [of "Some (loaded_ty load)" ctx]
    by (auto simp: step_instr_def handle_load_def Let_def measurable_def sized_types_def
        split: option.splits Operand.splits)
qed (simp_all add: step_instr_def call_no_crash only_Next)

definition module_instrs :: "Module \<Rightarrow> Instruction list" where
  "module_instrs m = concat (map func_instrs (module_functions m))"

lemma trace_instrs_subset: "(\<lambda>v. fst (snd v)) ` set (trace_instrs ctx is st) \<subseteq> set is"
  by (induction ctx "is" st rule: run_instrs.induct) (auto split: prod.splits ctl.splits)

lemma trace_blocks_subset:
  "(\<lambda>v. fst (snd v)) ` set (trace_blocks ctx bbs st) \<subseteq> set (concat (map instrs bbs))"
proof (induction bbs arbitrary: ctx st)
  case (Cons bb rest)
  obtain k1 st1 where s: "run_instrs (ctx\<lparr>instr_idx := 0\<rparr>) (instrs bb) st = (k1, st1)"
    by (cases "run_instrs (ctx\<lparr>instr_idx := 0\<rparr>) (instrs bb) st")
  have here: "(\<lambda>v. fst (snd v)) ` set (trace_instrs (ctx\<lparr>instr_idx := 0\<rparr>) (instrs bb) st) \<subseteq> set (instrs bb)"
    by (rule trace_instrs_subset)
  show ?case
  proof (cases "k1 = Crash \<or> is_Fail (final_result st1)")
    case True
    then show ?thesis using here unfolding trace_blocks_stop [OF s True] by auto
  next
    case False
    then show ?thesis using here Cons.IH [of "ctx\<lparr>bb_idx := bb_idx ctx + 1\<rparr>" st1]
      unfolding trace_blocks_go [OF s False] by auto
  qed
qed simp

lemma trace_functions_subset:
  "(\<lambda>v. fst (snd v)) ` set (trace_functions ctx fs st) \<subseteq> set (concat (map func_instrs fs))"
proof (induction fs arbitrary: st)
  case (Cons f rest)
  let ?c = "ctx\<lparr>fname := func_name f, bb_idx := 0\<rparr>"
  obtain k1 st1 where s: "run_blocks ?c (basic_blocks f) st = (k1, st1)"
    by (cases "run_blocks ?c (basic_blocks f) st")
  have here: "(\<lambda>v. fst (snd v)) ` set (trace_blocks ?c (basic_blocks f) st) \<subseteq> set (func_instrs f)"
    unfolding func_instrs_def by (rule trace_blocks_subset)
  show ?case
  proof (cases "k1 = Crash \<or> is_Fail (final_result st1)")
    case True
    then show ?thesis using here unfolding trace_functions_stop [OF s True] by auto
  next
    case False
    then show ?thesis using here Cons.IH [of st1] unfolding trace_functions_go [OF s False] by auto
  qed
qed simp

lemma visit_in_module: "(ctx, i, st) \<in> set (trace c m gate) \<Longrightarrow> i \<in> set (module_instrs m)"
  using trace_functions_subset [of "init_ctx c m" "module_functions m" "init_state gate"]
  by (force simp: trace_def module_instrs_def)

lemma analyze_no_panic:
  assumes "\<forall>i \<in> set (module_instrs m). measurable (max_depth c) m i"
  shows "\<exists>oc g. analyze c m gate = Some (oc, g)"
proof -
  have "fst (step_instr ctx i st) \<noteq> Crash" if v: "(ctx, i, st) \<in> set (trace c m gate)" for ctx i st
  proof -
    have "ctx_of c m ctx" using wf.I_trace(2) [OF wf_init v] .
    then show ?thesis using step_no_crash assms visit_in_module [OF v] by (auto simp: ctx_of_def)
  qed
  then have "fst (run_functions (init_ctx c m) (module_functions m) (init_state gate)) \<noteq> Crash"
    using ends_as_trace [of c m gate] by (fastforce simp: ends_as_def ctl_of_def)
  then show ?thesis
    by (auto simp: analyze_def final_state_def split: prod.splits ctl.splits)
qed

text \<open>A recursion depth that suffices exists, when no struct contains itself by value.\<close>

lemma measurable_enough_depth:
  assumes "structs_ranked (module_types m) rank"
    and "\<forall>op \<in> set (typed_operands i). operand_typed (module_types m) op"
  shows "\<exists>N. \<forall>n \<ge> N. measurable n m i"
proof -
  have "\<exists>N. \<forall>n \<ge> N. list_all (\<lambda>ty. type_size n (module_types m) ty \<noteq> None) tys" for tys
  proof (induction tys)
    case (Cons ty tys)
    obtain N1 r where "\<forall>n \<ge> N1. type_size n (module_types m) ty = Some r"
      using type_size_enough_fuel [OF assms(1)] by blast
    moreover obtain N2 where "\<forall>n \<ge> N2. list_all (\<lambda>ty. type_size n (module_types m) ty \<noteq> None) tys"
      using Cons.IH by blast
    ultimately show ?case by (intro exI [of _ "max N1 N2"]) simp
  qed simp
  moreover have "list_all (\<lambda>op. module_type_of m op \<noteq> None) (typed_operands i)"
    using assms(2) get_type_Operand_total by (fastforce simp: list_all_iff module_type_of_def)
  ultimately show ?thesis by (simp add: measurable_def)
qed

lemma enough_depth_all:
  assumes "structs_ranked (module_types m) rank"
    and "\<forall>i \<in> set is. \<forall>op \<in> set (typed_operands i). operand_typed (module_types m) op"
  shows "\<exists>N. \<forall>n \<ge> N. \<forall>i \<in> set is. measurable n m i"
  using assms(2)
proof (induction "is")
  case (Cons i "is")
  then obtain N1 N2 where "\<forall>n \<ge> N1. measurable n m i" "\<forall>n \<ge> N2. \<forall>i \<in> set is. measurable n m i"
    using measurable_enough_depth [OF assms(1), of i] by auto
  then show ?case by (intro exI [of _ "max N1 N2"]) simp
qed simp

end
