(* ===== verification/Sample_Module.thy ===== *)
theory Sample_Module
  imports Analyzer_Soundness
begin

text \<open>
  A small driver on which the theorems about the analysis are applied: it allocates 16 bytes, stores
  an 8-byte integer at offset 8, loads it again and frees the buffer. The second driver loads once
  more after the free.
\<close>

definition i64 :: Type where "i64 = IntegerType 64"
definition ptr :: Type where "ptr = PointerType 0"

definition empty_types :: Types where
  "empty_types = TypesBuilder_build TypesBuilder_new"

definition sample_layout :: DataLayout where
  "sample_layout =
     \<lparr>layout_str = '''', endianness = LittleEndian, stack_alignment = None,
      program_address_space = 0, alloca_address_space = 0, alignments = Alignments_default,
      mangling = None, native_int_widths = None, non_integral_ptr_types = {}\<rparr>"

definition const64 :: "u64 \<Rightarrow> Operand" where
  "const64 v = ConstantOperand (Int_c 64 v)"

definition local_ptr_op :: "string \<Rightarrow> Operand" where
  "local_ptr_op nm = LocalOperand (Name nm) ptr"

definition call_to :: "string \<Rightarrow> Operand list \<Rightarrow> Name option \<Rightarrow> Instruction" where
  "call_to f args d =
     Call \<lparr>debugloc = None,
       call_function = Inr (ConstantOperand (GlobalReference_c (Name f) ptr)),
       call_function_ty = FuncType ptr [] True,
       call_arguments = map (\<lambda>a. (a, [])) args, call_return_attributes = [], call_dest = d,
       call_function_attributes = [], is_tail_call = False, call_calling_convention = CC_C\<rparr>"

definition asm_call :: "string \<Rightarrow> Instruction" where
  "asm_call s =
     Call \<lparr>debugloc = None, call_function = Inl \<lparr>asm_ty = FuncType VoidType [] False, assembly = s\<rparr>,
       call_function_ty = FuncType VoidType [] False,
       call_arguments = [], call_return_attributes = [], call_dest = None,
       call_function_attributes = [], is_tail_call = False, call_calling_convention = CC_C\<rparr>"

definition gep_to :: "string \<Rightarrow> Operand \<Rightarrow> Operand list \<Rightarrow> Instruction" where
  "gep_to d a idxs =
     GetElementPtr \<lparr>debugloc = None, dest = Name d, gep_address = a, gep_indices = idxs,
       gep_in_bounds = True, gep_source_element_type = i64\<rparr>"

definition store_to :: "Operand \<Rightarrow> Operand \<Rightarrow> Instruction" where
  "store_to a v =
     Store \<lparr>debugloc = None, store_address = a, store_value = v, store_volatile = False,
       store_atomicity = None, store_alignment = 8\<rparr>"

definition load_from :: "string \<Rightarrow> Operand \<Rightarrow> Instruction" where
  "load_from d a =
     Load \<lparr>debugloc = None, dest = Name d, load_address = a, loaded_ty = i64, load_volatile = False,
       load_atomicity = None, load_alignment = 8\<rparr>"

definition sample_block :: "Instruction list \<Rightarrow> BasicBlock" where
  "sample_block is =
     \<lparr>bb_name = Name ''entry'', instrs = is, bb_term = Ret \<lparr>debugloc = None, return_operand = None\<rparr>\<rparr>"

definition sample_function :: "string \<Rightarrow> Instruction list \<Rightarrow> Function" where
  "sample_function nm is =
     \<lparr>func_name = nm, func_parameters = [], func_is_var_arg = False, func_return_type = VoidType,
      basic_blocks = [sample_block is], func_function_attributes = [], func_return_attributes = [],
      func_linkage = External, func_visibility = Visibility_Default,
      func_dll_storage_class = DLL_Default, func_calling_convention = CC_C, func_section = None,
      func_comdat = None, func_alignment = 0, garbage_collector_name = None,
      personality_function = None, func_debugloc = None\<rparr>"

definition module_of :: "Function list \<Rightarrow> Module" where
  "module_of fs =
     \<lparr>mod_name = ''driver'', source_file_name = ''driver.c'', data_layout = sample_layout,
      target_triple = None, module_functions = fs, func_declarations = [], global_vars = [],
      global_aliases = [], global_ifuncs = [], inline_assembly = '''', module_types = empty_types\<rparr>"

definition good_code :: "Instruction list" where
  "good_code =
     [call_to ''kmalloc'' [const64 16] (Some (Name ''buf'')),
      gep_to ''p'' (local_ptr_op ''buf'') [const64 1],
      store_to (local_ptr_op ''p'') (const64 7),
      load_from ''x'' (local_ptr_op ''p''),
      call_to ''kfree'' [local_ptr_op ''buf''] None]"

definition good_module :: Module where
  "good_module = module_of [sample_function ''probe'' good_code]"

definition uaf_module :: Module where
  "uaf_module = module_of [sample_function ''probe'' (good_code @ [load_from ''y'' (local_ptr_op ''p'')])]"

definition sample_config :: config where
  "sample_config =
     \<lparr>check_sat = deciding_check, max_depth = 1, inline_asm_policy = Conservative,
      dma_policy = Dma_Verify, set_iter = sorted_list_of_set\<rparr>"

definition open_gate :: HitlGate where
  "open_gate = new_gate Hitl_Off {} {}"

lemmas sample_code_defs = good_code_def call_to_def asm_call_def gep_to_def store_to_def load_from_def
  const64_def local_ptr_op_def i64_def ptr_def

lemmas sample_module_defs = good_module_def uaf_module_def module_of_def sample_function_def
  sample_block_def

lemma good_no_irq: "scan_irq_handlers good_module = {}"
  by (simp add: scan_irq_handlers_def handler_names_def sample_module_defs sample_code_defs func_instrs_def
      irq_registration_def is_kfree_call_def function_name_of_call_def map_filter_def)

lemma step_kmalloc:
  "\<not> is_Fail (final_result st) \<Longrightarrow>
     step_instr ctx (call_to ''kmalloc'' [const64 n] d) st = (Next, fresh_alloc n Kmalloc d st)"
  by (simp add: step_instr_def handle_call_def function_name_of_call_def handle_kmalloc_def call_arg_def
      operand_const_u64_def call_to_def const64_def)

lemma step_kfree:
  "\<not> is_Fail (final_result st) \<Longrightarrow> ptr_env st (Name b) = Some (Kmalloc a off) \<Longrightarrow> a \<notin> freed_allocs st \<Longrightarrow>
     step_instr ctx (call_to ''kfree'' [local_ptr_op b] d) st =
       (Next, st\<lparr>freed_allocs := insert a (freed_allocs st)\<rparr>)"
  by (simp add: step_instr_def handle_call_def function_name_of_call_def handle_kfree_def call_arg_def
      operand_local_name_def call_to_def local_ptr_op_def)

lemma step_gep:
  "ptr_env st (Name b) = Some (Kmalloc a off) \<Longrightarrow>
     step_instr ctx (gep_to d (local_ptr_op b) [const64 k]) st =
       (Next, set_ptr (Name d) (Kmalloc a (Z_add off (Int_from_u64 (saturating_mul k 8)))) st)"
  by (simp add: step_instr_def handle_gep_def gep_result_def infer_gep_offset_def gep_elem_size_def
      operand_const_u64_def gep_to_def local_ptr_op_def const64_def module_type_of_def ptr_def)

lemma type_size_i64: "type_size (Suc n) ts i64 = Some (Some 8)"
  by (simp add: i64_def type_size_body_def div_ceil_def)

lemma bounds_check_in_bounds:
  "gate_mode (hitl_gate st) = Hitl_Off \<Longrightarrow> frames (solver st) = [[]] \<Longrightarrow>
   check_sat (cfg ctx) = deciding_check \<Longrightarrow> in_bounds sz off n \<Longrightarrow>
     fst (bounds_check ctx sz off n vc cl st) = Safe"
  by (simp add: bounds_check_def check_access_eq gate_permits_Off deciding_check_def oob_cond_iff)

lemma types_int_empty: "types_int empty_types w = IntegerType w"
  by (simp add: types_int_def empty_types_def TypesBuilder_build_def TypesBuilder_new_def
      TypeCache_lookup_def TypeCache_new_def unwrap_or_def)

lemma bounds_check_fields:
  "ptr_env (snd (bounds_check ctx sz off n vc cl st)) = ptr_env st"
  "alloca_names (snd (bounds_check ctx sz off n vc cl st)) = alloca_names st"
  "alloca_store_map (snd (bounds_check ctx sz off n vc cl st)) = alloca_store_map st"
  "alloc_sizes (snd (bounds_check ctx sz off n vc cl st)) = alloc_sizes st"
  "freed_allocs (snd (bounds_check ctx sz off n vc cl st)) = freed_allocs st"
  "alloc_counter (snd (bounds_check ctx sz off n vc cl st)) = alloc_counter st"
  "dma_allocs_in_func (snd (bounds_check ctx sz off n vc cl st)) = dma_allocs_in_func st"
  by (simp_all add: bounds_check_def split_beta)

text \<open>A state in which a check is decided on the spot and nothing else is watched for.\<close>

definition quiet :: "actx \<Rightarrow> astate \<Rightarrow> bool" where
  "quiet ctx st \<longleftrightarrow>
     final_result st = Pass \<and> gate_mode (hitl_gate st) = Hitl_Off \<and> frames (solver st) = [[]] \<and>
     alloca_names st = {} \<and> check_sat (cfg ctx) = deciding_check \<and> max_depth (cfg ctx) = Suc 0 \<and>
     \<not> has_irq_risk ctx \<and> module_types (modul ctx) = empty_types"

lemma quiet_keeps [simp]:
  "quiet ctx st \<Longrightarrow> quiet ctx (fresh_alloc n mk d st)"
  "quiet ctx st \<Longrightarrow> quiet ctx (set_ptr nm pv st)"
  "quiet ctx st \<Longrightarrow> quiet ctx (snd (bounds_check ctx' sz off n vc cl st))"
  "quiet ctx st \<Longrightarrow> quiet ctx (st\<lparr>freed_allocs := F\<rparr>)"
  "quiet (ctx\<lparr>instr_idx := i\<rparr>) st = quiet ctx st"
  by (auto simp: quiet_def bounds_check_fields bounds_check_frames bounds_check_gate gate_simps
      fresh_alloc_def set_ptr_def Let_def split: option.split)

lemma quiet_not_Fail: "quiet ctx st \<Longrightarrow> \<not> is_Fail (final_result st)"
  by (simp add: quiet_def)

lemma deref_in_bounds:
  assumes "quiet ctx st" "a \<notin> freed_allocs st" "alloc_sizes st a = Some sz" "in_bounds sz off 8"
    "ty = Some i64"
  shows "\<exists>vc cl. check_deref ctx what msg (Kmalloc a off) ty st = (Next, snd (bounds_check ctx sz off 8 vc cl st))"
proof -
  have "fst (bounds_check ctx sz off 8 vc cl st) = Safe" for vc cl
    using assms(1,4) by (intro bounds_check_in_bounds) (simp_all add: quiet_def)
  moreover have "Option.bind ty (type_size (max_depth (cfg ctx)) (module_types (modul ctx))) = Some (Some 8)"
    using assms(1,5) by (simp only: quiet_def type_size_i64 bind.simps)
  moreover have "\<not> has_irq_risk ctx" using assms(1) by (simp add: quiet_def)
  ultimately show ?thesis using assms(2,3)
    by (auto simp: check_deref_def Let_def on_check_def irq_race_check_def)
qed

lemma step_store:
  assumes "quiet ctx st" "ptr_env st (Name b) = Some (Kmalloc a off)"
    "a \<notin> freed_allocs st" "alloc_sizes st a = Some sz" "in_bounds sz off 8"
  shows "\<exists>vc cl. step_instr ctx (store_to (local_ptr_op b) (const64 v)) st =
     (Next, snd (bounds_check ctx sz off 8 vc cl st))"
  using deref_in_bounds [OF assms(1,3,4,5) refl, of "''store''" "''Store with unknown value type size''"] assms(1,2)
  by (simp add: step_instr_def handle_store_def store_to_def local_ptr_op_def spill_pointer_def quiet_def
      module_type_of_def const64_def i64_def types_int_empty)

lemma step_load:
  assumes "quiet ctx st" "ptr_env st (Name b) = Some (Kmalloc a off)"
    "a \<notin> freed_allocs st" "alloc_sizes st a = Some sz" "in_bounds sz off 8"
  shows "\<exists>vc cl. step_instr ctx (load_from d (local_ptr_op b)) st =
     (Next, snd (bounds_check ctx sz off 8 vc cl st))"
  using deref_in_bounds [OF assms(1,3,4,5) refl, of "''load''" "''Load with unknown type size''"] assms(1,2)
  by (simp add: step_instr_def handle_load_def load_from_def local_ptr_op_def reload_pointer_def quiet_def)

section \<open>The run on the good driver\<close>

definition sample_ctx :: "config \<Rightarrow> Module \<Rightarrow> nat \<Rightarrow> actx" where
  "sample_ctx c m i = (init_ctx c m)\<lparr>fname := ''probe'', bb_idx := 0, instr_idx := i\<rparr>"

definition sample_start :: astate where
  "sample_start = init_state open_gate"

definition state1 :: astate where
  "state1 = fresh_alloc 16 Kmalloc (Some (Name ''buf'')) sample_start"

definition offset8 :: Int_ast where
  "offset8 = Z_add (Int_from_u64 0) (Int_from_u64 (saturating_mul 1 8))"

definition state2 :: astate where
  "state2 = set_ptr (Name ''p'') (Kmalloc 0 offset8) state1"

lemma offset8_in_bounds: "in_bounds (Int_from_u64 16) offset8 8"
  by (simp add: in_bounds_def offset8_def saturating_mul_def)

lemma sample_states:
  "ptr_env sample_start = Map.empty" "alloc_counter sample_start = 0" "freed_allocs sample_start = {}"
  "alloc_sizes sample_start = Map.empty"
  "ptr_env state1 = [Name ''buf'' \<mapsto> Kmalloc 0 (Int_from_u64 0)]"
  "alloc_sizes state1 = [0 \<mapsto> Int_from_u64 16]" "freed_allocs state1 = {}"
  "ptr_env state2 = [Name ''buf'' \<mapsto> Kmalloc 0 (Int_from_u64 0), Name ''p'' \<mapsto> Kmalloc 0 offset8]"
  "alloc_sizes state2 = [0 \<mapsto> Int_from_u64 16]" "freed_allocs state2 = {}"
  by (simp_all add: sample_start_def init_state_def state1_def state2_def fresh_alloc_def set_ptr_def)

definition sample_ok :: "actx \<Rightarrow> bool" where
  "sample_ok ctx \<longleftrightarrow> check_sat (cfg ctx) = deciding_check \<and> max_depth (cfg ctx) = Suc 0 \<and>
     \<not> has_irq_risk ctx \<and> module_types (modul ctx) = empty_types"

lemma sample_ok_keeps [simp]: "sample_ok (ctx\<lparr>instr_idx := i\<rparr>) = sample_ok ctx"
  by (simp add: sample_ok_def)

lemma quiet_start: "sample_ok ctx \<Longrightarrow> quiet ctx sample_start"
  by (simp add: quiet_def sample_ok_def sample_start_def init_state_def Solver_new_def open_gate_def new_gate_def)

lemma quiet_states: "sample_ok ctx \<Longrightarrow> quiet ctx state1" "sample_ok ctx \<Longrightarrow> quiet ctx state2"
  by (simp_all add: state1_def state2_def quiet_start)

lemma good_code_run:
  assumes "sample_ok ctx"
  shows "\<exists>st4. run_instrs ctx good_code sample_start = (Next, st4\<lparr>freed_allocs := {0}\<rparr>) \<and>
     quiet ctx st4 \<and> heap_part st4 = heap_part state2 \<and>
     (ctx\<lparr>instr_idx := instr_idx ctx + 1 + 1\<rparr>, store_to (local_ptr_op ''p'') (const64 7), state2)
       \<in> set (trace_instrs ctx good_code sample_start)"
proof -
  let ?c = "\<lambda>k. ctx\<lparr>instr_idx := k\<rparr>"
  let ?store = "store_to (local_ptr_op ''p'') (const64 7)" and ?load = "load_from ''x'' (local_ptr_op ''p'')"
  obtain vc cl where s3: "step_instr (?c (instr_idx ctx + 1 + 1)) ?store state2 =
      (Next, snd (bounds_check (?c (instr_idx ctx + 1 + 1)) (Int_from_u64 16) offset8 8 vc cl state2))"
    using step_store [of "?c (instr_idx ctx + 1 + 1)" state2 "''p''" 0 offset8 "Int_from_u64 16" 7] assms
    by (auto simp: sample_states quiet_states offset8_in_bounds)
  define st3 where "st3 = snd (bounds_check (?c (instr_idx ctx + 1 + 1)) (Int_from_u64 16) offset8 8 vc cl state2)"
  have q3: "quiet (?c k) st3" for k using assms by (simp add: st3_def quiet_states)
  obtain vc' cl' where s4: "step_instr (?c (instr_idx ctx + 1 + 1 + 1)) ?load st3 =
      (Next, snd (bounds_check (?c (instr_idx ctx + 1 + 1 + 1)) (Int_from_u64 16) offset8 8 vc' cl' st3))"
    using step_load [of "?c (instr_idx ctx + 1 + 1 + 1)" st3 "''p''" 0 offset8 "Int_from_u64 16" "''x''"] q3
    by (auto simp: st3_def bounds_check_fields sample_states offset8_in_bounds)
  define st4 where "st4 = snd (bounds_check (?c (instr_idx ctx + 1 + 1 + 1)) (Int_from_u64 16) offset8 8 vc' cl' st3)"
  have q4: "quiet (?c k) st4" for k using q3 by (simp add: st4_def)
  have h4: "heap_part st4 = heap_part state2" by (simp add: st4_def st3_def)
  have s1: "step_instr ctx (call_to ''kmalloc'' [const64 16] (Some (Name ''buf''))) sample_start = (Next, state1)"
    using quiet_start [OF assms] by (simp add: step_kmalloc quiet_not_Fail state1_def)
  have s2: "step_instr (?c (instr_idx ctx + 1)) (gep_to ''p'' (local_ptr_op ''buf'') [const64 1]) state1 = (Next, state2)"
    by (simp add: step_gep sample_states state2_def offset8_def)
  have s5: "step_instr (?c k) (call_to ''kfree'' [local_ptr_op ''buf''] None) st4 =
      (Next, st4\<lparr>freed_allocs := {0}\<rparr>)" for k
    using q4 heap_partD [OF h4]
    by (subst step_kfree [of _ _ 0 "Int_from_u64 0"]) (auto simp: sample_states quiet_not_Fail)
  show ?thesis
    using s1 s2 s3 [folded st3_def] s4 [folded st4_def] s5 q4 [of "instr_idx ctx"] h4
    by (intro exI [of _ st4]) (simp add: good_code_def)
qed

lemma sample_types: "module_types good_module = empty_types" "module_types uaf_module = empty_types"
  by (simp_all add: good_module_def uaf_module_def module_of_def)

lemma good_ctx_ok: "sample_ok (sample_ctx sample_config good_module 0)"
  by (simp add: sample_ok_def sample_ctx_def init_ctx_def good_no_irq sample_config_def sample_types)

lemma good_module_run:
  "\<exists>st4. run_functions (init_ctx sample_config good_module) (module_functions good_module) sample_start =
       (Next, st4\<lparr>freed_allocs := {0}\<rparr>) \<and>
     quiet (sample_ctx sample_config good_module 0) st4 \<and> heap_part st4 = heap_part state2 \<and>
     (sample_ctx sample_config good_module 2, store_to (local_ptr_op ''p'') (const64 7), state2)
       \<in> set (trace sample_config good_module open_gate)"
proof -
  let ?ctx = "sample_ctx sample_config good_module"
  obtain st4 where r: "run_instrs (?ctx 0) good_code sample_start = (Next, st4\<lparr>freed_allocs := {0}\<rparr>)"
    and q: "quiet (?ctx 0) st4" and h: "heap_part st4 = heap_part state2"
    and t: "(?ctx 0)\<lparr>instr_idx := instr_idx (?ctx 0) + 1 + 1\<rparr> = ?ctx 2 \<Longrightarrow>
      (?ctx 2, store_to (local_ptr_op ''p'') (const64 7), state2) \<in> set (trace_instrs (?ctx 0) good_code sample_start)"
    using good_code_run [OF good_ctx_ok] by metis
  have f: "module_functions good_module = [sample_function ''probe'' good_code]"
    by (simp add: good_module_def module_of_def)
  have b: "basic_blocks (sample_function ''probe'' good_code) = [sample_block good_code]"
    "func_name (sample_function ''probe'' good_code) = ''probe''" "instrs (sample_block good_code) = good_code"
    by (simp_all add: sample_function_def sample_block_def)
  have c: "(init_ctx sample_config good_module)\<lparr>fname := ''probe'', bb_idx := 0, instr_idx := 0\<rparr> = ?ctx 0"
    "(?ctx 0)\<lparr>instr_idx := instr_idx (?ctx 0) + 1 + 1\<rparr> = ?ctx 2"
    by (simp_all add: sample_ctx_def)
  show ?thesis using r q h t c quiet_not_Fail [OF q]
    by (intro exI [of _ st4]) (simp add: f b trace_def sample_start_def [symmetric])
qed

lemma good_pass:
  "\<exists>oc g. analyze sample_config good_module open_gate = Some (oc, g) \<and> oc_result oc = Pass"
proof -
  obtain st4 where "run_functions (init_ctx sample_config good_module) (module_functions good_module)
      sample_start = (Next, st4\<lparr>freed_allocs := {0}\<rparr>)" "quiet (sample_ctx sample_config good_module 0) st4"
    using good_module_run by blast
  then show ?thesis
    by (simp add: analyze_def final_state_def sample_start_def enforce_iommu_def sample_config_def quiet_def)
qed

section \<open>The run on the driver with a use after free\<close>

lemma run_instrs_append:
  "run_instrs ctx xs st = (Next, st') \<Longrightarrow>
     run_instrs ctx (xs @ ys) st = run_instrs (ctx\<lparr>instr_idx := instr_idx ctx + length xs\<rparr>) ys st'"
proof (induction xs arbitrary: ctx st)
  case (Cons x xs)
  obtain k st1 where s: "step_instr ctx x st = (k, st1)" by (cases "step_instr ctx x st")
  then have "k = Next" using Cons.prems by (cases k) auto
  then show ?case using Cons.IH [of "ctx\<lparr>instr_idx := instr_idx ctx + 1\<rparr>" st1] Cons.prems s by simp
qed simp

lemma uaf_no_irq: "scan_irq_handlers uaf_module = {}"
  by (simp add: scan_irq_handlers_def handler_names_def sample_module_defs sample_code_defs func_instrs_def
      irq_registration_def is_kfree_call_def function_name_of_call_def map_filter_def)

lemma uaf_ctx_ok: "sample_ok (sample_ctx sample_config uaf_module 0)"
  by (simp add: sample_ok_def sample_ctx_def init_ctx_def uaf_no_irq sample_config_def sample_types)

lemma step_uaf:
  assumes "quiet ctx st" "ptr_env st (Name b) = Some (Kmalloc a off)" "a \<in> freed_allocs st"
  shows "step_instr ctx (load_from d (local_ptr_op b)) st =
     (Break, fail (''Use-after-free load in function '' @ fname ctx) st)"
  using assms
  by (simp add: step_instr_def handle_load_def load_from_def local_ptr_op_def reload_pointer_def quiet_def
      check_deref_def)

lemma uaf_fails:
  "\<exists>oc g. analyze sample_config uaf_module open_gate = Some (oc, g) \<and>
     oc_result oc = Fail ''Use-after-free load in function probe''"
proof -
  let ?ctx = "sample_ctx sample_config uaf_module"
  let ?load = "load_from ''y'' (local_ptr_op ''p'')"
  obtain st4 where r: "run_instrs (?ctx 0) good_code sample_start = (Next, st4\<lparr>freed_allocs := {0}\<rparr>)"
    and q: "quiet (?ctx 0) st4" and h: "heap_part st4 = heap_part state2"
    using good_code_run [OF uaf_ctx_ok] by metis
  have "step_instr (?ctx 5) ?load (st4\<lparr>freed_allocs := {0}\<rparr>) =
      (Break, fail (''Use-after-free load in function '' @ fname (?ctx 5)) (st4\<lparr>freed_allocs := {0}\<rparr>))"
    using q heap_partD(1) [OF h]
    by (intro step_uaf [of _ _ "''p''" 0 offset8]) (simp_all add: sample_states sample_ctx_def)
  moreover have "(?ctx 0)\<lparr>instr_idx := instr_idx (?ctx 0) + length good_code\<rparr> = ?ctx 5" "fname (?ctx 5) = ''probe''"
    by (simp_all add: sample_ctx_def good_code_def)
  ultimately have i: "run_instrs (?ctx 0) (good_code @ [?load]) sample_start =
      (Break, fail ''Use-after-free load in function probe'' (st4\<lparr>freed_allocs := {0}\<rparr>))"
    unfolding run_instrs_append [OF r] by simp
  have f: "module_functions uaf_module = [sample_function ''probe'' (good_code @ [?load])]"
    by (simp add: uaf_module_def module_of_def)
  have b: "basic_blocks (sample_function ''probe'' is) = [sample_block is]"
    "func_name (sample_function ''probe'' is) = ''probe''" "instrs (sample_block is) = is" for "is"
    by (simp_all add: sample_function_def sample_block_def)
  have c: "(init_ctx sample_config uaf_module)\<lparr>fname := ''probe'', bb_idx := 0, instr_idx := 0\<rparr> = ?ctx 0"
    by (simp add: sample_ctx_def)
  have "run_functions (init_ctx sample_config uaf_module) (module_functions uaf_module) (init_state open_gate) =
      (Break, fail ''Use-after-free load in function probe'' (st4\<lparr>freed_allocs := {0}\<rparr>))"
    using i c by (simp add: f b sample_start_def)
  then show ?thesis
    by (simp add: analyze_def final_state_def enforce_iommu_def sample_config_def)
qed

lemma good_places: "places good_module \<noteq> []"
  by (simp add: places_def function_places_def block_places_def sample_module_defs good_code_def)

lemma store_accesses:
  "accesses (sample_ctx sample_config good_module k) (store_to (local_ptr_op ''p'') (const64 v)) state2 =
     [\<lparr>acc_alloc = 0, acc_offset = offset8, acc_len = Some 8, acc_kind = Deref\<rparr>]"
proof -
  have "max_depth (cfg (sample_ctx sample_config good_module k)) = Suc 0"
    "modul (sample_ctx sample_config good_module k) = good_module"
    by (simp_all add: sample_ctx_def init_ctx_def sample_config_def)
  then show ?thesis
    using type_size_i64 [of 0 empty_types]
    by (simp add: accesses_def store_to_def local_ptr_op_def const64_def local_ptr_def operand_local_name_def
        sample_states any_access_def type_len_def module_type_of_def types_int_empty sample_types i64_def)
qed

section \<open>Drivers with interrupts, inline assembly and DMA\<close>

text \<open>A module whose code is one function that ends without failing: its run from the initial state.\<close>

lemma single_function_run:
  assumes "run_instrs (sample_ctx c m 0) is (init_state gate) = (Next, st)"
    "\<not> is_Fail (final_result st)" "module_functions m = [sample_function ''probe'' is]"
  shows "run_functions (init_ctx c m) (module_functions m) (init_state gate) = (Next, st)"
    and "trace c m gate = trace_instrs (sample_ctx c m 0) is (init_state gate)"
proof -
  have "basic_blocks (sample_function ''probe'' is) = [sample_block is]"
    "func_name (sample_function ''probe'' is) = ''probe''" "instrs (sample_block is) = is"
    by (simp_all add: sample_function_def sample_block_def)
  moreover have "(init_ctx c m)\<lparr>fname := ''probe'', bb_idx := 0, instr_idx := 0\<rparr> = sample_ctx c m 0"
    by (simp add: sample_ctx_def)
  ultimately show "run_functions (init_ctx c m) (module_functions m) (init_state gate) = (Next, st)"
    "trace c m gate = trace_instrs (sample_ctx c m 0) is (init_state gate)"
    using assms by (simp_all add: trace_def)
qed

definition asm_module :: Module where
  "asm_module = module_of [sample_function ''probe'' [asm_call ''nop'']]"

lemma nop_safe: "is_safe_inline_asm ''nop''"
  by (simp add: is_safe_inline_asm_def trim_printable printable_def SAFE_ASM_PATTERNS_def
      to_ascii_lowercase_def ascii_lower_def)

lemma asm_pass:
  "\<exists>oc g. analyze sample_config asm_module open_gate = Some (oc, g) \<and> oc_result oc = Pass"
  "trace sample_config asm_module open_gate =
     [(sample_ctx sample_config asm_module 0, asm_call ''nop'', init_state open_gate)]"
proof -
  have s: "step_instr (sample_ctx sample_config asm_module 0) (asm_call ''nop'') (init_state open_gate) =
      (Next, init_state open_gate)"
    by (simp add: step_instr_def handle_call_def function_name_of_call_def handle_inline_asm_def asm_call_def
        sample_ctx_def init_ctx_def sample_config_def nop_safe)
  have r: "run_instrs (sample_ctx sample_config asm_module 0) [asm_call ''nop''] (init_state open_gate) =
      (Next, init_state open_gate)" using s by simp
  note f = single_function_run [OF r] 
  show "\<exists>oc g. analyze sample_config asm_module open_gate = Some (oc, g) \<and> oc_result oc = Pass"
    using f(1) by (simp add: analyze_def final_state_def enforce_iommu_def sample_config_def asm_module_def
        module_of_def)
  show "trace sample_config asm_module open_gate =
     [(sample_ctx sample_config asm_module 0, asm_call ''nop'', init_state open_gate)]"
    using f(2) s by (simp add: asm_module_def module_of_def)
qed

definition dma_code :: "Instruction list" where
  "dma_code =
     [call_to ''dma_alloc_coherent'' [local_ptr_op ''dev'', const64 64] (Some (Name ''buf'')),
      call_to ''iommu_map'' [] None]"

definition dma_module :: Module where
  "dma_module = module_of [sample_function ''probe'' dma_code]"

definition iommu_config :: config where
  "iommu_config = sample_config\<lparr>dma_policy := RequireIommu\<rparr>"

lemma dma_pass:
  "\<exists>oc g. analyze iommu_config dma_module open_gate = Some (oc, g) \<and> oc_result oc = Pass"
  "dma_allocs_in_func (last_state iommu_config dma_module open_gate) = {0}"
proof -
  let ?ctx = "sample_ctx iommu_config dma_module 0"
  obtain st where r: "run_instrs ?ctx dma_code (init_state open_gate) = (Next, st)"
    and st: "final_result st = Pass" "dma_allocs_in_func st = {0}" "iommu_mapped_in_func st = {0}"
    by (simp add: dma_code_def step_instr_def handle_call_def function_name_of_call_def call_to_def call_arg_def
        const64_def local_ptr_op_def operand_const_u64_def handle_dma_alloc_def handle_iommu_map_def Let_def
        sample_ctx_def init_ctx_def iommu_config_def sample_config_def ask_gate_def split_beta fresh_alloc_def
        init_state_def)
  have f: "run_functions (init_ctx iommu_config dma_module) (module_functions dma_module) (init_state open_gate) = (Next, st)"
    using single_function_run(1) [OF r] st by (simp add: dma_module_def module_of_def)
  show "\<exists>oc g. analyze iommu_config dma_module open_gate = Some (oc, g) \<and> oc_result oc = Pass"
    using f st by (simp add: analyze_def final_state_def enforce_iommu_Pass iommu_config_def sample_config_def)
  show "dma_allocs_in_func (last_state iommu_config dma_module open_gate) = {0}"
    using f st by (simp add: last_state_def)
qed

definition irq_code :: "Instruction list" where
  "irq_code =
     [call_to ''kmalloc'' [const64 16] (Some (Name ''buf'')),
      call_to ''memset'' [local_ptr_op ''buf'', const64 0, const64 16] None,
      call_to ''request_irq'' [const64 5, ConstantOperand (GlobalReference_c (Name ''handler'') ptr)] None]"

definition irq_module :: Module where
  "irq_module =
     module_of [sample_function ''probe'' irq_code,
       sample_function ''handler'' [call_to ''kfree'' [local_ptr_op ''dev''] None]]"

lemma irq_found: "scan_irq_handlers irq_module = {''handler''}"
  by (simp add: scan_irq_handlers_def handler_names_def irq_module_def irq_code_def module_of_def
      sample_function_def sample_block_def sample_code_defs func_instrs_def irq_registration_def
      is_kfree_call_def function_name_of_call_def map_filter_def call_arg_def)

lemma step_memset:
  assumes "gate_mode (hitl_gate st) = Hitl_Off" "frames (solver st) = [[]]" "final_result st = Pass"
    "check_sat (cfg ctx) = deciding_check" "ptr_env st (Name b) = Some (Kmalloc a off)"
    "a \<notin> freed_allocs st" "alloc_sizes st a = Some sz" "in_bounds sz off n"
  shows "\<exists>vc cl. step_instr ctx (call_to ''memset'' [local_ptr_op b, v, const64 n] d) st =
     (Next, snd (bounds_check ctx sz off n vc cl st))"
  using assms bounds_check_in_bounds [OF assms(1,2,4,8)]
  by (auto simp: step_instr_def handle_call_def function_name_of_call_def call_to_def call_arg_def const64_def
      local_ptr_op_def operand_local_name_def operand_const_u64_def handle_memset_def Let_def on_check_def)

lemma irq_probe:
  assumes "check_sat (cfg ctx) = deciding_check"
  shows "\<exists>st2. run_instrs ctx irq_code sample_start = (Next, st2) \<and> final_result st2 = Pass \<and>
     ptr_env st2 = ptr_env state1 \<and>
     (ctx\<lparr>instr_idx := instr_idx ctx + 1\<rparr>,
      call_to ''memset'' [local_ptr_op ''buf'', const64 0, const64 16] None, state1)
       \<in> set (trace_instrs ctx irq_code sample_start)"
proof -
  let ?c = "ctx\<lparr>instr_idx := instr_idx ctx + 1\<rparr>"
  let ?memset = "call_to ''memset'' [local_ptr_op ''buf'', const64 0, const64 16] None"
  have p: "final_result state1 = Pass" "final_result sample_start = Pass"
    "gate_mode (hitl_gate state1) = Hitl_Off" "frames (solver state1) = [[]]"
    by (simp_all add: state1_def sample_start_def open_gate_def new_gate_def Solver_new_def)
  obtain vc cl where s2: "step_instr ?c ?memset state1 =
      (Next, snd (bounds_check ?c (Int_from_u64 16) (Int_from_u64 0) 16 vc cl state1))"
    using step_memset [of state1 ?c "''buf''" 0 "Int_from_u64 0" "Int_from_u64 16" 16 "const64 0" None] assms p
    by (auto simp: sample_states in_bounds_def)
  define st2 where "st2 = snd (bounds_check ?c (Int_from_u64 16) (Int_from_u64 0) 16 vc cl state1)"
  have s1: "step_instr ctx (call_to ''kmalloc'' [const64 16] (Some (Name ''buf''))) sample_start = (Next, state1)"
    using p by (simp add: step_kmalloc state1_def)
  have f2: "final_result st2 = Pass" using p by (simp add: st2_def)
  have s3: "step_instr c' (call_to ''request_irq'' args d) st2 = (Next, st2)" for c' args d
    using f2 by (simp add: step_instr_def handle_call_def function_name_of_call_def call_to_def)
  show ?thesis
    using s1 s2 [folded st2_def] s3 f2
    by (intro exI [of _ st2]) (simp add: irq_code_def st2_def bounds_check_fields)
qed

lemma irq_pass:
  "\<exists>oc g. analyze sample_config irq_module open_gate = Some (oc, g) \<and> oc_result oc = Pass"
  "((sample_ctx sample_config irq_module 1),
    call_to ''memset'' [local_ptr_op ''buf'', const64 0, const64 16] None, state1)
     \<in> set (trace sample_config irq_module open_gate)"
proof -
  let ?ctx = "sample_ctx sample_config irq_module"
  have "check_sat (cfg (?ctx 0)) = deciding_check" by (simp add: sample_ctx_def init_ctx_def sample_config_def)
  moreover have "(?ctx 0)\<lparr>instr_idx := instr_idx (?ctx 0) + 1\<rparr> = ?ctx 1" by (simp add: sample_ctx_def)
  ultimately obtain st2 where r: "run_instrs (?ctx 0) irq_code sample_start = (Next, st2)"
    "final_result st2 = Pass" "ptr_env st2 = ptr_env state1"
    "(?ctx 1, call_to ''memset'' [local_ptr_op ''buf'', const64 0, const64 16] None, state1)
       \<in> set (trace_instrs (?ctx 0) irq_code sample_start)"
    using irq_probe [of "?ctx 0"] by auto
  have h: "step_instr c' (call_to ''kfree'' [local_ptr_op ''dev''] None) st2 = (Next, st2)" for c'
    using r(2,3) by (simp add: step_instr_def handle_call_def function_name_of_call_def call_to_def call_arg_def
        handle_kfree_def local_ptr_op_def operand_local_name_def sample_states)
  have c: "(init_ctx sample_config irq_module)\<lparr>fname := ''probe'', bb_idx := 0, instr_idx := 0\<rparr> = ?ctx 0"
    by (simp add: sample_ctx_def)
  have b: "basic_blocks (sample_function nm is) = [sample_block is]"
    "func_name (sample_function nm is) = nm" "instrs (sample_block is) = is" for nm "is"
    by (simp_all add: sample_function_def sample_block_def)
  have m: "module_functions irq_module = [sample_function ''probe'' irq_code,
       sample_function ''handler'' [call_to ''kfree'' [local_ptr_op ''dev''] None]]"
    by (simp add: irq_module_def module_of_def)
  have "run_functions (init_ctx sample_config irq_module) (module_functions irq_module) (init_state open_gate) = (Next, st2)"
    using r c h by (simp add: m b sample_start_def [symmetric])
  then show "\<exists>oc g. analyze sample_config irq_module open_gate = Some (oc, g) \<and> oc_result oc = Pass"
    using r(2) by (simp add: analyze_def final_state_def enforce_iommu_def sample_config_def)
  show "(?ctx 1, call_to ''memset'' [local_ptr_op ''buf'', const64 0, const64 16] None, state1)
     \<in> set (trace sample_config irq_module open_gate)"
    using r c by (simp add: trace_def m b sample_start_def [symmetric])
qed

end
