(* ===== verification/Attestation.thy ===== *)
theory Attestation
  imports Filesystem
begin

text \<open>
  The attestation bridge, \<open>skv_validate_attestation_token\<close> in
  \<open>skv-analyzer/src/c/attestation_bridge.c\<close>: the parser of the token file, the checks of its fields
  and the replay state with its lock. \<open>fgets\<close>, \<open>strtol\<close>, \<open>strtoll\<close>, \<open>strncmp\<close> and the C string
  conventions are modelled as the C standard has them (\<open>long\<close> and \<open>long long\<close> have 64 bits). The
  conversion \<open>(int)val\<close> and the subtraction \<open>now - token_ts\<close> are kept at their width and wrap around
  (the standard leaves an overflow of the subtraction undefined).

  Results: an accepted token has all the fields the ring asks for; the counter that is accepted is
  larger than the one the replay state held and is what the state holds afterwards, so that along
  any sequence of validations in which no write is lost no token is accepted twice.
\<close>

section \<open>C strings\<close>

definition c_str :: "string \<Rightarrow> string" where
  "c_str s = takeWhile (\<lambda>c. c \<noteq> CHR 0x00) s"

text \<open>\<open>fgets\<close> with room for \<open>n\<close> characters: the line it stores and the rest of the stream.\<close>

fun fgets :: "nat \<Rightarrow> string \<Rightarrow> string \<times> string" where
  "fgets 0 s = ([], s)"
| "fgets (Suc n) [] = ([], [])"
| "fgets (Suc n) (c # s) =
     (if c = CHR 0x0A then ([c], s) else apfst ((#) c) (fgets n s))"

lemma fgets_rest: "length (snd (fgets n s)) \<le> length s"
  by (induction n s rule: fgets.induct) auto

lemma fgets_rest_less: "length (snd (fgets (Suc n) (c # s))) < Suc (length s)"
  using fgets_rest [of n s] by simp

text \<open>The buffers of the loop \<open>while (fgets(buf, 256, f) != NULL)\<close>, cut at the newline.\<close>

function token_lines :: "string \<Rightarrow> string list" where
  "token_lines [] = []"
| "token_lines (c # s) =
     takeWhile (\<lambda>c. c \<noteq> CHR 0x0A) (c_str (fst (fgets 255 (c # s)))) #
     token_lines (snd (fgets 255 (c # s)))"
  by pat_completeness auto
termination
  using fgets_rest_less [of 254] by (relation "measure length") (simp_all add: numeral_eq_Suc)

definition c_isspace :: "char \<Rightarrow> bool" where
  "c_isspace c = ((of_char c :: nat) \<in> {9, 10, 11, 12, 13, 32})"

definition clamp_i64 :: "int \<Rightarrow> int" where
  "clamp_i64 i = max (- (2 ^ 63)) (min i (2 ^ 63 - 1))"

fun digits_value :: "string \<Rightarrow> nat" where
  "digits_value ds = foldl (\<lambda>n c. 10 * n + digit_val c) 0 ds"

text \<open>\<open>strtoll(s, &end, 10)\<close>; None when no digit is read, that is \<open>end == s\<close>.\<close>

definition strtoll :: "string \<Rightarrow> int option" where
  "strtoll s =
     (let t = dropWhile c_isspace s;
          neg = (case t of c # _ \<Rightarrow> c = CHR ''-'' | [] \<Rightarrow> False);
          u = (case t of c # r \<Rightarrow> if c = CHR ''-'' \<or> c = CHR ''+'' then r else t | [] \<Rightarrow> []);
          ds = takeWhile is_digit u
      in if ds = [] then None
         else Some (clamp_i64 (if neg then - int (digits_value ds) else int (digits_value ds))))"

section \<open>Fields of the token\<close>

definition int_cast :: "int \<Rightarrow> int" where
  "int_cast v = sint (word_of_int v :: 32 word)"

definition parse_ring :: "string \<Rightarrow> int option" where
  "parse_ring line = map_option int_cast (Option.bind (strip_prefix ''ring:'' line) strtoll)"

definition parse_bool :: "string \<Rightarrow> bool option" where
  "parse_bool v =
     (if starts_with ''true'' v \<or> starts_with ''1'' v then Some True
      else if starts_with ''false'' v \<or> starts_with ''0'' v then Some False
      else None)"

definition parse_attested :: "string \<Rightarrow> bool option" where
  "parse_attested line = Option.bind (strip_prefix ''attested:'' line) parse_bool"

definition parse_root_attested :: "string \<Rightarrow> bool option" where
  "parse_root_attested line = Option.bind (strip_prefix ''root_attested:'' line) parse_bool"

definition parse_i64_field :: "string \<Rightarrow> string \<Rightarrow> int option" where
  "parse_i64_field pre line = Option.bind (strip_prefix pre line) strtoll"

definition parse_string_field :: "string \<Rightarrow> nat \<Rightarrow> string \<Rightarrow> string option" where
  "parse_string_field pre out_len line =
     (case strip_prefix pre line of
        None \<Rightarrow> None
      | Some v \<Rightarrow> if v = [] \<or> out_len < length v + 1 then None else Some v)"

text \<open>The local variables of the reading loop; None is \<open>found_... = 0\<close>.\<close>

record token =
  tok_ring :: "int option"
  tok_attested :: "bool option"
  tok_timestamp :: "int option"
  tok_nonce :: "string option"
  tok_counter :: "int option"
  tok_root_attested :: "bool option"

definition no_token :: token where
  "no_token = \<lparr>tok_ring = None, tok_attested = None, tok_timestamp = None, tok_nonce = None,
     tok_counter = None, tok_root_attested = None\<rparr>"

definition read_line :: "string \<Rightarrow> token \<Rightarrow> token" where
  "read_line line t =
     (if tok_ring t = None \<and> parse_ring line \<noteq> None then t\<lparr>tok_ring := parse_ring line\<rparr>
      else if tok_attested t = None \<and> parse_attested line \<noteq> None then
        t\<lparr>tok_attested := parse_attested line\<rparr>
      else if tok_timestamp t = None \<and> parse_i64_field ''timestamp:'' line \<noteq> None then
        t\<lparr>tok_timestamp := parse_i64_field ''timestamp:'' line\<rparr>
      else if tok_nonce t = None \<and> parse_string_field ''nonce:'' 256 line \<noteq> None then
        t\<lparr>tok_nonce := parse_string_field ''nonce:'' 256 line\<rparr>
      else if tok_counter t = None \<and> parse_i64_field ''counter:'' line \<noteq> None then
        t\<lparr>tok_counter := parse_i64_field ''counter:'' line\<rparr>
      else if tok_root_attested t = None \<and> parse_root_attested line \<noteq> None then
        t\<lparr>tok_root_attested := parse_root_attested line\<rparr>
      else t)"

definition read_token :: "string \<Rightarrow> token" where
  "read_token text = fold read_line (token_lines text) no_token"

section \<open>The checks\<close>

definition i64_sub :: "int \<Rightarrow> int \<Rightarrow> int" where
  "i64_sub a b = sint (word_of_int (a - b) :: 64 word)"

text \<open>The checks between the end of the loop and the opening of the replay state. The clock is -1
  when \<open>time\<close> fails.\<close>

definition token_checks :: "token \<Rightarrow> int \<Rightarrow> int \<Rightarrow> int \<Rightarrow> string option \<Rightarrow> bool" where
  "token_checks t required_ring max_age_sec now expected_nonce =
     (case (tok_ring t, tok_attested t, tok_timestamp t, tok_counter t) of
        (Some ring, Some attested, Some ts, Some _) \<Rightarrow>
          attested \<and> ring = required_ring \<and>
          (required_ring = - 2 \<longrightarrow> tok_root_attested t = Some True) \<and>
          \<not> max_age_sec \<le> 0 \<and> now \<noteq> - 1 \<and> \<not> ts > now \<and> \<not> i64_sub now ts > max_age_sec \<and>
          (case expected_nonce of None \<Rightarrow> True | Some n \<Rightarrow> tok_nonce t = Some n)
      | _ \<Rightarrow> False)"

definition bridge_secure :: "world \<Rightarrow> inode \<Rightarrow> bool" where
  "bridge_secure w f \<longleftrightarrow> kind f = RegularFile \<and> uid f = euid w \<and> \<not> group_world_writable f"

definition read_token_file :: "world \<Rightarrow> path \<Rightarrow> token option" where
  "read_token_file w p =
     (if p = [] then None
      else
        case files w p of
          None \<Rightarrow> None
        | Some f \<Rightarrow>
            if \<not> bridge_secure w f then None
            else if readable f then Some (read_token (content f)) else None)"

section \<open>The replay state\<close>

text \<open>\<open>open(path, O_RDWR | O_CREAT | O_CLOEXEC, 0600)\<close>\<close>

definition create_state :: "world \<Rightarrow> path \<Rightarrow> world" where
  "create_state w p =
     (let q = target w p
      in case files w q of
           Some _ \<Rightarrow> w
         | None \<Rightarrow>
             w\<lparr>files := (files w)(q \<mapsto>
               \<lparr>kind = RegularFile, uid = euid w, fmode = 0x180 AND NOT (umask w),
                readable = True, content = ''''\<rparr>)\<rparr>)"

definition open_state :: "world \<Rightarrow> path \<Rightarrow> world option" where
  "open_state w p = (if sys_fails w Sys_open_write p then None else Some (create_state w p))"

text \<open>What \<open>pread\<close> of at most 127 bytes and \<open>strtoll\<close> make of the contents.\<close>

definition stored_counter :: "string \<Rightarrow> int" where
  "stored_counter s =
     (case take 127 s of
        [] \<Rightarrow> - 1
      | s' \<Rightarrow> (case strtoll (c_str s') of Some v \<Rightarrow> v | None \<Rightarrow> - 1))"

text \<open>\<open>ftruncate\<close>, \<open>write\<close> and \<open>chmod\<close> on the replay file.\<close>

definition truncate_state :: "world \<Rightarrow> path \<Rightarrow> world" where
  "truncate_state w p = update_inode (\<lambda>f. f\<lparr>content := ''''\<rparr>) (target w p) w"

definition write_state :: "world \<Rightarrow> path \<Rightarrow> int \<Rightarrow> world" where
  "write_state w p counter =
     update_inode (\<lambda>f. f\<lparr>content := show_int counter @ [CHR 0x0A]\<rparr>) (target w p) w"

definition chmod_state :: "world \<Rightarrow> path \<Rightarrow> world" where
  "chmod_state w p = update_inode (\<lambda>f. f\<lparr>fmode := 0x180\<rparr>) (target w p) w"

definition advance_state :: "world \<Rightarrow> path \<Rightarrow> int \<Rightarrow> bool \<times> world" where
  "advance_state w p counter =
     (if sys_fails w Sys_truncate p then (False, w)
      else
        let w1 = truncate_state w p
        in if sys_fails w Sys_seek p \<or> sys_fails w Sys_write p then (False, w1)
           else
             let w2 = write_state w1 p counter
             in if sys_fails w Sys_sync p \<or> sys_fails w Sys_set_permissions p then (False, w2)
                else (True, chmod_state w2 p))"

definition check_replay :: "world \<Rightarrow> path \<Rightarrow> int \<Rightarrow> bool \<times> world" where
  "check_replay w p counter =
     (if p = [] then (False, w)
      else
        case open_state w p of
          None \<Rightarrow> (False, w)
        | Some w1 \<Rightarrow>
            if sys_fails w Sys_lock p \<or> sys_fails w Sys_stat p then (False, w1)
            else
              (case files w1 (target w1 p) of
                 None \<Rightarrow> (False, w1)
               | Some f \<Rightarrow>
                   if \<not> bridge_secure w1 f then (False, w1)
                   else
                     let last = (if sys_fails w Sys_read p then - 1 else stored_counter (content f))
                     in if counter \<le> last then (False, w1) else advance_state w1 p counter))"

definition skv_validate_attestation_token ::
  "world \<Rightarrow> path \<Rightarrow> int \<Rightarrow> int \<Rightarrow> string option \<Rightarrow> path \<Rightarrow> bool \<times> world" where
  "skv_validate_attestation_token w token_path required_ring max_age_sec expected_nonce replay_path =
     (case read_token_file w token_path of
        None \<Rightarrow> (False, w)
      | Some t \<Rightarrow>
          if token_checks t required_ring max_age_sec (clock w) expected_nonce then
            check_replay w replay_path (the (tok_counter t))
          else (False, w))"

section \<open>Numbers\<close>

lemma show_nat_length: "n < 10 ^ Suc k \<Longrightarrow> length (show_nat n) \<le> Suc k"
proof (induction k arbitrary: n)
  case (Suc k)
  then have "n div 10 < 10 ^ Suc k" by (simp add: div_less_iff_less_mult)
  then show ?case using Suc.IH [of "n div 10"] by (simp add: show_nat.simps [of n])
qed (simp add: show_nat.simps)

lemma parse_digits_foldl:
  "list_all is_digit ds \<Longrightarrow> parse_digits_acc n ds = Some (foldl (\<lambda>n c. 10 * n + digit_val c) n ds)"
  by (induction ds arbitrary: n) auto

lemma digits_value_show_nat [simp]: "digits_value (show_nat n) = n"
  using parse_digits_foldl [of "show_nat n" 0] show_nat_digits by (simp add: list_all_iff)

declare digits_value.simps [simp del]

lemma takeWhile_show_nat: "\<not> is_digit c \<Longrightarrow> takeWhile is_digit (show_nat n @ c # r) = show_nat n"
  using show_nat_digits by (simp add: takeWhile_append)

definition in_i64 :: "int \<Rightarrow> bool" where
  "in_i64 v \<longleftrightarrow> - (2 ^ 63) \<le> v \<and> v < 2 ^ 63"

lemma clamp_i64_id: "in_i64 v \<Longrightarrow> clamp_i64 v = v"
  by (simp add: clamp_i64_def in_i64_def)

lemma strtoll_in_i64: "strtoll s = Some v \<Longrightarrow> in_i64 v"
  by (auto simp: strtoll_def Let_def clamp_i64_def in_i64_def split: if_splits)

lemma digit_not_space: "is_digit c \<Longrightarrow> \<not> c_isspace c \<and> c \<noteq> CHR ''-'' \<and> c \<noteq> CHR ''+'' \<and> c \<noteq> CHR 0x00"
  by (auto simp: is_digit_def c_isspace_def)

lemma show_nat_cases: obtains d ds where "show_nat n = d # ds" "is_digit d"
  using show_nat_digits [of _ n] by (cases "show_nat n") auto

lemma strtoll_show_nat: "\<not> is_digit c \<Longrightarrow> strtoll (show_nat n @ c # r) = Some (clamp_i64 (int n))"
proof -
  assume c: "\<not> is_digit c"
  obtain d ds where d: "show_nat n = d # ds" "is_digit d" by (rule show_nat_cases)
  then have "takeWhile is_digit (d # ds @ c # r) = d # ds" using takeWhile_show_nat [OF c, of n r] by simp
  moreover have "digits_value (d # ds) = n" using d(1) digits_value_show_nat [of n] by metis
  ultimately show ?thesis using d digit_not_space [OF d(2)] by (simp add: strtoll_def Let_def)
qed

lemma strtoll_show_int: "strtoll (show_int v @ [CHR 0x0A]) = Some (clamp_i64 v)"
proof (cases "v < 0")
  case True
  have nl: "\<not> is_digit (CHR 0x0A)" by (simp add: is_digit_def)
  have "\<not> c_isspace (CHR ''-'')" by (simp add: c_isspace_def)
  then show ?thesis using True takeWhile_show_nat [OF nl, of "nat (- v)" "[]"]
    by (simp add: strtoll_def Let_def show_int_def)
next
  case False
  have "\<not> is_digit (CHR 0x0A)" by (simp add: is_digit_def)
  then show ?thesis using False strtoll_show_nat [of "CHR 0x0A" "nat v" "[]"] by (simp add: show_int_def)
qed

lemma stored_counter_written:
  assumes "in_i64 v"
  shows "stored_counter (show_int v @ [CHR 0x0A]) = v"
proof -
  have "nat \<bar>v\<bar> < 10 ^ Suc 18" using assms by (auto simp: in_i64_def nat_less_iff abs_less_iff)
  then have "length (show_nat (nat \<bar>v\<bar>)) \<le> Suc 18" by (rule show_nat_length)
  moreover have "nat \<bar>v\<bar> = nat (- v)" if "v < 0" using that by simp
  moreover have "nat \<bar>v\<bar> = nat v" if "\<not> v < 0" using that by simp
  ultimately have "length (show_int v) \<le> 20" by (auto simp: show_int_def)
  then have "take 127 (show_int v @ [CHR 0x0A]) = show_int v @ [CHR 0x0A]" by simp
  moreover have "c_str (show_int v @ [CHR 0x0A]) = show_int v @ [CHR 0x0A]"
    unfolding c_str_def using show_nat_digits digit_not_space
    by (intro takeWhile_eq_all_conv [THEN iffD2]) (fastforce simp: show_int_def split: if_splits)
  ultimately show ?thesis
    using strtoll_show_int [of v] clamp_i64_id [OF assms]
    unfolding stored_counter_def by (cases "show_int v @ [CHR 0x0A]") (simp_all del: take_append)
qed

section \<open>Accepted tokens\<close>

lemma read_line_counter: "tok_counter (read_line l t) = Some v \<Longrightarrow>
    tok_counter t = Some v \<or> parse_i64_field ''counter:'' l = Some v"
  by (auto simp: read_line_def split: if_splits)

lemma read_token_counter_in_i64: "tok_counter (read_token text) = Some v \<Longrightarrow> in_i64 v"
proof -
  have "(\<forall>v. tok_counter t = Some v \<longrightarrow> in_i64 v) \<Longrightarrow>
      tok_counter (fold read_line ls t) = Some v \<Longrightarrow> in_i64 v" for ls t v
  proof (induction ls arbitrary: t)
    case (Cons l ls)
    have "\<forall>v. tok_counter (read_line l t) = Some v \<longrightarrow> in_i64 v"
      using Cons.prems(1) read_line_counter strtoll_in_i64
      by (fastforce simp: parse_i64_field_def bind_eq_Some_conv)
    then show ?case using Cons by simp
  qed simp
  from this [of no_token "token_lines text" v]
  show "tok_counter (read_token text) = Some v \<Longrightarrow> in_i64 v"
    by (simp add: read_token_def no_token_def)
qed

definition token_valid :: "world \<Rightarrow> path \<Rightarrow> int \<Rightarrow> int \<Rightarrow> string option \<Rightarrow> int \<Rightarrow> bool" where
  "token_valid w p ring max_age nonce counter \<longleftrightarrow>
     (\<exists>f t ts. files w p = Some f \<and> bridge_secure w f \<and> t = read_token (content f) \<and>
        tok_ring t = Some ring \<and> tok_attested t = Some True \<and>
        (ring = - 2 \<longrightarrow> tok_root_attested t = Some True) \<and>
        tok_timestamp t = Some ts \<and> ts \<le> clock w \<and> i64_sub (clock w) ts \<le> max_age \<and>
        (\<forall>n. nonce = Some n \<longrightarrow> tok_nonce t = Some n) \<and> tok_counter t = Some counter)"

lemma validate_cases:
  assumes "skv_validate_attestation_token w tp ring max_age nonce rp = (ok, w')"
  obtains (rejected) "\<not> ok" "w' = w"
  | (replay) counter where "token_valid w tp ring max_age nonce counter" "in_i64 counter"
      "check_replay w rp counter = (ok, w')"
proof (cases "read_token_file w tp")
  case None
  then show ?thesis using assms rejected by (simp add: skv_validate_attestation_token_def)
next
  case (Some t)
  then obtain f where f: "files w tp = Some f" "bridge_secure w f" "t = read_token (content f)"
    by (auto simp: read_token_file_def split: if_splits option.splits)
  show ?thesis
  proof (cases "token_checks t ring max_age (clock w) nonce")
    case True
    then obtain counter where "tok_counter t = Some counter" "token_valid w tp ring max_age nonce counter"
      using f by (auto simp: token_checks_def token_valid_def split: option.splits)
    then show ?thesis
      using replay [of counter] assms Some True f read_token_counter_in_i64
      by (simp add: skv_validate_attestation_token_def)
  next
    case False
    then show ?thesis using assms Some rejected by (simp add: skv_validate_attestation_token_def)
  qed
qed

section \<open>The replay state\<close>

definition current_counter :: "world \<Rightarrow> path \<Rightarrow> int" where
  "current_counter w p =
     (case files w (target w p) of Some f \<Rightarrow> stored_counter (content f) | None \<Rightarrow> - 1)"

lemma update_inode_files:
  "files (update_inode g q w) = (files w)(q := map_option g (files w q))"
  "sys_fails (update_inode g q w) = sys_fails w" "euid (update_inode g q w) = euid w"
  "resolve (update_inode g q w) = resolve w" "clock (update_inode g q w) = clock w"
  by (simp_all add: update_inode_def)

lemma target_update_inode: "(\<And>f. kind (g f) = kind f) \<Longrightarrow> target (update_inode g q w) p = target w p"
  by (auto simp: target_def update_inode_files split: option.split)

lemma target_create_state: "target (create_state w p) p = target w p"
  by (auto simp: create_state_def Let_def target_def split: option.splits)

lemma current_counter_create: "current_counter (create_state w p) p = current_counter w p"
  unfolding current_counter_def target_create_state
  by (auto simp: create_state_def Let_def stored_counter_def split: option.splits)

lemma create_state_frame:
  "sys_fails (create_state w p) = sys_fails w" "euid (create_state w p) = euid w"
  "q \<noteq> target w p \<Longrightarrow> files (create_state w p) q = files w q" "files (create_state w p) (target w p) \<noteq> None"
  by (auto simp: create_state_def Let_def split: option.splits)

lemma open_state_spec:
  assumes "open_state w p = Some w1"
  shows "target w1 p = target w p" "current_counter w1 p = current_counter w p"
    "sys_fails w1 = sys_fails w" "euid w1 = euid w"
    "\<And>q. q \<noteq> target w p \<Longrightarrow> files w1 q = files w q"
  using assms target_create_state current_counter_create create_state_frame
  by (auto simp: open_state_def split: if_splits)

lemma state_targets:
  "target (truncate_state w p) p = target w p" "target (write_state w p n) p = target w p"
  "target (chmod_state w p) p = target w p"
  by (simp_all add: truncate_state_def write_state_def chmod_state_def target_update_inode)

lemma state_frames:
  "sys_fails (truncate_state w p) = sys_fails w" "sys_fails (write_state w p n) = sys_fails w"
  "sys_fails (chmod_state w p) = sys_fails w"
  "files (truncate_state w p) = (files w)(target w p := map_option (\<lambda>f. f\<lparr>content := ''''\<rparr>) (files w (target w p)))"
  "files (write_state w p n) =
     (files w)(target w p := map_option (\<lambda>f. f\<lparr>content := show_int n @ [CHR 0x0A]\<rparr>) (files w (target w p)))"
  "files (chmod_state w p) = (files w)(target w p := map_option (\<lambda>f. f\<lparr>fmode := 0x180\<rparr>) (files w (target w p)))"
  by (simp_all add: truncate_state_def write_state_def chmod_state_def update_inode_files)

lemma current_counter_write:
  "in_i64 n \<Longrightarrow> files w (target w p) \<noteq> None \<Longrightarrow> current_counter (write_state w p n) p = n"
  using stored_counter_written by (auto simp: current_counter_def state_targets state_frames)

lemma current_counter_chmod: "current_counter (chmod_state w p) p = current_counter w p"
  by (simp add: current_counter_def state_targets state_frames option.case_eq_if option.map_sel)

lemma advance_state_spec:
  assumes "advance_state w p n = (ok, w')" "files w (target w p) = Some f" "in_i64 n"
    "\<not> sys_fails w Sys_seek p" "\<not> sys_fails w Sys_write p"
  shows "target w' p = target w p" "current_counter w' p = (if sys_fails w Sys_truncate p then current_counter w p else n)"
    "ok \<Longrightarrow> \<not> sys_fails w Sys_truncate p"
    "\<And>q. q \<noteq> target w p \<Longrightarrow> files w' q = files w q"
proof -
  show "target w' p = target w p" "ok \<Longrightarrow> \<not> sys_fails w Sys_truncate p"
    "\<And>q. q \<noteq> target w p \<Longrightarrow> files w' q = files w q"
    using assms by (auto simp: advance_state_def Let_def state_targets state_frames split: if_splits)
  have "files (truncate_state w p) (target (truncate_state w p) p) \<noteq> None"
    using assms(2) by (simp add: state_targets state_frames)
  then show "current_counter w' p = (if sys_fails w Sys_truncate p then current_counter w p else n)"
    using assms current_counter_write [OF assms(3)] current_counter_chmod
    by (auto simp: advance_state_def Let_def split: if_splits)
qed

text \<open>The operating system keeps its promises on the replay file: what is stored can be read, and
  a write after a truncation is not lost.\<close>

definition reliable :: "world \<Rightarrow> path \<Rightarrow> bool" where
  "reliable w p \<longleftrightarrow> \<not> sys_fails w Sys_read p \<and> \<not> sys_fails w Sys_seek p \<and> \<not> sys_fails w Sys_write p"

lemma check_replay_spec:
  assumes "check_replay w p n = (ok, w')" "in_i64 n" "reliable w p"
  shows "ok \<Longrightarrow> current_counter w p < n \<and> current_counter w' p = n"
    and "current_counter w p \<le> current_counter w' p"
proof -
  have "(ok \<longrightarrow> current_counter w p < n \<and> current_counter w' p = n) \<and>
      current_counter w p \<le> current_counter w' p"
  proof (cases "open_state w p")
    case (Some w1)
    note o = open_state_spec [OF Some]
    show ?thesis
    proof (cases "\<not> ok \<and> (w' = w \<or> w' = w1)")
      case False
      then obtain f where f: "files w1 (target w1 p) = Some f" "\<not> n \<le> stored_counter (content f)"
        and a: "advance_state w1 p n = (ok, w')"
        using assms Some
        by (auto simp: check_replay_def reliable_def Let_def split: if_splits option.splits)
      have "current_counter w1 p < n" using f by (simp add: current_counter_def)
      then show ?thesis using advance_state_spec [OF a f(1) assms(2)] assms(3) o
        by (auto simp: reliable_def)
    qed (auto simp: o)
  qed (use assms(1) in \<open>auto simp: check_replay_def split: if_splits\<close>)
  then show "ok \<Longrightarrow> current_counter w p < n \<and> current_counter w' p = n"
    "current_counter w p \<le> current_counter w' p" by blast+
qed

lemma check_replay_frame:
  assumes "check_replay w p n = (ok, w')" "q \<noteq> target w p"
  shows "files w' q = files w q"
  using assms open_state_spec(1,5) [of w p]
  by (fastforce simp: check_replay_def advance_state_def Let_def state_targets state_frames
      split: if_splits option.splits)

text \<open>
  A history of validations against one replay file: the counters accepted so far. Between two
  validations the rest of the world may change, but the counter in the file stays. The locale states
  what a bridge owes to its replay file, whatever its file holds and however it is read.
\<close>

inductive history ::
  "(world \<Rightarrow> int \<Rightarrow> world \<Rightarrow> bool) \<Rightarrow> (world \<Rightarrow> world \<Rightarrow> bool) \<Rightarrow> (world \<Rightarrow> int) \<Rightarrow> world \<Rightarrow> int list \<Rightarrow> world \<Rightarrow> bool"
  for accepts rejects counter w where
  start: "history accepts rejects counter w [] w"
| accept: "history accepts rejects counter w ns w1 \<Longrightarrow> accepts w1 n w2 \<Longrightarrow>
    history accepts rejects counter w (ns @ [n]) w2"
| reject: "history accepts rejects counter w ns w1 \<Longrightarrow> rejects w1 w2 \<Longrightarrow> history accepts rejects counter w ns w2"
| elsewhere: "history accepts rejects counter w ns w1 \<Longrightarrow> counter w2 = counter w1 \<Longrightarrow>
    history accepts rejects counter w ns w2"

locale replay_guard =
  fixes accepts :: "world \<Rightarrow> int \<Rightarrow> world \<Rightarrow> bool" and rejects :: "world \<Rightarrow> world \<Rightarrow> bool"
    and counter :: "world \<Rightarrow> int"
  assumes accepts_above: "accepts w n w' \<Longrightarrow> counter w < n"
    and accepts_stores: "accepts w n w' \<Longrightarrow> counter w' = n"
    and rejects_keeps: "rejects w w' \<Longrightarrow> counter w \<le> counter w'"
begin

lemma history_increasing:
  "history accepts rejects counter w ns w' \<Longrightarrow>
     sorted_wrt (<) (counter w # ns) \<and> (\<forall>n \<in> set (counter w # ns). n \<le> counter w')"
proof (induction rule: history.induct)
  case (accept ns w1 n w2)
  then show ?case using accepts_above [OF accept(2)] accepts_stores [OF accept(2)]
    by (fastforce simp: sorted_wrt_append)
next
  case (reject ns w1 w2)
  then show ?case using rejects_keeps by fastforce
qed simp_all

lemma history_distinct: "history accepts rejects counter w ns w' \<Longrightarrow> distinct ns"
  using history_increasing strict_sorted_iff [of ns] by auto

end

lemma token_valid_unique:
  "token_valid w tp ring max_age nonce n \<Longrightarrow> token_valid w tp ring max_age nonce n' \<Longrightarrow> n = n'"
  by (auto simp: token_valid_def)

lemma validate_counter:
  assumes "skv_validate_attestation_token w tp ring max_age nonce p = (ok, w')" "reliable w p"
  shows "current_counter w p \<le> current_counter w' p"
    and "ok \<Longrightarrow> token_valid w tp ring max_age nonce n \<Longrightarrow> current_counter w p < n \<and> current_counter w' p = n"
  using assms(1)
  by (cases rule: validate_cases;
      use check_replay_spec assms(2) token_valid_unique in fastforce)+

definition c_accepts :: "path \<Rightarrow> world \<Rightarrow> int \<Rightarrow> world \<Rightarrow> bool" where
  "c_accepts p w n w' \<longleftrightarrow> reliable w p \<and>
     (\<exists>tp ring max_age nonce. skv_validate_attestation_token w tp ring max_age nonce p = (True, w') \<and>
        token_valid w tp ring max_age nonce n)"

definition c_rejects :: "path \<Rightarrow> world \<Rightarrow> world \<Rightarrow> bool" where
  "c_rejects p w w' \<longleftrightarrow> reliable w p \<and>
     (\<exists>tp ring max_age nonce. skv_validate_attestation_token w tp ring max_age nonce p = (False, w'))"

interpretation c_bridge: replay_guard "c_accepts p" "c_rejects p" "\<lambda>w. current_counter w p" for p
  using validate_counter by unfold_locales (auto simp: c_accepts_def c_rejects_def)

definition session :: "path \<Rightarrow> world \<Rightarrow> int list \<Rightarrow> world \<Rightarrow> bool" where
  "session p = history (c_accepts p) (c_rejects p) (\<lambda>w. current_counter w p)"

end
