(* ===== verification/Ring_Policy.thy ===== *)
theory Ring_Policy
  imports Verdict Attestation
begin

text \<open>
  The ring policy, \<open>apply_ring_policy\<close> with \<open>verify_attestation_signature\<close> and
  \<open>normalize_fingerprint\<close> in \<open>skv-analyzer/src/main.rs\<close>. The crates \<open>base64\<close>, \<open>ed25519-dalek\<close>,
  \<open>sha2\<close> and \<open>hex\<close> are parameters, the fields of the record \<open>crypto\<close>; nothing is assumed of them.
  Bytes are characters. Results: in rings -1 and -2 a result passes only with a verified signature
  under a pinned key and a token the bridge accepted, and in ring -2 only with a second signature;
  an undecided result never leaves these rings; no ring improves a result; ring 0 changes nothing.
\<close>

section \<open>Signatures\<close>

record crypto =
  b64_decode :: "string \<Rightarrow> string option"
  key_from_bytes :: "string \<Rightarrow> bool"
  ed25519_verify :: "string \<Rightarrow> string \<Rightarrow> string \<Rightarrow> bool"
  sha256_digest :: "string \<Rightarrow> string"
  hex_encode :: "string \<Rightarrow> string"

record SignatureMeta =
  key_fingerprint :: string
  token_sha256 :: string

definition is_ascii_hexdigit :: "char \<Rightarrow> bool" where
  "is_ascii_hexdigit c \<longleftrightarrow>
     is_digit c \<or> (97 \<le> (of_char c :: nat) \<and> (of_char c :: nat) \<le> 102) \<or>
     (65 \<le> (of_char c :: nat) \<and> (of_char c :: nat) \<le> 70)"

definition normalize_fingerprint :: "string \<Rightarrow> error + string" where
  "normalize_fingerprint v =
     (let fp = to_ascii_lowercase (trim v)
      in if length fp \<noteq> 64 \<or> \<not> list_all is_ascii_hexdigit fp then
           Inl ''fingerprint must be exactly 64 hex characters''
         else Inr fp)"

definition verify_attestation_signature ::
  "crypto \<Rightarrow> world \<Rightarrow> path \<Rightarrow> path \<Rightarrow> path \<Rightarrow> string \<Rightarrow> error + SignatureMeta" where
  "verify_attestation_signature cr w token_path pubkey_path signature_path expected_fp =
     (case ensure_secure_owned_file w pubkey_path ''attestation pubkey'' of
        Inl e \<Rightarrow> Inl e
      | Inr _ \<Rightarrow>
     (case ensure_secure_owned_file w signature_path ''attestation signature'' of
        Inl e \<Rightarrow> Inl e
      | Inr _ \<Rightarrow>
     (case fs_read w token_path of
        None \<Rightarrow> Inl (''Failed reading attestation token: '' @ to_string_lossy token_path)
      | Some token \<Rightarrow>
     (case fs_read_to_string w pubkey_path of
        None \<Rightarrow> Inl (''Failed reading attestation pubkey: '' @ to_string_lossy pubkey_path)
      | Some pubkey_b64 \<Rightarrow>
     (case fs_read_to_string w signature_path of
        None \<Rightarrow> Inl (''Failed reading attestation signature: '' @ to_string_lossy signature_path)
      | Some sig_b64 \<Rightarrow>
     (case b64_decode cr (trim pubkey_b64) of
        None \<Rightarrow> Inl ''Failed decoding base64 attestation pubkey''
      | Some pubkey_raw \<Rightarrow>
     (case b64_decode cr (trim sig_b64) of
        None \<Rightarrow> Inl ''Failed decoding base64 attestation signature''
      | Some sig_raw \<Rightarrow>
          if length pubkey_raw \<noteq> 32 then Inl ''attestation pubkey must decode to 32 bytes''
          else if length sig_raw \<noteq> 64 then Inl ''attestation signature must decode to 64 bytes''
          else if \<not> key_from_bytes cr pubkey_raw then Inl ''invalid ed25519 pubkey''
          else if \<not> ed25519_verify cr pubkey_raw token sig_raw then
            Inl ''ed25519 signature verification failed''
          else
            let key_fp = hex_encode cr (sha256_digest cr pubkey_raw)
            in (case normalize_fingerprint expected_fp of
                  Inl e \<Rightarrow> Inl e
                | Inr expected_norm \<Rightarrow>
                    if key_fp \<noteq> expected_norm then Inl ''attestation key fingerprint mismatch''
                    else Inr \<lparr>key_fingerprint = key_fp,
                              token_sha256 = hex_encode cr (sha256_digest cr token)\<rparr>))))))))"

section \<open>The policy\<close>

record attestation_args =
  attestation_token :: "path option"
  attestation_max_age_sec :: u64
  attestation_nonce :: "string option"
  attestation_replay_state :: "path option"
  attestation_pubkey :: "path option"
  attestation_signature :: "path option"
  attestation_key_fingerprint :: "string option"
  ring2_root_pubkey :: "path option"
  ring2_root_signature :: "path option"
  ring2_root_key_fingerprint :: "string option"

type_synonym ring_result = "AnalysisResult \<times> string option \<times> string option"

text \<open>\<open>CString::new\<close> refuses an interior NUL.\<close>

definition has_nul :: "string \<Rightarrow> bool" where
  "has_nul s \<longleftrightarrow> CHR 0x00 \<in> set s"

text \<open>The ring -2 block: the message it fails with, or None.\<close>

definition root_failure :: "crypto \<Rightarrow> world \<Rightarrow> attestation_args \<Rightarrow> path \<Rightarrow> string option" where
  "root_failure cr w a token_path =
     (case ring2_root_pubkey a of
        None \<Rightarrow> Some ''Ring -2 requires --ring2-root-pubkey for independent root attestation''
      | Some root_pub \<Rightarrow>
     (case ring2_root_signature a of
        None \<Rightarrow> Some ''Ring -2 requires --ring2-root-signature for independent root attestation''
      | Some root_sig \<Rightarrow>
     (case ring2_root_key_fingerprint a of
        None \<Rightarrow> Some ''Ring -2 requires --ring2-root-key-fingerprint for root key pinning''
      | Some root_fp \<Rightarrow>
          (case verify_attestation_signature cr w token_path root_pub root_sig root_fp of
             Inl e \<Rightarrow> Some (''Ring -2 root signature invalid: '' @ e)
           | Inr _ \<Rightarrow> None))))"

text \<open>The checks after the signatures: age, nonce, replay state and the bridge. The bridge is given the
  paths as text, in which bytes that are not UTF-8 have been replaced.\<close>

definition bridge_failure ::
  "world \<Rightarrow> RingMode \<Rightarrow> int \<Rightarrow> attestation_args \<Rightarrow> string \<Rightarrow> string option \<times> world" where
  "bridge_failure w ring required_ring a token_text =
     (if attestation_max_age_sec a = 0 then (Some ''attestation max age must be > 0'', w)
      else if unat (attestation_max_age_sec a) \<ge> 2 ^ 63 then
        (Some ''attestation max age is too large'', w)
      else
        (case attestation_nonce a of
           None \<Rightarrow>
             (Some (RingMode_label ring @ '' requires --attestation-nonce for anti-replay binding''), w)
         | Some nonce \<Rightarrow>
             if has_nul nonce then (Some ''attestation nonce contains NUL byte'', w)
             else
               (case attestation_replay_state a of
                  None \<Rightarrow>
                    (Some (RingMode_label ring @
                       '' requires --attestation-replay-state for replay protection''), w)
                | Some replay_path \<Rightarrow>
                    let replay_text = to_string_lossy replay_path
                    in if has_nul replay_text then
                      (Some ''attestation replay state path contains NUL byte'', w)
                    else
                      let (ok, w') = skv_validate_attestation_token w token_text required_ring
                            (uint (attestation_max_age_sec a)) (Some nonce) replay_text
                      in (if \<not> ok then
                            Some (RingMode_label ring @ '' attestation token validation failed'')
                          else None, w'))))"

text \<open>The body of \<open>if let Some(required_ring)\<close>: what it returns early with, or the fingerprint and
  digest it leaves behind.\<close>

definition attest ::
  "crypto \<Rightarrow> world \<Rightarrow> RingMode \<Rightarrow> int \<Rightarrow> attestation_args \<Rightarrow>
   string option \<times> string option \<times> string option \<times> world" where
  "attest cr w ring required_ring a =
     (case attestation_token a of
        None \<Rightarrow>
          (Some (RingMode_label ring @
             '' requires C-validated attestation token (--attestation-token <path>)''), None, None, w)
      | Some token_path \<Rightarrow>
          let token_text = to_string_lossy token_path
          in if has_nul token_text then
            (Some ''Attestation token path contains NUL byte'', None, None, w)
          else
     (case attestation_pubkey a of
        None \<Rightarrow>
          (Some (RingMode_label ring @ '' requires --attestation-pubkey for signature verification''),
           None, None, w)
      | Some pubkey_path \<Rightarrow>
     (case attestation_signature a of
        None \<Rightarrow>
          (Some (RingMode_label ring @ '' requires --attestation-signature for signature verification''),
           None, None, w)
      | Some sig_path \<Rightarrow>
     (case attestation_key_fingerprint a of
        None \<Rightarrow>
          (Some (RingMode_label ring @ '' requires --attestation-key-fingerprint for key pinning''),
           None, None, w)
      | Some expected_fp \<Rightarrow>
     (case verify_attestation_signature cr w token_path pubkey_path sig_path expected_fp of
        Inl e \<Rightarrow>
          (Some (RingMode_label ring @ '' attestation signature invalid: '' @ e), None, None, w)
      | Inr meta \<Rightarrow>
          let kfp = Some (key_fingerprint meta); tsha = Some (token_sha256 meta)
          in (case (if ring = RingM2 then root_failure cr w a token_path else None) of
                Some msg \<Rightarrow> (Some msg, kfp, tsha, w)
              | None \<Rightarrow>
                  let (failure, w') = bridge_failure w ring required_ring a token_text
                  in (failure, kfp, tsha, w')))))))"

definition strict_result :: "RingMode \<Rightarrow> AnalysisResult \<Rightarrow> AnalysisResult" where
  "strict_result ring result =
     (case (ring, result) of
        (Ring0, r) \<Rightarrow> r
      | (_, Unknown reason) \<Rightarrow>
          Fail (RingMode_label ring @ '' strict policy rejected unresolved proof: '' @ reason)
      | (_, r) \<Rightarrow> r)"

definition apply_ring_policy ::
  "crypto \<Rightarrow> world \<Rightarrow> AnalysisResult \<Rightarrow> RingMode \<Rightarrow> attestation_args \<Rightarrow> ring_result \<times> world" where
  "apply_ring_policy cr w result ring a =
     (case token_ring ring of
        None \<Rightarrow> ((strict_result ring result, None, None), w)
      | Some required_ring \<Rightarrow>
          (case attest cr w ring required_ring a of
             (Some msg, kfp, tsha, w') \<Rightarrow> ((Fail msg, kfp, tsha), w')
           | (None, kfp, tsha, w') \<Rightarrow> ((strict_result ring result, kfp, tsha), w')))"

section \<open>Properties\<close>

text \<open>What a verified signature stands for: the bytes of the token are signed by a key whose
  fingerprint is the pinned one, read from files that only the user can write.\<close>

definition signed_by :: "crypto \<Rightarrow> world \<Rightarrow> path \<Rightarrow> path \<Rightarrow> path \<Rightarrow> string \<Rightarrow> bool" where
  "signed_by cr w token_path pubkey_path signature_path fp \<longleftrightarrow>
     (\<exists>kf sf token key sig.
        files w pubkey_path = Some kf \<and> secure_file w kf \<and>
        files w signature_path = Some sf \<and> secure_file w sf \<and>
        fs_read w token_path = Some token \<and>
        b64_decode cr (trim (content kf)) = Some key \<and> length key = 32 \<and>
        b64_decode cr (trim (content sf)) = Some sig \<and> length sig = 64 \<and>
        key_from_bytes cr key \<and> ed25519_verify cr key token sig \<and>
        hex_encode cr (sha256_digest cr key) = to_ascii_lowercase (trim fp))"

lemma secure_read:
  "ensure_secure_owned_file w p l = Inr u \<Longrightarrow> fs_read_to_string w p = Some s \<Longrightarrow>
     \<exists>f. files w p = Some f \<and> secure_file w f \<and> s = content f"
  using ensure_secure_owned_file_iff [of w p l]
  by (auto simp: fs_read_to_string_def fs_read_def target_def secure_file_def split: if_splits)

lemma verify_attestation_signature_ok:
  assumes "verify_attestation_signature cr w tp kp sp fp = Inr meta"
  shows "signed_by cr w tp kp sp fp" "normalize_fingerprint fp = Inr (key_fingerprint meta)"
    "\<exists>token. fs_read w tp = Some token \<and> token_sha256 meta = hex_encode cr (sha256_digest cr token)"
proof -
  show "signed_by cr w tp kp sp fp"
    using assms secure_read [of w kp] secure_read [of w sp]
    unfolding verify_attestation_signature_def signed_by_def
    by (fastforce simp: normalize_fingerprint_def Let_def split: sum.splits option.splits if_splits)
  show "normalize_fingerprint fp = Inr (key_fingerprint meta)"
    "\<exists>token. fs_read w tp = Some token \<and> token_sha256 meta = hex_encode cr (sha256_digest cr token)"
    using assms unfolding verify_attestation_signature_def
    by (auto simp: Let_def split: sum.splits option.splits if_splits)
qed

text \<open>What the ring policy asks for. The signatures are over the file at the token's path, the bridge
  reads the file at the text of that path; they are one file when the path is UTF-8.\<close>

definition attested :: "crypto \<Rightarrow> world \<Rightarrow> RingMode \<Rightarrow> attestation_args \<Rightarrow> world \<Rightarrow> bool" where
  "attested cr w ring a w' \<longleftrightarrow>
     (\<exists>tp kp sp fp nonce rp n.
        attestation_token a = Some tp \<and> attestation_pubkey a = Some kp \<and>
        attestation_signature a = Some sp \<and> attestation_key_fingerprint a = Some fp \<and>
        signed_by cr w tp kp sp fp \<and>
        (ring = RingM2 \<longrightarrow>
           (\<exists>rkp rsp rfp. ring2_root_pubkey a = Some rkp \<and> ring2_root_signature a = Some rsp \<and>
              ring2_root_key_fingerprint a = Some rfp \<and> signed_by cr w tp rkp rsp rfp)) \<and>
        attestation_nonce a = Some nonce \<and> attestation_replay_state a = Some rp \<and>
        token_valid w (to_string_lossy tp) (the (token_ring ring)) (uint (attestation_max_age_sec a)) (Some nonce) n \<and>
        in_i64 n \<and> check_replay w (to_string_lossy rp) n = (True, w'))"

lemma root_failure_None:
  "root_failure cr w a tp = None \<Longrightarrow>
     \<exists>rkp rsp rfp. ring2_root_pubkey a = Some rkp \<and> ring2_root_signature a = Some rsp \<and>
       ring2_root_key_fingerprint a = Some rfp \<and> signed_by cr w tp rkp rsp rfp"
  by (auto simp: root_failure_def dest: verify_attestation_signature_ok(1)
      split: option.splits sum.splits)

lemma bridge_failure_None:
  assumes "bridge_failure w ring r a tp = (None, w')"
  shows "\<exists>nonce rp n. attestation_nonce a = Some nonce \<and> attestation_replay_state a = Some rp \<and>
     token_valid w tp r (uint (attestation_max_age_sec a)) (Some nonce) n \<and> in_i64 n \<and>
     check_replay w (to_string_lossy rp) n = (True, w')"
proof -
  obtain nonce rp where n: "attestation_nonce a = Some nonce" "attestation_replay_state a = Some rp"
    and v: "skv_validate_attestation_token w tp r (uint (attestation_max_age_sec a)) (Some nonce) (to_string_lossy rp) =
      (True, w')"
    using assms by (auto simp: bridge_failure_def Let_def split: if_splits option.splits prod.splits)
  show ?thesis using v by (cases rule: validate_cases) (use n in auto)
qed

lemma attest_None:
  assumes "attest cr w ring r a = (None, kfp, tsha, w')" "token_ring ring = Some r"
  shows "attested cr w ring a w'"
proof -
  obtain tp kp sp fp meta where a: "attestation_token a = Some tp" "attestation_pubkey a = Some kp"
    "attestation_signature a = Some sp" "attestation_key_fingerprint a = Some fp"
    and s: "verify_attestation_signature cr w tp kp sp fp = Inr meta"
    and r: "(if ring = RingM2 then root_failure cr w a tp else None) = None"
    and b: "bridge_failure w ring r a (to_string_lossy tp) = (None, w')"
    using assms(1) unfolding attest_def Let_def
    by (auto split: if_splits option.splits sum.splits prod.splits)
  have root: "ring = RingM2 \<longrightarrow> (\<exists>rkp rsp rfp. ring2_root_pubkey a = Some rkp \<and>
      ring2_root_signature a = Some rsp \<and> ring2_root_key_fingerprint a = Some rfp \<and>
      signed_by cr w tp rkp rsp rfp)"
    using r root_failure_None by auto
  show ?thesis
    unfolding attested_def
    using a verify_attestation_signature_ok(1) [OF s] root bridge_failure_None [OF b] assms(2)
    by fastforce
qed

lemma strict_result_Pass: "strict_result ring r = Pass \<longleftrightarrow> r = Pass"
  by (cases ring; cases r) (simp_all add: strict_result_def)

lemma strict_result_severity: "severity r \<le> severity (strict_result ring r)"
  by (cases ring; cases r) (simp_all add: strict_result_def)

lemma strict_result_decided: "ring \<noteq> Ring0 \<Longrightarrow> strict_result ring r \<noteq> Unknown msg"
  by (cases ring; cases r) (simp_all add: strict_result_def)

lemma severity_bound: "severity r \<le> 2"
  by (cases r) simp_all

lemma apply_ring_policy_severity: "severity r \<le> severity (fst (fst (apply_ring_policy cr w r ring a)))"
  using strict_result_severity severity_bound
  by (auto simp: apply_ring_policy_def split: option.splits prod.splits)

lemma apply_ring_policy_Pass:
  assumes "apply_ring_policy cr w r ring a = ((Pass, kfp, tsha), w')" "ring \<noteq> Ring0"
  shows "r = Pass \<and> attested cr w ring a w'"
proof -
  obtain n where n: "token_ring ring = Some n" using assms(2) by (cases ring) auto
  then have "attest cr w ring n a = (None, kfp, tsha, w')" "strict_result ring r = Pass"
    using assms(1) by (auto simp: apply_ring_policy_def split: prod.splits option.splits)
  then show ?thesis using attest_None n strict_result_Pass by blast
qed

lemma token_one_file:
  assumes "token_valid w (to_string_lossy tp) r max_age nonce n" "valid_utf8 tp" "fs_read w tp = Some token"
  shows "\<exists>f. files w tp = Some f \<and> bridge_secure w f \<and> content f = token"
  using assms by (auto simp: token_valid_def fs_read_def target_def bridge_secure_def split: if_splits)

end
