(* ===== verification/Sample_World.thy ===== *)
theory Sample_World
  imports Ring_Policy
begin

unbundle bit_operations_syntax

text \<open>
  A concrete world on which the theorems about files, tokens and rings are applied: a token file, a
  key file and a signature file that belong to the user, and no replay state yet. The
  cryptography is a toy that accepts one key and one signature.
\<close>

definition own_file :: "string \<Rightarrow> inode" where
  "own_file text = \<lparr>kind = RegularFile, uid = 0, fmode = 0x180, readable = True, content = text\<rparr>"

definition token_text :: string where
  "token_text = ''ring:-1'' @ [CHR 0x0A] @ ''attested:true'' @ [CHR 0x0A] @ ''timestamp:1000'' @ [CHR 0x0A] @
     ''nonce:n1'' @ [CHR 0x0A] @ ''counter:5'' @ [CHR 0x0A]"

definition sample_world :: world where
  "sample_world =
     \<lparr>files = [''tok'' \<mapsto> own_file token_text, ''pub'' \<mapsto> own_file ''K'', ''sig'' \<mapsto> own_file ''S''],
      euid = 0, umask = 0x12, proc_status = None, clock = 1100, sys_fails = (\<lambda>_ _. False),
      resolve = id\<rparr>"

definition sample_crypto :: crypto where
  "sample_crypto =
     \<lparr>b64_decode = (\<lambda>s. if s = ''K'' then Some (replicate 32 (CHR ''k''))
                       else if s = ''S'' then Some (replicate 64 (CHR ''s'')) else None),
      key_from_bytes = (\<lambda>_. True),
      ed25519_verify = (\<lambda>k t s. k = replicate 32 (CHR ''k'') \<and> s = replicate 64 (CHR ''s'')),
      sha256_digest = id, hex_encode = (\<lambda>_. replicate 64 (CHR ''a''))\<rparr>"

definition sample_args :: attestation_args where
  "sample_args =
     \<lparr>attestation_token = Some ''tok'', attestation_max_age_sec = 300, attestation_nonce = Some ''n1'',
      attestation_replay_state = Some ''replay'', attestation_pubkey = Some ''pub'',
      attestation_signature = Some ''sig'', attestation_key_fingerprint = Some (replicate 64 (CHR ''A'')),
      ring2_root_pubkey = None, ring2_root_signature = None, ring2_root_key_fingerprint = None\<rparr>"

lemma token_text_lines:
  "token_lines token_text = [''ring:-1'', ''attested:true'', ''timestamp:1000'', ''nonce:n1'', ''counter:5'']"
  by code_simp

lemma read_token_text:
  "read_token token_text = \<lparr>tok_ring = Some (- 1), tok_attested = Some True, tok_timestamp = Some 1000,
     tok_nonce = Some ''n1'', tok_counter = Some 5, tok_root_attested = None\<rparr>"
  unfolding read_token_def token_text_lines by code_simp

lemma own_file_secure: "bridge_secure sample_world (own_file s)" "secure_file sample_world (own_file s)"
  by (simp_all add: bridge_secure_def secure_file_def own_file_def sample_world_def group_world_writable_def
      nix_like_euid_def lines_def)

lemma sample_files:
  "files sample_world ''tok'' = Some (own_file token_text)" "files sample_world ''pub'' = Some (own_file ''K'')"
  "files sample_world ''sig'' = Some (own_file ''S'')" "files sample_world ''replay'' = None"
  "euid sample_world = 0" "clock sample_world = 1100" "umask sample_world = 0x12" "sys_fails sample_world s p = False"
  by (simp_all add: sample_world_def)

lemma sample_read:
  "fs_read sample_world ''tok'' = Some token_text" "fs_read_to_string sample_world ''pub'' = Some ''K''"
  "fs_read_to_string sample_world ''sig'' = Some ''S''"
  by (simp_all add: fs_read_def fs_read_to_string_def target_def sample_files own_file_def valid_utf8_def)

lemma sample_paths: "valid_utf8 ''tok''" "valid_utf8 ''replay''"
  by (simp_all add: valid_utf8_def)

lemma sample_fingerprint: "normalize_fingerprint (replicate 64 (CHR ''A'')) = Inr (replicate 64 (CHR ''a''))"
proof -
  have "trim (replicate 64 (CHR ''A'')) = replicate 64 (CHR ''A'')"
    by (rule trim_printable) (simp_all add: printable_def)
  moreover have "ascii_lower (CHR ''A'') = CHR ''a''" by code_simp
  ultimately show ?thesis
    by (simp add: normalize_fingerprint_def to_ascii_lowercase_def list_all_iff is_ascii_hexdigit_def)
qed

lemma sample_signature:
  "verify_attestation_signature sample_crypto sample_world ''tok'' ''pub'' ''sig'' (replicate 64 (CHR ''A'')) =
     Inr \<lparr>key_fingerprint = replicate 64 (CHR ''a''), token_sha256 = replicate 64 (CHR ''a'')\<rparr>"
proof -
  have "ensure_secure_owned_file sample_world ''pub'' l = Inr ()"
    "ensure_secure_owned_file sample_world ''sig'' l = Inr ()" for l
    by (simp_all add: ensure_secure_owned_file_iff sample_files own_file_secure)
  moreover have "trim ''K'' = ''K''" "trim ''S'' = ''S''" by (simp_all add: trim_printable printable_def)
  moreover have "b64_decode sample_crypto ''K'' = Some (replicate 32 (CHR ''k''))"
    "b64_decode sample_crypto ''S'' = Some (replicate 64 (CHR ''s''))" "key_from_bytes sample_crypto k"
    "ed25519_verify sample_crypto (replicate 32 (CHR ''k'')) t (replicate 64 (CHR ''s''))"
    "hex_encode sample_crypto b = replicate 64 (CHR ''a'')" for k t b
    by (simp_all add: sample_crypto_def)
  ultimately show ?thesis
    by (simp add: verify_attestation_signature_def sample_read sample_fingerprint Let_def)
qed

definition replayed_world :: world where
  "replayed_world = sample_world\<lparr>files := (files sample_world)(''replay'' \<mapsto> own_file (''5'' @ [CHR 0x0A]))\<rparr>"

lemma sample_replay: "check_replay sample_world ''replay'' 5 = (True, replayed_world)"
proof -
  have t: "target sample_world ''replay'' = ''replay''" by (simp add: target_def sample_files)
  let ?w = "sample_world\<lparr>files := (files sample_world)(''replay'' \<mapsto> own_file '''')\<rparr>"
  have "(0x180 :: u32) AND NOT 0x12 = 0x180" by code_simp
  then have o: "open_state sample_world ''replay'' = Some ?w"
    by (simp add: open_state_def create_state_def Let_def t sample_files own_file_def)
  have t1: "target ?w ''replay'' = ''replay''" by (simp add: target_def own_file_def)
  have s: "bridge_secure ?w (own_file '''')" using own_file_secure(1) [of "''''"] by (simp add: bridge_secure_def)
  have "show_int 5 = ''5''" by code_simp
  then have "advance_state ?w ''replay'' 5 = (True, replayed_world)"
    using t1 by (simp add: advance_state_def target_def truncate_state_def write_state_def chmod_state_def Let_def sample_files update_inode_def own_file_def replayed_world_def)
  then show ?thesis
    using s t1 by (simp add: check_replay_def o sample_files own_file_def stored_counter_def)
qed

lemma sample_validate:
  "skv_validate_attestation_token sample_world ''tok'' (- 1) 300 (Some ''n1'') ''replay'' = (True, replayed_world)"
  using own_file_secure(1) [of token_text] sample_replay
  by (simp add: skv_validate_attestation_token_def read_token_file_def sample_files token_checks_def i64_sub_def
      own_file_def read_token_text)

lemma sample_ring:
  "apply_ring_policy sample_crypto sample_world Pass RingM1 sample_args =
     ((Pass, Some (replicate 64 (CHR ''a'')), Some (replicate 64 (CHR ''a''))), replayed_world)"
  using sample_signature sample_validate
  by (simp add: apply_ring_policy_def attest_def sample_args_def has_nul_def bridge_failure_def strict_result_def sample_paths)

end
