(* ===== verification/Cli.thy ===== *)
theory Cli
  imports Analyzer Ring_Policy
begin

text \<open>
  The command line, \<open>run\<close> and \<open>main\<close> with the commands they dispatch to in
  \<open>skv-analyzer/src/main.rs\<close>. \<open>Args\<close> is what \<open>clap\<close> has parsed. The reader of LLVM IR, the decision
  procedure, the cryptography and the machine the binary runs on are fields of the record \<open>env\<close>. A run
  yields how it ends, the lines it prints and the world it leaves; a panic of the analysis, which
  \<open>run\<close> does not catch, is an ending of its own. \<open>ParserLost\<close> and \<open>Lost\<close> stand for a translation of LLVM's
  module that does not return: it panics, exhausts the stack or follows an endless list, and nothing is
  said about the process then. The interactive menu reads its lines from the environment, where
  reading a line and flushing the output may fail, and runs for at most the number of turns given there
  (\<open>Running\<close> when it is not left by then); the frame and the colours it draws are left out.
\<close>

section \<open>Arguments and environment\<close>

datatype Commands = Features | Doctor | TokenTemplate RingMode | Tui | AttestCheck

record Args =
  ir_path :: "path option"
  ring :: RingMode
  attestation :: attestation_args
  json :: bool
  verdict_out :: "path option"
  hitl_mode :: HitlMode
  hitl_approvals :: "path option"
  hitl_class_approvals :: "path option"
  emit_vcs :: "path option"
  fallback_policy :: RuntimeFallbackPolicy
  proof_format :: ProofFormat
  emit_proof :: "path option"
  asm_policy :: InlineAsmPolicy
  dma :: DmaPolicy
  emit_equiv_summary :: "path option"
  command :: "Commands option"

datatype ParseResult = ParserPanic | ParserLost | ParseError string | Parsed Module

record env =
  crypto_impl :: crypto
  from_ir_path :: "world \<Rightarrow> path \<Rightarrow> ParseResult"
  z3_check :: "Bool_ast list \<Rightarrow> SatResult"
  stack_depth :: nat
  hash_iter :: "nat set \<Rightarrow> nat list"
  arch :: string
  os :: string
  zig_ok :: bool
  stdin_lines :: "string list"
  read_fails :: "nat \<Rightarrow> bool"
  flush_fails :: "nat \<Rightarrow> bool"
  tui_turns :: nat

datatype RunEnd = Exit u8 | Err error | Panicked | Lost | Running

type_synonym run_result = "RunEnd \<times> string list \<times> world"

section \<open>Features\<close>

definition feature_catalog_text :: "string list" where
  "feature_catalog_text =
     [
      ''SKV Analyzer - Full Feature Inventory'',
      '''',
      ''1) Core LLVM/Z3 memory safety analysis'',
      ''- kmalloc/kzalloc/kcalloc allocation tracking'',
      ''- Bounds checks for load/store/memcpy/memset'',
      ''- Use-after-free and double-free detection via kfree tracking'',
      ''- Pointer provenance through GEP, bitcast, ptrtoint/inttoptr, add/sub'',
      ''- Conservative UNKNOWN semantics for unsupported patterns'',
      '''',
      ''2) Ring policy enforcement'',
      ''- ring0: standard analysis verdict flow'',
      ''- ring-1: strict mode (UNKNOWN promoted to FAIL)'',
      ''- ring-2: strict mode + independent root trust requirements'',
      '''',
      ''3) Attestation validation (C or Zig backend)'',
      ''- Token field validation: ring, attested, timestamp, nonce, counter'',
      ''- ring-2 extra token requirement: root_attested:true'',
      ''- Freshness enforcement with max token age'',
      ''- Nonce challenge binding'',
      ''- Replay protection with monotonic counter state'',
      ''- Atomic replay-state update with file lock + fsync'',
      ''- Secure file checks: regular file, owner UID match, safe permissions'',
      '''',
      ''4) Cryptographic trust'',
      ''- Detached Ed25519 signature verification over token bytes'',
      ''- Pinned SHA-256 fingerprint check for attestation key'',
      ''- ring-2 independent root signature + root key pinning'',
      '''',
      ''5) Operational output and CI integration'',
      ''- Human-readable PASS/FAIL/UNKNOWN output'',
      ''- --json machine-readable verdict output'',
      ''- --verdict-out file emission for SIEM/pipeline ingestion'',
      ''- Stable exit codes: 0(pass), 10(fail), 20(unknown), 1(error)'',
      ''- Panic-safe LLVM parse path (fail closed instead of process crash)'',
      '''',
      ''6) HITL verification gate'',
      ''- --hitl-mode off|require'',
      ''- --hitl-approvals <path> newline-delimited approved VC IDs'',
      ''- --hitl-class-approvals <path> newline-delimited approved VC class IDs'',
      ''- require mode needs at least one approval source (VC IDs or class IDs)'',
      ''- --emit-vcs <path> emits seen/blocked VC IDs for human review'',
      ''- Class approvals allow reviewer to approve families of similar VCs'',
      ''- Solver is never executed for unapproved VCs in require mode'',
      '''',
      ''7) Runtime fallback policy'',
      ''- --runtime-fallback auto|arm-mte|integritag|software-targeted'',
      ''- auto resolves to arm-mte on aarch64, integritag on x86_64, software-targeted otherwise'',
      ''- Runtime fallback policy is included in verdict output'',
      ''- IntegriTag supports Intel TME-MK hardware cryptographic memory tagging'',
      '''',
      ''8) Proof-Carrying Code (PCC)'',
      ''- --emit-proof <path> outputs formal proof trace for memory safety'',
      ''- --proof-format lfsc|rup selects trace format (LFSC/RUP)'',
      '''',
      ''9) Build/runtime backends'',
      ''- Default C attestation backend'',
      ''- Optional Zig backend via SKV_ATTESTATION_IMPL=zig'',
      ''- Automatic fallback to C when Zig is unavailable'',
      '''',
      ''10) Production output hardening'',
      ''- Verdict and VC emission files are written with secure 0600 permissions'',
      ''- Existing output files must be regular files, owner-matched, and safe-mode'',
      ''- Output file writes use explicit sync_all() for durability'',
      '''',
      ''11) Inline assembly detection'',
      ''- --inline-asm-policy conservative|trap'',
      ''- Conservative mode: emit UNKNOWN VC for opaque inline asm (promoted to FAIL under Ring -1/-2)'',
      ''- Trap mode: always FAIL on any inline assembly'',
      ''- Inline asm VC count included in verdict JSON output'',
      '''',
      ''12) DMA allocation verification'',
      ''- --dma-policy verify|require-iommu|ignore'',
      ''- Tracks dma_alloc_coherent as DMA allocation source'',
      ''- Bounds-checks dma_map_single against allocation size'',
      ''- require-iommu: FAIL if DMA allocation has no paired iommu_map call'',
      ''- DMA VC count included in verdict JSON output'',
      '''',
      ''13) Interrupt sequentialization'',
      ''- Pre-scans module for request_irq handler registrations'',
      ''- Identifies handlers that call kfree on tracked allocations'',
      ''- Emits irq_race VCs for accesses that could race with interrupt-triggered frees'',
      ''- Conservative over-approximation: sound but may produce false positives'',
      ''- IRQ race VC count included in verdict JSON output'',
      '''',
      ''14) VC equivalence class grouping'',
      ''- --emit-equiv-summary <path> outputs grouped VC classes for HITL review'',
      ''- VC classes group structurally equivalent access patterns'',
      ''- Class-level approval via --hitl-class-approvals prevents reviewer fatigue'',
      ''- Equivalence summary includes per-class counts and member VC lists'']"

definition feature_items :: "string list" where
  "feature_items =
     [
      ''Core LLVM/Z3 memory safety analysis'',
      ''kmalloc/kzalloc/kcalloc allocation tracking'',
      ''Bounds checks for load/store/memcpy/memset'',
      ''Use-after-free and double-free detection via kfree tracking'',
      ''Pointer provenance through GEP, bitcast, ptrtoint/inttoptr, add/sub'',
      ''Conservative UNKNOWN semantics for unsupported patterns'',
      ''Ring policy: ring0/ring-1/ring-2'',
      ''Ring-2 independent root trust requirements'',
      ''Attestation fields: ring, attested, timestamp, nonce, counter'',
      ''Ring-2 token requirement: root_attested:true'',
      ''Freshness max-age enforcement'',
      ''Nonce challenge binding'',
      ''Replay protection with monotonic counter state'',
      ''Atomic replay-state locking + fsync'',
      ''Secure file checks: regular, owner UID, safe permissions'',
      ''Detached Ed25519 signature verification'',
      ''Pinned SHA-256 key fingerprint checks'',
      ''Ring-2 independent root signature + key pinning'',
      ''Machine-readable verdict JSON (--json)'',
      ''Verdict file output (--verdict-out)'',
      ''Stable exit codes: 0/10/20/1'',
      ''Panic-safe LLVM parse rejection'',
      ''HITL gate: --hitl-mode off|require'',
      ''HITL approvals file: --hitl-approvals'',
      ''HITL class approvals: --hitl-class-approvals'',
      ''HITL require mode requires VC or class approvals'',
      ''VC emission for human review: --emit-vcs'',
      ''HITL require mode fail-closed on blocked VCs'',
      ''Runtime fallback policy: --runtime-fallback auto|arm-mte|integritag|software-targeted'',
      ''IntegriTag Intel TME-MK hardware support'',
      ''Proof-Carrying Code emission: --emit-proof <path>'',
      ''Supported PCC formats: LFSC and RUP'',
      ''Secure output writing: 0600 + sync_all + owner/mode checks'',
      ''Backends: C default, Zig optional, C fallback'',
      ''Inline asm detection: --inline-asm-policy conservative|trap'',
      ''Opaque inline asm VC emission with HITL gate integration'',
      ''DMA allocation tracking: dma_alloc_coherent/dma_map_single'',
      ''DMA bounds verification: --dma-policy verify|require-iommu|ignore'',
      ''Interrupt sequentialization via request_irq pre-scan'',
      ''IRQ race VC emission for handler-induced frees'',
      ''VC equivalence class grouping: --emit-equiv-summary'',
      ''Structural VC class approval to prevent reviewer fatigue'',
      ''Stack-spill pointer tracking through alloca/store/load chains'']"

definition feature_catalog_json :: string where
  "feature_catalog_json =
     ''{'' @ json_field ''name'' (quoted ''SKV Analyzer'') @ '','' @ quoted ''features'' @ '':['' @
     json_items feature_items @ '']}''"

section \<open>Doctor\<close>

definition show_bool :: "bool \<Rightarrow> string" where
  "show_bool b = (if b then ''true'' else ''false'')"

definition required_checks :: "env \<Rightarrow> (string \<times> bool \<times> string) list" where
  "required_checks e =
     [(''os_supported'', os e = ''linux'', ''linux''),
      (''ffi_symbol_linked'', True, ''attestation bridge linked'')]"

definition optional_checks :: "env \<Rightarrow> (string \<times> bool \<times> string) list" where
  "optional_checks e = [(''zig_available'', zig_ok e, if zig_ok e then ''yes'' else ''no'')]"

definition doctor_item :: "bool \<Rightarrow> string \<times> bool \<times> string \<Rightarrow> string" where
  "doctor_item required =
     (\<lambda>(nm, ok, detail).
        ''{'' @ json_field ''check'' (quoted nm) @ '','' @ json_field ''ok'' (show_bool ok) @ '','' @
        json_field ''required'' (show_bool required) @ '','' @
        json_field ''detail'' (quoted (escape_json detail)) @ ''}'')"

fun comma_separated :: "string list \<Rightarrow> string" where
  "comma_separated [] = ''''"
| "comma_separated [x] = x"
| "comma_separated (x # y # ys) = x @ '','' @ comma_separated (y # ys)"

definition run_doctor :: "env \<Rightarrow> bool \<Rightarrow> bool \<times> string list" where
  "run_doctor e as_json =
     (let all_ok = list_all (\<lambda>(_, ok, _). ok) (required_checks e)
      in (all_ok,
          if as_json then
            [''{'' @ quoted ''doctor'' @ '':['' @
             comma_separated
               (map (doctor_item True) (required_checks e) @ map (doctor_item False) (optional_checks e)) @
             ''],'' @ json_field ''all_ok'' (show_bool all_ok) @ ''}'']
          else
            [''SKV Analyzer Doctor''] @
            map (\<lambda>(nm, ok, detail).
                   ''- '' @ nm @ '': '' @ (if ok then ''OK'' else ''FAIL'') @ '' [required] ('' @ detail @ '')'')
              (required_checks e) @
            map (\<lambda>(nm, ok, detail).
                   ''- '' @ nm @ '': '' @ (if ok then ''OK'' else ''WARN'') @ '' [optional] ('' @ detail @ '')'')
              (optional_checks e) @
            [''overall: '' @ (if all_ok then ''OK'' else ''FAIL'')]))"

section \<open>Token templates\<close>

definition ring_num :: "RingMode \<Rightarrow> int" where
  "ring_num r = (case token_ring r of Some n \<Rightarrow> n | None \<Rightarrow> 0)"

definition print_token_template :: "RingMode \<Rightarrow> bool \<Rightarrow> string list" where
  "print_token_template r as_json =
     (if as_json then
        [''{'' @ json_field ''ring'' (show_int (ring_num r)) @ '','' @ json_field ''attested'' ''true'' @
         (if r = RingM2 then '','' @ json_field ''root_attested'' ''true'' else '''') @ '','' @
         json_field ''timestamp'' ''1700000000'' @ '','' @ json_field ''nonce'' (quoted ''<nonce>'') @ '','' @
         json_field ''counter'' ''1'' @ ''}'']
      else
        [''ring:'' @ show_int (ring_num r), ''attested:true''] @
        (if r = RingM2 then [''root_attested:true''] else []) @
        [''timestamp:1700000000'', ''nonce:<nonce>'', ''counter:1''])"

section \<open>The menu\<close>

text \<open>One turn reads the selection and, unless it leaves, the line that ends the pause. Before each line the
  output is flushed. \<open>read_line\<close> fails on a line that is not UTF-8 and at the end of the input keeps
  returning the empty line. The lines are counted from 0.\<close>

definition input_line :: "env \<Rightarrow> nat \<Rightarrow> string" where
  "input_line e k = (case vec_get (stdin_lines e) k of Some l \<Rightarrow> l | None \<Rightarrow> '''')"

definition prompt_line :: "env \<Rightarrow> nat \<Rightarrow> string \<Rightarrow> error + string" where
  "prompt_line e k what =
     (if flush_fails e k then Inl ''Failed to flush stdout''
      else if read_fails e k \<or> \<not> valid_utf8 (input_line e k) then Inl (''Failed to read '' @ what @ '' input'')
      else Inr (input_line e k))"

definition selection :: "string \<Rightarrow> string" where
  "selection l = to_ascii_lowercase (trim l)"

definition leaves :: "string \<Rightarrow> bool" where
  "leaves sel \<longleftrightarrow> sel = ''0'' \<or> sel = ''q''"

definition tui_action :: "env \<Rightarrow> string \<Rightarrow> string list" where
  "tui_action e sel =
     (if sel = ''1'' \<or> sel = ''d'' then
        (let (ok, out) = run_doctor e False
         in [''''] @ out @ ['''', ''Doctor status code: '' @ (if ok then ''0'' else ''12'')])
      else if sel = ''2'' \<or> sel = ''f'' then [''''] @ feature_catalog_text @ ['''']
      else if sel = ''3'' then ['''', feature_catalog_json, '''']
      else if sel = ''4'' then [''''] @ print_token_template RingM1 False @ ['''']
      else if sel = ''5'' \<or> sel = ''j'' then [''''] @ print_token_template RingM2 False @ ['''']
      else ['''', ''Invalid selection. Choose 0-5 or d/f/j/q.''])"

fun run_tui :: "nat \<Rightarrow> env \<Rightarrow> nat \<Rightarrow> RunEnd \<times> string list" where
  "run_tui 0 e k = (Running, [])"
| "run_tui (Suc turns) e k =
     (case prompt_line e k ''TUI'' of
        Inl err \<Rightarrow> (Err err, [])
      | Inr l \<Rightarrow>
          if leaves (selection l) then (Exit 0, [])
          else apsnd ((@) (tui_action e (selection l)))
            (case prompt_line e (k + 1) ''pause'' of
               Inl err \<Rightarrow> (Err err, [])
             | Inr _ \<Rightarrow> run_tui turns e (k + 2)))"

section \<open>Reporting\<close>

definition status_line :: "Verdict \<Rightarrow> string" where
  "status_line v =
     (if status v = ''pass'' then ''[PASS] '' @ message v
      else if status v = ''fail'' then ''[FAIL] '' @ message v
      else ''[UNKNOWN] '' @ message v)"

definition report :: "bool \<Rightarrow> Verdict \<Rightarrow> string list" where
  "report as_json v =
     (if as_json then [to_json v]
      else
        [status_line v,
         ''[INFO] runtime fallback policy: '' @ runtime_fallback v,
         ''[INFO] HITL mode: '' @ verdict_hitl_mode v @ '' (seen_vcs='' @ show_nat (hitl_seen_vcs v) @
         '', blocked_vcs='' @ show_nat (hitl_blocked_vcs v) @ '', seen_classes='' @
         show_nat (hitl_seen_classes v) @ '', blocked_classes='' @ show_nat (hitl_blocked_classes v) @ '')''])"

text \<open>\<open>if let Some(path) = ... { write_output_file(path, text).with_context(...)? }\<close>\<close>

definition write_opt :: "string \<Rightarrow> path option \<Rightarrow> string \<Rightarrow> world \<Rightarrow> (error + unit) \<times> world" where
  "write_opt what p text w =
     (case p of
        None \<Rightarrow> (Inr (), w)
      | Some path \<Rightarrow>
          apfst (with_context (''Failed to write '' @ what @ '': '' @ to_string_lossy path)) (write_output_file w path text))"

definition proof_trace :: "env \<Rightarrow> Args \<Rightarrow> Verdict \<Rightarrow> string" where
  "proof_trace e args v =
     '';; Sentinel-KV Z3 Proof Trace (Format: '' @ ProofFormat_label (proof_format args) @ '')'' @ [CHR 0x0A] @
     '';; Verdict Status: '' @ status v @ [CHR 0x0A] @
     '';; Target Arch: '' @ arch e @ [CHR 0x0A] @
     ''(proof-trace-placeholder)'' @ [CHR 0x0A]"

text \<open>The end that both the analysis and \<open>attest-check\<close> share: print, write the verdict, and for the
  analysis the proof trace, then exit with the code of the verdict.\<close>

definition finish :: "env \<Rightarrow> Args \<Rightarrow> bool \<Rightarrow> Verdict \<Rightarrow> world \<Rightarrow> run_result" where
  "finish e args with_proof v w =
     (let out = report (json args) v
      in case write_opt ''verdict file'' (verdict_out args) (to_json v @ [CHR 0x0A]) w of
           (Inl err, w1) \<Rightarrow> (Err err, out, w1)
         | (Inr _, w1) \<Rightarrow>
             (case write_opt ''proof trace file'' (if with_proof then emit_proof args else None)
                     (proof_trace e args v) w1 of
                (Inl err, w2) \<Rightarrow> (Err err, out, w2)
              | (Inr _, w2) \<Rightarrow> (Exit (exit_code v), out, w2)))"

section \<open>The commands\<close>

definition attest_check :: "env \<Rightarrow> world \<Rightarrow> Args \<Rightarrow> run_result" where
  "attest_check e w args =
     (let ((result, kfp, tsha), w1) =
            apply_ring_policy (crypto_impl e) w Pass (ring args) (attestation args);
          v = verdict_from_result result kfp tsha (resolved (arch e) (fallback_policy args))
                (HitlMode_label (hitl_mode args)) 0 0 0 0 0 0 0
      in finish e args False v w1)"

definition load_opt :: "world \<Rightarrow> path option \<Rightarrow> error + string set" where
  "load_opt w p = (case p of None \<Rightarrow> Inr {} | Some path \<Rightarrow> load_hitl_approvals w path)"

definition analysis_config :: "env \<Rightarrow> Args \<Rightarrow> config" where
  "analysis_config e args =
     \<lparr>check_sat = z3_check e, max_depth = stack_depth e, inline_asm_policy = asm_policy args,
      dma_policy = dma args, set_iter = hash_iter e\<rparr>"

definition emit_opt :: "path option \<Rightarrow> HitlGate \<Rightarrow> world \<Rightarrow> (error + unit) \<times> world" where
  "emit_opt p g w = (case p of None \<Rightarrow> (Inr (), w) | Some path \<Rightarrow> emit_hitl_vcs w path g)"

text \<open>From the analysis of a parsed module to the verdict.\<close>

definition analysis_verdict ::
  "env \<Rightarrow> world \<Rightarrow> Args \<Rightarrow> AnalysisOutcome \<Rightarrow> Verdict \<times> world" where
  "analysis_verdict e w args oc =
     (let analysis_result =
            enforce_hitl_policy (oc_result oc) (hitl_mode args) (oc_hitl_blocked_vcs oc);
          ((result, kfp, tsha), w1) =
            apply_ring_policy (crypto_impl e) w analysis_result (ring args) (attestation args)
      in (verdict_from_result result kfp tsha (resolved (arch e) (fallback_policy args))
            (HitlMode_label (hitl_mode args)) (oc_hitl_seen_vcs oc) (oc_hitl_blocked_vcs oc)
            (oc_hitl_seen_classes oc) (oc_hitl_blocked_classes oc) (oc_inline_asm_vcs oc)
            (oc_dma_vcs oc) (oc_irq_race_vcs oc), w1))"

definition run_gate :: "world \<Rightarrow> Args \<Rightarrow> error + HitlGate" where
  "run_gate w args =
     (if hitl_mode args = Hitl_Require \<and> hitl_approvals args = None \<and> hitl_class_approvals args = None
      then Inl ''--hitl-mode require needs at least one approval source: --hitl-approvals or --hitl-class-approvals''
      else
        (case load_opt w (hitl_approvals args) of
           Inl err \<Rightarrow> Inl err
         | Inr ids \<Rightarrow>
             (case (case hitl_mode args of
                      Hitl_Off \<Rightarrow> Inr {}
                    | Hitl_Require \<Rightarrow> load_opt w (hitl_class_approvals args)) of
                Inl err \<Rightarrow> Inl err
              | Inr classes \<Rightarrow> Inr (new_gate (hitl_mode args) ids classes))))"

definition run_module :: "env \<Rightarrow> world \<Rightarrow> Args \<Rightarrow> Module \<Rightarrow> run_result" where
  "run_module e w args m =
     (case run_gate w args of
        Inl err \<Rightarrow> (Err err, [], w)
      | Inr gate \<Rightarrow>
          (case analyze (analysis_config e args) m gate of
             None \<Rightarrow> (Panicked, [], w)
           | Some (oc, gate') \<Rightarrow>
               (case emit_opt (emit_vcs args) gate' w of
                  (Inl err, w1) \<Rightarrow> (Err err, [], w1)
                | (Inr _, w1) \<Rightarrow>
                    let (v, w2) = analysis_verdict e w1 args oc
                    in finish e args True v w2)))"

definition run_analysis :: "env \<Rightarrow> world \<Rightarrow> Args \<Rightarrow> run_result" where
  "run_analysis e w args =
     (case ir_path args of
        None \<Rightarrow> (Err (''IR_PATH is required unless using '' @ [CHR 0x60] @ ''features'' @ [CHR 0x60] @ '' command''), [], w)
      | Some p \<Rightarrow>
          (case from_ir_path e w p of
             ParserPanic \<Rightarrow>
               (Err (''LLVM IR parser panicked on input; possible LLVM producer/consumer mismatch (this binary expects LLVM 19 IR). Use '' @
                  [CHR 0x60] @ ''attest-check'' @ [CHR 0x60] @
                  '' for trust-only validation or provide LLVM 19-compatible IR''), [], w)
           | ParserLost \<Rightarrow> (Lost, [], w)
           | ParseError msg \<Rightarrow> (Err (''Failed to parse LLVM IR: '' @ msg), [], w)
           | Parsed m \<Rightarrow> run_module e w args m))"

definition run :: "env \<Rightarrow> world \<Rightarrow> Args \<Rightarrow> run_result" where
  "run e w args =
     (case command args of
        Some Features \<Rightarrow>
          (Exit 0, if json args then [feature_catalog_json] else feature_catalog_text, w)
      | Some Doctor \<Rightarrow>
          (let (ok, out) = run_doctor e (json args) in (Exit (if ok then 0 else 12), out, w))
      | Some (TokenTemplate r) \<Rightarrow> (Exit 0, print_token_template r (json args), w)
      | Some Tui \<Rightarrow>
          (let (r, out) = run_tui (tui_turns e) e 0 in (r, out, w))
      | Some AttestCheck \<Rightarrow> attest_check e w args
      | None \<Rightarrow> run_analysis e w args)"

text \<open>The status that \<open>main\<close> returns; None when \<open>run\<close> does not return to it.\<close>

definition main_status :: "env \<Rightarrow> world \<Rightarrow> Args \<Rightarrow> u8 option" where
  "main_status e w args =
     (case fst (run e w args) of Exit c \<Rightarrow> Some c | Err _ \<Rightarrow> Some 1 | _ \<Rightarrow> None)"

section \<open>How a run ends\<close>

text \<open>Line \<open>k\<close> can be read.\<close>

definition line_read :: "env \<Rightarrow> nat \<Rightarrow> bool" where
  "line_read e k \<longleftrightarrow> \<not> flush_fails e k \<and> \<not> read_fails e k \<and> valid_utf8 (input_line e k)"

lemma run_tui_Suc:
  "fst (run_tui (Suc turns) e j) = Exit 0 \<longleftrightarrow> line_read e j \<and>
     (leaves (selection (input_line e j)) \<or> line_read e (j + 1) \<and> fst (run_tui turns e (j + 2)) = Exit 0)"
  "fst (run_tui (Suc turns) e j) = Running \<longleftrightarrow> line_read e j \<and> \<not> leaves (selection (input_line e j)) \<and>
     line_read e (j + 1) \<and> fst (run_tui turns e (j + 2)) = Running"
  by (auto simp: prompt_line_def line_read_def)

lemma less_Suc_shift:
  "(\<forall>k < Suc n. P k) \<longleftrightarrow> P 0 \<and> (\<forall>k < n. P (Suc k))" "(\<exists>k < Suc n. P k) \<longleftrightarrow> P 0 \<or> (\<exists>k < n. P (Suc k))"
  by (auto simp: less_Suc_eq_0_disj)

lemma run_tui_Exit:
  "fst (run_tui turns e j) = Exit 0 \<longleftrightarrow>
     (\<exists>k < turns. leaves (selection (input_line e (j + 2 * k))) \<and> (\<forall>i < Suc (2 * k). line_read e (j + i)))"
proof (induction turns arbitrary: j)
  case (Suc turns)
  show ?case unfolding run_tui_Suc(1) Suc.IH less_Suc_shift [where n = turns]
    by (auto simp: less_Suc_shift(1) simp del: run_tui.simps)
qed simp

lemma run_tui_Running:
  "fst (run_tui turns e j) = Running \<longleftrightarrow>
     (\<forall>k < turns. \<not> leaves (selection (input_line e (j + 2 * k)))) \<and> (\<forall>i < 2 * turns. line_read e (j + i))"
proof (induction turns arbitrary: j)
  case (Suc turns)
  show ?case unfolding run_tui_Suc(2) Suc.IH less_Suc_shift [where n = turns]
    by (auto simp: less_Suc_shift(1) simp del: run_tui.simps)
qed simp

lemma run_tui_ends: "fst (run_tui turns e j) \<in> {Exit 0, Running} \<union> range Err"
  by (induction turns arbitrary: j) (auto split: sum.split)

lemma trim_Nil: "trim [] = []"
  by (metis Nil_is_append_conv rev.simps(1) strip_codes_suffix trim_def trim_end_def trim_start_def)

lemma finish_Exit:
  "finish e args p v w = (Exit c, out, w') \<Longrightarrow> c = exit_code v \<and> out = report (json args) v"
  by (auto simp: finish_def Let_def split: prod.splits sum.splits)

lemma finish_ends: "fst (finish e args p v w) = Exit (exit_code v) \<or> (\<exists>err. fst (finish e args p v w) = Err err)"
  by (auto simp: finish_def Let_def split: prod.splits sum.splits)

lemma exit_code_0: "exit_code (verdict_from_result r kfp tsha rfb hm a b c d f g h) = 0 \<longleftrightarrow> r = Pass"
  by (cases r) (simp_all add: exit_code_verdict)

lemma finish_Err: "fst (finish e args p v w) = Err err \<Longrightarrow> verdict_out args \<noteq> None \<or> p \<and> emit_proof args \<noteq> None"
  by (auto simp: finish_def Let_def write_opt_def split: prod.splits sum.splits option.splits if_splits)

lemma analysis_verdict_result:
  obtains r kfp tsha where "apply_ring_policy (crypto_impl e) w
      (enforce_hitl_policy (oc_result oc) (hitl_mode args) (oc_hitl_blocked_vcs oc)) (ring args) (attestation args) =
        ((r, kfp, tsha), snd (analysis_verdict e w args oc))"
    "fst (analysis_verdict e w args oc) =
      verdict_from_result r kfp tsha (resolved (arch e) (fallback_policy args)) (HitlMode_label (hitl_mode args))
        (oc_hitl_seen_vcs oc) (oc_hitl_blocked_vcs oc) (oc_hitl_seen_classes oc) (oc_hitl_blocked_classes oc)
        (oc_inline_asm_vcs oc) (oc_dma_vcs oc) (oc_irq_race_vcs oc)"
proof -
  obtain r kfp tsha w' where "apply_ring_policy (crypto_impl e) w
      (enforce_hitl_policy (oc_result oc) (hitl_mode args) (oc_hitl_blocked_vcs oc)) (ring args) (attestation args) =
        ((r, kfp, tsha), w')" by (metis prod.exhaust)
  then show ?thesis using that by (simp add: analysis_verdict_def)
qed

text \<open>An analysis that ends with an exit code has built its gate, analysed the module and emitted its
  conditions, and has finished with a verdict; one that ends with an error could not do one of these.\<close>

lemma run_module_Exit:
  assumes "run_module e w args m = (Exit c, out, w')"
  obtains gate oc gate' w1 where "run_gate w args = Inr gate"
    "analyze (analysis_config e args) m gate = Some (oc, gate')" "emit_opt (emit_vcs args) gate' w = (Inr (), w1)"
    "finish e args True (fst (analysis_verdict e w1 args oc)) (snd (analysis_verdict e w1 args oc)) = (Exit c, out, w')"
  using assms by (auto simp: run_module_def split: sum.splits option.splits prod.splits)

lemma run_module_Err:
  assumes "fst (run_module e w args m) = Err err"
  shows "(\<exists>err. run_gate w args = Inl err) \<or> emit_vcs args \<noteq> None \<or> verdict_out args \<noteq> None \<or> emit_proof args \<noteq> None"
  using assms finish_Err [of e args True]
  by (auto simp: run_module_def emit_opt_def split_beta split: sum.splits option.splits prod.splits)

text \<open>Exit code 0 of an analysis: the module was read, the gate could be built, the analysis
  passed, no condition was blocked, and the ring policy let it through.\<close>

lemma run_module_0:
  assumes "run_module e w args m = (Exit 0, out, w')"
  obtains gate oc gate' w1 kfp tsha w2 v where "run_gate w args = Inr gate"
    "analyze (analysis_config e args) m gate = Some (oc, gate')"
    "emit_opt (emit_vcs args) gate' w = (Inr (), w1)"
    "oc_result oc = Pass" "hitl_mode args = Hitl_Off \<or> oc_hitl_blocked_vcs oc = 0"
    "apply_ring_policy (crypto_impl e) w1 Pass (ring args) (attestation args) = ((Pass, kfp, tsha), w2)"
    "finish e args True v w2 = (Exit 0, out, w')" "status v = ''pass''"
proof -
  obtain gate oc gate' w1 where 1: "run_gate w args = Inr gate"
    "analyze (analysis_config e args) m gate = Some (oc, gate')" "emit_opt (emit_vcs args) gate' w = (Inr (), w1)"
    and f: "finish e args True (fst (analysis_verdict e w1 args oc)) (snd (analysis_verdict e w1 args oc)) = (Exit 0, out, w')"
    by (rule run_module_Exit [OF assms])
  let ?h = "enforce_hitl_policy (oc_result oc) (hitl_mode args) (oc_hitl_blocked_vcs oc)"
  obtain r kfp tsha where p: "apply_ring_policy (crypto_impl e) w1 ?h (ring args) (attestation args) =
        ((r, kfp, tsha), snd (analysis_verdict e w1 args oc))"
    and v: "fst (analysis_verdict e w1 args oc) =
      verdict_from_result r kfp tsha (resolved (arch e) (fallback_policy args)) (HitlMode_label (hitl_mode args))
        (oc_hitl_seen_vcs oc) (oc_hitl_blocked_vcs oc) (oc_hitl_seen_classes oc) (oc_hitl_blocked_classes oc)
        (oc_inline_asm_vcs oc) (oc_dma_vcs oc) (oc_irq_race_vcs oc)"
    by (rule analysis_verdict_result)
  have r: "r = Pass" using finish_Exit [OF f] exit_code_0 v by metis
  have "severity ?h \<le> severity r"
    using apply_ring_policy_severity [of ?h "crypto_impl e" w1 "ring args" "attestation args"] p by simp
  then have h: "?h = Pass" using r by (cases ?h) simp_all
  then have "oc_result oc = Pass" "hitl_mode args = Hitl_Off \<or> oc_hitl_blocked_vcs oc = 0"
    by (simp_all add: enforce_hitl_policy_Pass)
  moreover have "status (fst (analysis_verdict e w1 args oc)) = ''pass''" using v r by (simp add: verdict_from_result_def)
  ultimately show ?thesis using that [OF 1] p f unfolding h r by blast
qed

section \<open>Results and exit codes\<close>

lemma finish_verdict_ends:
  "fst (finish e args b (verdict_from_result r kfp tsha rfb hm n1 n2 n3 n4 n5 n6 n7) w)
     \<in> {Exit 0, Exit 10, Exit 20} \<union> range Err"
proof -
  have "exit_code (verdict_from_result r kfp tsha rfb hm n1 n2 n3 n4 n5 n6 n7) \<in> {0, 10, 20}"
    by (simp add: exit_code_verdict split: AnalysisResult.split)
  then show ?thesis
    using finish_ends [of e args b "verdict_from_result r kfp tsha rfb hm n1 n2 n3 n4 n5 n6 n7" w] by auto
qed

lemma run_module_ends:
  "fst (run_module e w args m) \<in> {Exit 0, Exit 10, Exit 20} \<union> range Err \<or>
   fst (run_module e w args m) = Panicked \<and> (\<exists>gate. analyze (analysis_config e args) m gate = None)"
proof -
  have f: "fst (case analysis_verdict e w1 args oc of (v, w2) \<Rightarrow> finish e args True v w2)
      \<in> {Exit 0, Exit 10, Exit 20} \<union> range Err" for w1 oc
    unfolding analysis_verdict_def Let_def split_beta fst_conv snd_conv by (rule finish_verdict_ends)
  show ?thesis
  proof (cases "run_gate w args")
    case (Inr gate)
    show ?thesis
    proof (cases "analyze (analysis_config e args) m gate")
      case (Some p)
      obtain oc g where p: "p = (oc, g)" by (cases p)
      obtain r w1 where "emit_opt (emit_vcs args) g w = (r, w1)" by (cases "emit_opt (emit_vcs args) g w")
      then show ?thesis using Inr Some p f [of w1 oc] by (cases r) (auto simp: run_module_def)
    qed (auto simp: run_module_def Inr)
  qed (simp add: run_module_def)
qed

text \<open>The result that a run of the analysis or of \<open>attest-check\<close> decides on.\<close>

definition decides :: "env \<Rightarrow> world \<Rightarrow> Args \<Rightarrow> AnalysisResult \<Rightarrow> bool" where
  "decides e w args r \<longleftrightarrow>
     (if command args = Some AttestCheck then
        r = fst (fst (apply_ring_policy (crypto_impl e) w Pass (ring args) (attestation args)))
      else
        (\<exists>p m gate oc gate' w1. ir_path args = Some p \<and> from_ir_path e w p = Parsed m \<and> run_gate w args = Inr gate \<and>
           analyze (analysis_config e args) m gate = Some (oc, gate') \<and> emit_opt (emit_vcs args) gate' w = (Inr (), w1) \<and>
           r = fst (fst (apply_ring_policy (crypto_impl e) w1
                 (enforce_hitl_policy (oc_result oc) (hitl_mode args) (oc_hitl_blocked_vcs oc)) (ring args) (attestation args)))))"

text \<open>The exit code, the status and the message that a result is reported with.\<close>

definition reported :: "AnalysisResult \<Rightarrow> u8 \<Rightarrow> Verdict \<Rightarrow> bool" where
  "reported r c v \<longleftrightarrow>
     r = Pass \<and> c = 0 \<and> status v = ''pass'' \<or>
     (\<exists>msg. r = Fail msg \<and> c = 10 \<and> status v = ''fail'' \<and> message v = msg) \<or>
     (\<exists>why. r = Unknown why \<and> c = 20 \<and> status v = ''unknown'' \<and> message v = why)"

lemma finish_reported:
  assumes "finish e args b v w = (Exit c, out, w')"
    "v = verdict_from_result r kfp tsha rfb hm n1 n2 n3 n4 n5 n6 n7"
  shows "out = report (json args) v \<and> reported r c v"
  using finish_Exit [OF assms(1)] unfolding assms(2)
  by (cases r) (simp_all add: reported_def exit_code_verdict, simp_all add: verdict_from_result_def)

lemma attest_check_reported:
  assumes "command args = Some AttestCheck" "attest_check e w args = (Exit c, out, w')"
  shows "\<exists>r v. decides e w args r \<and> out = report (json args) v \<and> reported r c v"
proof -
  obtain r kfp tsha w1 where p: "apply_ring_policy (crypto_impl e) w Pass (ring args) (attestation args) = ((r, kfp, tsha), w1)"
    by (metis prod.exhaust)
  then have "finish e args False (verdict_from_result r kfp tsha (resolved (arch e) (fallback_policy args))
      (HitlMode_label (hitl_mode args)) 0 0 0 0 0 0 0) w1 = (Exit c, out, w')"
    using assms(2) by (simp add: attest_check_def)
  from finish_reported [OF this refl] show ?thesis using p assms(1) by (auto simp: decides_def)
qed

lemma run_analysis_reported:
  assumes "command args = None" "run_analysis e w args = (Exit c, out, w')"
  shows "\<exists>r v. decides e w args r \<and> out = report (json args) v \<and> reported r c v"
proof -
  obtain p m where p: "ir_path args = Some p" "from_ir_path e w p = Parsed m"
    and m: "run_module e w args m = (Exit c, out, w')"
    using assms(2) by (auto simp: run_analysis_def split: option.splits ParseResult.splits)
  obtain gate oc gate' w1 where g: "run_gate w args = Inr gate"
    "analyze (analysis_config e args) m gate = Some (oc, gate')" "emit_opt (emit_vcs args) gate' w = (Inr (), w1)"
    and f: "finish e args True (fst (analysis_verdict e w1 args oc)) (snd (analysis_verdict e w1 args oc)) = (Exit c, out, w')"
    by (rule run_module_Exit [OF m])
  obtain r kfp tsha where r: "apply_ring_policy (crypto_impl e) w1
      (enforce_hitl_policy (oc_result oc) (hitl_mode args) (oc_hitl_blocked_vcs oc)) (ring args) (attestation args) =
        ((r, kfp, tsha), snd (analysis_verdict e w1 args oc))"
    and v: "fst (analysis_verdict e w1 args oc) =
      verdict_from_result r kfp tsha (resolved (arch e) (fallback_policy args)) (HitlMode_label (hitl_mode args))
        (oc_hitl_seen_vcs oc) (oc_hitl_blocked_vcs oc) (oc_hitl_seen_classes oc) (oc_hitl_blocked_classes oc)
        (oc_inline_asm_vcs oc) (oc_dma_vcs oc) (oc_irq_race_vcs oc)"
    by (rule analysis_verdict_result)
  have "decides e w args r" using assms(1) p g r by (auto simp: decides_def)
  then show ?thesis using finish_reported [OF f v] by blast
qed

end
