(* ===== verification/Type_Reader.thy ===== *)
theory Type_Reader
  imports LLVM_Types
begin

text \<open>
  The translation of LLVM's types, \<open>TypesBuilder::type_from_llvm_ref\<close> and its helpers in
  \<open>llvm-ir-patched/src/types.rs\<close>, for LLVM 19 as the analyzer builds it.

  The functions of the LLVM-C library that the code calls are the record \<open>llvm_type_api\<close>; the kinds of
  a type are those the source matches on. The code recurses through the handles that the library
  returns: the model takes the depth of the stack, and None is a panic or a stack overflow.

  What a handle stands for is the relation \<open>denotes\<close>. Results: the reader returns the type that the
  handle denotes whatever is memoised already, keeps the tables and the memo consistent, defines each
  named struct once and never changes a definition; and it returns for every handle whose components
  have smaller rank when no unnamed struct is opaque.
\<close>

section \<open>The library\<close>

datatype LLVMTypeKind =
  LLVMVoidTypeKind | LLVMIntegerTypeKind | LLVMPointerTypeKind | LLVMArrayTypeKind
| LLVMVectorTypeKind | LLVMScalableVectorTypeKind | LLVMStructTypeKind | LLVMFunctionTypeKind
| LLVMHalfTypeKind | LLVMBFloatTypeKind | LLVMFloatTypeKind | LLVMDoubleTypeKind
| LLVMFP128TypeKind | LLVMX86_FP80TypeKind | LLVMPPC_FP128TypeKind | LLVMX86_MMXTypeKind
| LLVMX86_AMXTypeKind | LLVMMetadataTypeKind | LLVMLabelTypeKind | LLVMTokenTypeKind
| LLVMTargetExtTypeKind

record llvm_type_api =
  LLVMGetTypeKind :: "LLVMTypeRef \<Rightarrow> LLVMTypeKind"
  LLVMGetIntTypeWidth :: "LLVMTypeRef \<Rightarrow> u32"
  LLVMGetPointerAddressSpace :: "LLVMTypeRef \<Rightarrow> u32"
  LLVMGetElementType :: "LLVMTypeRef \<Rightarrow> LLVMTypeRef"
  LLVMGetArrayLength2 :: "LLVMTypeRef \<Rightarrow> u64"
  LLVMGetVectorSize :: "LLVMTypeRef \<Rightarrow> u32"
  LLVMIsLiteralStruct :: "LLVMTypeRef \<Rightarrow> bool"
  LLVMGetStructName :: "LLVMTypeRef \<Rightarrow> string option"
  LLVMIsOpaqueStruct :: "LLVMTypeRef \<Rightarrow> bool"
  LLVMGetStructElementTypes :: "LLVMTypeRef \<Rightarrow> LLVMTypeRef list"
  LLVMIsPackedStruct :: "LLVMTypeRef \<Rightarrow> bool"
  LLVMGetReturnType :: "LLVMTypeRef \<Rightarrow> LLVMTypeRef"
  LLVMGetParamTypes :: "LLVMTypeRef \<Rightarrow> LLVMTypeRef list"
  LLVMIsFunctionVarArg :: "LLVMTypeRef \<Rightarrow> bool"

section \<open>The reader\<close>

type_synonym type_reader = "LLVMTypeRef \<Rightarrow> TypesBuilder \<Rightarrow> (TypeRef \<times> TypesBuilder) option"

fun read_types ::
  "type_reader \<Rightarrow> LLVMTypeRef list \<Rightarrow> TypesBuilder \<Rightarrow> (TypeRef list \<times> TypesBuilder) option" where
  "read_types rd [] b = Some ([], b)"
| "read_types rd (ty # tys) b =
     (case rd ty b of
        None \<Rightarrow> None
      | Some (t, b1) \<Rightarrow>
          (case read_types rd tys b1 of
             None \<Rightarrow> None
           | Some (ts, b2) \<Rightarrow> Some (t # ts, b2)))"

definition struct_type_from_llvm_ref :: "llvm_type_api \<Rightarrow> type_reader \<Rightarrow> type_reader" where
  "struct_type_from_llvm_ref api rd ty b =
     (if LLVMIsOpaqueStruct api ty then None
      else
        (case read_types rd (LLVMGetStructElementTypes api ty) b of
           None \<Rightarrow> None
         | Some (element_types, b1) \<Rightarrow>
             Some (tb_struct_of element_types (LLVMIsPackedStruct api ty) b1)))"

definition struct_name :: "llvm_type_api \<Rightarrow> LLVMTypeRef \<Rightarrow> string option" where
  "struct_name api ty =
     (case (if LLVMIsLiteralStruct api ty then None else LLVMGetStructName api ty) of
        Some s \<Rightarrow> if s \<noteq> [] then Some s else None
      | None \<Rightarrow> None)"

definition read_struct :: "llvm_type_api \<Rightarrow> type_reader \<Rightarrow> type_reader" where
  "read_struct api rd ty b =
     (case struct_name api ty of
        Some s \<Rightarrow>
          if TypeCache_contains_key (named_struct_types b) s then Some (tb_named_struct s b)
          else if LLVMIsOpaqueStruct api ty then
            map_option (tb_named_struct s) (tb_add_named_struct_def s Opaque b)
          else
            let (named_struct_typeref, b1) = tb_named_struct s b
            in (case struct_type_from_llvm_ref api rd ty b1 of
                  None \<Rightarrow> None
                | Some (actual_struct_type, b2) \<Rightarrow>
                    map_option (Pair named_struct_typeref)
                      (tb_add_named_struct_def s (Defined actual_struct_type) b2))
      | None \<Rightarrow> struct_type_from_llvm_ref api rd ty b)"

definition parse_type_from_llvm_ref :: "llvm_type_api \<Rightarrow> type_reader \<Rightarrow> type_reader" where
  "parse_type_from_llvm_ref api rd ty b =
     (case LLVMGetTypeKind api ty of
        LLVMVoidTypeKind \<Rightarrow> Some (tb_void b, b)
      | LLVMIntegerTypeKind \<Rightarrow> Some (tb_int (LLVMGetIntTypeWidth api ty) b)
      | LLVMPointerTypeKind \<Rightarrow> Some (tb_pointer_in_addr_space (LLVMGetPointerAddressSpace api ty) b)
      | LLVMArrayTypeKind \<Rightarrow>
          map_option (\<lambda>(t, b1). tb_array_of t (LLVMGetArrayLength2 api ty) b1)
            (rd (LLVMGetElementType api ty) b)
      | LLVMVectorTypeKind \<Rightarrow>
          map_option (\<lambda>(t, b1). tb_vector_of t (ucast (LLVMGetVectorSize api ty)) False b1)
            (rd (LLVMGetElementType api ty) b)
      | LLVMScalableVectorTypeKind \<Rightarrow>
          map_option (\<lambda>(t, b1). tb_vector_of t (ucast (LLVMGetVectorSize api ty)) True b1)
            (rd (LLVMGetElementType api ty) b)
      | LLVMStructTypeKind \<Rightarrow> read_struct api rd ty b
      | LLVMFunctionTypeKind \<Rightarrow>
          (case rd (LLVMGetReturnType api ty) b of
             None \<Rightarrow> None
           | Some (result_type, b1) \<Rightarrow>
               map_option (\<lambda>(ps, b2). tb_func_type result_type ps (LLVMIsFunctionVarArg api ty) b2)
                 (read_types rd (LLVMGetParamTypes api ty) b1))
      | LLVMHalfTypeKind \<Rightarrow> Some (tb_fp Half b)
      | LLVMBFloatTypeKind \<Rightarrow> Some (tb_fp BFloat b)
      | LLVMFloatTypeKind \<Rightarrow> Some (tb_fp Single b)
      | LLVMDoubleTypeKind \<Rightarrow> Some (tb_fp Double b)
      | LLVMFP128TypeKind \<Rightarrow> Some (tb_fp FP128 b)
      | LLVMX86_FP80TypeKind \<Rightarrow> Some (tb_fp X86_FP80 b)
      | LLVMPPC_FP128TypeKind \<Rightarrow> Some (tb_fp PPC_FP128 b)
      | LLVMX86_MMXTypeKind \<Rightarrow> Some (tb_x86_mmx b, b)
      | LLVMX86_AMXTypeKind \<Rightarrow> Some (tb_x86_amx b, b)
      | LLVMMetadataTypeKind \<Rightarrow> Some (tb_metadata_type b, b)
      | LLVMLabelTypeKind \<Rightarrow> Some (tb_label_type b, b)
      | LLVMTokenTypeKind \<Rightarrow> Some (tb_token_type b, b)
      | LLVMTargetExtTypeKind \<Rightarrow> Some (tb_target_ext_type b, b))"

primrec type_from_llvm_ref :: "llvm_type_api \<Rightarrow> nat \<Rightarrow> type_reader" where
  "type_from_llvm_ref api 0 = (\<lambda>ty b. None)"
| "type_from_llvm_ref api (Suc n) = (\<lambda>ty b.
     case llvm_type_map b ty of
       Some typeref \<Rightarrow> Some (typeref, b)
     | None \<Rightarrow>
         (case parse_type_from_llvm_ref api (type_from_llvm_ref api n) ty b of
            None \<Rightarrow> None
          | Some (typeref, b1) \<Rightarrow>
              Some (typeref, b1\<lparr>llvm_type_map := (llvm_type_map b1)(ty \<mapsto> typeref)\<rparr>)))"

section \<open>What a handle denotes\<close>

fun fp_kind :: "LLVMTypeKind \<Rightarrow> FPType option" where
  "fp_kind LLVMHalfTypeKind = Some Half"
| "fp_kind LLVMBFloatTypeKind = Some BFloat"
| "fp_kind LLVMFloatTypeKind = Some Single"
| "fp_kind LLVMDoubleTypeKind = Some Double"
| "fp_kind LLVMFP128TypeKind = Some FP128"
| "fp_kind LLVMX86_FP80TypeKind = Some X86_FP80"
| "fp_kind LLVMPPC_FP128TypeKind = Some PPC_FP128"
| "fp_kind _ = None"

fun plain_kind :: "LLVMTypeKind \<Rightarrow> Type option" where
  "plain_kind LLVMVoidTypeKind = Some VoidType"
| "plain_kind LLVMX86_MMXTypeKind = Some X86_MMXType"
| "plain_kind LLVMX86_AMXTypeKind = Some X86_AMXType"
| "plain_kind LLVMMetadataTypeKind = Some MetadataType"
| "plain_kind LLVMLabelTypeKind = Some LabelType"
| "plain_kind LLVMTokenTypeKind = Some TokenType"
| "plain_kind LLVMTargetExtTypeKind = Some TargetExtType"
| "plain_kind _ = None"

inductive denotes :: "llvm_type_api \<Rightarrow> LLVMTypeRef \<Rightarrow> Type \<Rightarrow> bool" for api where
  plain: "plain_kind (LLVMGetTypeKind api ty) = Some t \<Longrightarrow> denotes api ty t"
| fp: "fp_kind (LLVMGetTypeKind api ty) = Some f \<Longrightarrow> denotes api ty (FPType f)"
| int: "LLVMGetTypeKind api ty = LLVMIntegerTypeKind \<Longrightarrow>
    denotes api ty (IntegerType (LLVMGetIntTypeWidth api ty))"
| pointer: "LLVMGetTypeKind api ty = LLVMPointerTypeKind \<Longrightarrow>
    denotes api ty (PointerType (LLVMGetPointerAddressSpace api ty))"
| array: "LLVMGetTypeKind api ty = LLVMArrayTypeKind \<Longrightarrow> denotes api (LLVMGetElementType api ty) t \<Longrightarrow>
    denotes api ty (ArrayType t (LLVMGetArrayLength2 api ty))"
| vector: "LLVMGetTypeKind api ty = LLVMVectorTypeKind \<Longrightarrow> denotes api (LLVMGetElementType api ty) t \<Longrightarrow>
    denotes api ty (VectorType t (ucast (LLVMGetVectorSize api ty)) False)"
| scalable: "LLVMGetTypeKind api ty = LLVMScalableVectorTypeKind \<Longrightarrow>
    denotes api (LLVMGetElementType api ty) t \<Longrightarrow>
    denotes api ty (VectorType t (ucast (LLVMGetVectorSize api ty)) True)"
| named: "LLVMGetTypeKind api ty = LLVMStructTypeKind \<Longrightarrow> struct_name api ty = Some s \<Longrightarrow>
    denotes api ty (NamedStructType s)"
| literal: "LLVMGetTypeKind api ty = LLVMStructTypeKind \<Longrightarrow> struct_name api ty = None \<Longrightarrow>
    \<not> LLVMIsOpaqueStruct api ty \<Longrightarrow>
    list_all2 (denotes api) (LLVMGetStructElementTypes api ty) ts \<Longrightarrow>
    denotes api ty (StructType ts (LLVMIsPackedStruct api ty))"
| func: "LLVMGetTypeKind api ty = LLVMFunctionTypeKind \<Longrightarrow> denotes api (LLVMGetReturnType api ty) t \<Longrightarrow>
    list_all2 (denotes api) (LLVMGetParamTypes api ty) ts \<Longrightarrow>
    denotes api ty (FuncType t ts (LLVMIsFunctionVarArg api ty))"
monos list_all2_mono

inductive_cases denotes_elim: "denotes api ty t"

text \<open>The definition that a named struct must have.\<close>

definition struct_def_ok :: "llvm_type_api \<Rightarrow> string \<Rightarrow> NamedStructDef \<Rightarrow> bool" where
  "struct_def_ok api s def \<longleftrightarrow>
     (\<exists>ty. LLVMGetTypeKind api ty = LLVMStructTypeKind \<and> struct_name api ty = Some s \<and>
       (case def of
          Opaque \<Rightarrow> LLVMIsOpaqueStruct api ty
        | Defined t \<Rightarrow> \<not> LLVMIsOpaqueStruct api ty \<and>
            (\<exists>ts. list_all2 (denotes api) (LLVMGetStructElementTypes api ty) ts \<and>
               t = StructType ts (LLVMIsPackedStruct api ty))))"

text \<open>The name of a struct whose handle was read is known.\<close>

definition met :: "llvm_type_api \<Rightarrow> LLVMTypeRef \<Rightarrow> TypesBuilder \<Rightarrow> bool" where
  "met api ty b \<longleftrightarrow>
     (\<forall>s. LLVMGetTypeKind api ty = LLVMStructTypeKind \<longrightarrow> struct_name api ty = Some s \<longrightarrow>
        s \<in> dom (named_struct_types b))"

definition reader_ok :: "llvm_type_api \<Rightarrow> TypesBuilder \<Rightarrow> bool" where
  "reader_ok api b \<longleftrightarrow>
     types_ok b \<and> dom (named_struct_defs b) \<subseteq> dom (named_struct_types b) \<and>
     (\<forall>ty t. llvm_type_map b ty = Some t \<longrightarrow> denotes api ty t \<and> met api ty b) \<and>
     (\<forall>s def. named_struct_defs b s = Some def \<longrightarrow> struct_def_ok api s def)"

definition extends :: "TypesBuilder \<Rightarrow> TypesBuilder \<Rightarrow> bool" where
  "extends b b' \<longleftrightarrow> dom (named_struct_types b) \<subseteq> dom (named_struct_types b') \<and>
     (\<forall>s \<in> dom (named_struct_types b). named_struct_defs b' s = named_struct_defs b s) \<and>
     dom (named_struct_types b') \<subseteq> dom (named_struct_types b) \<union> dom (named_struct_defs b')"

lemma extends_refl [simp]: "extends b b"
  by (simp add: extends_def)

lemma extends_defs: "extends a b \<Longrightarrow> s \<in> dom (named_struct_types a) \<Longrightarrow> named_struct_defs b s = named_struct_defs a s"
  by (simp add: extends_def)

lemma extends_trans:
  assumes "extends a b" "extends b c"
  shows "extends a c"
proof -
  have "s \<in> dom (named_struct_types a) \<union> dom (named_struct_defs c)" if "s \<in> dom (named_struct_types c)" for s
  proof (cases "s \<in> dom (named_struct_types b)")
    case True
    then have "s \<in> dom (named_struct_types a) \<union> dom (named_struct_defs b)"
      using assms(1) unfolding extends_def by blast
    then show ?thesis using extends_defs [OF assms(2) True] by (simp add: domIff)
  next
    case False
    then show ?thesis using that assms(2) unfolding extends_def by blast
  qed
  then show ?thesis using assms unfolding extends_def by (intro conjI) (blast, metis subsetD, blast)
qed

lemma reader_ok_new: "reader_ok api TypesBuilder_new"
  by (simp add: reader_ok_def types_ok_new) (simp add: TypesBuilder_new_def)

section \<open>The reader is correct\<close>

text \<open>Interning a type touches one cache only.\<close>

named_theorems frame_simps

lemma tb_frames [frame_simps]:
  "named_struct_types (snd (tb_int k b)) = named_struct_types b"
  "named_struct_types (snd (tb_pointer_in_addr_space a b)) = named_struct_types b"
  "named_struct_types (snd (tb_fp f b)) = named_struct_types b"
  "named_struct_types (snd (tb_func_type r ps v b)) = named_struct_types b"
  "named_struct_types (snd (tb_vector_of e n v b)) = named_struct_types b"
  "named_struct_types (snd (tb_array_of e n b)) = named_struct_types b"
  "named_struct_types (snd (tb_struct_of es p b)) = named_struct_types b"
  "dom (named_struct_types (snd (tb_named_struct s b))) = insert s (dom (named_struct_types b))"
  by (auto simp: tb_int_def tb_pointer_in_addr_space_def tb_fp_def tb_func_type_def tb_vector_of_def
      tb_array_of_def tb_struct_of_def tb_named_struct_def lookup_or_insert_def split: option.split)

lemma tb_frames_defs [frame_simps]:
  "named_struct_defs (snd (tb_int k b)) = named_struct_defs b"
  "named_struct_defs (snd (tb_pointer_in_addr_space a b)) = named_struct_defs b"
  "named_struct_defs (snd (tb_fp f b)) = named_struct_defs b"
  "named_struct_defs (snd (tb_func_type r ps v b)) = named_struct_defs b"
  "named_struct_defs (snd (tb_vector_of e n v b)) = named_struct_defs b"
  "named_struct_defs (snd (tb_array_of e n b)) = named_struct_defs b"
  "named_struct_defs (snd (tb_struct_of es p b)) = named_struct_defs b"
  "named_struct_defs (snd (tb_named_struct s b)) = named_struct_defs b"
  by (auto simp: tb_int_def tb_pointer_in_addr_space_def tb_fp_def tb_func_type_def tb_vector_of_def
      tb_array_of_def tb_struct_of_def tb_named_struct_def split: prod.split)

lemma tb_frames_memo [frame_simps]:
  "llvm_type_map (snd (tb_int k b)) = llvm_type_map b"
  "llvm_type_map (snd (tb_pointer_in_addr_space a b)) = llvm_type_map b"
  "llvm_type_map (snd (tb_fp f b)) = llvm_type_map b"
  "llvm_type_map (snd (tb_func_type r ps v b)) = llvm_type_map b"
  "llvm_type_map (snd (tb_vector_of e n v b)) = llvm_type_map b"
  "llvm_type_map (snd (tb_array_of e n b)) = llvm_type_map b"
  "llvm_type_map (snd (tb_struct_of es p b)) = llvm_type_map b"
  "llvm_type_map (snd (tb_named_struct s b)) = llvm_type_map b"
  by (auto simp: tb_int_def tb_pointer_in_addr_space_def tb_fp_def tb_func_type_def tb_vector_of_def
      tb_array_of_def tb_struct_of_def tb_named_struct_def split: prod.split)

text \<open>What a reader promises.\<close>

definition reads :: "llvm_type_api \<Rightarrow> TypesBuilder \<Rightarrow> LLVMTypeRef \<Rightarrow> (TypeRef \<times> TypesBuilder) option \<Rightarrow> bool" where
  "reads api b ty r \<longleftrightarrow>
     (\<forall>t b'. r = Some (t, b') \<longrightarrow> denotes api ty t \<and> met api ty b' \<and> reader_ok api b' \<and> extends b b')"

definition faithful :: "llvm_type_api \<Rightarrow> type_reader \<Rightarrow> bool" where
  "faithful api rd \<longleftrightarrow> (\<forall>ty b. reader_ok api b \<longrightarrow> reads api b ty (rd ty b))"

lemma reader_ok_types: "reader_ok api b \<Longrightarrow> types_ok b"
  by (simp add: reader_ok_def)

lemma reader_ok_intern:
  assumes "reader_ok api b" "types_ok b'" "named_struct_defs b' = named_struct_defs b"
    "llvm_type_map b' = llvm_type_map b" "dom (named_struct_types b') = dom (named_struct_types b)"
  shows "reader_ok api b' \<and> extends b b'"
  using assms unfolding reader_ok_def extends_def met_def by simp

lemma reads_pair:
  assumes "denotes api ty (fst r)" "met api ty (snd r)" "reader_ok api (snd r)" "extends b (snd r)"
  shows "reads api b ty (Some r)"
  using assms by (auto simp: reads_def)

lemma reads_intern:
  assumes "reader_ok api b0" "extends b b0" "denotes api ty (fst r)" "types_ok (snd r)"
    "named_struct_defs (snd r) = named_struct_defs b0" "llvm_type_map (snd r) = llvm_type_map b0"
    "dom (named_struct_types (snd r)) = dom (named_struct_types b0)"
    "LLVMGetTypeKind api ty \<noteq> LLVMStructTypeKind"
  shows "reads api b ty (Some r)"
  using reader_ok_intern [OF assms(1,4-7)] assms(2,3,8) by (auto simp: met_def intro: reads_pair extends_trans)

lemma read_types_faithful:
  assumes "faithful api rd" "reader_ok api b" "read_types rd tys b = Some (ts, b')"
  shows "list_all2 (denotes api) tys ts \<and> reader_ok api b' \<and> extends b b'"
  using assms(2,3)
proof (induction tys arbitrary: b ts)
  case (Cons ty tys)
  then obtain t b1 ts' where r: "rd ty b = Some (t, b1)" "read_types rd tys b1 = Some (ts', b')" "ts = t # ts'"
    by (auto split: option.splits)
  then have "denotes api ty t \<and> reader_ok api b1 \<and> extends b b1"
    using assms(1) Cons.prems(1) by (auto simp: faithful_def reads_def)
  then show ?case using Cons.IH [of b1 ts'] r by (auto intro: extends_trans)
qed simp

lemma add_def_spec:
  assumes "named_struct_defs b s = None"
  shows "tb_add_named_struct_def s def b = Some (b\<lparr>named_struct_defs := (named_struct_defs b)(s \<mapsto> def)\<rparr>)"
  using assms by (simp add: tb_add_named_struct_def_def)

lemma add_def_ok:
  assumes "reader_ok api b" "s \<in> dom (named_struct_types b)" "struct_def_ok api s def"
  shows "reader_ok api (b\<lparr>named_struct_defs := (named_struct_defs b)(s \<mapsto> def)\<rparr>)"
  using assms by (auto simp: reader_ok_def types_ok_def met_def)

lemma struct_faithful:
  assumes "faithful api rd" "reader_ok api b" "struct_type_from_llvm_ref api rd ty b = Some (t, b')"
  shows "\<not> LLVMIsOpaqueStruct api ty \<and>
    (\<exists>ts. list_all2 (denotes api) (LLVMGetStructElementTypes api ty) ts \<and>
       t = StructType ts (LLVMIsPackedStruct api ty)) \<and> reader_ok api b' \<and> extends b b'"
proof -
  obtain ts b1 where r: "\<not> LLVMIsOpaqueStruct api ty"
      "read_types rd (LLVMGetStructElementTypes api ty) b = Some (ts, b1)"
      "tb_struct_of ts (LLVMIsPackedStruct api ty) b1 = (t, b')"
    using assms(3) by (auto simp: struct_type_from_llvm_ref_def split: if_splits option.splits)
  note r1 = read_types_faithful [OF assms(1,2) r(2)]
  then have "types_ok b1" by (simp add: reader_ok_def)
  from tb_struct_of_ok [OF this, of ts "LLVMIsPackedStruct api ty"] r(3)
  have "t = StructType ts (LLVMIsPackedStruct api ty)" "types_ok b'" by simp_all
  moreover from this r1 have "reader_ok api b' \<and> extends b1 b'"
    using tb_frames(7) tb_frames_defs(7) tb_frames_memo(7) r(3)
    by (intro reader_ok_intern) (metis snd_conv order_refl)+
  ultimately show ?thesis using r1 r(1) extends_trans by blast
qed

lemma named_struct_ok:
  assumes "reader_ok api b"
  shows "fst (tb_named_struct s b) = NamedStructType s" "reader_ok api (snd (tb_named_struct s b))"
    "s \<in> dom (named_struct_types b) \<Longrightarrow> extends b (snd (tb_named_struct s b))"
  using assms tb_named_struct_ok [OF reader_ok_types [OF assms], of s]
  by (auto simp: frame_simps reader_ok_def extends_def insert_absorb met_def)

lemma named_struct_add_def:
  "tb_named_struct s (b\<lparr>named_struct_defs := ds\<rparr>) =
     (fst (tb_named_struct s b), (snd (tb_named_struct s b))\<lparr>named_struct_defs := ds\<rparr>)"
  by (simp add: tb_named_struct_def split: prod.split)

text \<open>Giving a definition to a name that was not known before.\<close>

lemma add_def_reads:
  assumes "reader_ok api b'" "extends (snd (tb_named_struct s b)) b'" "s \<notin> dom (named_struct_types b)"
    "struct_def_ok api s def" "LLVMGetTypeKind api ty = LLVMStructTypeKind" "struct_name api ty = Some s"
  shows "reads api b ty
    (Some (NamedStructType s, b'\<lparr>named_struct_defs := (named_struct_defs b')(s \<mapsto> def)\<rparr>))"
proof -
  have "s \<in> dom (named_struct_types b')" using assms(2) by (auto simp: extends_def frame_simps)
  from add_def_ok [OF assms(1) this assms(4)] denotes.named [OF assms(5,6)] assms(2,3,6)
  show ?thesis by (intro reads_pair) (auto simp: extends_def frame_simps met_def)
qed

lemma read_struct_faithful:
  assumes "faithful api rd" "reader_ok api b" "LLVMGetTypeKind api ty = LLVMStructTypeKind"
  shows "reads api b ty (read_struct api rd ty b)"
proof (cases "struct_name api ty")
  case None
  then show ?thesis
    using struct_faithful [OF assms(1,2)] assms(3)
    by (auto simp: read_struct_def reads_def met_def intro: denotes.literal)
next
  case (Some s)
  note nm = named_struct_ok [OF assms(2), of s]
  show ?thesis
  proof (cases "s \<in> dom (named_struct_types b)")
    case True
    then have "read_struct api rd ty b = Some (tb_named_struct s b)"
      using Some by (auto simp: read_struct_def TypeCache_contains_key_def)
    moreover have "met api ty (snd (tb_named_struct s b))" using Some by (simp add: met_def frame_simps)
    ultimately show ?thesis using True nm denotes.named [OF assms(3) Some] by (auto intro: reads_pair)
  next
    case new: False
    then have none: "named_struct_defs b s = None" "\<not> TypeCache_contains_key (named_struct_types b) s"
      using assms(2) by (auto simp: reader_ok_def TypeCache_contains_key_def)
    show ?thesis
    proof (cases "LLVMIsOpaqueStruct api ty")
      case True
      then have "struct_def_ok api s Opaque" using assms(3) Some by (auto simp: struct_def_ok_def)
      moreover have "read_struct api rd ty b = Some (NamedStructType s,
          (snd (tb_named_struct s b))\<lparr>named_struct_defs :=
             (named_struct_defs (snd (tb_named_struct s b)))(s \<mapsto> Opaque)\<rparr>)"
        using Some none True nm(1)
        by (simp add: read_struct_def add_def_spec named_struct_add_def frame_simps)
      ultimately show ?thesis using add_def_reads nm(2) new assms(3) Some by simp
    next
      case False
      let ?b1 = "snd (tb_named_struct s b)"
      show ?thesis
      proof (cases "struct_type_from_llvm_ref api rd ty ?b1")
        case None
        then show ?thesis using Some none False by (simp add: read_struct_def reads_def case_prod_unfold)
      next
        case st: (Some r)
        obtain t b2 where r: "r = (t, b2)" by (cases r)
        note sf = struct_faithful [OF assms(1) nm(2) st [unfolded r]]
        then have ext: "extends ?b1 b2" and ok: "reader_ok api b2" by blast+
        have "struct_def_ok api s (Defined t)" using sf assms(3) Some by (auto simp: struct_def_ok_def)
        moreover have "named_struct_defs b2 s = None" using ext none by (auto simp: extends_def frame_simps)
        moreover from this have "read_struct api rd ty b = Some (NamedStructType s,
            b2\<lparr>named_struct_defs := (named_struct_defs b2)(s \<mapsto> Defined t)\<rparr>)"
          using Some none False st r nm(1)
          by (simp add: read_struct_def add_def_spec case_prod_unfold)
        ultimately show ?thesis using add_def_reads [OF ok ext new] assms(3) Some by simp
      qed
    qed
  qed
qed

lemma plain_kind_ok:
  assumes "reader_ok api b" "plain_kind (LLVMGetTypeKind api ty) = Some t"
  shows "reads api b ty (parse_type_from_llvm_ref api rd ty b)"
proof -
  have "parse_type_from_llvm_ref api rd ty b = Some (t, b)"
    using assms reader_ok_types [OF assms(1)]
    by (cases "LLVMGetTypeKind api ty")
       (auto simp: parse_type_from_llvm_ref_def types_ok_def tb_void_def tb_x86_mmx_def tb_x86_amx_def
         tb_metadata_type_def tb_label_type_def tb_token_type_def tb_target_ext_type_def)
  moreover have "LLVMGetTypeKind api ty \<noteq> LLVMStructTypeKind" using assms(2) by auto
  ultimately show ?thesis using assms by (simp add: reads_def denotes.plain met_def)
qed

lemma fp_kind_ok:
  assumes "reader_ok api b" "fp_kind (LLVMGetTypeKind api ty) = Some f"
  shows "reads api b ty (parse_type_from_llvm_ref api rd ty b)"
proof -
  have "parse_type_from_llvm_ref api rd ty b = Some (tb_fp f b)"
    using assms by (cases "LLVMGetTypeKind api ty") (auto simp: parse_type_from_llvm_ref_def)
  then show ?thesis
    using assms tb_fp_ok [OF reader_ok_types [OF assms(1)], of f] denotes.fp [OF assms(2)]
    by (auto simp: frame_simps intro!: reads_intern [OF assms(1)])
qed

text \<open>The kinds with one element type: the shape is \<open>mk\<close> of it.\<close>

lemma element_ok:
  assumes "faithful api rd" "reader_ok api b"
    and "\<And>t b1. types_ok b1 \<Longrightarrow> fst (g t b1) = mk t \<and> types_ok (snd (g t b1))"
    and "\<And>t b1. named_struct_types (snd (g t b1)) = named_struct_types b1 \<and>
       named_struct_defs (snd (g t b1)) = named_struct_defs b1 \<and> llvm_type_map (snd (g t b1)) = llvm_type_map b1"
    and "\<And>t. denotes api ety t \<Longrightarrow> denotes api ty (mk t)"
    and "LLVMGetTypeKind api ty \<noteq> LLVMStructTypeKind"
  shows "reads api b ty (map_option (\<lambda>(t, b1). g t b1) (rd ety b))"
proof (cases "rd ety b")
  case (Some r)
  obtain t b1 where r: "r = (t, b1)" by (cases r)
  have "denotes api ety t" "reader_ok api b1" "extends b b1"
    using assms(1,2) Some r by (auto simp: faithful_def reads_def)
  then show ?thesis
    using Some r assms(3) [of b1 t] assms(4) [of t b1] assms(5) [of t] assms(6)
    by (auto simp: reader_ok_types intro!: reads_intern [of api b1])
qed (simp add: reads_def)

lemma func_ok:
  assumes "faithful api rd" "reader_ok api b" "LLVMGetTypeKind api ty = LLVMFunctionTypeKind"
  shows "reads api b ty (parse_type_from_llvm_ref api rd ty b)"
proof (cases "rd (LLVMGetReturnType api ty) b")
  case (Some r)
  obtain t b1 where r: "r = (t, b1)" by (cases r)
  have t: "denotes api (LLVMGetReturnType api ty) t" "reader_ok api b1" "extends b b1"
    using assms(1,2) Some r by (auto simp: faithful_def reads_def)
  show ?thesis
  proof (cases "read_types rd (LLVMGetParamTypes api ty) b1")
    case ps: (Some q)
    obtain ts b2 where q: "q = (ts, b2)" by (cases q)
    note rt = read_types_faithful [OF assms(1) t(2) ps [unfolded q]]
    have "denotes api ty (FuncType t ts (LLVMIsFunctionVarArg api ty))"
      using denotes.func [OF assms(3) t(1)] rt by blast
    then show ?thesis
      using Some r ps q rt t(3) tb_func_type_ok [of b2 t ts "LLVMIsFunctionVarArg api ty"]
      by (auto simp: parse_type_from_llvm_ref_def assms(3) frame_simps reader_ok_types
          intro!: reads_intern [of api b2] intro: extends_trans)
  qed (use Some r in \<open>simp add: parse_type_from_llvm_ref_def assms(3) reads_def\<close>)
qed (simp add: parse_type_from_llvm_ref_def assms(3) reads_def)

lemma parse_faithful:
  assumes "faithful api rd" "reader_ok api b"
  shows "reads api b ty (parse_type_from_llvm_ref api rd ty b)"
proof -
  let ?k = "LLVMGetTypeKind api ty"
  note frames = tb_frames tb_frames_defs tb_frames_memo
  consider (plain) t where "plain_kind ?k = Some t" | (fp) f where "fp_kind ?k = Some f"
    | (int) "?k = LLVMIntegerTypeKind" | (pointer) "?k = LLVMPointerTypeKind"
    | (array) "?k = LLVMArrayTypeKind" | (vector) "?k = LLVMVectorTypeKind"
    | (scalable) "?k = LLVMScalableVectorTypeKind" | (struct) "?k = LLVMStructTypeKind"
    | (func) "?k = LLVMFunctionTypeKind"
    by (cases ?k) auto
  then show ?thesis
  proof cases
    case int
    then show ?thesis
      using tb_int_ok [OF reader_ok_types [OF assms(2)]] denotes.int
      by (auto simp: parse_type_from_llvm_ref_def frames intro!: reads_intern [OF assms(2)])
  next
    case pointer
    then show ?thesis
      using tb_pointer_ok [OF reader_ok_types [OF assms(2)]] denotes.pointer
      by (auto simp: parse_type_from_llvm_ref_def frames intro!: reads_intern [OF assms(2)])
  next
    case array
    then show ?thesis unfolding parse_type_from_llvm_ref_def array LLVMTypeKind.case
      by (intro element_ok [OF assms, where mk = "\<lambda>t. ArrayType t (LLVMGetArrayLength2 api ty)"])
         (auto simp: frames tb_array_of_ok array intro: denotes.array [OF array])
  next
    case vector
    then show ?thesis unfolding parse_type_from_llvm_ref_def vector LLVMTypeKind.case
      by (intro element_ok [OF assms, where mk = "\<lambda>t. VectorType t (ucast (LLVMGetVectorSize api ty)) False"])
         (auto simp: frames tb_vector_of_ok vector intro: denotes.vector [OF vector])
  next
    case scalable
    then show ?thesis unfolding parse_type_from_llvm_ref_def scalable LLVMTypeKind.case
      by (intro element_ok [OF assms, where mk = "\<lambda>t. VectorType t (ucast (LLVMGetVectorSize api ty)) True"])
         (auto simp: frames tb_vector_of_ok scalable intro: denotes.scalable [OF scalable])
  next
    case struct
    then show ?thesis using read_struct_faithful [OF assms struct] by (simp add: parse_type_from_llvm_ref_def)
  qed (use assms plain_kind_ok fp_kind_ok func_ok in auto)
qed

lemma type_from_llvm_ref_faithful: "faithful api (type_from_llvm_ref api n)"
proof (induction n)
  case 0
  then show ?case by (simp add: faithful_def reads_def)
next
  case (Suc n)
  have "reads api b ty (type_from_llvm_ref api (Suc n) ty b)" if ok: "reader_ok api b" for ty b
  proof (cases "llvm_type_map b ty")
    case None
    have memo: "reader_ok api (b1\<lparr>llvm_type_map := (llvm_type_map b1)(ty \<mapsto> t)\<rparr>)"
      if "reader_ok api b1" "denotes api ty t" "met api ty b1" for b1 t
      using that by (auto simp: reader_ok_def types_ok_def met_def)
    show ?thesis
    proof (cases "parse_type_from_llvm_ref api (type_from_llvm_ref api n) ty b")
      case p: (Some r)
      obtain t b1 where r: "r = (t, b1)" by (cases r)
      then have "denotes api ty t" "reader_ok api b1" "extends b b1" "met api ty b1"
        using parse_faithful [OF Suc ok, of ty] p by (auto simp: reads_def)
      then show ?thesis using None p r memo [of b1 t] by (simp add: reads_def extends_def met_def)
    qed (use None in \<open>simp add: reads_def\<close>)
  qed (use ok in \<open>auto simp: reads_def reader_ok_def\<close>)
  then show ?case by (simp add: faithful_def)
qed

section \<open>The reader returns\<close>

definition components :: "llvm_type_api \<Rightarrow> LLVMTypeRef \<Rightarrow> LLVMTypeRef list" where
  "components api ty =
     (case LLVMGetTypeKind api ty of
        LLVMArrayTypeKind \<Rightarrow> [LLVMGetElementType api ty]
      | LLVMVectorTypeKind \<Rightarrow> [LLVMGetElementType api ty]
      | LLVMScalableVectorTypeKind \<Rightarrow> [LLVMGetElementType api ty]
      | LLVMStructTypeKind \<Rightarrow> (if LLVMIsOpaqueStruct api ty then [] else LLVMGetStructElementTypes api ty)
      | LLVMFunctionTypeKind \<Rightarrow> LLVMGetReturnType api ty # LLVMGetParamTypes api ty
      | _ \<Rightarrow> [])"

text \<open>LLVM's types with opaque pointers: no type is part of itself, and only named structs are
  opaque.\<close>

definition finite_types :: "llvm_type_api \<Rightarrow> (LLVMTypeRef \<Rightarrow> nat) \<Rightarrow> bool" where
  "finite_types api rank \<longleftrightarrow>
     (\<forall>ty. (\<forall>c \<in> set (components api ty). rank c < rank ty) \<and>
       (LLVMGetTypeKind api ty = LLVMStructTypeKind \<and> LLVMIsOpaqueStruct api ty \<longrightarrow>
          struct_name api ty \<noteq> None))"

definition returns_on :: "llvm_type_api \<Rightarrow> type_reader \<Rightarrow> LLVMTypeRef \<Rightarrow> bool" where
  "returns_on api rd ty \<longleftrightarrow> (\<forall>b. reader_ok api b \<longrightarrow> rd ty b \<noteq> None)"

lemma read_types_returns:
  assumes "faithful api rd" "\<forall>ty \<in> set tys. returns_on api rd ty" "reader_ok api b"
  shows "read_types rd tys b \<noteq> None"
  using assms(2,3)
proof (induction tys arbitrary: b)
  case (Cons ty tys)
  then obtain t b1 where r: "rd ty b = Some (t, b1)" by (auto simp: returns_on_def)
  then have "reader_ok api b1" using assms(1) Cons.prems(2) by (auto simp: faithful_def reads_def)
  then show ?case using Cons r by (auto split: option.split)
qed simp

lemma struct_returns:
  assumes "faithful api rd" "\<not> LLVMIsOpaqueStruct api ty"
    "\<forall>c \<in> set (LLVMGetStructElementTypes api ty). returns_on api rd c" "reader_ok api b"
  shows "struct_type_from_llvm_ref api rd ty b \<noteq> None"
  using read_types_returns [OF assms(1,3,4)] assms(2)
  by (auto simp: struct_type_from_llvm_ref_def split: option.split)

lemma read_struct_returns:
  assumes "faithful api rd" "reader_ok api b" "LLVMGetTypeKind api ty = LLVMStructTypeKind"
    "\<forall>c \<in> set (components api ty). returns_on api rd c"
    "LLVMIsOpaqueStruct api ty \<longrightarrow> struct_name api ty \<noteq> None"
  shows "read_struct api rd ty b \<noteq> None"
proof (cases "struct_name api ty")
  case None
  then show ?thesis
    using struct_returns [OF assms(1) _ _ assms(2)] assms(3-5)
    by (auto simp: read_struct_def components_def)
next
  case (Some s)
  note nm = named_struct_ok [OF assms(2), of s]
  show ?thesis
  proof (cases "TypeCache_contains_key (named_struct_types b) s")
    case False
    then have none: "named_struct_defs b s = None"
      using assms(2) by (auto simp: reader_ok_def TypeCache_contains_key_def)
    show ?thesis
    proof (cases "LLVMIsOpaqueStruct api ty")
      case False
      let ?b1 = "snd (tb_named_struct s b)"
      obtain t b2 where st: "struct_type_from_llvm_ref api rd ty ?b1 = Some (t, b2)"
        using struct_returns [OF assms(1) False _ nm(2)] assms(3,4) False
        by (auto simp: components_def)
      then have "extends ?b1 b2" using struct_faithful [OF assms(1) nm(2)] by blast
      then have "named_struct_defs b2 s = None" using nm(3) none by (auto simp: extends_def frame_simps)
      then show ?thesis using Some False st by (simp add: read_struct_def add_def_spec case_prod_unfold)
    qed (use Some False none in \<open>simp add: read_struct_def add_def_spec\<close>)
  qed (use Some in \<open>simp add: read_struct_def\<close>)
qed

lemma parse_returns:
  assumes "faithful api rd" "reader_ok api b" "\<forall>c \<in> set (components api ty). returns_on api rd c"
    "LLVMGetTypeKind api ty = LLVMStructTypeKind \<and> LLVMIsOpaqueStruct api ty \<longrightarrow> struct_name api ty \<noteq> None"
  shows "parse_type_from_llvm_ref api rd ty b \<noteq> None"
proof (cases "LLVMGetTypeKind api ty")
  case LLVMStructTypeKind
  then show ?thesis
    using read_struct_returns [OF assms(1,2) _ assms(3)] assms(4) by (simp add: parse_type_from_llvm_ref_def)
next
  case LLVMFunctionTypeKind
  then have "returns_on api rd (LLVMGetReturnType api ty)"
    "\<forall>c \<in> set (LLVMGetParamTypes api ty). returns_on api rd c"
    using assms(3) by (simp_all add: components_def)
  moreover from this obtain t b1 where r: "rd (LLVMGetReturnType api ty) b = Some (t, b1)"
    using assms(2) by (auto simp: returns_on_def)
  moreover from this have "reader_ok api b1" using assms(1,2) by (auto simp: faithful_def reads_def)
  ultimately show ?thesis
    using LLVMFunctionTypeKind read_types_returns [OF assms(1)] by (auto simp: parse_type_from_llvm_ref_def)
qed (use assms(2,3) in \<open>auto simp: parse_type_from_llvm_ref_def components_def returns_on_def\<close>)

lemma type_from_llvm_ref_returns:
  assumes "finite_types api rank"
  shows "rank ty < n \<Longrightarrow> returns_on api (type_from_llvm_ref api n) ty"
proof (induction n arbitrary: ty)
  case (Suc n)
  have "\<forall>c \<in> set (components api ty). rank c < rank ty"
    and op: "LLVMGetTypeKind api ty = LLVMStructTypeKind \<and> LLVMIsOpaqueStruct api ty \<longrightarrow> struct_name api ty \<noteq> None"
    using assms unfolding finite_types_def by blast+
  then have "\<forall>c \<in> set (components api ty). returns_on api (type_from_llvm_ref api n) c"
    using Suc by (meson less_Suc_eq less_trans_Suc order_less_le_trans not_less_eq)
  then have "parse_type_from_llvm_ref api (type_from_llvm_ref api n) ty b \<noteq> None" if "reader_ok api b" for b
    using parse_returns [OF type_from_llvm_ref_faithful that _ op] by blast
  then show ?case by (fastforce simp: returns_on_def split: option.split)
qed simp

section \<open>Denotations are unique\<close>

lemma list_all2_unique:
  "list_all2 (\<lambda>x y. P x y \<and> (\<forall>z. P x z \<longrightarrow> y = z)) xs ys \<Longrightarrow> list_all2 P xs zs \<Longrightarrow> ys = zs"
  by (induction xs ys arbitrary: zs rule: list_all2_induct) (auto simp: list_all2_Cons1)

lemma denotes_struct:
  "denotes api ty t \<Longrightarrow> LLVMGetTypeKind api ty = LLVMStructTypeKind \<Longrightarrow> struct_name api ty = None \<Longrightarrow>
     \<exists>ts. t = StructType ts (LLVMIsPackedStruct api ty) \<and>
       list_all2 (denotes api) (LLVMGetStructElementTypes api ty) ts"
  by (erule denotes_elim) simp_all

lemma denotes_func:
  "denotes api ty t \<Longrightarrow> LLVMGetTypeKind api ty = LLVMFunctionTypeKind \<Longrightarrow>
     \<exists>r ts. t = FuncType r ts (LLVMIsFunctionVarArg api ty) \<and> denotes api (LLVMGetReturnType api ty) r \<and>
       list_all2 (denotes api) (LLVMGetParamTypes api ty) ts"
  by (erule denotes_elim) simp_all

lemma plain_not_fp: "plain_kind k = Some t \<Longrightarrow> fp_kind k = None"
  by (cases k) simp_all

lemma denotes_plain:
  "denotes api ty t' \<Longrightarrow> plain_kind (LLVMGetTypeKind api ty) = Some t \<Longrightarrow>
     fp_kind (LLVMGetTypeKind api ty) = None \<Longrightarrow> t = t'"
  by (erule denotes_elim) simp_all

lemma denotes_fp:
  "denotes api ty t' \<Longrightarrow> fp_kind (LLVMGetTypeKind api ty) = Some f \<Longrightarrow>
     plain_kind (LLVMGetTypeKind api ty) = None \<Longrightarrow> FPType f = t'"
  by (erule denotes_elim) simp_all

lemma denotes_element:
  "denotes api ty t' \<Longrightarrow> LLVMGetTypeKind api ty = LLVMArrayTypeKind \<Longrightarrow>
     \<exists>t. denotes api (LLVMGetElementType api ty) t \<and> t' = ArrayType t (LLVMGetArrayLength2 api ty)"
  "denotes api ty t' \<Longrightarrow> LLVMGetTypeKind api ty = LLVMVectorTypeKind \<Longrightarrow>
     \<exists>t. denotes api (LLVMGetElementType api ty) t \<and>
       t' = VectorType t (ucast (LLVMGetVectorSize api ty)) False"
  "denotes api ty t' \<Longrightarrow> LLVMGetTypeKind api ty = LLVMScalableVectorTypeKind \<Longrightarrow>
     \<exists>t. denotes api (LLVMGetElementType api ty) t \<and>
       t' = VectorType t (ucast (LLVMGetVectorSize api ty)) True"
  by (erule denotes_elim; simp)+

lemma denotes_unique: "denotes api ty t \<Longrightarrow> denotes api ty t' \<Longrightarrow> t = t'"
proof (induction arbitrary: t' rule: denotes.induct)
  case (plain ty t)
  then show ?case using denotes_plain plain_not_fp by blast
next
  case (fp ty f)
  then have "plain_kind (LLVMGetTypeKind api ty) = None"
    using plain_not_fp by (metis not_Some_eq option.distinct(1))
  then show ?case using fp denotes_fp by blast
next
  case (literal ty ts)
  then show ?case using denotes_struct [OF literal(5,1,2)] list_all2_unique by blast
next
  case (func ty t ts)
  then show ?case using denotes_func [OF func(5,1)] list_all2_unique by blast
next
  case (array ty t)
  then show ?case using denotes_element(1) [OF array(4,1)] by blast
next
  case (vector ty t)
  then show ?case using denotes_element(2) [OF vector(4,1)] by blast
next
  case (scalable ty t)
  then show ?case using denotes_element(3) [OF scalable(4,1)] by blast
qed (erule denotes_elim; simp)+

end
