(* ===== verification/LLVM_Conversions.thy ===== *)
theory LLVM_Conversions
  imports LLVM_Module Type_Reader
begin

unbundle bit_operations_syntax

text \<open>
  Conversions from the values of the LLVM-C library: the \<open>from_llvm\<close> functions of the enumerations of
  \<open>module.rs\<close>, \<open>predicates.rs\<close> and \<open>instruction.rs\<close>, and calling conventions and attributes of \<open>function.rs\<close>.

  The enumerations of the library are those the matches of the source list; the numbers of its
  calling conventions and of the kinds of attributes are parameters, as are the functions that read an
  attribute. Results: no two numbers are read as the same calling convention; function attributes are
  always read without a panic; and the cases in which a parameter attribute panics are known exactly.
\<close>

section \<open>Enumerations\<close>

datatype (plugins only: code size) LLVMUnnamedAddr =
  LLVMNoUnnamedAddr | LLVMLocalUnnamedAddr | LLVMGlobalUnnamedAddr

primrec UnnamedAddr_from_llvm :: "LLVMUnnamedAddr \<Rightarrow> UnnamedAddr option" where
  "UnnamedAddr_from_llvm LLVMNoUnnamedAddr = None"
| "UnnamedAddr_from_llvm LLVMLocalUnnamedAddr = Some UA_Local"
| "UnnamedAddr_from_llvm LLVMGlobalUnnamedAddr = Some UA_Global"

datatype (plugins only: code size) LLVMLinkage =
  LLVMExternalLinkage | LLVMAvailableExternallyLinkage | LLVMLinkOnceAnyLinkage
  | LLVMLinkOnceODRLinkage | LLVMLinkOnceODRAutoHideLinkage | LLVMWeakAnyLinkage
  | LLVMWeakODRLinkage | LLVMAppendingLinkage | LLVMInternalLinkage | LLVMPrivateLinkage
  | LLVMDLLImportLinkage | LLVMDLLExportLinkage | LLVMExternalWeakLinkage | LLVMGhostLinkage
  | LLVMCommonLinkage | LLVMLinkerPrivateLinkage | LLVMLinkerPrivateWeakLinkage

primrec Linkage_from_llvm :: "LLVMLinkage \<Rightarrow> Linkage" where
  "Linkage_from_llvm LLVMExternalLinkage = External"
| "Linkage_from_llvm LLVMAvailableExternallyLinkage = AvailableExternally"
| "Linkage_from_llvm LLVMLinkOnceAnyLinkage = LinkOnceAny"
| "Linkage_from_llvm LLVMLinkOnceODRLinkage = LinkOnceODR"
| "Linkage_from_llvm LLVMLinkOnceODRAutoHideLinkage = LinkOnceODRAutoHide"
| "Linkage_from_llvm LLVMWeakAnyLinkage = WeakAny"
| "Linkage_from_llvm LLVMWeakODRLinkage = WeakODR"
| "Linkage_from_llvm LLVMAppendingLinkage = Appending"
| "Linkage_from_llvm LLVMInternalLinkage = Internal"
| "Linkage_from_llvm LLVMPrivateLinkage = Private"
| "Linkage_from_llvm LLVMDLLImportLinkage = DLLImport"
| "Linkage_from_llvm LLVMDLLExportLinkage = DLLExport"
| "Linkage_from_llvm LLVMExternalWeakLinkage = ExternalWeak"
| "Linkage_from_llvm LLVMGhostLinkage = Ghost"
| "Linkage_from_llvm LLVMCommonLinkage = Common"
| "Linkage_from_llvm LLVMLinkerPrivateLinkage = LinkerPrivate"
| "Linkage_from_llvm LLVMLinkerPrivateWeakLinkage = LinkerPrivateWeak"

datatype (plugins only: code size) LLVMVisibility =
  LLVMDefaultVisibility | LLVMHiddenVisibility | LLVMProtectedVisibility

primrec Visibility_from_llvm :: "LLVMVisibility \<Rightarrow> Visibility" where
  "Visibility_from_llvm LLVMDefaultVisibility = Visibility_Default"
| "Visibility_from_llvm LLVMHiddenVisibility = Hidden"
| "Visibility_from_llvm LLVMProtectedVisibility = Protected"

datatype (plugins only: code size) LLVMDLLStorageClass =
  LLVMDefaultStorageClass | LLVMDLLImportStorageClass | LLVMDLLExportStorageClass

primrec DLLStorageClass_from_llvm :: "LLVMDLLStorageClass \<Rightarrow> DLLStorageClass" where
  "DLLStorageClass_from_llvm LLVMDefaultStorageClass = DLL_Default"
| "DLLStorageClass_from_llvm LLVMDLLImportStorageClass = DLL_Import"
| "DLLStorageClass_from_llvm LLVMDLLExportStorageClass = DLL_Export"

datatype (plugins only: code size) LLVMThreadLocalMode =
  LLVMNotThreadLocal | LLVMGeneralDynamicTLSModel | LLVMLocalDynamicTLSModel
  | LLVMInitialExecTLSModel | LLVMLocalExecTLSModel

primrec ThreadLocalMode_from_llvm :: "LLVMThreadLocalMode \<Rightarrow> ThreadLocalMode" where
  "ThreadLocalMode_from_llvm LLVMNotThreadLocal = NotThreadLocal"
| "ThreadLocalMode_from_llvm LLVMGeneralDynamicTLSModel = GeneralDynamic"
| "ThreadLocalMode_from_llvm LLVMLocalDynamicTLSModel = LocalDynamic"
| "ThreadLocalMode_from_llvm LLVMInitialExecTLSModel = InitialExec"
| "ThreadLocalMode_from_llvm LLVMLocalExecTLSModel = LocalExec"

datatype (plugins only: code size) LLVMComdatSelectionKind =
  LLVMAnyComdatSelectionKind | LLVMExactMatchComdatSelectionKind | LLVMLargestComdatSelectionKind
  | LLVMNoDuplicatesComdatSelectionKind | LLVMSameSizeComdatSelectionKind

primrec SelectionKind_from_llvm :: "LLVMComdatSelectionKind \<Rightarrow> SelectionKind" where
  "SelectionKind_from_llvm LLVMAnyComdatSelectionKind = SK_Any"
| "SelectionKind_from_llvm LLVMExactMatchComdatSelectionKind = SK_ExactMatch"
| "SelectionKind_from_llvm LLVMLargestComdatSelectionKind = SK_Largest"
| "SelectionKind_from_llvm LLVMNoDuplicatesComdatSelectionKind = SK_NoDuplicates"
| "SelectionKind_from_llvm LLVMSameSizeComdatSelectionKind = SK_SameSize"

datatype (plugins only: code size) LLVMIntPredicate =
  LLVMIntEQ | LLVMIntNE | LLVMIntUGT | LLVMIntUGE | LLVMIntULT | LLVMIntULE | LLVMIntSGT
  | LLVMIntSGE | LLVMIntSLT | LLVMIntSLE

primrec IntPredicate_from_llvm :: "LLVMIntPredicate \<Rightarrow> IntPredicate" where
  "IntPredicate_from_llvm LLVMIntEQ = EQ"
| "IntPredicate_from_llvm LLVMIntNE = NE"
| "IntPredicate_from_llvm LLVMIntUGT = UGT"
| "IntPredicate_from_llvm LLVMIntUGE = UGE"
| "IntPredicate_from_llvm LLVMIntULT = ULT"
| "IntPredicate_from_llvm LLVMIntULE = ULE"
| "IntPredicate_from_llvm LLVMIntSGT = SGT"
| "IntPredicate_from_llvm LLVMIntSGE = SGE"
| "IntPredicate_from_llvm LLVMIntSLT = SLT"
| "IntPredicate_from_llvm LLVMIntSLE = SLE"

datatype (plugins only: code size) LLVMRealPredicate =
  LLVMRealPredicateFalse | LLVMRealOEQ | LLVMRealOGT | LLVMRealOGE | LLVMRealOLT | LLVMRealOLE
  | LLVMRealONE | LLVMRealORD | LLVMRealUNO | LLVMRealUEQ | LLVMRealUGT | LLVMRealUGE | LLVMRealULT
  | LLVMRealULE | LLVMRealUNE | LLVMRealPredicateTrue

primrec FPPredicate_from_llvm :: "LLVMRealPredicate \<Rightarrow> FPPredicate" where
  "FPPredicate_from_llvm LLVMRealPredicateFalse = FP_False"
| "FPPredicate_from_llvm LLVMRealOEQ = FP_OEQ"
| "FPPredicate_from_llvm LLVMRealOGT = FP_OGT"
| "FPPredicate_from_llvm LLVMRealOGE = FP_OGE"
| "FPPredicate_from_llvm LLVMRealOLT = FP_OLT"
| "FPPredicate_from_llvm LLVMRealOLE = FP_OLE"
| "FPPredicate_from_llvm LLVMRealONE = FP_ONE"
| "FPPredicate_from_llvm LLVMRealORD = FP_ORD"
| "FPPredicate_from_llvm LLVMRealUNO = FP_UNO"
| "FPPredicate_from_llvm LLVMRealUEQ = FP_UEQ"
| "FPPredicate_from_llvm LLVMRealUGT = FP_UGT"
| "FPPredicate_from_llvm LLVMRealUGE = FP_UGE"
| "FPPredicate_from_llvm LLVMRealULT = FP_ULT"
| "FPPredicate_from_llvm LLVMRealULE = FP_ULE"
| "FPPredicate_from_llvm LLVMRealUNE = FP_UNE"
| "FPPredicate_from_llvm LLVMRealPredicateTrue = FP_True"

datatype (plugins only: code size) LLVMAtomicOrdering =
  LLVMAtomicOrderingUnordered | LLVMAtomicOrderingMonotonic | LLVMAtomicOrderingAcquire
  | LLVMAtomicOrderingRelease | LLVMAtomicOrderingAcquireRelease
  | LLVMAtomicOrderingSequentiallyConsistent | LLVMAtomicOrderingNotAtomic

primrec MemoryOrdering_from_llvm :: "LLVMAtomicOrdering \<Rightarrow> MemoryOrdering" where
  "MemoryOrdering_from_llvm LLVMAtomicOrderingUnordered = Unordered"
| "MemoryOrdering_from_llvm LLVMAtomicOrderingMonotonic = Monotonic"
| "MemoryOrdering_from_llvm LLVMAtomicOrderingAcquire = Acquire"
| "MemoryOrdering_from_llvm LLVMAtomicOrderingRelease = Release"
| "MemoryOrdering_from_llvm LLVMAtomicOrderingAcquireRelease = AcquireRelease"
| "MemoryOrdering_from_llvm LLVMAtomicOrderingSequentiallyConsistent = SequentiallyConsistent"
| "MemoryOrdering_from_llvm LLVMAtomicOrderingNotAtomic = NotAtomic"

datatype (plugins only: code size) LLVMAtomicRMWBinOp =
  LLVMAtomicRMWBinOpXchg | LLVMAtomicRMWBinOpAdd | LLVMAtomicRMWBinOpSub | LLVMAtomicRMWBinOpAnd
  | LLVMAtomicRMWBinOpNand | LLVMAtomicRMWBinOpOr | LLVMAtomicRMWBinOpXor | LLVMAtomicRMWBinOpMax
  | LLVMAtomicRMWBinOpMin | LLVMAtomicRMWBinOpUMax | LLVMAtomicRMWBinOpUMin | LLVMAtomicRMWBinOpFAdd
  | LLVMAtomicRMWBinOpFSub | LLVMAtomicRMWBinOpFMax | LLVMAtomicRMWBinOpFMin
  | LLVMAtomicRMWBinOpUIncWrap | LLVMAtomicRMWBinOpUDecWrap

primrec RMWBinOp_from_llvm :: "LLVMAtomicRMWBinOp \<Rightarrow> RMWBinOp" where
  "RMWBinOp_from_llvm LLVMAtomicRMWBinOpXchg = RMW_Xchg"
| "RMWBinOp_from_llvm LLVMAtomicRMWBinOpAdd = RMW_Add"
| "RMWBinOp_from_llvm LLVMAtomicRMWBinOpSub = RMW_Sub"
| "RMWBinOp_from_llvm LLVMAtomicRMWBinOpAnd = RMW_And"
| "RMWBinOp_from_llvm LLVMAtomicRMWBinOpNand = RMW_Nand"
| "RMWBinOp_from_llvm LLVMAtomicRMWBinOpOr = RMW_Or"
| "RMWBinOp_from_llvm LLVMAtomicRMWBinOpXor = RMW_Xor"
| "RMWBinOp_from_llvm LLVMAtomicRMWBinOpMax = RMW_Max"
| "RMWBinOp_from_llvm LLVMAtomicRMWBinOpMin = RMW_Min"
| "RMWBinOp_from_llvm LLVMAtomicRMWBinOpUMax = RMW_UMax"
| "RMWBinOp_from_llvm LLVMAtomicRMWBinOpUMin = RMW_UMin"
| "RMWBinOp_from_llvm LLVMAtomicRMWBinOpFAdd = RMW_FAdd"
| "RMWBinOp_from_llvm LLVMAtomicRMWBinOpFSub = RMW_FSub"
| "RMWBinOp_from_llvm LLVMAtomicRMWBinOpFMax = RMW_FMax"
| "RMWBinOp_from_llvm LLVMAtomicRMWBinOpFMin = RMW_FMin"
| "RMWBinOp_from_llvm LLVMAtomicRMWBinOpUIncWrap = RMW_UIncWrap"
| "RMWBinOp_from_llvm LLVMAtomicRMWBinOpUDecWrap = RMW_UDecWrap"

definition Comdat_from_llvm_ref :: "LLVMComdatSelectionKind \<Rightarrow> Comdat" where
  "Comdat_from_llvm_ref sk =
     \<lparr>comdat_name = ''error: not yet implemented: Comdat.name'', selection_kind = SelectionKind_from_llvm sk\<rparr>"

definition SynchronizationScope_from_llvm_ref :: "bool \<Rightarrow> SynchronizationScope" where
  "SynchronizationScope_from_llvm_ref single = (if single then SingleThread else System)"

text \<open>Each of these conversions loses nothing.\<close>

lemma Linkage_inj: "Linkage_from_llvm a = Linkage_from_llvm b \<longleftrightarrow> a = b"
  by (cases a; cases b; simp)

lemma IntPredicate_inj: "IntPredicate_from_llvm a = IntPredicate_from_llvm b \<longleftrightarrow> a = b"
  by (cases a; cases b; simp)

lemma FPPredicate_inj: "FPPredicate_from_llvm a = FPPredicate_from_llvm b \<longleftrightarrow> a = b"
  by (cases a; cases b; simp)

lemma MemoryOrdering_inj: "MemoryOrdering_from_llvm a = MemoryOrdering_from_llvm b \<longleftrightarrow> a = b"
  by (cases a; cases b; simp)

lemma RMWBinOp_inj: "RMWBinOp_from_llvm a = RMWBinOp_from_llvm b \<longleftrightarrow> a = b"
  by (cases a; cases b; simp)

section \<open>Calling conventions\<close>

definition callconv_table :: "(string \<times> CallingConvention) list" where
  "callconv_table =
     [(''LLVMCCallConv'', CC_C),
      (''LLVMFastCallConv'', CC_Fast),
      (''LLVMColdCallConv'', CC_Cold),
      (''LLVMGHCCallConv'', CC_GHC),
      (''LLVMHiPECallConv'', CC_HiPE),
      (''LLVMAnyRegCallConv'', CC_AnyReg),
      (''LLVMPreserveMostCallConv'', CC_PreserveMost),
      (''LLVMPreserveAllCallConv'', CC_PreserveAll),
      (''LLVMSwiftCallConv'', CC_Swift),
      (''LLVMCXXFASTTLSCallConv'', CC_CXX_FastTLS),
      (''LLVMX86StdcallCallConv'', CC_X86_StdCall),
      (''LLVMX86FastcallCallConv'', CC_X86_FastCall),
      (''LLVMX86RegCallCallConv'', CC_X86_RegCall),
      (''LLVMX86ThisCallCallConv'', CC_X86_ThisCall),
      (''LLVMX86VectorCallCallConv'', CC_X86_VectorCall),
      (''LLVMX86INTRCallConv'', CC_X86_Intr),
      (''LLVMX8664SysVCallConv'', CC_X86_64_SysV),
      (''LLVMARMAPCSCallConv'', CC_ARM_APCS),
      (''LLVMARMAAPCSCallConv'', CC_ARM_AAPCS),
      (''LLVMARMAAPCSVFPCallConv'', CC_ARM_AAPCS_VFP),
      (''LLVMMSP430INTRCallConv'', CC_MSP430_INTR),
      (''LLVMMSP430BUILTINCallConv'', CC_MSP430_Builtin),
      (''LLVMPTXKernelCallConv'', CC_PTX_Kernel),
      (''LLVMPTXDeviceCallConv'', CC_PTX_Device),
      (''LLVMSPIRFUNCCallConv'', CC_SPIR_FUNC),
      (''LLVMSPIRKERNELCallConv'', CC_SPIR_KERNEL),
      (''LLVMIntelOCLBICallConv'', CC_Intel_OCL_BI),
      (''LLVMWin64CallConv'', CC_Win64),
      (''LLVMHHVMCallConv'', CC_HHVM),
      (''LLVMHHVMCCallConv'', CC_HHVM_C),
      (''LLVMAVRINTRCallConv'', CC_AVR_Intr),
      (''LLVMAVRSIGNALCallConv'', CC_AVR_Signal),
      (''LLVMAVRBUILTINCallConv'', CC_AVR_Builtin),
      (''LLVMAMDGPUCSCallConv'', CC_AMDGPU_CS),
      (''LLVMAMDGPUESCallConv'', CC_AMDGPU_ES),
      (''LLVMAMDGPUGSCallConv'', CC_AMDGPU_GS),
      (''LLVMAMDGPUHSCallConv'', CC_AMDGPU_HS),
      (''LLVMAMDGPULSCallConv'', CC_AMDGPU_LS),
      (''LLVMAMDGPUPSCallConv'', CC_AMDGPU_PS),
      (''LLVMAMDGPUVSCallConv'', CC_AMDGPU_VS),
      (''LLVMAMDGPUKERNELCallConv'', CC_AMDGPU_Kernel)]"

text \<open>The guarded match, first match first; \<open>num\<close> gives the number of a constant of \<open>LLVMCallConv\<close>.\<close>

definition CallingConvention_from_u32 :: "(string \<Rightarrow> u32) \<Rightarrow> u32 \<Rightarrow> CallingConvention" where
  "CallingConvention_from_u32 num u =
     (case find (\<lambda>(name, _). num name = u) callconv_table of
        Some (_, cc) \<Rightarrow> cc
      | None \<Rightarrow> CC_Numbered u)"

section \<open>Attributes\<close>

record attribute_api =
  kind_for_name :: "string \<Rightarrow> u32"
  is_enum_attribute :: "nat \<Rightarrow> bool"
  is_string_attribute :: "nat \<Rightarrow> bool"
  is_type_attribute :: "nat \<Rightarrow> bool"
  enum_attribute_kind :: "nat \<Rightarrow> u32"
  enum_attribute_value :: "nat \<Rightarrow> u64"
  string_attribute_kind :: "nat \<Rightarrow> string"
  string_attribute_value :: "nat \<Rightarrow> string"
  type_attribute_value :: "nat \<Rightarrow> LLVMTypeRef"

record AttributesData =
  function_attribute_names :: "u32 \<rightharpoonup> string"
  param_attribute_names :: "u32 \<rightharpoonup> string"

definition function_attrs :: "string list" where
  "function_attrs =
     [''alignstack'', ''allocsize'', ''alwaysinline'', ''builtin'', ''cold'', ''convergent'',
      ''inlinehint'', ''jumptable'', ''minsize'', ''naked'', ''nobuiltin'', ''nocf_check'',
      ''noduplicate'', ''nofree'', ''noimplicitfloat'', ''noinline'', ''nomerge'', ''nonlazybind'',
      ''noredzone'', ''noreturn'', ''norecurse'', ''willreturn'', ''returns_twice'', ''nosync'',
      ''nounwind'', ''null_pointer_is_valid'', ''optforfuzzing'', ''optnone'', ''optsize'',
      ''readnone'', ''readonly'', ''writeonly'', ''safestack'', ''sanitize_address'',
      ''sanitize_memory'', ''sanitize_thread'', ''sanitize_hwaddress'', ''sanitize_memtag'',
      ''shadowcallstack'', ''speculative_load_hardening'', ''speculatable'', ''ssp'', ''sspreq'',
      ''sspstrong'', ''strictfp'', ''uwtable'', ''memory'']"

definition param_attrs :: "string list" where
  "param_attrs =
     [''zeroext'', ''signext'', ''inreg'', ''byval'', ''preallocated'', ''inalloca'', ''sret'',
      ''align'', ''noalias'', ''nocapture'', ''nofree'', ''nest'', ''returned'', ''nonnull'',
      ''dereferenceable'', ''dereferenceable_or_null'', ''swiftself'', ''swifterror'', ''immarg'',
      ''noundef'']"

text \<open>Collecting the pairs into a hash map: a later entry replaces an earlier one.\<close>

definition name_table :: "attribute_api \<Rightarrow> string list \<Rightarrow> u32 \<rightharpoonup> string" where
  "name_table api names =
     map_of (rev (filter (\<lambda>(kind, _). kind \<noteq> 0) (map (\<lambda>n. (kind_for_name api n, n)) names)))"

definition AttributesData_create :: "attribute_api \<Rightarrow> AttributesData" where
  "AttributesData_create api =
     \<lparr>function_attribute_names = name_table api function_attrs,
      param_attribute_names = name_table api param_attrs\<rparr>"

definition lookup_function_attr :: "AttributesData \<Rightarrow> u32 \<Rightarrow> string option" where
  "lookup_function_attr attrsdata kind = function_attribute_names attrsdata kind"

definition lookup_param_attr :: "AttributesData \<Rightarrow> u32 \<Rightarrow> string option" where
  "lookup_param_attr attrsdata kind = param_attribute_names attrsdata kind"

definition alloc_size :: "u64 \<Rightarrow> FunctionAttribute" where
  "alloc_size v =
     (let elt_size = (ucast (drop_bit 32 v) :: u32);
          num = (ucast (v AND 0xFFFFFFFF) :: u32)
      in AllocSize elt_size (if num = 0xFFFFFFFF then None else Some num))"

definition memory_effects :: "u64 \<Rightarrow> FunctionAttribute option" where
  "memory_effects v =
     (case (MemoryEffect_from_llvm_bits (drop_bit 4 v AND 3), MemoryEffect_from_llvm_bits (v AND 3),
            MemoryEffect_from_llvm_bits (drop_bit 2 v AND 3)) of
        (Some dflt, Some argmem, Some inaccessible) \<Rightarrow> Some (Memory dflt argmem inaccessible)
      | _ \<Rightarrow> None)"

definition function_attr_table :: "(string \<times> FunctionAttribute) list" where
  "function_attr_table =
     [(''alwaysinline'', AlwaysInline), (''builtin'', Builtin), (''cold'', Cold),
      (''convergent'', Convergent), (''inaccessiblememonly'', InaccessibleMemOnly),
      (''inaccessiblemem_or_argmemonly'', InaccessibleMemOrArgMemOnly),
      (''inlinehint'', InlineHint), (''jumptable'', JumpTable), (''minsize'', MinimizeSize),
      (''naked'', Naked), (''nobuiltin'', NoBuiltin), (''nocf_check'', NoCFCheck),
      (''noduplicate'', NoDuplicate), (''nofree'', FA_NoFree),
      (''noimplicitfloat'', NoImplicitFloat), (''noinline'', NoInline), (''nomerge'', NoMerge),
      (''nonlazybind'', NonLazyBind), (''noredzone'', NoRedZone), (''noreturn'', NoReturn),
      (''norecurse'', NoRecurse), (''willreturn'', WillReturn), (''returns_twice'', ReturnsTwice),
      (''nosync'', NoSync), (''nounwind'', NoUnwind),
      (''null_pointer_is_valid'', NullPointerIsValid), (''optforfuzzing'', OptForFuzzing),
      (''optnone'', OptNone), (''optsize'', OptSize), (''readnone'', ReadNone),
      (''readonly'', ReadOnly), (''writeonly'', WriteOnly), (''argmemonly'', ArgMemOnly),
      (''safestack'', SafeStack), (''sanitize_address'', SanitizeAddress),
      (''sanitize_memory'', SanitizeMemory), (''sanitize_thread'', SanitizeThread),
      (''sanitize_hwaddress'', SanitizeHWAddress), (''sanitize_memtag'', SanitizeMemTag),
      (''shadowcallstack'', ShadowCallStack),
      (''speculative_load_hardening'', SpeculativeLoadHardening), (''speculatable'', Speculatable),
      (''ssp'', StackProtect), (''sspreq'', StackProtectReq), (''sspstrong'', StackProtectStrong),
      (''strictfp'', StrictFP), (''uwtable'', UWTable)]"

text \<open>None is a panic.\<close>

definition FunctionAttribute_from_llvm_ref ::
  "attribute_api \<Rightarrow> AttributesData \<Rightarrow> nat \<Rightarrow> FunctionAttribute option" where
  "FunctionAttribute_from_llvm_ref api attrsdata a =
     (if is_enum_attribute api a then
        (case lookup_function_attr attrsdata (enum_attribute_kind api a) of
           None \<Rightarrow> Some FA_UnknownAttribute
         | Some s \<Rightarrow>
             if s = ''alignstack'' then Some (AlignStack (enum_attribute_value api a))
             else if s = ''allocsize'' then Some (alloc_size (enum_attribute_value api a))
             else if s = ''memory'' then memory_effects (enum_attribute_value api a)
             else map_of function_attr_table s)
      else if is_string_attribute api a then
        Some (FA_StringAttribute (string_attribute_kind api a) (string_attribute_value api a))
      else Some FA_UnknownAttribute)"

definition param_attr_table :: "(string \<times> ParameterAttribute) list" where
  "param_attr_table =
     [(''zeroext'', ZeroExt), (''signext'', SignExt), (''inreg'', InReg), (''noalias'', NoAlias),
      (''nocapture'', NoCapture), (''nofree'', NoFree), (''nest'', Nest), (''returned'', Returned),
      (''nonnull'', NonNull), (''swiftself'', SwiftSelf), (''swifterror'', SwiftError),
      (''immarg'', ImmArg), (''noundef'', NoUndef)]"

definition enum_param_attr :: "string \<Rightarrow> u64 \<Rightarrow> ParameterAttribute option" where
  "enum_param_attr s v =
     (if s = ''align'' then Some (ParameterAttribute.Alignment v)
      else if s = ''dereferenceable'' then Some (Dereferenceable v)
      else if s = ''dereferenceable_or_null'' then Some (DereferenceableOrNull v)
      else map_of param_attr_table s)"

definition type_param_attr :: "string option \<Rightarrow> TypeRef \<Rightarrow> ParameterAttribute option" where
  "type_param_attr s ty =
     (case s of
        None \<Rightarrow> Some (UnknownTypeAttribute ty)
      | Some n \<Rightarrow>
          if n = ''byval'' then Some (ByVal ty)
          else if n = ''preallocated'' then Some (Preallocated ty)
          else if n = ''inalloca'' then Some (InAlloca ty)
          else if n = ''sret'' then Some (SRet ty)
          else None)"

definition ParameterAttribute_from_llvm_ref ::
  "attribute_api \<Rightarrow> AttributesData \<Rightarrow> type_reader \<Rightarrow> nat \<Rightarrow> TypesBuilder \<Rightarrow>
   (ParameterAttribute \<times> TypesBuilder) option" where
  "ParameterAttribute_from_llvm_ref api attrsdata rd a b =
     (if is_enum_attribute api a then
        (case lookup_param_attr attrsdata (enum_attribute_kind api a) of
           None \<Rightarrow> Some (UnknownAttribute, b)
         | Some s \<Rightarrow> map_option (\<lambda>p. (p, b)) (enum_param_attr s (enum_attribute_value api a)))
      else if is_string_attribute api a then
        Some (StringAttribute (string_attribute_kind api a) (string_attribute_value api a), b)
      else if is_type_attribute api a then
        (case rd (type_attribute_value api a) b of
           None \<Rightarrow> None
         | Some (ty, b1) \<Rightarrow>
             map_option (\<lambda>p. (p, b1))
               (type_param_attr (lookup_param_attr attrsdata (enum_attribute_kind api a)) ty))
      else Some (UnknownAttribute, b))"

section \<open>Properties\<close>

lemma callconv_distinct: "distinct (map snd callconv_table)"
  by (simp add: callconv_table_def)

lemma callconv_not_numbered: "(n, cc) \<in> set callconv_table \<Longrightarrow> cc \<noteq> CC_Numbered u"
  by (auto simp: callconv_table_def)

lemma from_u32_cases:
  "(\<exists>n. (n, CallingConvention_from_u32 num u) \<in> set callconv_table \<and> num n = u) \<or>
     CallingConvention_from_u32 num u = CC_Numbered u"
  by (auto simp: CallingConvention_from_u32_def find_Some_iff split: option.split)
     (metis nth_mem)

text \<open>No two numbers are read as the same calling convention.\<close>

lemma from_u32_inj: "CallingConvention_from_u32 num u = CallingConvention_from_u32 num v \<longleftrightarrow> u = v"
proof
  assume eq: "CallingConvention_from_u32 num u = CallingConvention_from_u32 num v"
  have uniq: "n = n'" if "(n, cc) \<in> set callconv_table" "(n', cc) \<in> set callconv_table" for n n' cc
    using that callconv_distinct unfolding distinct_map by (metis inj_onD prod.inject snd_conv)
  show "u = v"
    using from_u32_cases [of num u] from_u32_cases [of num v] eq uniq callconv_not_numbered
    by (metis CallingConvention.inject)
qed simp

lemma name_table_Some: "name_table api names k = Some s \<Longrightarrow> s \<in> set names \<and> kind_for_name api s = k \<and> k \<noteq> 0"
  by (auto simp: name_table_def dest!: map_of_SomeD)

lemma two_bits: "(w :: u64) AND 3 \<in> {0, 1, 2, 3}"
proof -
  have "unat (w AND 3) = unat w mod 4"
    using take_bit_eq_mask [of 2 "unat w"] by (simp add: unsigned_and_eq take_bit_eq_mod mask_eq_exp_minus_1)
  then have "unat (w AND 3) \<in> {0, 1, 2, 3}" by auto
  then show ?thesis by (auto simp: word_unat_eq_iff)
qed

lemma memory_effects_total: "memory_effects v \<noteq> None"
  using two_bits [of v] two_bits [of "drop_bit 2 v"] two_bits [of "drop_bit 4 v"]
  by (auto simp: memory_effects_def MemoryEffect_from_llvm_bits_def split: option.split)

lemma function_attr_covered:
  "list_all (\<lambda>s. s \<in> {''alignstack'', ''allocsize'', ''memory''} \<or> s \<in> set (map fst function_attr_table))
     function_attrs"
  by code_simp

lemma function_attributes_total:
  "FunctionAttribute_from_llvm_ref api (AttributesData_create api) a \<noteq> None"
proof (cases "lookup_function_attr (AttributesData_create api) (enum_attribute_kind api a)")
  case (Some s)
  then have "s \<in> set function_attrs"
    by (auto simp: lookup_function_attr_def AttributesData_create_def dest: name_table_Some)
  then have "s \<in> {''alignstack'', ''allocsize'', ''memory''} \<or> map_of function_attr_table s \<noteq> None"
    using function_attr_covered by (simp only: list_all_iff map_of_eq_None_iff list.set_map) blast
  then show ?thesis using Some memory_effects_total by (auto simp: FunctionAttribute_from_llvm_ref_def)
qed (simp add: FunctionAttribute_from_llvm_ref_def)

lemma param_attr_covered:
  "list_all (\<lambda>s. enum_param_attr s v = None \<longleftrightarrow> s \<in> {''byval'', ''preallocated'', ''inalloca'', ''sret''})
     param_attrs"
  by (simp add: param_attrs_def param_attr_table_def enum_param_attr_def)

definition type_attrs :: "string set" where
  "type_attrs = {''byval'', ''preallocated'', ''inalloca'', ''sret''}"

lemma type_param_attr_None: "type_param_attr s ty = None \<longleftrightarrow> (\<exists>n. s = Some n \<and> n \<notin> type_attrs)"
  by (auto simp: type_param_attr_def type_attrs_def split: option.split)

text \<open>When reading a parameter attribute panics: an attribute of one of the four kinds that carry a
  type comes without one, or a known attribute of another kind comes with one.\<close>

lemma param_attribute_panics:
  assumes "is_type_attribute api a \<Longrightarrow> rd (type_attribute_value api a) b \<noteq> None"
  shows "ParameterAttribute_from_llvm_ref api (AttributesData_create api) rd a b = None \<longleftrightarrow>
     (\<exists>n. lookup_param_attr (AttributesData_create api) (enum_attribute_kind api a) = Some n \<and>
        (if is_enum_attribute api a then n \<in> type_attrs
         else \<not> is_string_attribute api a \<and> is_type_attribute api a \<and> n \<notin> type_attrs))"
proof -
  let ?l = "lookup_param_attr (AttributesData_create api) (enum_attribute_kind api a)"
  have enum: "enum_param_attr n v = None \<longleftrightarrow> n \<in> type_attrs" if "?l = Some n" for n v
  proof -
    have "n \<in> set param_attrs"
      using that by (auto simp: lookup_param_attr_def AttributesData_create_def dest: name_table_Some)
    then show ?thesis using param_attr_covered [of v] by (simp only: list_all_iff type_attrs_def)
  qed
  show ?thesis
  proof (cases "is_enum_attribute api a")
    case True
    then show ?thesis
      using enum by (cases ?l) (simp_all add: ParameterAttribute_from_llvm_ref_def)
  next
    case False
    then show ?thesis
      using assms type_param_attr_None [of ?l]
      by (auto simp: ParameterAttribute_from_llvm_ref_def split: option.splits)
  qed
qed

end
