(* ===== verification/LLVM_Api.thy ===== *)
theory LLVM_Api
  imports LLVM_Conversions "HOL-Library.Monad_Syntax"
begin

text \<open>
  The LLVM-C library as the translation of modules sees it, the iterators of
  \<open>llvm-ir-patched/src/iterators.rs\<close>, debug locations (\<open>debugloc.rs\<close>) and the two contexts of the
  translation (\<open>module.rs\<close>, \<open>function.rs\<close>), for LLVM 19.

  Every function of the library that the code calls is a field of the record \<open>llvm_api\<close>, named after
  it. A null pointer is None; a count and an array that are fetched together are one list; text is
  handed over decoded. \<open>LLVMValueKind\<close> has the kinds that the source names and one for all others. A
  panic of the translation is None, and so is a recursion deeper than the stack \<open>depth\<close>.
\<close>

section \<open>The library\<close>

type_synonym LLVMValueRef = nat
type_synonym LLVMBasicBlockRef = nat
type_synonym LLVMAttributeRef = nat

datatype (plugins only: code size) LLVMOpcode =
    LLVMRet | LLVMBr | LLVMSwitch | LLVMIndirectBr | LLVMInvoke | LLVMUnreachable | LLVMCallBr
  | LLVMFNeg | LLVMAdd | LLVMFAdd | LLVMSub | LLVMFSub | LLVMMul | LLVMFMul | LLVMUDiv | LLVMSDiv
  | LLVMFDiv | LLVMURem | LLVMSRem | LLVMFRem | LLVMShl | LLVMLShr | LLVMAShr | LLVMAnd | LLVMOr
  | LLVMXor | LLVMAlloca | LLVMLoad | LLVMStore | LLVMGetElementPtr | LLVMTrunc | LLVMZExt
  | LLVMSExt | LLVMFPToUI | LLVMFPToSI | LLVMUIToFP | LLVMSIToFP | LLVMFPTrunc | LLVMFPExt
  | LLVMPtrToInt | LLVMIntToPtr | LLVMBitCast | LLVMAddrSpaceCast | LLVMICmp | LLVMFCmp | LLVMPHI
  | LLVMCall | LLVMSelect | LLVMVAArg | LLVMExtractElement | LLVMInsertElement
  | LLVMShuffleVector | LLVMExtractValue | LLVMInsertValue | LLVMFreeze | LLVMFence
  | LLVMAtomicCmpXchg | LLVMAtomicRMW | LLVMResume | LLVMLandingPad | LLVMCleanupRet
  | LLVMCatchRet | LLVMCatchPad | LLVMCleanupPad | LLVMCatchSwitch

datatype (plugins only: code size) LLVMValueKind =
    LLVMConstantIntValueKind | LLVMConstantFPValueKind | LLVMConstantStructValueKind
  | LLVMConstantArrayValueKind | LLVMConstantVectorValueKind | LLVMConstantDataArrayValueKind
  | LLVMConstantDataVectorValueKind | LLVMConstantPointerNullValueKind
  | LLVMConstantAggregateZeroValueKind | LLVMUndefValueValueKind | LLVMPoisonValueKind
  | LLVMConstantTokenNoneValueKind | LLVMBlockAddressValueKind | LLVMConstantExprValueKind
  | LLVMConstantPtrAuthValueKind | LLVMMetadataAsValueValueKind | LLVMOtherValueKind

record value_api =
  types_api :: llvm_type_api
  attrs_api :: attribute_api
  call_conv_number :: "string \<Rightarrow> u32"
  get_value_name :: "LLVMValueRef \<Rightarrow> string"
  LLVMTypeOf :: "LLVMValueRef \<Rightarrow> LLVMTypeRef"
  LLVMGetValueKind :: "LLVMValueRef \<Rightarrow> LLVMValueKind"
  LLVMIsAConstant :: "LLVMValueRef \<Rightarrow> bool"
  LLVMIsAGlobalValue :: "LLVMValueRef \<Rightarrow> bool"
  LLVMGetNumOperands :: "LLVMValueRef \<Rightarrow> nat"
  LLVMGetOperand :: "LLVMValueRef \<Rightarrow> u32 \<Rightarrow> LLVMValueRef"
  get_debugloc_filename :: "LLVMValueRef \<Rightarrow> string option"
  get_debugloc_directory :: "LLVMValueRef \<Rightarrow> string option"
  LLVMGetDebugLocLine :: "LLVMValueRef \<Rightarrow> u32"
  LLVMGetDebugLocColumn :: "LLVMValueRef \<Rightarrow> u32"

record constant_api = value_api +
  LLVMConstIntGetZExtValue :: "LLVMValueRef \<Rightarrow> u64"
  LLVMConstRealGetDouble :: "LLVMValueRef \<Rightarrow> 64 word"
  LLVMGetAggregateElement :: "LLVMValueRef \<Rightarrow> u32 \<Rightarrow> LLVMValueRef"
  LLVMGetConstOpcode :: "LLVMValueRef \<Rightarrow> LLVMOpcode"
  LLVMGetConstantPtrAuthPointer :: "LLVMValueRef \<Rightarrow> LLVMValueRef"
  LLVMGetConstantPtrAuthKey :: "LLVMValueRef \<Rightarrow> LLVMValueRef"
  LLVMGetConstantPtrAuthDiscriminator :: "LLVMValueRef \<Rightarrow> LLVMValueRef"
  LLVMGetConstantPtrAuthAddrDiscriminator :: "LLVMValueRef \<Rightarrow> LLVMValueRef"
  LLVMGlobalGetValueType :: "LLVMValueRef \<Rightarrow> LLVMTypeRef"
  LLVMIsInBounds :: "LLVMValueRef \<Rightarrow> bool"

record inst_api = constant_api +
  LLVMGetInstructionOpcode :: "LLVMValueRef \<Rightarrow> LLVMOpcode"
  LLVMGetNUW :: "LLVMValueRef \<Rightarrow> bool"
  LLVMGetNSW :: "LLVMValueRef \<Rightarrow> bool"
  LLVMGetExact :: "LLVMValueRef \<Rightarrow> bool"
  LLVMGetNumMaskElements :: "LLVMValueRef \<Rightarrow> u32"
  LLVMGetUndefMaskElem :: "32 word"
  LLVMGetMaskValue :: "LLVMValueRef \<Rightarrow> u32 \<Rightarrow> 32 word"
  LLVMGetIndices :: "LLVMValueRef \<Rightarrow> u32 list"
  LLVMGetNumIndices :: "LLVMValueRef \<Rightarrow> nat"
  LLVMGetAllocatedType :: "LLVMValueRef \<Rightarrow> LLVMTypeRef"
  LLVMGetAlignment :: "LLVMValueRef \<Rightarrow> u32"
  LLVMGetVolatile :: "LLVMValueRef \<Rightarrow> bool"
  LLVMGetOrdering :: "LLVMValueRef \<Rightarrow> LLVMAtomicOrdering"
  LLVMIsAtomicSingleThread :: "LLVMValueRef \<Rightarrow> bool"
  LLVMGetCmpXchgSuccessOrdering :: "LLVMValueRef \<Rightarrow> LLVMAtomicOrdering"
  LLVMGetCmpXchgFailureOrdering :: "LLVMValueRef \<Rightarrow> LLVMAtomicOrdering"
  LLVMGetWeak :: "LLVMValueRef \<Rightarrow> bool"
  LLVMGetAtomicRMWBinOp :: "LLVMValueRef \<Rightarrow> LLVMAtomicRMWBinOp"
  LLVMGetGEPSourceElementType :: "LLVMValueRef \<Rightarrow> LLVMTypeRef"
  LLVMGetICmpPredicate :: "LLVMValueRef \<Rightarrow> LLVMIntPredicate"
  LLVMGetFCmpPredicate :: "LLVMValueRef \<Rightarrow> LLVMRealPredicate"
  LLVMCountIncoming :: "LLVMValueRef \<Rightarrow> nat"
  LLVMGetIncomingValue :: "LLVMValueRef \<Rightarrow> u32 \<Rightarrow> LLVMValueRef"
  LLVMGetIncomingBlock :: "LLVMValueRef \<Rightarrow> u32 \<Rightarrow> LLVMBasicBlockRef"
  LLVMGetCalledValue :: "LLVMValueRef \<Rightarrow> LLVMValueRef"
  LLVMIsAInlineAsm :: "LLVMValueRef \<Rightarrow> bool"
  LLVMGetInlineAsmAsmString :: "LLVMValueRef \<Rightarrow> string option"
  LLVMGetCalledFunctionType :: "LLVMValueRef \<Rightarrow> LLVMTypeRef"
  LLVMGetNumArgOperands :: "LLVMValueRef \<Rightarrow> nat"
  LLVMGetArgOperand :: "LLVMValueRef \<Rightarrow> u32 \<Rightarrow> LLVMValueRef"
  LLVMAttributeReturnIndex :: u32
  LLVMAttributeFunctionIndex :: u32
  LLVMGetCallSiteAttributes :: "LLVMValueRef \<Rightarrow> u32 \<Rightarrow> LLVMAttributeRef list"
  LLVMGetInstructionCallConv :: "LLVMValueRef \<Rightarrow> u32"
  LLVMIsTailCall :: "LLVMValueRef \<Rightarrow> bool"
  LLVMGetNumClauses :: "LLVMValueRef \<Rightarrow> nat"
  LLVMGetClause :: "LLVMValueRef \<Rightarrow> u32 \<Rightarrow> LLVMValueRef"
  LLVMIsCleanup :: "LLVMValueRef \<Rightarrow> bool"
  LLVMGetParentCatchSwitch :: "LLVMValueRef \<Rightarrow> LLVMValueRef"
  LLVMValueIsBasicBlock :: "LLVMValueRef \<Rightarrow> bool"
  LLVMValueAsBasicBlock :: "LLVMValueRef \<Rightarrow> LLVMBasicBlockRef"
  LLVMGetNumSuccessors :: "LLVMValueRef \<Rightarrow> nat"
  LLVMGetSuccessor :: "LLVMValueRef \<Rightarrow> u32 \<Rightarrow> LLVMBasicBlockRef"
  LLVMGetSwitchDefaultDest :: "LLVMValueRef \<Rightarrow> LLVMBasicBlockRef"
  LLVMGetNormalDest :: "LLVMValueRef \<Rightarrow> LLVMBasicBlockRef"
  LLVMGetUnwindDest :: "LLVMValueRef \<Rightarrow> LLVMBasicBlockRef option"
  LLVMGetHandlers :: "LLVMValueRef \<Rightarrow> LLVMBasicBlockRef list"

record function_api = inst_api +
  LLVMGetFirstParam :: "LLVMValueRef \<Rightarrow> LLVMValueRef option"
  LLVMGetNextParam :: "LLVMValueRef \<Rightarrow> LLVMValueRef option"
  LLVMGetFirstBasicBlock :: "LLVMValueRef \<Rightarrow> LLVMBasicBlockRef option"
  LLVMGetNextBasicBlock :: "LLVMBasicBlockRef \<Rightarrow> LLVMBasicBlockRef option"
  LLVMGetFirstInstruction :: "LLVMBasicBlockRef \<Rightarrow> LLVMValueRef option"
  LLVMGetNextInstruction :: "LLVMValueRef \<Rightarrow> LLVMValueRef option"
  get_bb_name :: "LLVMBasicBlockRef \<Rightarrow> string"
  LLVMGetBasicBlockTerminator :: "LLVMBasicBlockRef \<Rightarrow> LLVMValueRef"
  LLVMIsAFunction :: "LLVMValueRef \<Rightarrow> bool"
  LLVMGetAttributesAtIndex :: "LLVMValueRef \<Rightarrow> u32 \<Rightarrow> LLVMAttributeRef list"
  LLVMGetLinkage :: "LLVMValueRef \<Rightarrow> LLVMLinkage"
  LLVMGetVisibility :: "LLVMValueRef \<Rightarrow> LLVMVisibility"
  LLVMGetDLLStorageClass :: "LLVMValueRef \<Rightarrow> LLVMDLLStorageClass"
  LLVMGetFunctionCallConv :: "LLVMValueRef \<Rightarrow> u32"
  get_gc :: "LLVMValueRef \<Rightarrow> string option"
  get_section :: "LLVMValueRef \<Rightarrow> string option"
  LLVMGetComdat :: "LLVMValueRef \<Rightarrow> LLVMComdatSelectionKind option"
  LLVMGetPersonalityFn :: "LLVMValueRef \<Rightarrow> LLVMValueRef option"

record llvm_api = function_api +
  LLVMGetFirstFunction :: "LLVMValueRef option"
  LLVMGetNextFunction :: "LLVMValueRef \<Rightarrow> LLVMValueRef option"
  LLVMGetFirstGlobal :: "LLVMValueRef option"
  LLVMGetNextGlobal :: "LLVMValueRef \<Rightarrow> LLVMValueRef option"
  LLVMGetFirstGlobalAlias :: "LLVMValueRef option"
  LLVMGetNextGlobalAlias :: "LLVMValueRef \<Rightarrow> LLVMValueRef option"
  LLVMGetFirstGlobalIFunc :: "LLVMValueRef option"
  LLVMGetNextGlobalIFunc :: "LLVMValueRef \<Rightarrow> LLVMValueRef option"
  LLVMIsDeclaration :: "LLVMValueRef \<Rightarrow> bool"
  LLVMIsGlobalConstant :: "LLVMValueRef \<Rightarrow> bool"
  LLVMGetThreadLocalMode :: "LLVMValueRef \<Rightarrow> LLVMThreadLocalMode"
  LLVMGetUnnamedAddress :: "LLVMValueRef \<Rightarrow> LLVMUnnamedAddr"
  LLVMGetInitializer :: "LLVMValueRef \<Rightarrow> LLVMValueRef option"
  LLVMAliasGetAliasee :: "LLVMValueRef \<Rightarrow> LLVMValueRef"
  LLVMGetGlobalIFuncResolver :: "LLVMValueRef \<Rightarrow> LLVMValueRef"
  get_module_identifier :: string
  get_source_file_name :: string
  get_data_layout_str :: string
  get_target :: "string option"
  get_module_inline_asm :: string

section \<open>Iterators\<close>

text \<open>\<open>FunctionIterator\<close> and the others: follow the links until a null pointer. An endless list is None.\<close>

partial_function (option) iterate :: "(nat \<Rightarrow> nat option) \<Rightarrow> nat option \<Rightarrow> nat list option" where
  "iterate next_of current =
     (case current of
        None \<Rightarrow> Some []
      | Some rval \<Rightarrow> Option.bind (iterate next_of (next_of rval)) (\<lambda>rest. Some (rval # rest)))"

declare iterate.simps [code]

fun all_but_last :: "'a list \<Rightarrow> 'a list" where
  "all_but_last [] = []"
| "all_but_last [x] = []"
| "all_but_last (x # y # rest) = x # all_but_last (y # rest)"

definition is_defined :: "llvm_api \<Rightarrow> LLVMValueRef \<Rightarrow> bool" where
  "is_defined api f \<longleftrightarrow> \<not> LLVMIsDeclaration api f"

definition get_defined_functions :: "llvm_api \<Rightarrow> LLVMValueRef list option" where
  "get_defined_functions api =
     map_option (filter (is_defined api)) (iterate (LLVMGetNextFunction api) (LLVMGetFirstFunction api))"

definition get_declared_functions :: "llvm_api \<Rightarrow> LLVMValueRef list option" where
  "get_declared_functions api =
     map_option (filter (\<lambda>f. \<not> is_defined api f)) (iterate (LLVMGetNextFunction api) (LLVMGetFirstFunction api))"

definition get_globals :: "llvm_api \<Rightarrow> LLVMValueRef list option" where
  "get_globals api = iterate (LLVMGetNextGlobal api) (LLVMGetFirstGlobal api)"

definition get_global_aliases :: "llvm_api \<Rightarrow> LLVMValueRef list option" where
  "get_global_aliases api = iterate (LLVMGetNextGlobalAlias api) (LLVMGetFirstGlobalAlias api)"

definition get_global_ifuncs :: "llvm_api \<Rightarrow> LLVMValueRef list option" where
  "get_global_ifuncs api = iterate (LLVMGetNextGlobalIFunc api) (LLVMGetFirstGlobalIFunc api)"

definition get_parameters :: "'a function_api_scheme \<Rightarrow> LLVMValueRef \<Rightarrow> LLVMValueRef list option" where
  "get_parameters api func = iterate (LLVMGetNextParam api) (LLVMGetFirstParam api func)"

definition get_basic_blocks :: "'a function_api_scheme \<Rightarrow> LLVMValueRef \<Rightarrow> LLVMBasicBlockRef list option" where
  "get_basic_blocks api func = iterate (LLVMGetNextBasicBlock api) (LLVMGetFirstBasicBlock api func)"

definition get_instructions :: "'a function_api_scheme \<Rightarrow> LLVMBasicBlockRef \<Rightarrow> LLVMValueRef list option" where
  "get_instructions api bb = iterate (LLVMGetNextInstruction api) (LLVMGetFirstInstruction api bb)"

text \<open>\<open>linked next_of current xs\<close>: the links from \<open>current\<close> lead through \<open>xs\<close> to a null pointer.\<close>

fun linked :: "(nat \<Rightarrow> nat option) \<Rightarrow> nat option \<Rightarrow> nat list \<Rightarrow> bool" where
  "linked next_of current [] \<longleftrightarrow> current = None"
| "linked next_of current (x # xs) \<longleftrightarrow> current = Some x \<and> linked next_of (next_of x) xs"

lemma iterate_linked: "linked next_of current xs \<Longrightarrow> iterate next_of current = Some xs"
  by (induction xs arbitrary: current) (simp_all add: iterate.simps)

lemma iterate_SomeD: "iterate next_of current = Some xs \<Longrightarrow> linked next_of current xs"
proof (induction xs arbitrary: current)
  case Nil
  then show ?case by (subst (asm) iterate.simps) (auto split: option.splits bind_splits)
next
  case (Cons x xs)
  then show ?case by (subst (asm) iterate.simps) (auto split: option.splits bind_splits)
qed

lemma iterate_iff: "iterate next_of current = Some xs \<longleftrightarrow> linked next_of current xs"
  using iterate_linked iterate_SomeD by blast

lemma all_but_last_eq [simp]: "all_but_last xs = butlast xs"
  by (induction xs rule: all_but_last.induct) simp_all

section \<open>Debug locations\<close>

definition from_llvm_no_col :: "'a value_api_scheme \<Rightarrow> LLVMValueRef \<Rightarrow> DebugLoc option" where
  "from_llvm_no_col api v =
     (case get_debugloc_filename api v of
        None \<Rightarrow> None
      | Some fname \<Rightarrow>
          Some \<lparr>line = LLVMGetDebugLocLine api v, col = None, filename = fname,
            directory = get_debugloc_directory api v\<rparr>)"

definition from_llvm_with_col :: "'a value_api_scheme \<Rightarrow> LLVMValueRef \<Rightarrow> DebugLoc option" where
  "from_llvm_with_col api v =
     (case from_llvm_no_col api v of
        Some d \<Rightarrow> Some (d\<lparr>col := Some (LLVMGetDebugLocColumn api v)\<rparr>)
      | None \<Rightarrow> None)"

section \<open>Contexts\<close>

record ModuleContext =
  ctx_types :: TypesBuilder
  attrsdata :: AttributesData
  constants :: "LLVMValueRef \<rightharpoonup> ConstantRef"
  global_names :: "LLVMValueRef \<rightharpoonup> Name"

definition ModuleContext_new :: "'a value_api_scheme \<Rightarrow> (LLVMValueRef \<rightharpoonup> Name) \<Rightarrow> ModuleContext" where
  "ModuleContext_new api names =
     \<lparr>ctx_types = TypesBuilder_new, attrsdata = AttributesData_create (attrs_api api),
      constants = Map.empty, global_names = names\<rparr>"

record FunctionContext =
  bb_names :: "LLVMBasicBlockRef \<rightharpoonup> Name"
  val_names :: "LLVMValueRef \<rightharpoonup> Name"
  ctr :: usize

text \<open>Reading in sequence: \<open>map\<close> over an iterator with a closure that changes the context.\<close>

fun traverse :: "('a \<Rightarrow> 's \<Rightarrow> ('b \<times> 's) option) \<Rightarrow> 'a list \<Rightarrow> 's \<Rightarrow> ('b list \<times> 's) option" where
  "traverse f [] s = Some ([], s)"
| "traverse f (x # xs) s =
     do { (y, s) \<leftarrow> f x s;
          (ys, s) \<leftarrow> traverse f xs s;
          Some (y # ys, s) }"

definition assert :: "bool \<Rightarrow> unit option" where
  "assert b = (if b then Some () else None)"

definition read_type ::
  "'a value_api_scheme \<Rightarrow> nat \<Rightarrow> LLVMTypeRef \<Rightarrow> ModuleContext \<Rightarrow> (TypeRef \<times> ModuleContext) option" where
  "read_type api depth ty ctx =
     do { (t, b) \<leftarrow> type_from_llvm_ref (types_api api) depth ty (ctx_types ctx);
          Some (t, ctx\<lparr>ctx_types := b\<rparr>) }"

text \<open>The name of a value in the second pass over a function: \<open>Name::name_or_num\<close> on its counter.\<close>

definition new_name :: "'a value_api_scheme \<Rightarrow> LLVMValueRef \<Rightarrow> FunctionContext \<Rightarrow> Name \<times> FunctionContext" where
  "new_name api v func_ctx =
     (let (nm, c) = name_or_num (get_value_name api v) (ctr func_ctx) in (nm, func_ctx\<lparr>ctr := c\<rparr>))"

lemma assert_Some [simp]: "assert b = Some u \<longleftrightarrow> b"
  by (simp add: assert_def)

lemma assert_None [simp]: "assert b = None \<longleftrightarrow> \<not> b"
  by (simp add: assert_def)

end
