(* ===== verification/Constant_Reader.thy ===== *)
theory Constant_Reader
  imports LLVM_Api
begin

unbundle bit_operations_syntax

text \<open>
  The translation of constants and operands from LLVM: \<open>Constant::from_llvm_ref\<close> and its helpers in
  \<open>constant.rs\<close> and \<open>Operand::from_llvm_ref\<close> in \<open>operand.rs\<close>, for LLVM 19.

  Constants are memoised in the context under their handles. The code recurses through the handles
  of the components: the model takes the depth of the stack, and None is a panic or a stack overflow.
  Floating-point values are bit patterns, and the cast of a double to a single is written out.
\<close>

section \<open>The cast from f64 to f32\<close>

fun bit_count :: "nat \<Rightarrow> nat" where
  "bit_count n = (if n = 0 then 0 else Suc (bit_count (n div 2)))"

declare bit_count.simps [simp del]

definition round_half_even :: "nat \<Rightarrow> nat \<Rightarrow> nat" where
  "round_half_even m s =
     (let q = m div 2 ^ s; r = m mod 2 ^ s
      in if 2 * r > 2 ^ s \<or> 2 * r = 2 ^ s \<and> odd q then q + 1 else q)"

text \<open>The magnitude \<open>m * 2 ^ x\<close> as the bits of a single: \<open>q\<close> is the exponent of the last place, and a carry
  out of the significand runs into the exponent.\<close>

definition f32_magnitude :: "nat \<Rightarrow> int \<Rightarrow> nat" where
  "f32_magnitude m x =
     (let q = max (x + int (bit_count m) - 24) (-149);
          r = (if q \<le> x then m * 2 ^ nat (x - q) else round_half_even m (nat (q - x)))
      in min (nat (q + 149) * 2 ^ 23 + r) (255 * 2 ^ 23))"

definition f64_to_f32 :: "64 word \<Rightarrow> 32 word" where
  "f64_to_f32 w =
     (let sign = (if bit w 63 then 0x80000000 else 0 :: 32 word);
          e = unat (drop_bit 52 w AND 0x7FF); f = unat (w AND mask 52)
      in sign OR
         (if e = 0x7FF then
            (if f = 0 then 0x7F800000 else 0x7FC00000 OR of_nat (f div 2 ^ 29))
          else if e = 0 \<and> f = 0 then 0
          else if e = 0 then of_nat (f32_magnitude f (-1074))
          else of_nat (f32_magnitude (f + 2 ^ 52) (int e - 1075))))"

section \<open>Constants\<close>

type_synonym constant_reader = "LLVMValueRef \<Rightarrow> ModuleContext \<Rightarrow> (ConstantRef \<times> ModuleContext) option"

text \<open>A constant that is its type only.\<close>

definition typed_constant ::
  "(TypeRef \<Rightarrow> Constant) \<Rightarrow> 'a constant_api_scheme \<Rightarrow> nat \<Rightarrow> constant_reader" where
  "typed_constant mk api depth c ctx =
     do { (ty, ctx) \<leftarrow> read_type api depth (LLVMTypeOf api c) ctx;
          Some (mk ty, ctx) }"

definition int_constant :: "'a constant_api_scheme \<Rightarrow> nat \<Rightarrow> constant_reader" where
  "int_constant api depth c ctx =
     do { (ty, ctx) \<leftarrow> read_type api depth (LLVMTypeOf api c) ctx;
          case ty of
            IntegerType bits \<Rightarrow> Some (Int_c bits (LLVMConstIntGetZExtValue api c), ctx)
          | _ \<Rightarrow> None }"

definition float_value :: "FPType \<Rightarrow> 64 word \<Rightarrow> Float" where
  "float_value fpt d =
     (case fpt of
        Half \<Rightarrow> Float_Half
      | BFloat \<Rightarrow> Float_BFloat
      | Single \<Rightarrow> Float_Single (f64_to_f32 d)
      | Double \<Rightarrow> Float_Double d
      | FP128 \<Rightarrow> Float_Quadruple
      | X86_FP80 \<Rightarrow> Float_X86_FP80
      | PPC_FP128 \<Rightarrow> Float_PPC_FP128)"

definition fp_constant :: "'a constant_api_scheme \<Rightarrow> nat \<Rightarrow> constant_reader" where
  "fp_constant api depth c ctx =
     do { (ty, ctx) \<leftarrow> read_type api depth (LLVMTypeOf api c) ctx;
          case ty of
            FPType fpt \<Rightarrow> Some (Float_c (float_value fpt (LLVMConstRealGetDouble api c)), ctx)
          | _ \<Rightarrow> None }"

definition struct_shape :: "TypesBuilder \<Rightarrow> TypeRef \<Rightarrow> (nat \<times> bool) option" where
  "struct_shape types ty =
     (case ty of
        StructType element_types is_packed \<Rightarrow> Some (length element_types, is_packed)
      | NamedStructType s \<Rightarrow>
          (case tb_named_struct_def s types of
             Some (Defined (StructType element_types is_packed)) \<Rightarrow> Some (length element_types, is_packed)
           | _ \<Rightarrow> None)
      | _ \<Rightarrow> None)"

definition operand_refs :: "'a value_api_scheme \<Rightarrow> LLVMValueRef \<Rightarrow> nat \<Rightarrow> LLVMValueRef list" where
  "operand_refs api c n = map (\<lambda>i. LLVMGetOperand api c (of_nat i)) [0..<n]"

definition struct_constant :: "'a constant_api_scheme \<Rightarrow> nat \<Rightarrow> constant_reader \<Rightarrow> constant_reader" where
  "struct_constant api depth rd c ctx =
     do { (ty, ctx) \<leftarrow> read_type api depth (LLVMTypeOf api c) ctx;
          (n, is_packed) \<leftarrow> struct_shape (ctx_types ctx) ty;
          (values, ctx) \<leftarrow> traverse rd (operand_refs api c n) ctx;
          Some (Struct_c None values is_packed, ctx) }"

text \<open>Arrays and vectors; \<open>elem\<close> fetches an element, by \<open>LLVMGetOperand\<close> or \<open>LLVMGetAggregateElement\<close>.\<close>

definition array_constant ::
  "'a constant_api_scheme \<Rightarrow> nat \<Rightarrow> constant_reader \<Rightarrow> (LLVMValueRef \<Rightarrow> u32 \<Rightarrow> LLVMValueRef) \<Rightarrow> constant_reader" where
  "array_constant api depth rd elem c ctx =
     do { (ty, ctx) \<leftarrow> read_type api depth (LLVMTypeOf api c) ctx;
          case ty of
            ArrayType element_type count \<Rightarrow>
              do { (elements, ctx) \<leftarrow> traverse rd (map (\<lambda>i. elem c (of_nat i)) [0..<unat count]) ctx;
                   Some (Array_c element_type elements, ctx) }
          | _ \<Rightarrow> None }"

definition vector_constant :: "'a constant_api_scheme \<Rightarrow> constant_reader \<Rightarrow> constant_reader" where
  "vector_constant api rd c ctx =
     do { (elements, ctx) \<leftarrow> traverse rd (operand_refs api c (LLVMGetNumOperands api c)) ctx;
          Some (Vector_c elements, ctx) }"

definition data_vector_constant :: "'a constant_api_scheme \<Rightarrow> nat \<Rightarrow> constant_reader \<Rightarrow> constant_reader" where
  "data_vector_constant api depth rd c ctx =
     do { (ty, ctx) \<leftarrow> read_type api depth (LLVMTypeOf api c) ctx;
          case ty of
            VectorType _ count _ \<Rightarrow>
              do { (elements, ctx) \<leftarrow>
                     traverse rd (map (\<lambda>i. LLVMGetAggregateElement api c (of_nat i)) [0..<unat count]) ctx;
                   Some (Vector_c elements, ctx) }
          | _ \<Rightarrow> None }"

definition ptr_auth_constant :: "'a constant_api_scheme \<Rightarrow> constant_reader \<Rightarrow> constant_reader" where
  "ptr_auth_constant api rd c ctx =
     do { (ptr, ctx) \<leftarrow> rd (LLVMGetConstantPtrAuthPointer api c) ctx;
          (key, ctx) \<leftarrow> rd (LLVMGetConstantPtrAuthKey api c) ctx;
          (disc, ctx) \<leftarrow> rd (LLVMGetConstantPtrAuthDiscriminator api c) ctx;
          (addr_disc, ctx) \<leftarrow> rd (LLVMGetConstantPtrAuthAddrDiscriminator api c) ctx;
          Some (PtrAuth_c ptr key disc addr_disc, ctx) }"

definition global_constant :: "'a constant_api_scheme \<Rightarrow> nat \<Rightarrow> constant_reader" where
  "global_constant api depth c ctx =
     do { name \<leftarrow> global_names ctx c;
          (ty, ctx) \<leftarrow> read_type api depth (LLVMGlobalGetValueType api c) ctx;
          Some (GlobalReference_c name ty, ctx) }"

section \<open>Constant expressions\<close>

definition binop_constant ::
  "(Constant \<Rightarrow> Constant \<Rightarrow> Constant) \<Rightarrow> 'a constant_api_scheme \<Rightarrow> constant_reader \<Rightarrow> constant_reader" where
  "binop_constant mk api rd c ctx =
     do { assert (LLVMGetNumOperands api c = 2);
          (a, ctx) \<leftarrow> rd (LLVMGetOperand api c 0) ctx;
          (b, ctx) \<leftarrow> rd (LLVMGetOperand api c 1) ctx;
          Some (mk a b, ctx) }"

definition insert_element_constant :: "'a constant_api_scheme \<Rightarrow> constant_reader \<Rightarrow> constant_reader" where
  "insert_element_constant api rd c ctx =
     do { assert (LLVMGetNumOperands api c = 3);
          (vector, ctx) \<leftarrow> rd (LLVMGetOperand api c 0) ctx;
          (element, ctx) \<leftarrow> rd (LLVMGetOperand api c 1) ctx;
          (index, ctx) \<leftarrow> rd (LLVMGetOperand api c 2) ctx;
          Some (InsertElement_c vector element index, ctx) }"

text \<open>The subtraction of a count without operands overflows.\<close>

text \<open>\<open>LLVMGetNumOperands(expr) as u32 - 1\<close>, which wraps around.\<close>

definition num_indices :: "nat \<Rightarrow> nat" where
  "num_indices n = unat (of_nat n - 1 :: u32)"

definition gep_constant :: "'a constant_api_scheme \<Rightarrow> constant_reader \<Rightarrow> constant_reader" where
  "gep_constant api rd c ctx =
     do { (address, ctx) \<leftarrow> rd (LLVMGetOperand api c 0) ctx;
          (indices, ctx) \<leftarrow>
            traverse rd (map (\<lambda>i. LLVMGetOperand api c (of_nat i)) [1..<Suc (num_indices (LLVMGetNumOperands api c))]) ctx;
          Some (GetElementPtr_c address indices (LLVMIsInBounds api c), ctx) }"

definition cast_constant ::
  "(Constant \<Rightarrow> TypeRef \<Rightarrow> Constant) \<Rightarrow> 'a constant_api_scheme \<Rightarrow> nat \<Rightarrow> constant_reader \<Rightarrow> constant_reader" where
  "cast_constant mk api depth rd c ctx =
     do { assert (LLVMGetNumOperands api c = 1);
          (a, ctx) \<leftarrow> rd (LLVMGetOperand api c 0) ctx;
          (ty, ctx) \<leftarrow> read_type api depth (LLVMTypeOf api c) ctx;
          Some (mk a ty, ctx) }"

text \<open>A shuffle of constants panics (its mask cannot be read), as do the operations that LLVM 19 has no
  constant expressions for.\<close>

definition constant_expr :: "'a constant_api_scheme \<Rightarrow> nat \<Rightarrow> constant_reader \<Rightarrow> constant_reader" where
  "constant_expr api depth rd c ctx =
     (case LLVMGetConstOpcode api c of
        LLVMAdd \<Rightarrow> binop_constant Add_c api rd c ctx
      | LLVMSub \<Rightarrow> binop_constant Sub_c api rd c ctx
      | LLVMMul \<Rightarrow> binop_constant Mul_c api rd c ctx
      | LLVMXor \<Rightarrow> binop_constant Xor_c api rd c ctx
      | LLVMExtractElement \<Rightarrow> binop_constant ExtractElement_c api rd c ctx
      | LLVMInsertElement \<Rightarrow> insert_element_constant api rd c ctx
      | LLVMGetElementPtr \<Rightarrow> gep_constant api rd c ctx
      | LLVMTrunc \<Rightarrow> cast_constant Trunc_c api depth rd c ctx
      | LLVMPtrToInt \<Rightarrow> cast_constant PtrToInt_c api depth rd c ctx
      | LLVMIntToPtr \<Rightarrow> cast_constant IntToPtr_c api depth rd c ctx
      | LLVMBitCast \<Rightarrow> cast_constant BitCast_c api depth rd c ctx
      | LLVMAddrSpaceCast \<Rightarrow> cast_constant AddrSpaceCast_c api depth rd c ctx
      | _ \<Rightarrow> None)"

section \<open>The reader\<close>

definition parse_from_llvm_ref :: "'a constant_api_scheme \<Rightarrow> nat \<Rightarrow> constant_reader \<Rightarrow> constant_reader" where
  "parse_from_llvm_ref api depth rd c ctx =
     (if \<not> LLVMIsAConstant api c then None
      else
        case LLVMGetValueKind api c of
          LLVMConstantIntValueKind \<Rightarrow> int_constant api depth c ctx
        | LLVMConstantFPValueKind \<Rightarrow> fp_constant api depth c ctx
        | LLVMConstantStructValueKind \<Rightarrow> struct_constant api depth rd c ctx
        | LLVMConstantArrayValueKind \<Rightarrow> array_constant api depth rd (LLVMGetOperand api) c ctx
        | LLVMConstantVectorValueKind \<Rightarrow> vector_constant api rd c ctx
        | LLVMConstantDataArrayValueKind \<Rightarrow> array_constant api depth rd (LLVMGetAggregateElement api) c ctx
        | LLVMConstantDataVectorValueKind \<Rightarrow> data_vector_constant api depth rd c ctx
        | LLVMConstantPointerNullValueKind \<Rightarrow> typed_constant Null_c api depth c ctx
        | LLVMConstantAggregateZeroValueKind \<Rightarrow> typed_constant AggregateZero_c api depth c ctx
        | LLVMUndefValueValueKind \<Rightarrow> typed_constant Undef_c api depth c ctx
        | LLVMPoisonValueKind \<Rightarrow> typed_constant Poison_c api depth c ctx
        | LLVMConstantTokenNoneValueKind \<Rightarrow> Some (TokenNone_c, ctx)
        | LLVMBlockAddressValueKind \<Rightarrow> Some (BlockAddress_c, ctx)
        | LLVMConstantExprValueKind \<Rightarrow> constant_expr api depth rd c ctx
        | LLVMConstantPtrAuthValueKind \<Rightarrow> ptr_auth_constant api rd c ctx
        | _ \<Rightarrow> if LLVMIsAGlobalValue api c then global_constant api depth c ctx else None)"

primrec read_constant :: "'a constant_api_scheme \<Rightarrow> nat \<Rightarrow> nat \<Rightarrow> constant_reader" where
  "read_constant api depth 0 = (\<lambda>c ctx. None)"
| "read_constant api depth (Suc n) = (\<lambda>c ctx.
     case constants ctx c of
       Some constantref \<Rightarrow> Some (constantref, ctx)
     | None \<Rightarrow>
         do { (parsed, ctx) \<leftarrow> parse_from_llvm_ref api depth (read_constant api depth n) c ctx;
              assert (constants ctx c = None);
              Some (parsed, ctx\<lparr>constants := (constants ctx)(c \<mapsto> parsed)\<rparr>) })"

definition Constant_from_llvm_ref :: "'a constant_api_scheme \<Rightarrow> nat \<Rightarrow> constant_reader" where
  "Constant_from_llvm_ref api depth = read_constant api depth depth"

section \<open>Operands\<close>

definition Operand_from_llvm_ref ::
  "'a constant_api_scheme \<Rightarrow> nat \<Rightarrow> FunctionContext \<Rightarrow> LLVMValueRef \<Rightarrow> ModuleContext \<Rightarrow>
   (Operand \<times> ModuleContext) option" where
  "Operand_from_llvm_ref api depth func_ctx v ctx =
     (if LLVMIsAConstant api v then
        do { (c, ctx) \<leftarrow> Constant_from_llvm_ref api depth v ctx; Some (ConstantOperand c, ctx) }
      else if LLVMGetValueKind api v = LLVMMetadataAsValueValueKind then Some (MetadataOperand, ctx)
      else
        do { name \<leftarrow> val_names func_ctx v;
             (ty, ctx) \<leftarrow> read_type api depth (LLVMTypeOf api v) ctx;
             Some (LocalOperand name ty, ctx) })"

end
