(* ===== verification/Instruction_Reader.thy ===== *)
theory Instruction_Reader
  imports Constant_Reader LLVM_Module
begin

text \<open>
  The translation of instructions from LLVM, for LLVM 19: \<open>Instruction::from_llvm_ref\<close> of
  \<open>instruction.rs\<close> with the constructor of every instruction struct. A macro that makes a constructor
  for several structs is one definition.

  An instruction reader takes the contexts of the module and of the function and returns the struct
  with both contexts; the fields are read in the order of the struct expressions of the source.
\<close>

type_synonym 'i inst_reader =
  "LLVMValueRef \<Rightarrow> ModuleContext \<Rightarrow> FunctionContext \<Rightarrow> ('i \<times> ModuleContext \<times> FunctionContext) option"

definition read_operand ::
  "'a constant_api_scheme \<Rightarrow> nat \<Rightarrow> FunctionContext \<Rightarrow> LLVMValueRef \<Rightarrow> u32 \<Rightarrow> ModuleContext \<Rightarrow>
   (Operand \<times> ModuleContext) option" where
  "read_operand api depth func_ctx inst i ctx =
     Operand_from_llvm_ref api depth func_ctx (LLVMGetOperand api inst i) ctx"

section \<open>Unary and binary operations\<close>

definition unop_from_llvm :: "'a inst_api_scheme \<Rightarrow> nat \<Rightarrow> UnaryInst inst_reader" where
  "unop_from_llvm api depth inst ctx func_ctx =
     do { assert (LLVMGetNumOperands api inst = 1);
          (a, ctx) \<leftarrow> read_operand api depth func_ctx inst 0 ctx;
          let (nm, func_ctx) = new_name api inst func_ctx;
          Some (\<lparr>debugloc = from_llvm_with_col api inst, dest = nm, operand = a\<rparr>, ctx, func_ctx) }"

definition binop_from_llvm :: "'a inst_api_scheme \<Rightarrow> nat \<Rightarrow> BinaryInst inst_reader" where
  "binop_from_llvm api depth inst ctx func_ctx =
     do { assert (LLVMGetNumOperands api inst = 2);
          (a, ctx) \<leftarrow> read_operand api depth func_ctx inst 0 ctx;
          (b, ctx) \<leftarrow> read_operand api depth func_ctx inst 1 ctx;
          let (nm, func_ctx) = new_name api inst func_ctx;
          Some (\<lparr>debugloc = from_llvm_with_col api inst, dest = nm, operand0 = a, operand1 = b\<rparr>, ctx, func_ctx) }"

definition binop_from_llvm_with_nuw_nsw :: "'a inst_api_scheme \<Rightarrow> nat \<Rightarrow> WrapInst inst_reader" where
  "binop_from_llvm_with_nuw_nsw api depth inst ctx func_ctx =
     do { assert (LLVMGetNumOperands api inst = 2);
          (a, ctx) \<leftarrow> read_operand api depth func_ctx inst 0 ctx;
          (b, ctx) \<leftarrow> read_operand api depth func_ctx inst 1 ctx;
          let (nm, func_ctx) = new_name api inst func_ctx;
          Some (\<lparr>debugloc = from_llvm_with_col api inst, dest = nm, operand0 = a, operand1 = b,
                 nuw = LLVMGetNUW api inst, nsw = LLVMGetNSW api inst\<rparr>, ctx, func_ctx) }"

definition binop_from_llvm_with_exact :: "'a inst_api_scheme \<Rightarrow> nat \<Rightarrow> ExactInst inst_reader" where
  "binop_from_llvm_with_exact api depth inst ctx func_ctx =
     do { assert (LLVMGetNumOperands api inst = 2);
          (a, ctx) \<leftarrow> read_operand api depth func_ctx inst 0 ctx;
          (b, ctx) \<leftarrow> read_operand api depth func_ctx inst 1 ctx;
          let (nm, func_ctx) = new_name api inst func_ctx;
          Some (\<lparr>debugloc = from_llvm_with_col api inst, dest = nm, operand0 = a, operand1 = b,
                 exact = LLVMGetExact api inst\<rparr>, ctx, func_ctx) }"

definition typed_unop_from_llvm :: "'a inst_api_scheme \<Rightarrow> nat \<Rightarrow> CastInst inst_reader" where
  "typed_unop_from_llvm api depth inst ctx func_ctx =
     do { assert (LLVMGetNumOperands api inst = 1);
          (a, ctx) \<leftarrow> read_operand api depth func_ctx inst 0 ctx;
          (ty, ctx) \<leftarrow> read_type api depth (LLVMTypeOf api inst) ctx;
          let (nm, func_ctx) = new_name api inst func_ctx;
          Some (\<lparr>debugloc = from_llvm_with_col api inst, dest = nm, operand = a, to_type = ty\<rparr>, ctx, func_ctx) }"

section \<open>Vectors and aggregates\<close>

definition ExtractElement_from_llvm_ref :: "'a inst_api_scheme \<Rightarrow> nat \<Rightarrow> ExtractElement inst_reader" where
  "ExtractElement_from_llvm_ref api depth inst ctx func_ctx =
     do { assert (LLVMGetNumOperands api inst = 2);
          (a, ctx) \<leftarrow> read_operand api depth func_ctx inst 0 ctx;
          (b, ctx) \<leftarrow> read_operand api depth func_ctx inst 1 ctx;
          let (nm, func_ctx) = new_name api inst func_ctx;
          Some (\<lparr>debugloc = from_llvm_with_col api inst, dest = nm, ee_vector = a, ee_index = b\<rparr>, ctx, func_ctx) }"

definition InsertElement_from_llvm_ref :: "'a inst_api_scheme \<Rightarrow> nat \<Rightarrow> InsertElement inst_reader" where
  "InsertElement_from_llvm_ref api depth inst ctx func_ctx =
     do { assert (LLVMGetNumOperands api inst = 3);
          (a, ctx) \<leftarrow> read_operand api depth func_ctx inst 0 ctx;
          (b, ctx) \<leftarrow> read_operand api depth func_ctx inst 1 ctx;
          (c, ctx) \<leftarrow> read_operand api depth func_ctx inst 2 ctx;
          let (nm, func_ctx) = new_name api inst func_ctx;
          Some (\<lparr>debugloc = from_llvm_with_col api inst, dest = nm, ie_vector = a, ie_element = b,
                 ie_index = c\<rparr>, ctx, func_ctx) }"

text \<open>One element of a shuffle mask: the index must fit 32 bits, a defined element must not be negative
  and must be zero for scalable vectors.\<close>

definition mask_element ::
  "'a inst_api_scheme \<Rightarrow> LLVMValueRef \<Rightarrow> bool \<Rightarrow> nat \<Rightarrow> ModuleContext \<Rightarrow> (ConstantRef \<times> ModuleContext) option" where
  "mask_element api inst scalable i ctx =
     do { assert (i < 2 ^ 32);
          let val = LLVMGetMaskValue api inst (of_nat i);
          if val = LLVMGetUndefMaskElem api then
            (let (t, b) = tb_i32 (ctx_types ctx) in Some (Undef_c t, ctx\<lparr>ctx_types := b\<rparr>))
          else
            do { assert (if scalable then val = 0 else sint val \<ge> 0);
                 Some (Int_c 32 (ucast val), ctx) } }"

definition shuffle_mask_from_llvm ::
  "'a inst_api_scheme \<Rightarrow> nat \<Rightarrow> LLVMValueRef \<Rightarrow> ModuleContext \<Rightarrow> (ConstantRef \<times> ModuleContext) option" where
  "shuffle_mask_from_llvm api depth inst ctx =
     do { (ret_ty, ctx) \<leftarrow> read_type api depth (LLVMTypeOf api inst) ctx;
          case ret_ty of
            VectorType _ count scalable \<Rightarrow>
              do { assert ((ucast count :: u32) = LLVMGetNumMaskElements api inst);
                   (elems, ctx) \<leftarrow> traverse (mask_element api inst scalable) [0..<unat count] ctx;
                   Some (Vector_c elems, ctx) }
          | _ \<Rightarrow> None }"

definition ShuffleVector_from_llvm_ref :: "'a inst_api_scheme \<Rightarrow> nat \<Rightarrow> ShuffleVector inst_reader" where
  "ShuffleVector_from_llvm_ref api depth inst ctx func_ctx =
     do { assert (LLVMGetNumOperands api inst = 2);
          (a, ctx) \<leftarrow> read_operand api depth func_ctx inst 0 ctx;
          (b, ctx) \<leftarrow> read_operand api depth func_ctx inst 1 ctx;
          (msk, ctx) \<leftarrow> shuffle_mask_from_llvm api depth inst ctx;
          let (nm, func_ctx) = new_name api inst func_ctx;
          Some (\<lparr>debugloc = from_llvm_with_col api inst, dest = nm, operand0 = a, operand1 = b,
                 shuffle_mask = msk\<rparr>, ctx, func_ctx) }"

definition ExtractValue_from_llvm_ref :: "'a inst_api_scheme \<Rightarrow> nat \<Rightarrow> ExtractValue inst_reader" where
  "ExtractValue_from_llvm_ref api depth inst ctx func_ctx =
     do { assert (LLVMGetNumOperands api inst = 1);
          (a, ctx) \<leftarrow> read_operand api depth func_ctx inst 0 ctx;
          let (nm, func_ctx) = new_name api inst func_ctx;
          Some (\<lparr>debugloc = from_llvm_with_col api inst, dest = nm, ev_aggregate = a,
                 ev_indices = LLVMGetIndices api inst\<rparr>, ctx, func_ctx) }"

definition InsertValue_from_llvm_ref :: "'a inst_api_scheme \<Rightarrow> nat \<Rightarrow> InsertValue inst_reader" where
  "InsertValue_from_llvm_ref api depth inst ctx func_ctx =
     do { assert (LLVMGetNumOperands api inst = 2);
          (a, ctx) \<leftarrow> read_operand api depth func_ctx inst 0 ctx;
          (b, ctx) \<leftarrow> read_operand api depth func_ctx inst 1 ctx;
          let (nm, func_ctx) = new_name api inst func_ctx;
          Some (\<lparr>debugloc = from_llvm_with_col api inst, dest = nm, iv_aggregate = a, iv_element = b,
                 iv_indices = LLVMGetIndices api inst\<rparr>, ctx, func_ctx) }"

section \<open>Memory\<close>

definition Alloca_from_llvm_ref :: "'a inst_api_scheme \<Rightarrow> nat \<Rightarrow> Alloca inst_reader" where
  "Alloca_from_llvm_ref api depth inst ctx func_ctx =
     do { assert (LLVMGetNumOperands api inst = 1);
          (ty, ctx) \<leftarrow> read_type api depth (LLVMGetAllocatedType api inst) ctx;
          (a, ctx) \<leftarrow> read_operand api depth func_ctx inst 0 ctx;
          let (nm, func_ctx) = new_name api inst func_ctx;
          Some (\<lparr>debugloc = from_llvm_with_col api inst, dest = nm, allocated_type = ty, num_elements = a,
                 alloca_alignment = LLVMGetAlignment api inst\<rparr>, ctx, func_ctx) }"

definition the_atomicity :: "'a inst_api_scheme \<Rightarrow> LLVMValueRef \<Rightarrow> LLVMAtomicOrdering \<Rightarrow> Atomicity" where
  "the_atomicity api inst mo =
     \<lparr>synch_scope = SynchronizationScope_from_llvm_ref (LLVMIsAtomicSingleThread api inst),
      mem_ordering = MemoryOrdering_from_llvm mo\<rparr>"

definition maybe_atomicity :: "'a inst_api_scheme \<Rightarrow> LLVMValueRef \<Rightarrow> Atomicity option" where
  "maybe_atomicity api inst =
     (let mo = LLVMGetOrdering api inst
      in if mo = LLVMAtomicOrderingNotAtomic then None else Some (the_atomicity api inst mo))"

definition Load_from_llvm_ref :: "'a inst_api_scheme \<Rightarrow> nat \<Rightarrow> Load inst_reader" where
  "Load_from_llvm_ref api depth inst ctx func_ctx =
     do { assert (LLVMGetNumOperands api inst = 1);
          (a, ctx) \<leftarrow> read_operand api depth func_ctx inst 0 ctx;
          let (nm, func_ctx) = new_name api inst func_ctx;
          (ty, ctx) \<leftarrow> read_type api depth (LLVMTypeOf api inst) ctx;
          Some (\<lparr>debugloc = from_llvm_with_col api inst, dest = nm, load_address = a, loaded_ty = ty,
                 load_volatile = LLVMGetVolatile api inst, load_atomicity = maybe_atomicity api inst,
                 load_alignment = LLVMGetAlignment api inst\<rparr>, ctx, func_ctx) }"

definition Store_from_llvm_ref :: "'a inst_api_scheme \<Rightarrow> nat \<Rightarrow> Store inst_reader" where
  "Store_from_llvm_ref api depth inst ctx func_ctx =
     do { assert (LLVMGetNumOperands api inst = 2);
          (a, ctx) \<leftarrow> read_operand api depth func_ctx inst 1 ctx;
          (v, ctx) \<leftarrow> read_operand api depth func_ctx inst 0 ctx;
          Some (\<lparr>debugloc = from_llvm_with_col api inst, store_address = a, store_value = v,
                 store_volatile = LLVMGetVolatile api inst, store_atomicity = maybe_atomicity api inst,
                 store_alignment = LLVMGetAlignment api inst\<rparr>, ctx, func_ctx) }"

definition Fence_from_llvm_ref :: "'a inst_api_scheme \<Rightarrow> Fence inst_reader" where
  "Fence_from_llvm_ref api inst ctx func_ctx =
     do { assert (LLVMGetNumOperands api inst = 0);
          Some (\<lparr>debugloc = from_llvm_with_col api inst,
                 fence_atomicity = the_atomicity api inst (LLVMGetOrdering api inst)\<rparr>, ctx, func_ctx) }"

definition CmpXchg_from_llvm_ref :: "'a inst_api_scheme \<Rightarrow> nat \<Rightarrow> CmpXchg inst_reader" where
  "CmpXchg_from_llvm_ref api depth inst ctx func_ctx =
     do { assert (LLVMGetNumOperands api inst = 3);
          (a, ctx) \<leftarrow> read_operand api depth func_ctx inst 0 ctx;
          (b, ctx) \<leftarrow> read_operand api depth func_ctx inst 1 ctx;
          (c, ctx) \<leftarrow> read_operand api depth func_ctx inst 2 ctx;
          let (nm, func_ctx) = new_name api inst func_ctx;
          Some (\<lparr>debugloc = from_llvm_with_col api inst, dest = nm, cx_address = a, cx_expected = b,
                 cx_replacement = c, cx_volatile = LLVMGetVolatile api inst,
                 cx_atomicity = the_atomicity api inst (LLVMGetCmpXchgSuccessOrdering api inst),
                 cx_failure_memory_ordering = MemoryOrdering_from_llvm (LLVMGetCmpXchgFailureOrdering api inst),
                 cx_weak = LLVMGetWeak api inst\<rparr>, ctx, func_ctx) }"

definition AtomicRMW_from_llvm_ref :: "'a inst_api_scheme \<Rightarrow> nat \<Rightarrow> AtomicRMW inst_reader" where
  "AtomicRMW_from_llvm_ref api depth inst ctx func_ctx =
     do { assert (LLVMGetNumOperands api inst = 2);
          (a, ctx) \<leftarrow> read_operand api depth func_ctx inst 0 ctx;
          (b, ctx) \<leftarrow> read_operand api depth func_ctx inst 1 ctx;
          let (nm, func_ctx) = new_name api inst func_ctx;
          Some (\<lparr>debugloc = from_llvm_with_col api inst, dest = nm,
                 rmw_operation = RMWBinOp_from_llvm (LLVMGetAtomicRMWBinOp api inst), rmw_address = a,
                 rmw_value = b, rmw_volatile = LLVMGetVolatile api inst,
                 rmw_atomicity = the_atomicity api inst (LLVMGetOrdering api inst)\<rparr>, ctx, func_ctx) }"

definition GetElementPtr_from_llvm_ref :: "'a inst_api_scheme \<Rightarrow> nat \<Rightarrow> GetElementPtr inst_reader" where
  "GetElementPtr_from_llvm_ref api depth inst ctx func_ctx =
     do { (a, ctx) \<leftarrow> read_operand api depth func_ctx inst 0 ctx;
          (idxs, ctx) \<leftarrow> traverse (\<lambda>i. read_operand api depth func_ctx inst (of_nat i))
             [1..<LLVMGetNumIndices api inst + 1] ctx;
          let (nm, func_ctx) = new_name api inst func_ctx;
          (ty, ctx) \<leftarrow> read_type api depth (LLVMGetGEPSourceElementType api inst) ctx;
          Some (\<lparr>debugloc = from_llvm_with_col api inst, dest = nm, gep_address = a, gep_indices = idxs,
                 gep_in_bounds = LLVMIsInBounds api inst, gep_source_element_type = ty\<rparr>, ctx, func_ctx) }"

section \<open>Comparisons, phi and select\<close>

definition ICmp_from_llvm_ref :: "'a inst_api_scheme \<Rightarrow> nat \<Rightarrow> ICmp inst_reader" where
  "ICmp_from_llvm_ref api depth inst ctx func_ctx =
     do { assert (LLVMGetNumOperands api inst = 2);
          (a, ctx) \<leftarrow> read_operand api depth func_ctx inst 0 ctx;
          (b, ctx) \<leftarrow> read_operand api depth func_ctx inst 1 ctx;
          let (nm, func_ctx) = new_name api inst func_ctx;
          Some (\<lparr>debugloc = from_llvm_with_col api inst, dest = nm, operand0 = a, operand1 = b,
                 icmp_predicate = IntPredicate_from_llvm (LLVMGetICmpPredicate api inst)\<rparr>, ctx, func_ctx) }"

definition FCmp_from_llvm_ref :: "'a inst_api_scheme \<Rightarrow> nat \<Rightarrow> FCmp inst_reader" where
  "FCmp_from_llvm_ref api depth inst ctx func_ctx =
     do { assert (LLVMGetNumOperands api inst = 2);
          (a, ctx) \<leftarrow> read_operand api depth func_ctx inst 0 ctx;
          (b, ctx) \<leftarrow> read_operand api depth func_ctx inst 1 ctx;
          let (nm, func_ctx) = new_name api inst func_ctx;
          Some (\<lparr>debugloc = from_llvm_with_col api inst, dest = nm, operand0 = a, operand1 = b,
                 fcmp_predicate = FPPredicate_from_llvm (LLVMGetFCmpPredicate api inst)\<rparr>, ctx, func_ctx) }"

definition incoming_from_llvm ::
  "'a inst_api_scheme \<Rightarrow> nat \<Rightarrow> FunctionContext \<Rightarrow> LLVMValueRef \<Rightarrow> nat \<Rightarrow> ModuleContext \<Rightarrow>
   ((Operand \<times> Name) \<times> ModuleContext) option" where
  "incoming_from_llvm api depth func_ctx inst i ctx =
     do { (a, ctx) \<leftarrow> Operand_from_llvm_ref api depth func_ctx (LLVMGetIncomingValue api inst (of_nat i)) ctx;
          l \<leftarrow> bb_names func_ctx (LLVMGetIncomingBlock api inst (of_nat i));
          Some ((a, l), ctx) }"

definition Phi_from_llvm_ref :: "'a inst_api_scheme \<Rightarrow> nat \<Rightarrow> Phi inst_reader" where
  "Phi_from_llvm_ref api depth inst ctx func_ctx =
     do { (inc, ctx) \<leftarrow> traverse (incoming_from_llvm api depth func_ctx inst) [0..<LLVMCountIncoming api inst] ctx;
          let (nm, func_ctx) = new_name api inst func_ctx;
          (ty, ctx) \<leftarrow> read_type api depth (LLVMTypeOf api inst) ctx;
          Some (\<lparr>debugloc = from_llvm_with_col api inst, dest = nm, incoming_values = inc,
                 phi_to_type = ty\<rparr>, ctx, func_ctx) }"

definition Select_from_llvm_ref :: "'a inst_api_scheme \<Rightarrow> nat \<Rightarrow> Select inst_reader" where
  "Select_from_llvm_ref api depth inst ctx func_ctx =
     do { assert (LLVMGetNumOperands api inst = 3);
          (a, ctx) \<leftarrow> read_operand api depth func_ctx inst 0 ctx;
          (b, ctx) \<leftarrow> read_operand api depth func_ctx inst 1 ctx;
          (c, ctx) \<leftarrow> read_operand api depth func_ctx inst 2 ctx;
          let (nm, func_ctx) = new_name api inst func_ctx;
          Some (\<lparr>debugloc = from_llvm_with_col api inst, dest = nm, condition = a, true_value = b,
                 false_value = c\<rparr>, ctx, func_ctx) }"

section \<open>Calls\<close>

record CallInfo =
  ci_function :: "InlineAssembly + Operand"
  ci_function_ty :: TypeRef
  ci_arguments :: "(Operand \<times> ParameterAttribute list) list"
  ci_return_attributes :: "ParameterAttribute list"
  ci_function_attributes :: "FunctionAttribute list"
  ci_calling_convention :: CallingConvention

definition InlineAssembly_from_llvm_ref ::
  "'a inst_api_scheme \<Rightarrow> nat \<Rightarrow> LLVMValueRef \<Rightarrow> ModuleContext \<Rightarrow> (InlineAssembly \<times> ModuleContext) option" where
  "InlineAssembly_from_llvm_ref api depth asm ctx =
     do { (ty, ctx) \<leftarrow> read_type api depth (LLVMTypeOf api asm) ctx;
          Some (\<lparr>asm_ty = ty,
                 assembly = (case LLVMGetInlineAsmAsmString api asm of Some s \<Rightarrow> s | None \<Rightarrow> [])\<rparr>, ctx) }"

text \<open>Attributes of parameters, results and functions.\<close>

definition read_param_attribute ::
  "'a value_api_scheme \<Rightarrow> nat \<Rightarrow> LLVMAttributeRef \<Rightarrow> ModuleContext \<Rightarrow> (ParameterAttribute \<times> ModuleContext) option" where
  "read_param_attribute api depth a ctx =
     do { (p, b) \<leftarrow> ParameterAttribute_from_llvm_ref (attrs_api api) (attrsdata ctx)
            (type_from_llvm_ref (types_api api) depth) a (ctx_types ctx);
          Some (p, ctx\<lparr>ctx_types := b\<rparr>) }"

definition read_function_attributes ::
  "'a value_api_scheme \<Rightarrow> LLVMAttributeRef list \<Rightarrow> ModuleContext \<Rightarrow> FunctionAttribute list option" where
  "read_function_attributes api as ctx =
     those (map (FunctionAttribute_from_llvm_ref (attrs_api api) (attrsdata ctx)) as)"

definition read_callee ::
  "'a inst_api_scheme \<Rightarrow> nat \<Rightarrow> FunctionContext \<Rightarrow> LLVMValueRef \<Rightarrow> ModuleContext \<Rightarrow>
   ((InlineAssembly + Operand) \<times> ModuleContext) option" where
  "read_callee api depth func_ctx called_val ctx =
     (if LLVMIsAInlineAsm api called_val then
        do { (a, ctx) \<leftarrow> InlineAssembly_from_llvm_ref api depth called_val ctx; Some (Inl a, ctx) }
      else
        do { (op, ctx) \<leftarrow> Operand_from_llvm_ref api depth func_ctx called_val ctx; Some (Inr op, ctx) })"

definition read_argument ::
  "'a inst_api_scheme \<Rightarrow> nat \<Rightarrow> FunctionContext \<Rightarrow> LLVMValueRef \<Rightarrow> nat \<Rightarrow> ModuleContext \<Rightarrow>
   ((Operand \<times> ParameterAttribute list) \<times> ModuleContext) option" where
  "read_argument api depth func_ctx inst i ctx =
     do { (a, ctx) \<leftarrow> read_operand api depth func_ctx inst (of_nat i) ctx;
          (attrs, ctx) \<leftarrow> traverse (read_param_attribute api depth)
             (LLVMGetCallSiteAttributes api inst (of_nat (i + 1))) ctx;
          Some ((a, attrs), ctx) }"

definition CallInfo_from_llvm_ref ::
  "'a inst_api_scheme \<Rightarrow> nat \<Rightarrow> FunctionContext \<Rightarrow> LLVMValueRef \<Rightarrow> ModuleContext \<Rightarrow> (CallInfo \<times> ModuleContext) option" where
  "CallInfo_from_llvm_ref api depth func_ctx inst ctx =
     do { (f, ctx) \<leftarrow> read_callee api depth func_ctx (LLVMGetCalledValue api inst) ctx;
          (fty, ctx) \<leftarrow> read_type api depth (LLVMGetCalledFunctionType api inst) ctx;
          (args, ctx) \<leftarrow> traverse (read_argument api depth func_ctx inst) [0..<LLVMGetNumArgOperands api inst] ctx;
          (ret, ctx) \<leftarrow> traverse (read_param_attribute api depth)
             (LLVMGetCallSiteAttributes api inst (LLVMAttributeReturnIndex api)) ctx;
          fas \<leftarrow> read_function_attributes api
             (LLVMGetCallSiteAttributes api inst (LLVMAttributeFunctionIndex api)) ctx;
          Some (\<lparr>ci_function = f, ci_function_ty = fty, ci_arguments = args, ci_return_attributes = ret,
                 ci_function_attributes = fas,
                 ci_calling_convention =
                   CallingConvention_from_u32 (call_conv_number api) (LLVMGetInstructionCallConv api inst)\<rparr>, ctx) }"

definition returns_void :: "'a inst_api_scheme \<Rightarrow> LLVMValueRef \<Rightarrow> bool" where
  "returns_void api inst \<longleftrightarrow>
     LLVMGetTypeKind (types_api api)
       (LLVMGetReturnType (types_api api) (LLVMGetCalledFunctionType api inst)) = LLVMVoidTypeKind"

definition Call_from_llvm_ref :: "'a inst_api_scheme \<Rightarrow> nat \<Rightarrow> Call inst_reader" where
  "Call_from_llvm_ref api depth inst ctx func_ctx =
     do { (ci, ctx) \<leftarrow> CallInfo_from_llvm_ref api depth func_ctx inst ctx;
          let (res, func_ctx) =
            (if returns_void api inst then (None, func_ctx)
             else let (nm, func_ctx) = new_name api inst func_ctx in (Some nm, func_ctx));
          Some (\<lparr>debugloc = from_llvm_with_col api inst, call_function = ci_function ci,
                 call_function_ty = ci_function_ty ci, call_arguments = ci_arguments ci,
                 call_return_attributes = ci_return_attributes ci, call_dest = res,
                 call_function_attributes = ci_function_attributes ci, is_tail_call = LLVMIsTailCall api inst,
                 call_calling_convention = ci_calling_convention ci\<rparr>, ctx, func_ctx) }"

definition VAArg_from_llvm_ref :: "'a inst_api_scheme \<Rightarrow> nat \<Rightarrow> VAArg inst_reader" where
  "VAArg_from_llvm_ref api depth inst ctx func_ctx =
     do { assert (LLVMGetNumOperands api inst = 1);
          (a, ctx) \<leftarrow> read_operand api depth func_ctx inst 0 ctx;
          (ty, ctx) \<leftarrow> read_type api depth (LLVMTypeOf api inst) ctx;
          let (nm, func_ctx) = new_name api inst func_ctx;
          Some (\<lparr>debugloc = from_llvm_with_col api inst, dest = nm, va_arg_list = a, va_cur_type = ty\<rparr>,
                ctx, func_ctx) }"

section \<open>Exception handling\<close>

definition LandingPadClause_from_llvm_ref ::
  "'a inst_api_scheme \<Rightarrow> nat \<Rightarrow> LLVMValueRef \<Rightarrow> nat \<Rightarrow> ModuleContext \<Rightarrow> (LandingPadClause \<times> ModuleContext) option" where
  "LandingPadClause_from_llvm_ref api depth inst i ctx =
     (let clause_val = LLVMGetClause api inst (of_nat i);
          is_filter = (LLVMGetTypeKind (types_api api) (LLVMTypeOf api clause_val) = LLVMArrayTypeKind)
      in do { (c, ctx) \<leftarrow> Constant_from_llvm_ref api depth clause_val ctx;
              Some (if is_filter then Filter c else Catch c, ctx) })"

definition LandingPad_from_llvm_ref :: "'a inst_api_scheme \<Rightarrow> nat \<Rightarrow> LandingPad inst_reader" where
  "LandingPad_from_llvm_ref api depth inst ctx func_ctx =
     do { (ty, ctx) \<leftarrow> read_type api depth (LLVMTypeOf api inst) ctx;
          (cls, ctx) \<leftarrow> traverse (LandingPadClause_from_llvm_ref api depth inst) [0..<LLVMGetNumClauses api inst] ctx;
          let (nm, func_ctx) = new_name api inst func_ctx;
          Some (\<lparr>debugloc = from_llvm_with_col api inst, dest = nm, lp_result_type = ty, lp_clauses = cls,
                 lp_cleanup = LLVMIsCleanup api inst\<rparr>, ctx, func_ctx) }"

definition read_arg_operand ::
  "'a inst_api_scheme \<Rightarrow> nat \<Rightarrow> FunctionContext \<Rightarrow> LLVMValueRef \<Rightarrow> nat \<Rightarrow> ModuleContext \<Rightarrow>
   (Operand \<times> ModuleContext) option" where
  "read_arg_operand api depth func_ctx inst i ctx =
     Operand_from_llvm_ref api depth func_ctx (LLVMGetArgOperand api inst (of_nat i)) ctx"

definition CatchPad_from_llvm_ref :: "'a inst_api_scheme \<Rightarrow> nat \<Rightarrow> CatchPad inst_reader" where
  "CatchPad_from_llvm_ref api depth inst ctx func_ctx =
     do { (cs, ctx) \<leftarrow> Operand_from_llvm_ref api depth func_ctx (LLVMGetParentCatchSwitch api inst) ctx;
          (args, ctx) \<leftarrow> traverse (read_arg_operand api depth func_ctx inst) [0..<LLVMGetNumArgOperands api inst] ctx;
          let (nm, func_ctx) = new_name api inst func_ctx;
          Some (\<lparr>debugloc = from_llvm_with_col api inst, dest = nm, catch_switch = cs, cp_args = args\<rparr>,
                ctx, func_ctx) }"

definition CleanupPad_from_llvm_ref :: "'a inst_api_scheme \<Rightarrow> nat \<Rightarrow> CleanupPad inst_reader" where
  "CleanupPad_from_llvm_ref api depth inst ctx func_ctx =
     do { (pp, ctx) \<leftarrow> read_operand api depth func_ctx inst 0 ctx;
          (args, ctx) \<leftarrow> traverse (read_arg_operand api depth func_ctx inst) [0..<LLVMGetNumArgOperands api inst] ctx;
          let (nm, func_ctx) = new_name api inst func_ctx;
          Some (\<lparr>debugloc = from_llvm_with_col api inst, dest = nm, parent_pad = pp, clp_args = args\<rparr>,
                ctx, func_ctx) }"

section \<open>Instructions\<close>

definition wrap :: "('i \<Rightarrow> 'j) \<Rightarrow> ('i \<times> 's) option \<Rightarrow> ('j \<times> 's) option" where
  "wrap mk r = map_option (map_prod mk id) r"

text \<open>An opcode of a terminator panics.\<close>

definition Instruction_from_llvm_ref :: "'a inst_api_scheme \<Rightarrow> nat \<Rightarrow> Instruction inst_reader" where
  "Instruction_from_llvm_ref api depth inst ctx fc =
     (case LLVMGetInstructionOpcode api inst of
        LLVMAdd \<Rightarrow> wrap Instruction.Add (binop_from_llvm_with_nuw_nsw api depth inst ctx fc)
      | LLVMSub \<Rightarrow> wrap Instruction.Sub (binop_from_llvm_with_nuw_nsw api depth inst ctx fc)
      | LLVMMul \<Rightarrow> wrap Instruction.Mul (binop_from_llvm_with_nuw_nsw api depth inst ctx fc)
      | LLVMUDiv \<Rightarrow> wrap Instruction.UDiv (binop_from_llvm_with_exact api depth inst ctx fc)
      | LLVMSDiv \<Rightarrow> wrap Instruction.SDiv (binop_from_llvm_with_exact api depth inst ctx fc)
      | LLVMURem \<Rightarrow> wrap Instruction.URem (binop_from_llvm api depth inst ctx fc)
      | LLVMSRem \<Rightarrow> wrap Instruction.SRem (binop_from_llvm api depth inst ctx fc)
      | LLVMAnd \<Rightarrow> wrap Instruction.And (binop_from_llvm api depth inst ctx fc)
      | LLVMOr \<Rightarrow> wrap Instruction.Or (binop_from_llvm api depth inst ctx fc)
      | LLVMXor \<Rightarrow> wrap Instruction.Xor (binop_from_llvm api depth inst ctx fc)
      | LLVMShl \<Rightarrow> wrap Instruction.Shl (binop_from_llvm_with_nuw_nsw api depth inst ctx fc)
      | LLVMLShr \<Rightarrow> wrap Instruction.LShr (binop_from_llvm_with_exact api depth inst ctx fc)
      | LLVMAShr \<Rightarrow> wrap Instruction.AShr (binop_from_llvm_with_exact api depth inst ctx fc)
      | LLVMFAdd \<Rightarrow> wrap Instruction.FAdd (binop_from_llvm api depth inst ctx fc)
      | LLVMFSub \<Rightarrow> wrap Instruction.FSub (binop_from_llvm api depth inst ctx fc)
      | LLVMFMul \<Rightarrow> wrap Instruction.FMul (binop_from_llvm api depth inst ctx fc)
      | LLVMFDiv \<Rightarrow> wrap Instruction.FDiv (binop_from_llvm api depth inst ctx fc)
      | LLVMFRem \<Rightarrow> wrap Instruction.FRem (binop_from_llvm api depth inst ctx fc)
      | LLVMFNeg \<Rightarrow> wrap Instruction.FNeg (unop_from_llvm api depth inst ctx fc)
      | LLVMExtractElement \<Rightarrow> wrap Instruction.ExtractElement (ExtractElement_from_llvm_ref api depth inst ctx fc)
      | LLVMInsertElement \<Rightarrow> wrap Instruction.InsertElement (InsertElement_from_llvm_ref api depth inst ctx fc)
      | LLVMShuffleVector \<Rightarrow> wrap Instruction.ShuffleVector (ShuffleVector_from_llvm_ref api depth inst ctx fc)
      | LLVMExtractValue \<Rightarrow> wrap Instruction.ExtractValue (ExtractValue_from_llvm_ref api depth inst ctx fc)
      | LLVMInsertValue \<Rightarrow> wrap Instruction.InsertValue (InsertValue_from_llvm_ref api depth inst ctx fc)
      | LLVMAlloca \<Rightarrow> wrap Instruction.Alloca (Alloca_from_llvm_ref api depth inst ctx fc)
      | LLVMLoad \<Rightarrow> wrap Instruction.Load (Load_from_llvm_ref api depth inst ctx fc)
      | LLVMStore \<Rightarrow> wrap Instruction.Store (Store_from_llvm_ref api depth inst ctx fc)
      | LLVMFence \<Rightarrow> wrap Instruction.Fence (Fence_from_llvm_ref api inst ctx fc)
      | LLVMAtomicCmpXchg \<Rightarrow> wrap Instruction.CmpXchg (CmpXchg_from_llvm_ref api depth inst ctx fc)
      | LLVMAtomicRMW \<Rightarrow> wrap Instruction.AtomicRMW (AtomicRMW_from_llvm_ref api depth inst ctx fc)
      | LLVMGetElementPtr \<Rightarrow> wrap Instruction.GetElementPtr (GetElementPtr_from_llvm_ref api depth inst ctx fc)
      | LLVMTrunc \<Rightarrow> wrap Instruction.Trunc (typed_unop_from_llvm api depth inst ctx fc)
      | LLVMZExt \<Rightarrow> wrap Instruction.ZExt (typed_unop_from_llvm api depth inst ctx fc)
      | LLVMSExt \<Rightarrow> wrap Instruction.SExt (typed_unop_from_llvm api depth inst ctx fc)
      | LLVMFPTrunc \<Rightarrow> wrap Instruction.FPTrunc (typed_unop_from_llvm api depth inst ctx fc)
      | LLVMFPExt \<Rightarrow> wrap Instruction.FPExt (typed_unop_from_llvm api depth inst ctx fc)
      | LLVMFPToUI \<Rightarrow> wrap Instruction.FPToUI (typed_unop_from_llvm api depth inst ctx fc)
      | LLVMFPToSI \<Rightarrow> wrap Instruction.FPToSI (typed_unop_from_llvm api depth inst ctx fc)
      | LLVMUIToFP \<Rightarrow> wrap Instruction.UIToFP (typed_unop_from_llvm api depth inst ctx fc)
      | LLVMSIToFP \<Rightarrow> wrap Instruction.SIToFP (typed_unop_from_llvm api depth inst ctx fc)
      | LLVMPtrToInt \<Rightarrow> wrap Instruction.PtrToInt (typed_unop_from_llvm api depth inst ctx fc)
      | LLVMIntToPtr \<Rightarrow> wrap Instruction.IntToPtr (typed_unop_from_llvm api depth inst ctx fc)
      | LLVMBitCast \<Rightarrow> wrap Instruction.BitCast (typed_unop_from_llvm api depth inst ctx fc)
      | LLVMAddrSpaceCast \<Rightarrow> wrap Instruction.AddrSpaceCast (typed_unop_from_llvm api depth inst ctx fc)
      | LLVMICmp \<Rightarrow> wrap Instruction.ICmp (ICmp_from_llvm_ref api depth inst ctx fc)
      | LLVMFCmp \<Rightarrow> wrap Instruction.FCmp (FCmp_from_llvm_ref api depth inst ctx fc)
      | LLVMPHI \<Rightarrow> wrap Instruction.Phi (Phi_from_llvm_ref api depth inst ctx fc)
      | LLVMSelect \<Rightarrow> wrap Instruction.Select (Select_from_llvm_ref api depth inst ctx fc)
      | LLVMFreeze \<Rightarrow> wrap Instruction.Freeze (unop_from_llvm api depth inst ctx fc)
      | LLVMCall \<Rightarrow> wrap Instruction.Call (Call_from_llvm_ref api depth inst ctx fc)
      | LLVMVAArg \<Rightarrow> wrap Instruction.VAArg (VAArg_from_llvm_ref api depth inst ctx fc)
      | LLVMLandingPad \<Rightarrow> wrap Instruction.LandingPad (LandingPad_from_llvm_ref api depth inst ctx fc)
      | LLVMCatchPad \<Rightarrow> wrap Instruction.CatchPad (CatchPad_from_llvm_ref api depth inst ctx fc)
      | LLVMCleanupPad \<Rightarrow> wrap Instruction.CleanupPad (CleanupPad_from_llvm_ref api depth inst ctx fc)
      | _ \<Rightarrow> None)"

end
