(* ===== verification/Terminator_Reader.thy ===== *)
theory Terminator_Reader
  imports Instruction_Reader
begin

text \<open>
  The translation of terminators from LLVM, for LLVM 19: \<open>Terminator::from_llvm_ref\<close> of \<open>terminator.rs\<close>
  with the constructor of every terminator struct. A destination that is not in the map of block
  names is a panic.
\<close>

definition Ret_from_llvm_ref :: "'a inst_api_scheme \<Rightarrow> nat \<Rightarrow> Ret inst_reader" where
  "Ret_from_llvm_ref api depth t ctx func_ctx =
     do { (op, ctx) \<leftarrow>
            (if LLVMGetNumOperands api t = 0 then Some (None, ctx)
             else if LLVMGetNumOperands api t = 1 then
               do { (a, ctx) \<leftarrow> read_operand api depth func_ctx t 0 ctx; Some (Some a, ctx) }
             else None);
          Some (\<lparr>debugloc = from_llvm_with_col api t, return_operand = op\<rparr>, ctx, func_ctx) }"

definition op_to_bb :: "'a inst_api_scheme \<Rightarrow> LLVMValueRef \<Rightarrow> LLVMBasicBlockRef option" where
  "op_to_bb api op = (if LLVMValueIsBasicBlock api op then Some (LLVMValueAsBasicBlock api op) else None)"

definition branch_target ::
  "'a inst_api_scheme \<Rightarrow> FunctionContext \<Rightarrow> LLVMValueRef \<Rightarrow> u32 \<Rightarrow> Name option" where
  "branch_target api func_ctx t i = do { bb \<leftarrow> op_to_bb api (LLVMGetOperand api t i); bb_names func_ctx bb }"

definition Br_from_llvm_ref :: "'a inst_api_scheme \<Rightarrow> Br inst_reader" where
  "Br_from_llvm_ref api t ctx func_ctx =
     do { assert (LLVMGetNumOperands api t = 1);
          l \<leftarrow> branch_target api func_ctx t 0;
          Some (\<lparr>debugloc = from_llvm_with_col api t, br_dest = l\<rparr>, ctx, func_ctx) }"

definition CondBr_from_llvm_ref :: "'a inst_api_scheme \<Rightarrow> nat \<Rightarrow> CondBr inst_reader" where
  "CondBr_from_llvm_ref api depth t ctx func_ctx =
     do { assert (LLVMGetNumOperands api t = 3);
          (a, ctx) \<leftarrow> read_operand api depth func_ctx t 0 ctx;
          l1 \<leftarrow> branch_target api func_ctx t 2;
          l2 \<leftarrow> branch_target api func_ctx t 1;
          Some (\<lparr>debugloc = from_llvm_with_col api t, condbr_condition = a, true_dest = l1,
                 false_dest = l2\<rparr>, ctx, func_ctx) }"

text \<open>\<open>Iterator::zip\<close> stops when the values are used up, before the last successor index is tried.\<close>

definition switch_case ::
  "'a inst_api_scheme \<Rightarrow> nat \<Rightarrow> FunctionContext \<Rightarrow> LLVMValueRef \<Rightarrow> nat \<Rightarrow> ModuleContext \<Rightarrow>
   ((ConstantRef \<times> Name) \<times> ModuleContext) option" where
  "switch_case api depth func_ctx t i ctx =
     do { (c, ctx) \<leftarrow> Constant_from_llvm_ref api depth (LLVMGetOperand api t (of_nat (2 * i))) ctx;
          l \<leftarrow> bb_names func_ctx (LLVMGetSuccessor api t (of_nat i));
          Some ((c, l), ctx) }"

definition Switch_from_llvm_ref :: "'a inst_api_scheme \<Rightarrow> nat \<Rightarrow> Switch inst_reader" where
  "Switch_from_llvm_ref api depth t ctx func_ctx =
     do { (a, ctx) \<leftarrow> read_operand api depth func_ctx t 0 ctx;
          (ds, ctx) \<leftarrow> traverse (switch_case api depth func_ctx t) [1..<LLVMGetNumSuccessors api t] ctx;
          l \<leftarrow> bb_names func_ctx (LLVMGetSwitchDefaultDest api t);
          Some (\<lparr>debugloc = from_llvm_with_col api t, switch_operand = a, switch_dests = ds,
                 default_dest = l\<rparr>, ctx, func_ctx) }"

definition IndirectBr_from_llvm_ref :: "'a inst_api_scheme \<Rightarrow> nat \<Rightarrow> IndirectBr inst_reader" where
  "IndirectBr_from_llvm_ref api depth t ctx func_ctx =
     do { (a, ctx) \<leftarrow> read_operand api depth func_ctx t 0 ctx;
          ls \<leftarrow> those (map (\<lambda>i. bb_names func_ctx (LLVMGetSuccessor api t (of_nat i)))
             [0..<LLVMGetNumSuccessors api t]);
          Some (\<lparr>debugloc = from_llvm_with_col api t, ibr_operand = a, possible_dests = ls\<rparr>, ctx, func_ctx) }"

definition Invoke_from_llvm_ref :: "'a inst_api_scheme \<Rightarrow> nat \<Rightarrow> Invoke inst_reader" where
  "Invoke_from_llvm_ref api depth t ctx func_ctx =
     do { (ci, ctx) \<leftarrow> CallInfo_from_llvm_ref api depth func_ctx t ctx;
          let (nm, func_ctx) = new_name api t func_ctx;
          l1 \<leftarrow> bb_names func_ctx (LLVMGetNormalDest api t);
          unwind \<leftarrow> LLVMGetUnwindDest api t;
          l2 \<leftarrow> bb_names func_ctx unwind;
          Some (\<lparr>debugloc = from_llvm_with_col api t, invoke_function = ci_function ci,
                 invoke_function_ty = ci_function_ty ci, invoke_arguments = ci_arguments ci,
                 invoke_return_attributes = ci_return_attributes ci, invoke_result = nm,
                 invoke_return_label = l1, exception_label = l2,
                 invoke_function_attributes = ci_function_attributes ci,
                 invoke_calling_convention = ci_calling_convention ci\<rparr>, ctx, func_ctx) }"

definition Resume_from_llvm_ref :: "'a inst_api_scheme \<Rightarrow> nat \<Rightarrow> Resume inst_reader" where
  "Resume_from_llvm_ref api depth t ctx func_ctx =
     do { assert (LLVMGetNumOperands api t = 1);
          (a, ctx) \<leftarrow> read_operand api depth func_ctx t 0 ctx;
          Some (\<lparr>debugloc = from_llvm_with_col api t, resume_operand = a\<rparr>, ctx, func_ctx) }"

definition Unreachable_from_llvm_ref :: "'a inst_api_scheme \<Rightarrow> Unreachable inst_reader" where
  "Unreachable_from_llvm_ref api t ctx func_ctx =
     do { assert (LLVMGetNumOperands api t = 0);
          Some (\<lparr>debugloc = from_llvm_with_col api t\<rparr>, ctx, func_ctx) }"

text \<open>A null unwind destination is allowed, one that is not in the map panics.\<close>

definition unwind_from_llvm :: "'a inst_api_scheme \<Rightarrow> FunctionContext \<Rightarrow> LLVMValueRef \<Rightarrow> Name option option" where
  "unwind_from_llvm api func_ctx t =
     (case LLVMGetUnwindDest api t of
        None \<Rightarrow> Some None
      | Some bb \<Rightarrow> do { l \<leftarrow> bb_names func_ctx bb; Some (Some l) })"

definition CleanupRet_from_llvm_ref :: "'a inst_api_scheme \<Rightarrow> nat \<Rightarrow> CleanupRet inst_reader" where
  "CleanupRet_from_llvm_ref api depth t ctx func_ctx =
     do { assert (LLVMGetNumOperands api t = 1);
          (a, ctx) \<leftarrow> read_operand api depth func_ctx t 0 ctx;
          l \<leftarrow> unwind_from_llvm api func_ctx t;
          Some (\<lparr>debugloc = from_llvm_with_col api t, cleanup_pad = a, unwind_dest = l\<rparr>, ctx, func_ctx) }"

definition CatchRet_from_llvm_ref :: "'a inst_api_scheme \<Rightarrow> nat \<Rightarrow> CatchRet inst_reader" where
  "CatchRet_from_llvm_ref api depth t ctx func_ctx =
     do { (a, ctx) \<leftarrow> read_operand api depth func_ctx t 0 ctx;
          l \<leftarrow> bb_names func_ctx (LLVMGetSuccessor api t 0);
          Some (\<lparr>debugloc = from_llvm_with_col api t, catch_pad = a, successor = l\<rparr>, ctx, func_ctx) }"

definition CatchSwitch_from_llvm_ref :: "'a inst_api_scheme \<Rightarrow> nat \<Rightarrow> CatchSwitch inst_reader" where
  "CatchSwitch_from_llvm_ref api depth t ctx func_ctx =
     do { (a, ctx) \<leftarrow> read_operand api depth func_ctx t 0 ctx;
          hs \<leftarrow> those (map (bb_names func_ctx) (LLVMGetHandlers api t));
          l \<leftarrow> unwind_from_llvm api func_ctx t;
          let (nm, func_ctx) = new_name api t func_ctx;
          Some (\<lparr>debugloc = from_llvm_with_col api t, cs_parent_pad = a, catch_handlers = hs,
                 default_unwind_dest = l, cs_result = nm\<rparr>, ctx, func_ctx) }"

definition CallBr_from_llvm_ref :: "'a inst_api_scheme \<Rightarrow> nat \<Rightarrow> CallBr inst_reader" where
  "CallBr_from_llvm_ref api depth t ctx func_ctx =
     do { (ci, ctx) \<leftarrow> CallInfo_from_llvm_ref api depth func_ctx t ctx;
          let (nm, func_ctx) = new_name api t func_ctx;
          l \<leftarrow> bb_names func_ctx (LLVMGetNormalDest api t);
          Some (\<lparr>debugloc = from_llvm_with_col api t, callbr_function = ci_function ci,
                 callbr_arguments = ci_arguments ci, callbr_return_attributes = ci_return_attributes ci,
                 callbr_result = nm, callbr_return_label = l, callbr_other_labels = (),
                 callbr_function_attributes = ci_function_attributes ci,
                 callbr_calling_convention = ci_calling_convention ci\<rparr>, ctx, func_ctx) }"

definition Terminator_from_llvm_ref :: "'a inst_api_scheme \<Rightarrow> nat \<Rightarrow> Terminator inst_reader" where
  "Terminator_from_llvm_ref api depth t ctx fc =
     (case LLVMGetInstructionOpcode api t of
        LLVMRet \<Rightarrow> wrap Terminator.Ret (Ret_from_llvm_ref api depth t ctx fc)
      | LLVMBr \<Rightarrow>
          if LLVMGetNumOperands api t = 1 then wrap Terminator.Br (Br_from_llvm_ref api t ctx fc)
          else if LLVMGetNumOperands api t = 3 then
            wrap Terminator.CondBr (CondBr_from_llvm_ref api depth t ctx fc)
          else None
      | LLVMSwitch \<Rightarrow> wrap Terminator.Switch (Switch_from_llvm_ref api depth t ctx fc)
      | LLVMIndirectBr \<Rightarrow> wrap Terminator.IndirectBr (IndirectBr_from_llvm_ref api depth t ctx fc)
      | LLVMInvoke \<Rightarrow> wrap Terminator.Invoke (Invoke_from_llvm_ref api depth t ctx fc)
      | LLVMResume \<Rightarrow> wrap Terminator.Resume (Resume_from_llvm_ref api depth t ctx fc)
      | LLVMUnreachable \<Rightarrow> wrap Terminator.Unreachable (Unreachable_from_llvm_ref api t ctx fc)
      | LLVMCleanupRet \<Rightarrow> wrap Terminator.CleanupRet (CleanupRet_from_llvm_ref api depth t ctx fc)
      | LLVMCatchRet \<Rightarrow> wrap Terminator.CatchRet (CatchRet_from_llvm_ref api depth t ctx fc)
      | LLVMCatchSwitch \<Rightarrow> wrap Terminator.CatchSwitch (CatchSwitch_from_llvm_ref api depth t ctx fc)
      | LLVMCallBr \<Rightarrow> wrap Terminator.CallBr (CallBr_from_llvm_ref api depth t ctx fc)
      | _ \<Rightarrow> None)"

end
