(* ===== verification/Layout_Parser.thy ===== *)
theory Layout_Parser
  imports LLVM_Layout
begin

text \<open>
  The reader of data-layout strings, \<open>DataLayout::from_module_ref\<close> of
  \<open>llvm-ir-patched/src/module.rs\<close>. The string itself comes from LLVM and is the argument. A panic
  (unknown specification, malformed number, missing or surplus chunk) is None.

  The specifications of a layout string are given a syntax of their own (\<open>layout_spec\<close>), a printer and
  a meaning. Results: the reader inverts the printer and computes the meaning; whatever it accepts is
  the meaning of some specifications; and the tables it builds satisfy \<open>alignments_ok\<close>, so that the
  lookups of integer, vector and pointer alignments never panic on them.
\<close>

section \<open>Splitting\<close>

text \<open>\<open>str::split\<close> with a character as pattern.\<close>

fun split_char :: "char \<Rightarrow> string \<Rightarrow> string list" where
  "split_char c [] = [[]]"
| "split_char c (x # xs) =
     (if x = c then [] # split_char c xs
      else (case split_char c xs of [] \<Rightarrow> [[x]] | p # ps \<Rightarrow> (x # p) # ps))"

fun join_char :: "char \<Rightarrow> string list \<Rightarrow> string" where
  "join_char c [] = []"
| "join_char c [p] = p"
| "join_char c (p # ps) = p @ c # join_char c ps"

lemma split_char_nonempty [simp]: "split_char c s \<noteq> []"
  by (induction s) (auto split: list.split)

lemma split_char_piece: "c \<notin> set p \<Longrightarrow> split_char c p = [p]"
  by (induction p) auto

lemma split_char_Cons_sep: "c \<notin> set p \<Longrightarrow> split_char c (p @ c # s) = p # split_char c s"
  by (induction p) auto

lemma split_join_char:
  "ps \<noteq> [] \<Longrightarrow> \<forall>p \<in> set ps. c \<notin> set p \<Longrightarrow> split_char c (join_char c ps) = ps"
  by (induction c ps rule: join_char.induct) (auto simp: split_char_piece split_char_Cons_sep)

lemma set_join_char: "set (join_char c ps) \<subseteq> insert c (\<Union> (set ` set ps))"
  by (induction c ps rule: join_char.induct) auto

section \<open>The reader\<close>

definition DataLayout_default :: DataLayout where
  "DataLayout_default =
     \<lparr>layout_str = '''', endianness = BigEndian, stack_alignment = None, program_address_space = 0,
      alloca_address_space = 0, alignments = Alignments_default, mangling = None,
      native_int_widths = None, non_integral_ptr_types = {}\<rparr>"

definition map_alignments :: "(Alignments \<Rightarrow> Alignments) \<Rightarrow> DataLayout \<Rightarrow> DataLayout" where
  "map_alignments f d = d\<lparr>alignments := f (alignments d)\<rparr>"

text \<open>The chunks that follow the size in an alignment: \<open>abi\<close> and, if present, \<open>pref\<close>.\<close>

definition parse_abi_pref :: "string list \<Rightarrow> Alignment option" where
  "parse_abi_pref chunks =
     (case chunks of
        [a] \<Rightarrow> map_option (\<lambda>n. \<lparr>abi = n, pref = n\<rparr>) (parse_u32 a)
      | [a, p] \<Rightarrow>
          (case (parse_u32 a, parse_u32 p) of
             (Some n, Some m) \<Rightarrow> Some \<lparr>abi = n, pref = m\<rparr>
           | _ \<Rightarrow> None)
      | _ \<Rightarrow> None)"

definition parse_sized :: "string list \<Rightarrow> (u32 \<times> Alignment) option" where
  "parse_sized chunks =
     (case (parse_u32 (tl (hd chunks)), parse_abi_pref (tl chunks)) of
        (Some sz, Some al) \<Rightarrow> Some (sz, al)
      | _ \<Rightarrow> None)"

definition parse_pointer :: "string list \<Rightarrow> (AddrSpace \<times> PointerLayout) option" where
  "parse_pointer chunks =
     (case (if hd chunks = ''p'' then Some 0 else parse_u32 (tl (hd chunks))) of
        None \<Rightarrow> None
      | Some addr_space \<Rightarrow>
          (case those (map parse_u32 (tl chunks)) of
             Some [sz, a] \<Rightarrow>
               Some (addr_space, \<lparr>ptr_size = sz, ptr_align = \<lparr>abi = a, pref = a\<rparr>, index_size = sz\<rparr>)
           | Some [sz, a, p] \<Rightarrow>
               Some (addr_space, \<lparr>ptr_size = sz, ptr_align = \<lparr>abi = a, pref = p\<rparr>, index_size = sz\<rparr>)
           | Some [sz, a, p, idx] \<Rightarrow>
               Some (addr_space, \<lparr>ptr_size = sz, ptr_align = \<lparr>abi = a, pref = p\<rparr>, index_size = idx\<rparr>)
           | _ \<Rightarrow> None))"

definition parse_mangling :: "string list \<Rightarrow> Mangling option" where
  "parse_mangling chunks =
     (if hd chunks \<noteq> ''m'' then None
      else
        case tl chunks of
          [c] \<Rightarrow>
            (if c = ''e'' then Some ELF else if c = ''m'' then Some MIPS
             else if c = ''o'' then Some MachO else if c = ''x'' then Some WindowsX86COFF
             else if c = ''w'' then Some WindowsCOFF else if c = ''a'' then Some XCOFF else None)
        | _ \<Rightarrow> None)"

definition set_fptr :: "bool \<Rightarrow> u32 \<Rightarrow> Alignments \<Rightarrow> Alignments" where
  "set_fptr ind a al =
     al\<lparr>fptr_alignment := \<lparr>independent = ind, fptr_abi = a\<rparr>,
        fptr_alignment_as_alignment := \<lparr>abi = a, pref = a\<rparr>\<rparr>"

definition add_widths :: "u32 list \<Rightarrow> DataLayout \<Rightarrow> DataLayout" where
  "add_widths ws d =
     d\<lparr>native_int_widths :=
        Some (set ws \<union> (case native_int_widths d of None \<Rightarrow> {} | Some w \<Rightarrow> w))\<rparr>"

text \<open>One specification, tried in the order of the source.\<close>

definition parse_spec :: "string \<Rightarrow> DataLayout \<Rightarrow> DataLayout option" where
  "parse_spec spec d =
     (let chunks = split_char (CHR '':'') spec
      in if spec = ''E'' then Some (d\<lparr>endianness := BigEndian\<rparr>)
      else if spec = ''e'' then Some (d\<lparr>endianness := LittleEndian\<rparr>)
      else if starts_with ''S'' spec then
        map_option (\<lambda>n. d\<lparr>stack_alignment := Some n\<rparr>) (parse_u32 (tl spec))
      else if starts_with ''P'' spec then
        map_option (\<lambda>n. d\<lparr>program_address_space := n\<rparr>) (parse_u32 (tl spec))
      else if starts_with ''A'' spec then
        map_option (\<lambda>n. d\<lparr>alloca_address_space := n\<rparr>) (parse_u32 (tl spec))
      else if starts_with ''p'' spec then
        map_option (\<lambda>(a, l). map_alignments (\<lambda>al. al\<lparr>pointer_layouts := (pointer_layouts al)(a \<mapsto> l)\<rparr>) d)
          (parse_pointer chunks)
      else if starts_with ''i'' spec then
        map_option (\<lambda>(sz, a). map_alignments
            (\<lambda>al. al\<lparr>int_alignments := btree_insert sz a (int_alignments al)\<rparr>) d) (parse_sized chunks)
      else if starts_with ''v'' spec then
        map_option (\<lambda>(sz, a). map_alignments
            (\<lambda>al. al\<lparr>vec_alignments := btree_insert sz a (vec_alignments al)\<rparr>) d) (parse_sized chunks)
      else if starts_with ''f'' spec then
        map_option (\<lambda>(sz, a). map_alignments
            (\<lambda>al. al\<lparr>fp_alignments := (fp_alignments al)(sz \<mapsto> a)\<rparr>) d) (parse_sized chunks)
      else if starts_with ''a'' spec then
        (if hd chunks = ''a'' \<or> hd chunks = ''a0'' then
           map_option (\<lambda>a. map_alignments (\<lambda>al. al\<lparr>agg_alignment := a\<rparr>) d) (parse_abi_pref (tl chunks))
         else None)
      else if starts_with ''Fi'' spec then
        map_option (\<lambda>a. map_alignments (set_fptr True a) d) (parse_u32 (drop 2 spec))
      else if starts_with ''Fn'' spec then
        map_option (\<lambda>a. map_alignments (set_fptr False a) d) (parse_u32 (drop 2 spec))
      else if starts_with ''m'' spec then
        map_option (\<lambda>m. d\<lparr>mangling := Some m\<rparr>) (parse_mangling chunks)
      else if starts_with ''ni'' spec then
        (if hd chunks \<noteq> ''ni'' then None
         else
           case those (map parse_u32 (tl chunks)) of
             None \<Rightarrow> None
           | Some as \<Rightarrow>
               if 0 \<in> set as then None
               else Some (d\<lparr>non_integral_ptr_types := set as \<union> non_integral_ptr_types d\<rparr>))
      else if starts_with ''n'' spec then
        map_option (\<lambda>ws. add_widths ws d) (those (map parse_u32 (tl (hd chunks) # tl chunks)))
      else if spec = [] then Some d
      else None)"

fun parse_specs :: "string list \<Rightarrow> DataLayout \<Rightarrow> DataLayout option" where
  "parse_specs [] d = Some d"
| "parse_specs (s # ss) d = Option.bind (parse_spec s d) (parse_specs ss)"

definition DataLayout_from_str :: "string \<Rightarrow> DataLayout option" where
  "DataLayout_from_str s =
     parse_specs (split_char (CHR ''-'') s) (DataLayout_default\<lparr>layout_str := s\<rparr>)"

section \<open>A syntax for layouts\<close>

datatype layout_spec =
  LS_endian Endianness
| LS_stack u32
| LS_program u32
| LS_alloca u32
| LS_pointer AddrSpace u32 u32 "(u32 \<times> u32 option) option"
| LS_int u32 u32 "u32 option"
| LS_vec u32 u32 "u32 option"
| LS_fp u32 u32 "u32 option"
| LS_agg u32 "u32 option"
| LS_fptr bool u32
| LS_mangling Mangling
| LS_non_integral "u32 list"
| LS_native u32 "u32 list"
| LS_none

fun mangling_char :: "Mangling \<Rightarrow> string" where
  "mangling_char ELF = ''e''"
| "mangling_char MIPS = ''m''"
| "mangling_char MachO = ''o''"
| "mangling_char WindowsX86COFF = ''x''"
| "mangling_char WindowsCOFF = ''w''"
| "mangling_char XCOFF = ''a''"

definition opt_chunk :: "u32 option \<Rightarrow> string list" where
  "opt_chunk p = (case p of None \<Rightarrow> [] | Some n \<Rightarrow> [show_word n])"

fun spec_chunks :: "layout_spec \<Rightarrow> string list" where
  "spec_chunks (LS_endian BigEndian) = [''E'']"
| "spec_chunks (LS_endian LittleEndian) = [''e'']"
| "spec_chunks (LS_stack n) = [CHR ''S'' # show_word n]"
| "spec_chunks (LS_program n) = [CHR ''P'' # show_word n]"
| "spec_chunks (LS_alloca n) = [CHR ''A'' # show_word n]"
| "spec_chunks (LS_pointer a sz al r) =
     (CHR ''p'' # show_word a) # show_word sz # show_word al #
     (case r of None \<Rightarrow> [] | Some (p, idx) \<Rightarrow> show_word p # opt_chunk idx)"
| "spec_chunks (LS_int sz a p) = (CHR ''i'' # show_word sz) # show_word a # opt_chunk p"
| "spec_chunks (LS_vec sz a p) = (CHR ''v'' # show_word sz) # show_word a # opt_chunk p"
| "spec_chunks (LS_fp sz a p) = (CHR ''f'' # show_word sz) # show_word a # opt_chunk p"
| "spec_chunks (LS_agg a p) = ''a'' # show_word a # opt_chunk p"
| "spec_chunks (LS_fptr True a) = [''Fi'' @ show_word a]"
| "spec_chunks (LS_fptr False a) = [''Fn'' @ show_word a]"
| "spec_chunks (LS_mangling m) = [''m'', mangling_char m]"
| "spec_chunks (LS_non_integral as) = ''ni'' # map show_word as"
| "spec_chunks (LS_native w ws) = (CHR ''n'' # show_word w) # map show_word ws"
| "spec_chunks LS_none = [[]]"

definition show_spec :: "layout_spec \<Rightarrow> string" where
  "show_spec s = join_char (CHR '':'') (spec_chunks s)"

definition show_layout :: "layout_spec list \<Rightarrow> string" where
  "show_layout ss = join_char (CHR ''-'') (map show_spec ss)"

definition the_pref :: "u32 \<Rightarrow> u32 option \<Rightarrow> Alignment" where
  "the_pref a p = \<lparr>abi = a, pref = (case p of None \<Rightarrow> a | Some q \<Rightarrow> q)\<rparr>"

text \<open>What a specification means.\<close>

fun apply_spec :: "layout_spec \<Rightarrow> DataLayout \<Rightarrow> DataLayout" where
  "apply_spec (LS_endian e) d = d\<lparr>endianness := e\<rparr>"
| "apply_spec (LS_stack n) d = d\<lparr>stack_alignment := Some n\<rparr>"
| "apply_spec (LS_program n) d = d\<lparr>program_address_space := n\<rparr>"
| "apply_spec (LS_alloca n) d = d\<lparr>alloca_address_space := n\<rparr>"
| "apply_spec (LS_pointer a sz al r) d =
     map_alignments (\<lambda>t. t\<lparr>pointer_layouts := (pointer_layouts t)(a \<mapsto>
       \<lparr>ptr_size = sz, ptr_align = the_pref al (map_option fst r),
        index_size = (case Option.bind r snd of None \<Rightarrow> sz | Some i \<Rightarrow> i)\<rparr>)\<rparr>) d"
| "apply_spec (LS_int sz a p) d =
     map_alignments (\<lambda>t. t\<lparr>int_alignments := btree_insert sz (the_pref a p) (int_alignments t)\<rparr>) d"
| "apply_spec (LS_vec sz a p) d =
     map_alignments (\<lambda>t. t\<lparr>vec_alignments := btree_insert sz (the_pref a p) (vec_alignments t)\<rparr>) d"
| "apply_spec (LS_fp sz a p) d =
     map_alignments (\<lambda>t. t\<lparr>fp_alignments := (fp_alignments t)(sz \<mapsto> the_pref a p)\<rparr>) d"
| "apply_spec (LS_agg a p) d = map_alignments (\<lambda>t. t\<lparr>agg_alignment := the_pref a p\<rparr>) d"
| "apply_spec (LS_fptr ind a) d = map_alignments (set_fptr ind a) d"
| "apply_spec (LS_mangling m) d = d\<lparr>mangling := Some m\<rparr>"
| "apply_spec (LS_non_integral as) d = d\<lparr>non_integral_ptr_types := set as \<union> non_integral_ptr_types d\<rparr>"
| "apply_spec (LS_native w ws) d = add_widths (w # ws) d"
| "apply_spec LS_none d = d"

fun spec_ok :: "layout_spec \<Rightarrow> bool" where
  "spec_ok (LS_non_integral as) \<longleftrightarrow> 0 \<notin> set as"
| "spec_ok _ \<longleftrightarrow> True"

section \<open>The reader inverts the printer\<close>

lemma parse_u32_show_word [simp]: "parse_u32 (show_word w) = Some w"
proof -
  obtain c r where s: "show_nat (unat w) = c # r" by (meson neq_Nil_conv show_nat_nonempty)
  then have "is_digit c" using show_nat_digits [of c "unat w"] by simp
  then have "c \<noteq> CHR ''+''" by (auto simp: is_digit_def)
  moreover have "unat w < 2 ^ LENGTH(32)" by (rule unsigned_less)
  ultimately show ?thesis
    using parse_show_nat [of "unat w"] s by (simp add: parse_u32_def show_word_def)
qed

lemma those_show_word [simp]: "those (map (parse_u32 \<circ> show_word) ws) = Some ws"
  by (induction ws) simp_all

lemma show_word_chars: "c \<in> set (show_word w) \<Longrightarrow> is_digit c"
  by (simp add: show_word_def show_nat_digits)

lemma show_word_no_sep [simp]: "CHR '':'' \<notin> set (show_word w)" "CHR ''-'' \<notin> set (show_word w)"
  using show_word_chars [of "CHR '':''" w] show_word_chars [of "CHR ''-''" w] by (auto simp: is_digit_def)

lemma spec_chunks_no_sep:
  "p \<in> set (spec_chunks s) \<Longrightarrow> CHR '':'' \<notin> set p \<and> CHR ''-'' \<notin> set p"
proof (cases s)
  case (LS_endian e)
  then show "p \<in> set (spec_chunks s) \<Longrightarrow> ?thesis" by (cases e) auto
next
  case (LS_mangling m)
  then show "p \<in> set (spec_chunks s) \<Longrightarrow> ?thesis" by (cases m) auto
next
  case (LS_fptr ind a)
  then show "p \<in> set (spec_chunks s) \<Longrightarrow> ?thesis" by (cases ind) auto
qed (auto simp: opt_chunk_def split: option.splits)

lemma spec_chunks_nonempty [simp]: "spec_chunks s \<noteq> []"
  by (cases s rule: spec_chunks.cases) simp_all

lemma split_show_spec: "split_char (CHR '':'') (show_spec s) = spec_chunks s"
  using spec_chunks_no_sep by (simp add: show_spec_def split_join_char)

lemma show_spec_no_dash: "CHR ''-'' \<notin> set (show_spec s)"
  using set_join_char [of "CHR '':''" "spec_chunks s"] spec_chunks_no_sep [of _ s]
  by (auto simp: show_spec_def)


lemma parse_opt_chunk [simp]: "parse_abi_pref (show_word a # opt_chunk p) = Some (the_pref a p)"
  by (auto simp: parse_abi_pref_def opt_chunk_def the_pref_def split: option.split)

lemma parse_mangling_char [simp]: "parse_mangling [''m'', mangling_char m] = Some m"
  by (cases m) (simp_all add: parse_mangling_def)

lemma parse_pointer_chunks [simp]:
  "parse_pointer ((CHR ''p'' # show_word a) # show_word sz # show_word al #
      (case r of None \<Rightarrow> [] | Some (p, idx) \<Rightarrow> show_word p # opt_chunk idx)) =
     Some (a, \<lparr>ptr_size = sz, ptr_align = the_pref al (map_option fst r),
       index_size = (case Option.bind r snd of None \<Rightarrow> sz | Some i \<Rightarrow> i)\<rparr>)"
proof -
  have "show_word a \<noteq> []" by (simp add: show_word_def)
  then show ?thesis
    by (cases r) (auto simp: parse_pointer_def opt_chunk_def the_pref_def split: option.split)
qed

lemma hd_show_spec:
  "show_spec s = hd (spec_chunks s) @ (if tl (spec_chunks s) = [] then [] else
     CHR '':'' # join_char (CHR '':'') (tl (spec_chunks s)))"
  by (cases "spec_chunks s" rule: list.exhaust [case_product list.exhaust])
     (auto simp: show_spec_def neq_Nil_conv)

lemma starts_with_Cons [simp]:
  "starts_with [] s" "\<not> starts_with (c # p) []"
  "starts_with (c # p) (x # xs) \<longleftrightarrow> c = x \<and> starts_with p xs"
  by (auto simp: starts_with_def)

lemma starts_with_show_word [simp]:
  "\<not> is_digit c \<Longrightarrow> \<not> starts_with (c # p) (show_word w @ r)"
  "\<not> is_digit c \<Longrightarrow> \<not> starts_with (c # p) (show_word w)"
  "\<not> is_digit c \<Longrightarrow> show_word w \<noteq> c # p"
proof -
  obtain x xs where s: "show_word w = x # xs" by (metis neq_Nil_conv show_nat_nonempty show_word_def)
  then have "is_digit x" using show_word_chars [of x w] by simp
  then show "\<not> is_digit c \<Longrightarrow> \<not> starts_with (c # p) (show_word w @ r)"
    "\<not> is_digit c \<Longrightarrow> \<not> starts_with (c # p) (show_word w)"
    "\<not> is_digit c \<Longrightarrow> show_word w \<noteq> c # p"
    using s by auto
qed

lemma not_is_digit [simp]: "\<not> is_digit (CHR ''i'')" by (simp add: is_digit_def)

lemma parse_show_spec:
  assumes "spec_ok s"
  shows "parse_spec (show_spec s) d = Some (apply_spec s d)"
  unfolding parse_spec_def split_show_spec Let_def using assms hd_show_spec [of s]
  by (cases s rule: spec_chunks.cases) (simp_all add: parse_sized_def)

lemma parse_show_specs:
  "list_all spec_ok ss \<Longrightarrow> parse_specs (map show_spec ss) d = Some (fold apply_spec ss d)"
  by (induction ss arbitrary: d) (simp_all add: parse_show_spec)

lemma from_str_show_layout:
  assumes "list_all spec_ok ss" "ss \<noteq> []"
  shows "DataLayout_from_str (show_layout ss) =
     Some (fold apply_spec ss (DataLayout_default\<lparr>layout_str := show_layout ss\<rparr>))"
  using assms show_spec_no_dash
  by (simp add: DataLayout_from_str_def show_layout_def split_join_char parse_show_specs)

section \<open>What the reader accepts\<close>

lemma the_pref_eta: "the_pref (abi al) (Some (pref al)) = al"
  by (simp add: the_pref_def)

text \<open>Every update that \<open>parse_spec\<close> makes is the meaning of a specification.\<close>

lemma updates_are_specs:
  "map_alignments (\<lambda>t. t\<lparr>int_alignments := btree_insert sz a (int_alignments t)\<rparr>) d =
     apply_spec (LS_int sz (abi a) (Some (pref a))) d"
  "map_alignments (\<lambda>t. t\<lparr>vec_alignments := btree_insert sz a (vec_alignments t)\<rparr>) d =
     apply_spec (LS_vec sz (abi a) (Some (pref a))) d"
  "map_alignments (\<lambda>t. t\<lparr>fp_alignments := (fp_alignments t)(sz \<mapsto> a)\<rparr>) d =
     apply_spec (LS_fp sz (abi a) (Some (pref a))) d"
  "map_alignments (\<lambda>t. t\<lparr>agg_alignment := a\<rparr>) d = apply_spec (LS_agg (abi a) (Some (pref a))) d"
  "map_alignments (\<lambda>t. t\<lparr>pointer_layouts := (pointer_layouts t)(sp \<mapsto> l)\<rparr>) d =
     apply_spec (LS_pointer sp (ptr_size l) (abi (ptr_align l))
       (Some (pref (ptr_align l), Some (index_size l)))) d"
  by (cases l; simp add: the_pref_eta)+

definition specified :: "DataLayout \<Rightarrow> DataLayout option \<Rightarrow> bool" where
  "specified d r \<longleftrightarrow> (\<forall>d'. r = Some d' \<longrightarrow> (\<exists>sp. spec_ok sp \<and> d' = apply_spec sp d))"

lemma specified_None: "specified d None"
  by (simp add: specified_def)

lemma specified_if: "specified d x \<Longrightarrow> specified d y \<Longrightarrow> specified d (if b then x else y)"
  by simp

lemma specified_map: "(\<And>x. p = Some x \<Longrightarrow> specified d (Some (f x))) \<Longrightarrow> specified d (map_option f p)"
  by (auto simp: specified_def)

lemma specified_spec: "spec_ok sp \<Longrightarrow> r = Some (apply_spec sp d) \<Longrightarrow> specified d r"
  by (auto simp: specified_def)

lemma specified_fields:
  "specified d (Some d)" "specified d (Some (d\<lparr>endianness := e\<rparr>))"
  "specified d (Some (d\<lparr>stack_alignment := Some n\<rparr>))" "specified d (Some (d\<lparr>program_address_space := n\<rparr>))"
  "specified d (Some (d\<lparr>alloca_address_space := n\<rparr>))" "specified d (Some (map_alignments (set_fptr b n) d))"
  "specified d (Some (d\<lparr>mangling := Some m\<rparr>))"
  by (rule specified_spec [of LS_none] specified_spec [of "LS_endian e"] specified_spec [of "LS_stack n"]
      specified_spec [of "LS_program n"] specified_spec [of "LS_alloca n"] specified_spec [of "LS_fptr b n"]
      specified_spec [of "LS_mangling m"]; simp)+

lemma specified_tables:
  "specified d (Some (case q of (sz, a) \<Rightarrow>
     map_alignments (\<lambda>t. t\<lparr>int_alignments := btree_insert sz a (int_alignments t)\<rparr>) d))"
  "specified d (Some (case q of (sz, a) \<Rightarrow>
     map_alignments (\<lambda>t. t\<lparr>vec_alignments := btree_insert sz a (vec_alignments t)\<rparr>) d))"
  "specified d (Some (case q of (sz, a) \<Rightarrow>
     map_alignments (\<lambda>t. t\<lparr>fp_alignments := (fp_alignments t)(sz \<mapsto> a)\<rparr>) d))"
  "specified d (Some (map_alignments (\<lambda>t. t\<lparr>agg_alignment := a\<rparr>) d))"
  "specified d (Some (case r of (sp, l) \<Rightarrow>
     map_alignments (\<lambda>t. t\<lparr>pointer_layouts := (pointer_layouts t)(sp \<mapsto> l)\<rparr>) d))"
  by (auto simp only: updates_are_specs spec_ok.simps split: prod.split intro!: specified_spec)

lemma specified_sets:
  "specified d (if 0 \<in> set as then None
     else Some (d\<lparr>non_integral_ptr_types := set as \<union> non_integral_ptr_types d\<rparr>))"
  "specified d (map_option (\<lambda>ws. add_widths ws d) (those (map parse_u32 (c # cs))))"
proof -
  show "specified d (if 0 \<in> set as then None
     else Some (d\<lparr>non_integral_ptr_types := set as \<union> non_integral_ptr_types d\<rparr>))"
    using specified_spec [of "LS_non_integral as"] by (simp add: specified_None)
  show "specified d (map_option (\<lambda>ws. add_widths ws d) (those (map parse_u32 (c # cs))))"
  proof (rule specified_map)
    fix ws assume "those (map parse_u32 (c # cs)) = Some ws"
    then obtain v vs where "ws = v # vs" by (auto split: option.splits)
    then show "specified d (Some (add_widths ws d))" using specified_spec [of "LS_native v vs"] by simp
  qed
qed

lemma parse_spec_Some: "specified d (parse_spec s d)"
  unfolding parse_spec_def Let_def
  by (intro specified_if specified_map specified_fields specified_tables specified_sets specified_None)
     (simp split: option.split add: specified_None specified_sets)

lemma btree_insert_nonempty [simp]: "btree_insert k v m \<noteq> []"
  by (cases m rule: list.exhaust) (auto split: prod.split if_splits)

lemma apply_spec_ok:
  "alignments_ok (alignments d) \<Longrightarrow> alignments_ok (alignments (apply_spec s d))"
  by (cases s) (auto simp: map_alignments_def alignments_ok_def btree_insert_ok set_fptr_def add_widths_def)

lemma parse_specs_Some:
  "parse_specs ss d = Some d' \<Longrightarrow> \<exists>sps. list_all spec_ok sps \<and> d' = fold apply_spec sps d"
proof (induction ss arbitrary: d)
  case (Cons s ss)
  then obtain d1 where "parse_spec s d = Some d1" "parse_specs ss d1 = Some d'"
    by (auto simp: bind_eq_Some_conv)
  then obtain sp sps where "spec_ok sp" "d1 = apply_spec sp d" "list_all spec_ok sps"
      "d' = fold apply_spec sps d1"
    using Cons.IH parse_spec_Some unfolding specified_def by blast
  then have "list_all spec_ok (sp # sps) \<and> d' = fold apply_spec (sp # sps) d" by simp
  then show ?case by blast
qed (auto intro: exI [of _ "[]"])

lemma fold_apply_spec_ok:
  "alignments_ok (alignments d) \<Longrightarrow> alignments_ok (alignments (fold apply_spec ss d))"
  by (induction ss arbitrary: d) (simp_all add: apply_spec_ok)

lemma from_str_Some:
  assumes "DataLayout_from_str s = Some d"
  shows "\<exists>sps. list_all spec_ok sps \<and> d = fold apply_spec sps (DataLayout_default\<lparr>layout_str := s\<rparr>)"
  using assms parse_specs_Some by (simp add: DataLayout_from_str_def)

lemma from_str_alignments_ok:
  assumes "DataLayout_from_str s = Some d"
  shows "alignments_ok (alignments d)"
  using from_str_Some [OF assms] fold_apply_spec_ok Alignments_default_ok
  by (auto simp: DataLayout_default_def)

end
