(* ===== verification/Module_Reader.thy ===== *)
theory Module_Reader
  imports Terminator_Reader Layout_Parser
begin

text \<open>
  The translation of blocks, functions, global objects and modules from LLVM, for LLVM 19:
  \<open>from_llvm_ref\<close> in \<open>basicblock.rs\<close>, \<open>function.rs\<close> and \<open>module.rs\<close>.

  A function is read in two passes: the first gives every block and every value with a result its
  name, the second reads the instructions and counts the unnamed ones again. A module is read in two
  passes over its global objects in the same way. A null terminator does not occur: a module that
  LLVM has parsed is verified. The debug assertion on the names of blocks is left out; \<open>Reader_Numbering\<close>
  shows that it holds.
\<close>

section \<open>Blocks\<close>

definition needs_name :: "'a inst_api_scheme \<Rightarrow> LLVMValueRef \<Rightarrow> bool" where
  "needs_name api inst \<longleftrightarrow>
     get_value_name api inst \<noteq> [] \<or>
     (case LLVMGetInstructionOpcode api inst of
        LLVMStore \<Rightarrow> False
      | LLVMFence \<Rightarrow> False
      | LLVMCall \<Rightarrow> \<not> returns_void api inst
      | _ \<Rightarrow> True)"

definition term_needs_name :: "'a inst_api_scheme \<Rightarrow> LLVMValueRef \<Rightarrow> bool" where
  "term_needs_name api t \<longleftrightarrow>
     get_value_name api t \<noteq> [] \<or> LLVMGetInstructionOpcode api t \<in> {LLVMInvoke, LLVMCatchSwitch, LLVMCallBr}"

text \<open>Naming values in order, on a counter.\<close>

fun name_values ::
  "'a value_api_scheme \<Rightarrow> LLVMValueRef list \<Rightarrow> usize \<Rightarrow> (LLVMValueRef \<times> Name) list \<times> usize" where
  "name_values api [] c = ([], c)"
| "name_values api (v # vs) c =
     (let (nm, c1) = name_or_num (get_value_name api v) c; (rest, c2) = name_values api vs c1
      in ((v, nm) # rest, c2))"

definition first_pass_names ::
  "'a function_api_scheme \<Rightarrow> LLVMBasicBlockRef \<Rightarrow> usize \<Rightarrow> ((Name \<times> (LLVMValueRef \<times> Name) list) \<times> usize) option" where
  "first_pass_names api bb c =
     do { let (bbname, c) = name_or_num (get_bb_name api bb) c;
          insts \<leftarrow> get_instructions api bb;
          let (instnames, c) = name_values api (filter (needs_name api) (all_but_last insts)) c;
          let t = LLVMGetBasicBlockTerminator api bb;
          let (termnames, c) = (if term_needs_name api t then name_values api [t] c else ([], c));
          Some ((bbname, instnames @ termnames), c) }"

fun read_instructions :: "'a inst_api_scheme \<Rightarrow> nat \<Rightarrow> LLVMValueRef list \<Rightarrow> ModuleContext \<Rightarrow> FunctionContext \<Rightarrow>
   (Instruction list \<times> ModuleContext \<times> FunctionContext) option" where
  "read_instructions api depth [] ctx func_ctx = Some ([], ctx, func_ctx)"
| "read_instructions api depth (v # vs) ctx func_ctx =
     do { (i, ctx, func_ctx) \<leftarrow> Instruction_from_llvm_ref api depth v ctx func_ctx;
          (is, ctx, func_ctx) \<leftarrow> read_instructions api depth vs ctx func_ctx;
          Some (i # is, ctx, func_ctx) }"

definition BasicBlock_from_llvm_ref :: "'a function_api_scheme \<Rightarrow> nat \<Rightarrow> LLVMBasicBlockRef \<Rightarrow>
   ModuleContext \<times> FunctionContext \<Rightarrow> (BasicBlock \<times> ModuleContext \<times> FunctionContext) option" where
  "BasicBlock_from_llvm_ref api depth bb = (\<lambda>(ctx, func_ctx).
     do { let (name, c) = name_or_num (get_bb_name api bb) (ctr func_ctx);
          insts \<leftarrow> get_instructions api bb;
          (is, ctx, func_ctx) \<leftarrow> read_instructions api depth (all_but_last insts) ctx (func_ctx\<lparr>ctr := c\<rparr>);
          (t, ctx, func_ctx) \<leftarrow> Terminator_from_llvm_ref api depth (LLVMGetBasicBlockTerminator api bb) ctx func_ctx;
          Some (\<lparr>bb_name = name, instrs = is, bb_term = t\<rparr>, ctx, func_ctx) })"

section \<open>Functions\<close>

definition Parameter_from_llvm ::
  "'a function_api_scheme \<Rightarrow> nat \<Rightarrow> LLVMValueRef \<Rightarrow> nat \<times> LLVMValueRef \<Rightarrow> ModuleContext \<times> usize \<Rightarrow>
   (Parameter \<times> ModuleContext \<times> usize) option" where
  "Parameter_from_llvm api depth func = (\<lambda>(i, p) (ctx, c).
     do { let (nm, c) = name_or_num (get_value_name api p) c;
          (ty, ctx) \<leftarrow> read_type api depth (LLVMTypeOf api p) ctx;
          (attrs, ctx) \<leftarrow> traverse (read_param_attribute api depth)
             (LLVMGetAttributesAtIndex api func (of_nat (i + 1))) ctx;
          Some (\<lparr>param_name = nm, param_ty = ty, param_attributes = attrs\<rparr>, ctx, c) })"

definition from_llvm_ref_internal ::
  "'a function_api_scheme \<Rightarrow> nat \<Rightarrow> LLVMValueRef \<Rightarrow> ModuleContext \<Rightarrow>
   ((FunctionDeclaration \<times> usize) \<times> ModuleContext) option" where
  "from_llvm_ref_internal api depth func ctx =
     do { ps \<leftarrow> get_parameters api func;
          (params, ctx, c) \<leftarrow> traverse (Parameter_from_llvm api depth func) (enumerate 0 ps) (ctx, 0);
          let functy = LLVMGlobalGetValueType api func;
          (ret, ctx) \<leftarrow> read_type api depth (LLVMGetReturnType (types_api api) functy) ctx;
          (ret_attrs, ctx) \<leftarrow> traverse (read_param_attribute api depth)
             (LLVMGetAttributesAtIndex api func (LLVMAttributeReturnIndex api)) ctx;
          Some ((\<lparr>decl_name = get_value_name api func, decl_parameters = params,
                  decl_is_var_arg = LLVMIsFunctionVarArg (types_api api) functy, decl_return_type = ret,
                  decl_return_attributes = ret_attrs, decl_linkage = Linkage_from_llvm (LLVMGetLinkage api func),
                  decl_visibility = Visibility_from_llvm (LLVMGetVisibility api func),
                  decl_dll_storage_class = DLLStorageClass_from_llvm (LLVMGetDLLStorageClass api func),
                  decl_calling_convention =
                    CallingConvention_from_u32 (call_conv_number api) (LLVMGetFunctionCallConv api func),
                  decl_alignment = LLVMGetAlignment api func, decl_garbage_collector_name = get_gc api func,
                  decl_debugloc = from_llvm_no_col api func\<rparr>, c), ctx) }"

definition FunctionDeclaration_from_llvm_ref ::
  "'a function_api_scheme \<Rightarrow> nat \<Rightarrow> LLVMValueRef \<Rightarrow> ModuleContext \<Rightarrow> (FunctionDeclaration \<times> ModuleContext) option" where
  "FunctionDeclaration_from_llvm_ref api depth func ctx =
     do { assert (LLVMIsAFunction api func);
          ((decl, _), ctx) \<leftarrow> from_llvm_ref_internal api depth func ctx;
          Some (decl, ctx) }"

text \<open>Collecting pairs into a hash map: a later pair replaces an earlier one.\<close>

definition collect_map :: "('k \<times> 'v) list \<Rightarrow> 'k \<rightharpoonup> 'v" where
  "collect_map ps = map_of (rev ps)"

definition function_context ::
  "LLVMBasicBlockRef list \<Rightarrow> (Name \<times> (LLVMValueRef \<times> Name) list) list \<Rightarrow> LLVMValueRef list \<Rightarrow> Parameter list \<Rightarrow>
   usize \<Rightarrow> FunctionContext" where
  "function_context bbs bbresults ps params c =
     \<lparr>bb_names = collect_map (zip bbs (map fst bbresults)),
      val_names = collect_map (concat (map snd bbresults) @ zip ps (map param_name params)), ctr = c\<rparr>"

definition Function_from_llvm_ref ::
  "'a function_api_scheme \<Rightarrow> nat \<Rightarrow> LLVMValueRef \<Rightarrow> ModuleContext \<Rightarrow> (Function \<times> ModuleContext) option" where
  "Function_from_llvm_ref api depth func ctx =
     do { assert (LLVMIsAFunction api func);
          ((decl, c), ctx) \<leftarrow> from_llvm_ref_internal api depth func ctx;
          bbs \<leftarrow> get_basic_blocks api func;
          (bbresults, _) \<leftarrow> traverse (first_pass_names api) bbs c;
          ps \<leftarrow> get_parameters api func;
          let func_ctx = function_context bbs bbresults ps (decl_parameters decl) c;
          (blocks, ctx, _) \<leftarrow> traverse (BasicBlock_from_llvm_ref api depth) bbs (ctx, func_ctx);
          fas \<leftarrow> read_function_attributes api (LLVMGetAttributesAtIndex api func (LLVMAttributeFunctionIndex api)) ctx;
          (pers, ctx) \<leftarrow> (case LLVMGetPersonalityFn api func of
             None \<Rightarrow> Some (None, ctx)
           | Some p \<Rightarrow> do { (k, ctx) \<leftarrow> Constant_from_llvm_ref api depth p ctx; Some (Some k, ctx) });
          Some (\<lparr>func_name = decl_name decl, func_parameters = decl_parameters decl,
                 func_is_var_arg = decl_is_var_arg decl, func_return_type = decl_return_type decl,
                 basic_blocks = blocks, func_function_attributes = fas,
                 func_return_attributes = decl_return_attributes decl, func_linkage = decl_linkage decl,
                 func_visibility = decl_visibility decl, func_dll_storage_class = decl_dll_storage_class decl,
                 func_calling_convention = decl_calling_convention decl, func_section = get_section api func,
                 func_comdat = map_option Comdat_from_llvm_ref (LLVMGetComdat api func),
                 func_alignment = decl_alignment decl, garbage_collector_name = decl_garbage_collector_name decl,
                 personality_function = pers, func_debugloc = decl_debugloc decl\<rparr>, ctx) }"

section \<open>Global objects\<close>

definition pointer_space :: "TypeRef \<Rightarrow> AddrSpace option" where
  "pointer_space ty = (case ty of PointerType a \<Rightarrow> Some a | _ \<Rightarrow> None)"

definition GlobalVariable_from_llvm_ref ::
  "llvm_api \<Rightarrow> nat \<Rightarrow> LLVMValueRef \<Rightarrow> ModuleContext \<times> usize \<Rightarrow> (GlobalVariable \<times> ModuleContext \<times> usize) option" where
  "GlobalVariable_from_llvm_ref api depth g = (\<lambda>(ctx, c).
     do { (ty, ctx) \<leftarrow> read_type api depth (LLVMTypeOf api g) ctx;
          space \<leftarrow> pointer_space ty;
          let (nm, c) = name_or_num (get_value_name api g) c;
          (init, ctx) \<leftarrow> (case LLVMGetInitializer api g of
             None \<Rightarrow> Some (None, ctx)
           | Some it \<Rightarrow> do { (k, ctx) \<leftarrow> Constant_from_llvm_ref api depth it ctx; Some (Some k, ctx) });
          Some (\<lparr>gv_name = nm, gv_linkage = Linkage_from_llvm (LLVMGetLinkage api g),
                 gv_visibility = Visibility_from_llvm (LLVMGetVisibility api g),
                 is_constant = LLVMIsGlobalConstant api g, gv_ty = ty, gv_addr_space = space,
                 gv_dll_storage_class = DLLStorageClass_from_llvm (LLVMGetDLLStorageClass api g),
                 gv_thread_local_mode = ThreadLocalMode_from_llvm (LLVMGetThreadLocalMode api g),
                 gv_unnamed_addr = UnnamedAddr_from_llvm (LLVMGetUnnamedAddress api g), initializer = init,
                 gv_section = get_section api g,
                 gv_comdat = map_option Comdat_from_llvm_ref (LLVMGetComdat api g),
                 gv_alignment = LLVMGetAlignment api g, gv_debugloc = from_llvm_no_col api g\<rparr>, ctx, c) })"

definition GlobalAlias_from_llvm_ref ::
  "llvm_api \<Rightarrow> nat \<Rightarrow> LLVMValueRef \<Rightarrow> ModuleContext \<times> usize \<Rightarrow> (GlobalAlias \<times> ModuleContext \<times> usize) option" where
  "GlobalAlias_from_llvm_ref api depth g = (\<lambda>(ctx, c).
     do { (ty, ctx) \<leftarrow> read_type api depth (LLVMTypeOf api g) ctx;
          space \<leftarrow> pointer_space ty;
          let (nm, c) = name_or_num (get_value_name api g) c;
          (k, ctx) \<leftarrow> Constant_from_llvm_ref api depth (LLVMAliasGetAliasee api g) ctx;
          Some (\<lparr>ga_name = nm, aliasee = k, ga_linkage = Linkage_from_llvm (LLVMGetLinkage api g),
                 ga_visibility = Visibility_from_llvm (LLVMGetVisibility api g), ga_ty = ty,
                 ga_addr_space = space,
                 ga_dll_storage_class = DLLStorageClass_from_llvm (LLVMGetDLLStorageClass api g),
                 ga_thread_local_mode = ThreadLocalMode_from_llvm (LLVMGetThreadLocalMode api g),
                 ga_unnamed_addr = UnnamedAddr_from_llvm (LLVMGetUnnamedAddress api g)\<rparr>, ctx, c) })"

definition GlobalIFunc_from_llvm_ref ::
  "llvm_api \<Rightarrow> nat \<Rightarrow> LLVMValueRef \<Rightarrow> ModuleContext \<times> usize \<Rightarrow> (GlobalIFunc \<times> ModuleContext \<times> usize) option" where
  "GlobalIFunc_from_llvm_ref api depth g = (\<lambda>(ctx, c).
     do { let (nm, c) = name_or_num (get_value_name api g) c;
          (ty, ctx) \<leftarrow> read_type api depth (LLVMTypeOf api g) ctx;
          (k, ctx) \<leftarrow> Constant_from_llvm_ref api depth (LLVMGetGlobalIFuncResolver api g) ctx;
          Some (\<lparr>gi_name = nm, gi_linkage = Linkage_from_llvm (LLVMGetLinkage api g),
                 gi_visibility = Visibility_from_llvm (LLVMGetVisibility api g), gi_ty = ty,
                 resolver_fn = k\<rparr>, ctx, c) })"

section \<open>Modules\<close>

definition module_global_names ::
  "llvm_api \<Rightarrow> LLVMValueRef list \<Rightarrow> LLVMValueRef list \<Rightarrow> LLVMValueRef list \<Rightarrow> LLVMValueRef list \<Rightarrow>
   LLVMValueRef list \<Rightarrow> LLVMValueRef \<rightharpoonup> Name" where
  "module_global_names api defs decls vars als ifs =
     collect_map (fst (name_values api (defs @ decls @ vars @ als @ ifs) 0))"

definition Module_from_llvm_ref :: "llvm_api \<Rightarrow> nat \<Rightarrow> Module option" where
  "Module_from_llvm_ref api depth =
     do { defs \<leftarrow> get_defined_functions api;
          decls \<leftarrow> get_declared_functions api;
          vars \<leftarrow> get_globals api;
          als \<leftarrow> get_global_aliases api;
          ifs \<leftarrow> get_global_ifuncs api;
          let ctx = ModuleContext_new api (module_global_names api defs decls vars als ifs);
          layout \<leftarrow> DataLayout_from_str (get_data_layout_str api);
          (fs, ctx) \<leftarrow> traverse (Function_from_llvm_ref api depth) defs ctx;
          (ds, ctx) \<leftarrow> traverse (FunctionDeclaration_from_llvm_ref api depth) decls ctx;
          (gvs, ctx, c) \<leftarrow> traverse (GlobalVariable_from_llvm_ref api depth) vars (ctx, 0);
          (gas, ctx, c) \<leftarrow> traverse (GlobalAlias_from_llvm_ref api depth) als (ctx, c);
          (gis, ctx, c) \<leftarrow> traverse (GlobalIFunc_from_llvm_ref api depth) ifs (ctx, c);
          Some \<lparr>mod_name = get_module_identifier api, source_file_name = get_source_file_name api,
                data_layout = layout, target_triple = get_target api, module_functions = fs,
                func_declarations = ds, global_vars = gvs, global_aliases = gas, global_ifuncs = gis,
                inline_assembly = get_module_inline_asm api, module_types = TypesBuilder_build (ctx_types ctx)\<rparr> }"

end
