(* ===== verification/Module_Loader.thy ===== *)
theory Module_Loader
  imports Cli Module_Reader
begin

text \<open>
  Loading a module: \<open>from_bc_path\<close>, \<open>from_ir_path\<close> and \<open>from_ir_str\<close> of module.rs, between the file and
  the translation of Module\_Reader. The foreign functions are the record \<open>llvm_lib\<close>. The calls that
  create, use and release LLVM's objects are kept in a log; a ledger says which sequences of calls are
  in order, and the lemmas show that every load keeps to it and leaves nothing behind but messages.
\<close>

section \<open>The library\<close>

type_synonym LLVMContextRef = nat
type_synonym LLVMMemoryBufferRef = nat
type_synonym LLVMModuleRef = nat

text \<open>A call that fails gives its message, a C string. \<open>module_api\<close> are the functions that read a module.\<close>

record llvm_lib =
  LLVMContextCreate :: LLVMContextRef
  LLVMCreateMemoryBufferWithContentsOfFile :: "world \<Rightarrow> string \<Rightarrow> string + LLVMMemoryBufferRef"
  LLVMCreateMemoryBufferWithMemoryRangeCopy :: "string \<Rightarrow> LLVMMemoryBufferRef"
  LLVMParseIRInContext :: "LLVMContextRef \<Rightarrow> LLVMMemoryBufferRef \<Rightarrow> string + LLVMModuleRef"
  LLVMParseBitcodeInContext2 :: "LLVMContextRef \<Rightarrow> LLVMMemoryBufferRef \<Rightarrow> LLVMModuleRef option"
  module_api :: "LLVMModuleRef \<Rightarrow> llvm_api"

datatype llvm_call =
    Context_Create LLVMContextRef
  | Context_Dispose LLVMContextRef
  | Buffer_Create LLVMMemoryBufferRef
  | Buffer_Dispose LLVMMemoryBufferRef
  | Parse_IR LLVMContextRef LLVMMemoryBufferRef "LLVMModuleRef option"
  | Parse_Bitcode LLVMContextRef LLVMMemoryBufferRef "LLVMModuleRef option"
  | Message_Create
  | Module_Read LLVMModuleRef

text \<open>How a function ends: it panics, returns an error or returns a value. \<open>Untranslated\<close>: the translation of
  Module\_Reader does not return a module, because it panics, exhausts the stack or follows an endless list.\<close>

datatype 'a outcome = Panicking | Untranslated | Failed string | Returned 'a

type_synonym module_parser =
  "LLVMContextRef \<Rightarrow> LLVMMemoryBufferRef \<Rightarrow> llvm_call list \<Rightarrow> LLVMModuleRef outcome \<times> llvm_call list"

section \<open>Loading\<close>

text \<open>\<open>CStr::to_str\<close> panics (\<open>expect\<close>) when the text is not UTF-8.\<close>

definition raw_to_string :: "string \<Rightarrow> string option" where
  "raw_to_string raw = (if valid_utf8 (c_str raw) then Some (c_str raw) else None)"

definition parse_bc :: "llvm_lib \<Rightarrow> module_parser" where
  "parse_bc lib context_ref mem_buf calls =
     (let result = LLVMParseBitcodeInContext2 lib context_ref mem_buf;
          calls1 = calls @ [Parse_Bitcode context_ref mem_buf result, Buffer_Dispose mem_buf]
      in (case result of Some r \<Rightarrow> Returned r | None \<Rightarrow> Failed ''Failed to parse bitcode'', calls1))"

definition parse_ir :: "llvm_lib \<Rightarrow> module_parser" where
  "parse_ir lib context_ref mem_buf calls =
     (case LLVMParseIRInContext lib context_ref mem_buf of
        Inr r \<Rightarrow> (Returned r, calls @ [Parse_IR context_ref mem_buf (Some r)])
      | Inl err_string \<Rightarrow>
          (case raw_to_string err_string of
             Some s \<Rightarrow> Failed (''Failed to parse IR: '' @ s)
           | None \<Rightarrow> Panicking,
           calls @ [Parse_IR context_ref mem_buf None, Message_Create]))"

text \<open>The context is dropped on every way out, also when the translation panics. (A translation that exhausts
  the stack or never ends is no way out.)\<close>

definition from_buffer ::
  "llvm_lib \<Rightarrow> nat \<Rightarrow> LLVMMemoryBufferRef \<Rightarrow> module_parser \<Rightarrow> llvm_call list \<Rightarrow> Module outcome \<times> llvm_call list" where
  "from_buffer lib depth memory_buffer parse calls =
     (let context = LLVMContextCreate lib;
          (parsed, calls1) = parse context memory_buffer (calls @ [Context_Create context]);
          (res, calls2) =
            (case parsed of
               Returned r \<Rightarrow>
                 (case Module_from_llvm_ref (module_api lib r) depth of Some m \<Rightarrow> Returned m | None \<Rightarrow> Untranslated,
                  calls1 @ [Module_Read r])
             | Failed e \<Rightarrow> (Failed e, calls1)
             | Panicking \<Rightarrow> (Panicking, calls1)
             | Untranslated \<Rightarrow> (Untranslated, calls1))
      in (res, calls2 @ [Context_Dispose context]))"

definition from_path ::
  "llvm_lib \<Rightarrow> nat \<Rightarrow> world \<Rightarrow> path \<Rightarrow> module_parser \<Rightarrow> llvm_call list \<Rightarrow> Module outcome \<times> llvm_call list" where
  "from_path lib depth w p parse calls =
     (if \<not> valid_utf8 p \<or> has_nul p then (Panicking, calls)
      else
        (case LLVMCreateMemoryBufferWithContentsOfFile lib w p of
           Inl err_string \<Rightarrow>
             (case raw_to_string err_string of Some s \<Rightarrow> Failed s | None \<Rightarrow> Panicking, calls @ [Message_Create])
         | Inr memory_buffer \<Rightarrow> from_buffer lib depth memory_buffer parse (calls @ [Buffer_Create memory_buffer])))"

definition Module_from_bc_path :: "llvm_lib \<Rightarrow> nat \<Rightarrow> world \<Rightarrow> path \<Rightarrow> Module outcome \<times> llvm_call list" where
  "Module_from_bc_path lib depth w p = from_path lib depth w p (parse_bc lib) []"

definition Module_from_ir_path :: "llvm_lib \<Rightarrow> nat \<Rightarrow> world \<Rightarrow> path \<Rightarrow> Module outcome \<times> llvm_call list" where
  "Module_from_ir_path lib depth w p = from_path lib depth w p (parse_ir lib) []"

definition Module_from_ir_str :: "llvm_lib \<Rightarrow> nat \<Rightarrow> string \<Rightarrow> Module outcome \<times> llvm_call list" where
  "Module_from_ir_str lib depth s =
     (let memory_buffer = LLVMCreateMemoryBufferWithMemoryRangeCopy lib s
      in from_buffer lib depth memory_buffer (parse_ir lib) [Buffer_Create memory_buffer])"

text \<open>The command line loads its module by \<open>from_ir_path\<close> and catches a panic. Of the translation it is not
  known whether it panicked, which is caught as well, or ran out of stack or never ended, which is not.\<close>

definition catch_unwind :: "Module outcome \<Rightarrow> ParseResult" where
  "catch_unwind r =
     (case r of Panicking \<Rightarrow> ParserPanic | Untranslated \<Rightarrow> ParserLost | Failed e \<Rightarrow> ParseError e | Returned m \<Rightarrow> Parsed m)"

definition with_llvm :: "llvm_lib \<Rightarrow> nat \<Rightarrow> env \<Rightarrow> env" where
  "with_llvm lib depth e = e\<lparr>from_ir_path := (\<lambda>w p. catch_unwind (fst (Module_from_ir_path lib depth w p)))\<rparr>"

section \<open>The ledger\<close>

text \<open>
  LLVM's rules: an object is created before it is used and released once; the parser of text takes the
  buffer over, that of bitcode does not; a module lives as long as its context.
\<close>

record ledger =
  live_contexts :: "LLVMContextRef set"
  live_buffers :: "LLVMMemoryBufferRef set"
  live_modules :: "(LLVMModuleRef \<times> LLVMContextRef) set"
  messages :: nat

definition no_objects :: ledger where
  "no_objects = \<lparr>live_contexts = {}, live_buffers = {}, live_modules = {}, messages = 0\<rparr>"

definition add_module :: "LLVMContextRef \<Rightarrow> LLVMModuleRef option \<Rightarrow> ledger \<Rightarrow> ledger" where
  "add_module c r s =
     s\<lparr>live_modules := live_modules s \<union> (case r of Some x \<Rightarrow> {(x, c)} | None \<Rightarrow> {})\<rparr>"

fun account :: "llvm_call \<Rightarrow> ledger \<Rightarrow> ledger option" where
  "account (Context_Create c) s =
     (if c \<in> live_contexts s then None else Some (s\<lparr>live_contexts := insert c (live_contexts s)\<rparr>))"
| "account (Context_Dispose c) s =
     (if c \<notin> live_contexts s then None
      else Some (s\<lparr>live_contexts := live_contexts s - {c},
                   live_modules := Set.filter (\<lambda>(r, c'). c' \<noteq> c) (live_modules s)\<rparr>))"
| "account (Buffer_Create b) s =
     (if b \<in> live_buffers s then None else Some (s\<lparr>live_buffers := insert b (live_buffers s)\<rparr>))"
| "account (Buffer_Dispose b) s =
     (if b \<notin> live_buffers s then None else Some (s\<lparr>live_buffers := live_buffers s - {b}\<rparr>))"
| "account (Parse_IR c b r) s =
     (if c \<notin> live_contexts s \<or> b \<notin> live_buffers s then None
      else Some (add_module c r (s\<lparr>live_buffers := live_buffers s - {b}\<rparr>)))"
| "account (Parse_Bitcode c b r) s =
     (if c \<notin> live_contexts s \<or> b \<notin> live_buffers s then None else Some (add_module c r s))"
| "account Message_Create s = Some (s\<lparr>messages := Suc (messages s)\<rparr>)"
| "account (Module_Read r) s = (if r \<notin> fst ` live_modules s then None else Some s)"

fun accounts :: "llvm_call list \<Rightarrow> ledger \<Rightarrow> ledger option" where
  "accounts [] s = Some s"
| "accounts (k # ks) s = Option.bind (account k s) (accounts ks)"

text \<open>Contexts, buffers and modules are all released; \<open>n\<close> messages are left.\<close>

definition settles :: "llvm_call list \<Rightarrow> nat \<Rightarrow> bool" where
  "settles calls n \<longleftrightarrow> accounts calls no_objects = Some (no_objects\<lparr>messages := n\<rparr>)"

section \<open>Loading keeps the ledger\<close>

lemma bc_settles:
  "settles (snd (from_buffer lib depth b (parse_bc lib) [Buffer_Create b])) 0"
  by (auto simp: settles_def from_buffer_def parse_bc_def Let_def no_objects_def add_module_def
      split: option.split prod.split)

lemma ir_settles:
  "settles (snd (from_buffer lib depth b (parse_ir lib) [Buffer_Create b]))
     (if isl (LLVMParseIRInContext lib (LLVMContextCreate lib) b) then 1 else 0)"
  by (auto simp: settles_def from_buffer_def parse_ir_def Let_def no_objects_def add_module_def
      split: option.split prod.split sum.split)

lemma path_settles:
  assumes "\<And>b. settles (snd (from_buffer lib depth b parse [Buffer_Create b])) (n b)"
  shows "settles (snd (from_path lib depth w p parse []))
     (if valid_utf8 p \<and> \<not> has_nul p
      then case LLVMCreateMemoryBufferWithContentsOfFile lib w p of Inl _ \<Rightarrow> 1 | Inr b \<Rightarrow> n b else 0)"
  using assms by (auto simp: from_path_def settles_def no_objects_def split: sum.split)

section \<open>What loading returns\<close>

lemma Module_from_ir_path_Returned:
  "fst (Module_from_ir_path lib depth w p) = Returned m \<longleftrightarrow>
     valid_utf8 p \<and> \<not> has_nul p \<and>
     (\<exists>b r. LLVMCreateMemoryBufferWithContentsOfFile lib w p = Inr b \<and>
        LLVMParseIRInContext lib (LLVMContextCreate lib) b = Inr r \<and>
        Module_from_llvm_ref (module_api lib r) depth = Some m)"
  by (auto simp: Module_from_ir_path_def from_path_def from_buffer_def parse_ir_def Let_def
      split: option.splits sum.splits)

lemma with_llvm_Parsed:
  "from_ir_path (with_llvm lib depth e) w p = Parsed m \<longleftrightarrow> fst (Module_from_ir_path lib depth w p) = Returned m"
  by (auto simp: with_llvm_def catch_unwind_def split: outcome.splits)

section \<open>Resources\<close>

text \<open>
  (C34) Loading a module uses LLVM's objects in order and releases them: on every way out of \<open>from_bc_path\<close>,
  \<open>from_ir_path\<close> and \<open>from_ir_str\<close>, panics included, each context and each buffer is released exactly once
  and no module is read after its context. What is left behind is the message of a call that failed to
  read the file or to parse its text, which the code never disposes of.
\<close>

theorem module_loading_releases:
  "settles (snd (Module_from_bc_path lib depth w p))
     (if valid_utf8 p \<and> \<not> has_nul p
      then case LLVMCreateMemoryBufferWithContentsOfFile lib w p of Inl _ \<Rightarrow> 1 | Inr b \<Rightarrow> 0 else 0) \<and>
   settles (snd (Module_from_ir_path lib depth w p))
     (if valid_utf8 p \<and> \<not> has_nul p
      then case LLVMCreateMemoryBufferWithContentsOfFile lib w p of Inl _ \<Rightarrow> 1
         | Inr b \<Rightarrow> if isl (LLVMParseIRInContext lib (LLVMContextCreate lib) b) then 1 else 0
      else 0) \<and>
   settles (snd (Module_from_ir_str lib depth s))
     (if isl (LLVMParseIRInContext lib (LLVMContextCreate lib) (LLVMCreateMemoryBufferWithMemoryRangeCopy lib s))
      then 1 else 0)"
  unfolding Module_from_bc_path_def Module_from_ir_path_def Module_from_ir_str_def Let_def
  by (intro conjI path_settles bc_settles ir_settles)

end
