(* ===== verification/Zig_Attestation.thy ===== *)
theory Zig_Attestation
  imports Attestation
begin

text \<open>
  The alternative attestation bridge, \<open>skv-analyzer/src/zig/attestation_bridge.zig\<close>. The functions of
  Zig's standard library are modelled as they are documented: \<open>readUntilDelimiterOrEof\<close> fails on a
  line that does not fit its buffer, \<open>parseInt\<close> takes the whole text, a sign and underscores between
  digits, and \<open>openFileAbsolute\<close> and \<open>createFileAbsolute\<close> assert that the path is absolute. The build
  compiles with ReleaseSafe, in which a failed assertion and an overflow are panics: None here.
\<close>

section \<open>Text\<close>

definition parseBool :: "string \<Rightarrow> string \<Rightarrow> bool option" where
  "parseBool line pre =
     (case strip_prefix pre line of
        None \<Rightarrow> None
      | Some v \<Rightarrow>
          if v = ''true'' \<or> v = ''1'' then Some True
          else if v = ''false'' \<or> v = ''0'' then Some False
          else None)"

text \<open>\<open>std.fmt.parseInt(i64, buf, 10)\<close>\<close>

definition parseInt_digits :: "bool \<Rightarrow> string \<Rightarrow> int option" where
  "parseInt_digits neg buf =
     (if buf = [] \<or> hd buf = CHR ''_'' \<or> List.last buf = CHR ''_'' \<or>
         \<not> list_all (\<lambda>c. is_digit c \<or> c = CHR ''_'') buf then None
      else
        let n = int (digits_value (filter is_digit buf));
            v = (if neg then - n else n)
        in if in_i64 v then Some v else None)"

definition parseInt :: "string \<Rightarrow> int option" where
  "parseInt buf =
     (case buf of
        [] \<Rightarrow> None
      | c # r \<Rightarrow>
          if c = CHR ''+'' then parseInt_digits False r
          else if c = CHR ''-'' then parseInt_digits True r
          else parseInt_digits False buf)"

definition parseI64 :: "string \<Rightarrow> string \<Rightarrow> int option" where
  "parseI64 line pre = Option.bind (strip_prefix pre line) parseInt"

definition parseText :: "string \<Rightarrow> string \<Rightarrow> string option" where
  "parseText line pre =
     (case strip_prefix pre line of None \<Rightarrow> None | Some v \<Rightarrow> if v = [] then None else Some v)"

definition trimLine :: "string \<Rightarrow> string" where
  "trimLine line = rev (dropWhile (\<lambda>c. c = CHR 0x0D \<or> c = CHR 0x0A) (rev line))"

section \<open>The token\<close>

text \<open>\<open>readUntilDelimiterOrEof\<close> with a buffer of \<open>room\<close> bytes: the line and the rest of the stream.\<close>

definition readUntilDelimiterOrEof :: "nat \<Rightarrow> string \<Rightarrow> (string \<times> string) option" where
  "readUntilDelimiterOrEof room s =
     (let line = takeWhile (\<lambda>c. c \<noteq> CHR 0x0A) s
      in if room \<le> length line then None else Some (line, drop (Suc (length line)) s))"

text \<open>One turn of the reading loop; None is \<open>return false\<close>.\<close>

definition zig_read_line :: "string \<Rightarrow> token \<Rightarrow> token option" where
  "zig_read_line line t =
     (if tok_ring t = None \<and> parseI64 line ''ring:'' \<noteq> None then Some (t\<lparr>tok_ring := parseI64 line ''ring:''\<rparr>)
      else if tok_attested t = None \<and> parseBool line ''attested:'' \<noteq> None then
        Some (t\<lparr>tok_attested := parseBool line ''attested:''\<rparr>)
      else if tok_timestamp t = None \<and> parseI64 line ''timestamp:'' \<noteq> None then
        Some (t\<lparr>tok_timestamp := parseI64 line ''timestamp:''\<rparr>)
      else if tok_nonce t = None \<and> parseText line ''nonce:'' \<noteq> None then
        (if 256 < length (the (parseText line ''nonce:'')) then None
         else Some (t\<lparr>tok_nonce := parseText line ''nonce:''\<rparr>))
      else if tok_counter t = None \<and> parseI64 line ''counter:'' \<noteq> None then
        Some (t\<lparr>tok_counter := parseI64 line ''counter:''\<rparr>)
      else if tok_root_attested t = None \<and> parseBool line ''root_attested:'' \<noteq> None then
        Some (t\<lparr>tok_root_attested := parseBool line ''root_attested:''\<rparr>)
      else Some t)"

lemma readUntil_shorter:
  "readUntilDelimiterOrEof room (c # s) = Some (line, rest) \<Longrightarrow> length rest < Suc (length s)"
  by (auto simp: readUntilDelimiterOrEof_def Let_def split: if_splits)

function zig_read_token :: "string \<Rightarrow> token \<Rightarrow> token option" where
  "zig_read_token [] t = Some t"
| "zig_read_token (c # s) t =
     (case readUntilDelimiterOrEof 512 (c # s) of
        None \<Rightarrow> None
      | Some (line, rest) \<Rightarrow>
          (case zig_read_line (trimLine line) t of
             None \<Rightarrow> None
           | Some t1 \<Rightarrow> zig_read_token rest t1))"
  by pat_completeness auto
termination
  using readUntil_shorter by (relation "measure (\<lambda>(s, t). length s)") auto

text \<open>The checks after the loop. The subtraction panics when it overflows.\<close>

definition zig_token_checks :: "token \<Rightarrow> int \<Rightarrow> int \<Rightarrow> int \<Rightarrow> string option \<Rightarrow> bool option" where
  "zig_token_checks t required_ring max_age_sec now expected_nonce =
     (case (tok_ring t, tok_attested t, tok_timestamp t, tok_counter t) of
        (Some ring, Some attested, Some ts, Some _) \<Rightarrow>
          if \<not> attested \<or> ring \<noteq> required_ring \<or> (required_ring = - 2 \<and> tok_root_attested t \<noteq> Some True) \<or>
             max_age_sec \<le> 0 \<or> now < ts then Some False
          else if \<not> in_i64 (now - ts) then None
          else Some (now - ts \<le> max_age_sec \<and>
            (case expected_nonce of None \<Rightarrow> True | Some n \<Rightarrow> tok_nonce t = Some n))
      | _ \<Rightarrow> Some False)"

section \<open>Files\<close>

definition isSecureRegularFile :: "world \<Rightarrow> path \<Rightarrow> bool" where
  "isSecureRegularFile w p =
     (case files w p of
        None \<Rightarrow> False
      | Some f \<Rightarrow> kind f = RegularFile \<and> \<not> group_world_writable f)"

definition is_absolute :: "path \<Rightarrow> bool" where
  "is_absolute p \<longleftrightarrow> starts_with ''/'' p"

text \<open>The counter that the state file holds; None is \<open>return false\<close>.\<close>

definition zig_stored_counter :: "string \<Rightarrow> int option" where
  "zig_stored_counter s =
     (if s = [] then Some (- 1)
      else
        case readUntilDelimiterOrEof 128 s of
          None \<Rightarrow> None
        | Some (line, _) \<Rightarrow> Some (case parseInt (trimLine line) of Some v \<Rightarrow> v | None \<Rightarrow> - 1))"

definition zig_last_counter :: "world \<Rightarrow> path \<Rightarrow> int option" where
  "zig_last_counter w p =
     (if \<not> isSecureRegularFile w p then Some (- 1)
      else
        case fs_read w p of
          None \<Rightarrow> None
        | Some s \<Rightarrow> if sys_fails w Sys_read p then None else zig_stored_counter s)"

text \<open>\<open>createFileAbsolute\<close> with truncation: a link is followed.\<close>

definition create_truncated :: "world \<Rightarrow> path \<Rightarrow> world" where
  "create_truncated w p = truncate_state (create_state w p) p"

definition zig_check_replay :: "world \<Rightarrow> path \<Rightarrow> int \<Rightarrow> (bool \<times> world) option" where
  "zig_check_replay w p counter =
     (if p = [] then Some (False, w)
      else if isSecureRegularFile w p \<and> \<not> is_absolute p then None
      else
        case zig_last_counter w p of
          None \<Rightarrow> Some (False, w)
        | Some last_counter \<Rightarrow>
            if counter \<le> last_counter then Some (False, w)
            else if \<not> is_absolute p then None
            else if sys_fails w Sys_open_write p then Some (False, w)
            else if sys_fails w Sys_write p then Some (False, create_truncated w p)
            else Some (True, write_state (create_truncated w p) p counter))"

text \<open>\<open>parseToken\<close> and \<open>skv_validate_attestation_token\<close>\<close>

definition parseToken ::
  "world \<Rightarrow> path \<Rightarrow> int \<Rightarrow> int \<Rightarrow> string option \<Rightarrow> path \<Rightarrow> (bool \<times> world) option" where
  "parseToken w token_path required_ring max_age_sec expected_nonce replay_path =
     (if \<not> isSecureRegularFile w token_path then Some (False, w)
      else if \<not> is_absolute token_path then None
      else
        case fs_read w token_path of
          None \<Rightarrow> Some (False, w)
        | Some s \<Rightarrow>
            (case zig_read_token s no_token of
               None \<Rightarrow> Some (False, w)
             | Some t \<Rightarrow>
                 (case zig_token_checks t required_ring max_age_sec (clock w) expected_nonce of
                    None \<Rightarrow> None
                  | Some ok \<Rightarrow>
                      if ok then zig_check_replay w replay_path (the (tok_counter t)) else Some (False, w))))"

definition zig_validate ::
  "world \<Rightarrow> path \<Rightarrow> int \<Rightarrow> int \<Rightarrow> string option \<Rightarrow> path \<Rightarrow> (bool \<times> world) option" where
  "zig_validate w token_path required_ring max_age_sec expected_nonce replay_path =
     (if token_path = [] \<or> replay_path = [] then Some (False, w)
      else parseToken w token_path required_ring max_age_sec expected_nonce replay_path)"

end
