(* ===== verification/Bridge_Agreement.thy ===== *)
theory Bridge_Agreement
  imports Zig_Attestation
begin

text \<open>
  The two bridges compared. A token file that is a list of well-formed fields, one per line, is read
  as the same token by both; on secure files of the user both then decide alike and leave the same
  counter behind.
\<close>

section \<open>Well-formed token files\<close>

datatype token_field =
    Ring_Field int
  | Attested_Field bool
  | Timestamp_Field int
  | Nonce_Field string
  | Counter_Field int
  | Root_Field bool
  | Other_Field string

definition show_bool_field :: "bool \<Rightarrow> string" where
  "show_bool_field b = (if b then ''true'' else ''false'')"

fun show_field :: "token_field \<Rightarrow> string" where
  "show_field (Ring_Field v) = ''ring:'' @ show_int v"
| "show_field (Attested_Field b) = ''attested:'' @ show_bool_field b"
| "show_field (Timestamp_Field v) = ''timestamp:'' @ show_int v"
| "show_field (Nonce_Field s) = ''nonce:'' @ s"
| "show_field (Counter_Field v) = ''counter:'' @ show_int v"
| "show_field (Root_Field b) = ''root_attested:'' @ show_bool_field b"
| "show_field (Other_Field s) = s"

definition field_names :: "string list" where
  "field_names = [''ring:'', ''attested:'', ''timestamp:'', ''nonce:'', ''counter:'', ''root_attested:'']"

definition one_line :: "nat \<Rightarrow> string \<Rightarrow> bool" where
  "one_line n s \<longleftrightarrow> length s \<le> n \<and> list_all (\<lambda>c. c \<noteq> CHR 0x00 \<and> c \<noteq> CHR 0x0A \<and> c \<noteq> CHR 0x0D) s"

fun field_ok :: "token_field \<Rightarrow> bool" where
  "field_ok (Ring_Field v) \<longleftrightarrow> - (2 ^ 31) \<le> v \<and> v < 2 ^ 31"
| "field_ok (Timestamp_Field v) \<longleftrightarrow> in_i64 v"
| "field_ok (Counter_Field v) \<longleftrightarrow> in_i64 v"
| "field_ok (Nonce_Field s) \<longleftrightarrow> s \<noteq> [] \<and> one_line 248 s"
| "field_ok (Other_Field s) \<longleftrightarrow> one_line 254 s \<and> list_all (\<lambda>n. \<not> starts_with n s) field_names"
| "field_ok _ \<longleftrightarrow> True"

definition show_fields :: "token_field list \<Rightarrow> string" where
  "show_fields fs = concat (map (\<lambda>f. show_field f @ [CHR 0x0A]) fs)"

text \<open>The token that the fields stand for: the first field of a name counts.\<close>

fun set_field :: "token_field \<Rightarrow> token \<Rightarrow> token" where
  "set_field (Ring_Field v) t = (if tok_ring t = None then t\<lparr>tok_ring := Some v\<rparr> else t)"
| "set_field (Attested_Field b) t = (if tok_attested t = None then t\<lparr>tok_attested := Some b\<rparr> else t)"
| "set_field (Timestamp_Field v) t = (if tok_timestamp t = None then t\<lparr>tok_timestamp := Some v\<rparr> else t)"
| "set_field (Nonce_Field s) t = (if tok_nonce t = None then t\<lparr>tok_nonce := Some s\<rparr> else t)"
| "set_field (Counter_Field v) t = (if tok_counter t = None then t\<lparr>tok_counter := Some v\<rparr> else t)"
| "set_field (Root_Field b) t = (if tok_root_attested t = None then t\<lparr>tok_root_attested := Some b\<rparr> else t)"
| "set_field (Other_Field s) t = t"

definition fields_token :: "token_field list \<Rightarrow> token" where
  "fields_token fs = fold set_field fs no_token"

section \<open>Numbers\<close>

lemma show_int_cases:
  obtains n where "v < 0" "show_int v = CHR ''-'' # show_nat n" "v = - int n"
  | n where "0 \<le> v" "show_int v = show_nat n" "v = int n"
proof (cases "v < 0")
  case True
  then show ?thesis using that(1) [of "nat (- v)"] by (simp add: show_int_def)
next
  case False
  then show ?thesis using that(2) [of "nat v"] by (simp add: show_int_def)
qed

lemma takeWhile_show_nat_all: "takeWhile is_digit (show_nat n) = show_nat n"
  using show_nat_digits by (simp add: takeWhile_eq_all_conv)

lemma strtoll_show_int_end: "strtoll (show_int v) = Some (clamp_i64 v)"
proof (cases rule: show_int_cases [of v])
  case (1 n)
  have "\<not> c_isspace (CHR ''-'')" by (simp add: c_isspace_def)
  moreover have "show_nat n \<noteq> []" by (rule show_nat_cases [of n]) simp
  ultimately show ?thesis using 1 by (simp add: strtoll_def Let_def takeWhile_show_nat_all)
next
  case (2 n)
  obtain d ds where d: "show_nat n = d # ds" "is_digit d" by (rule show_nat_cases)
  then have "digits_value (d # ds) = n" and t: "takeWhile is_digit (d # ds) = d # ds"
    using digits_value_show_nat [of n] takeWhile_show_nat_all [of n] by simp_all
  then show ?thesis using 2 d digit_not_space [OF d(2)] unfolding strtoll_def Let_def
    by (simp del: takeWhile.simps add: t)
qed

lemma parseInt_digits_show_nat:
  "in_i64 (if neg then - int n else int n) \<Longrightarrow>
     parseInt_digits neg (show_nat n) = Some (if neg then - int n else int n)"
proof -
  assume i: "in_i64 (if neg then - int n else int n)"
  have u: "\<not> is_digit (CHR ''_'')" by (simp add: is_digit_def)
  obtain d ds where d: "show_nat n = d # ds" by (rule show_nat_cases)
  then have "hd (show_nat n) \<in> set (show_nat n)" "List.last (show_nat n) \<in> set (show_nat n)" by simp_all
  then have "hd (show_nat n) \<noteq> CHR ''_''" "List.last (show_nat n) \<noteq> CHR ''_''"
    using show_nat_digits u by metis+
  moreover have "filter is_digit (show_nat n) = show_nat n" "list_all (\<lambda>c. is_digit c \<or> c = CHR ''_'') (show_nat n)"
    using show_nat_digits by (simp_all add: filter_id_conv list_all_iff)
  moreover have "show_nat n \<noteq> []" using d by simp
  ultimately show ?thesis using i by (simp add: parseInt_digits_def Let_def)
qed

lemma parseInt_show_int: "in_i64 v \<Longrightarrow> parseInt (show_int v) = Some v"
proof (cases rule: show_int_cases [of v])
  case (1 n)
  assume "in_i64 v"
  then show ?thesis using 1 parseInt_digits_show_nat [of True n] by (simp add: parseInt_def)
next
  case (2 n)
  assume "in_i64 v"
  obtain d ds where d: "show_nat n = d # ds" "is_digit d" by (rule show_nat_cases)
  then show ?thesis using 2 \<open>in_i64 v\<close> parseInt_digits_show_nat [of False n] digit_not_space [OF d(2)]
    by (simp add: parseInt_def)
qed

lemma int_cast_id: "- (2 ^ 31) \<le> v \<Longrightarrow> v < 2 ^ 31 \<Longrightarrow> int_cast (clamp_i64 v) = v"
  unfolding int_cast_def
  by (simp add: clamp_i64_id in_i64_def) (subst sint_sbintrunc', simp add: signed_take_bit_int_eq_self)

section \<open>Lines\<close>

lemma show_int_plain: "c \<in> set (show_int v) \<Longrightarrow> is_digit c \<or> c = CHR ''-''"
  using show_nat_digits by (auto simp: show_int_def split: if_splits)

lemma show_int_length: "in_i64 v \<Longrightarrow> length (show_int v) \<le> 20"
proof -
  assume "in_i64 v"
  then have "nat \<bar>v\<bar> < 10 ^ Suc 18" by (auto simp: in_i64_def nat_less_iff abs_less_iff)
  then have "length (show_nat (nat \<bar>v\<bar>)) \<le> Suc 18" by (rule show_nat_length)
  then show ?thesis by (cases "v < 0") (simp_all add: show_int_def)
qed

lemma one_line_int: "in_i64 v \<Longrightarrow> one_line 20 (show_int v)"
proof -
  assume "in_i64 v"
  moreover have "c \<noteq> CHR 0x00 \<and> c \<noteq> CHR 0x0A \<and> c \<noteq> CHR 0x0D" if "c \<in> set (show_int v)" for c
    using show_int_plain [OF that] by (auto simp: is_digit_def)
  ultimately show ?thesis using show_int_length by (simp add: one_line_def list_all_iff)
qed

lemma one_line_prefix: "one_line m s \<Longrightarrow> one_line n t \<Longrightarrow> one_line (m + n) (s @ t)"
  by (simp add: one_line_def)

lemma one_line_mono: "one_line m s \<Longrightarrow> m \<le> n \<Longrightarrow> one_line n s"
  by (simp add: one_line_def)

lemma field_one_line: "field_ok f \<Longrightarrow> one_line 254 (show_field f)"
proof (induction f rule: field_ok.induct)
  case (1 v)
  then have "one_line (5 + 20) (''ring:'' @ show_int v)"
    by (intro one_line_prefix one_line_int) (simp_all add: one_line_def in_i64_def)
  then show ?case by (auto elim: one_line_mono)
next
  case (2 v)
  then have "one_line (10 + 20) (''timestamp:'' @ show_int v)"
    by (intro one_line_prefix one_line_int) (simp_all add: one_line_def)
  then show ?case by (auto elim: one_line_mono)
next
  case (3 v)
  then have "one_line (8 + 20) (''counter:'' @ show_int v)"
    by (intro one_line_prefix one_line_int) (simp_all add: one_line_def)
  then show ?case by (auto elim: one_line_mono)
qed (simp_all add: one_line_def show_bool_field_def)

lemma trimLine_one_line: "one_line n s \<Longrightarrow> trimLine s = s"
proof -
  assume "one_line n s"
  then have "dropWhile (\<lambda>c. c = CHR 0x0D \<or> c = CHR 0x0A) (rev s) = rev s"
    by (cases s rule: rev_cases) (auto simp: one_line_def)
  then show ?thesis by (simp add: trimLine_def)
qed

lemma fgets_line:
  "length s \<le> n \<Longrightarrow> CHR 0x0A \<notin> set s \<Longrightarrow> fgets (Suc n) (s @ CHR 0x0A # r) = (s @ [CHR 0x0A], r)"
proof (induction s arbitrary: n)
  case (Cons c s)
  then show ?case by (cases n) auto
qed simp

lemma token_lines_line:
  assumes "one_line 254 s"
  shows "token_lines (s @ CHR 0x0A # r) = s # token_lines r"
proof -
  have nl: "CHR 0x0A \<notin> set s" and nul: "CHR 0x00 \<notin> set s" and len: "length s \<le> 254"
    using assms by (auto simp: one_line_def list_all_iff)
  have f: "fgets 255 (s @ CHR 0x0A # r) = (s @ [CHR 0x0A], r)"
    using fgets_line [OF len nl] by (simp add: numeral_eq_Suc)
  have "c_str (s @ [CHR 0x0A]) = s @ [CHR 0x0A]"
    using nul unfolding c_str_def by (intro takeWhile_eq_all_conv [THEN iffD2]) auto
  moreover have "takeWhile (\<lambda>c. c \<noteq> CHR 0x0A) (s @ [CHR 0x0A]) = s"
    using nl by (subst takeWhile_append2) auto
  moreover obtain c t where "s @ CHR 0x0A # r = c # t" by (cases s) auto
  ultimately show ?thesis using f by (simp del: fgets.simps)
qed

lemma readUntil_line:
  "one_line 254 s \<Longrightarrow> 255 \<le> n \<Longrightarrow> readUntilDelimiterOrEof n (s @ CHR 0x0A # r) = Some (s, r)"
proof -
  assume "one_line 254 s" "255 \<le> n"
  moreover have "takeWhile (\<lambda>c. c \<noteq> CHR 0x0A) (s @ CHR 0x0A # r) = s"
    using calculation by (subst takeWhile_append2) (auto simp: one_line_def list_all_iff)
  ultimately show ?thesis by (simp add: readUntilDelimiterOrEof_def one_line_def)
qed

lemma zig_read_line_step:
  assumes "one_line 254 s"
  shows "zig_read_token (s @ CHR 0x0A # r) t =
     (case zig_read_line s t of None \<Rightarrow> None | Some t1 \<Rightarrow> zig_read_token r t1)"
proof -
  obtain c u where "s @ CHR 0x0A # r = c # u" by (cases s) auto
  then show ?thesis using readUntil_line [OF assms, of 512 r] trimLine_one_line [OF assms] by simp
qed

lemma token_lines_fields:
  "list_all field_ok fs \<Longrightarrow> token_lines (show_fields fs) = map show_field fs"
  by (induction fs) (simp_all add: show_fields_def token_lines_line [OF field_one_line])

section \<open>Fields\<close>

lemma strip_prefix_append: "strip_prefix p (p @ s) = Some s"
  by (simp add: strip_prefix_def starts_with_def)

lemma other_prefix:
  "list_all (\<lambda>n. \<not> starts_with n s) field_names \<Longrightarrow> n \<in> set field_names \<Longrightarrow> strip_prefix n s = None"
  by (simp add: strip_prefix_def list_all_iff)

lemmas c_field_defs = read_line_def parse_ring_def parse_attested_def parse_i64_field_def parse_string_field_def
  parse_root_attested_def strip_prefix_def starts_with_def

lemma read_line_field: "field_ok f \<Longrightarrow> read_line (show_field f) t = set_field f t"
proof (induction f rule: field_ok.induct)
  case (1 v)
  then show ?case by (simp add: c_field_defs strtoll_show_int_end int_cast_id)
next
  case (2 v)
  then show ?case by (simp add: c_field_defs strtoll_show_int_end clamp_i64_id)
next
  case (3 v)
  then show ?case by (simp add: c_field_defs strtoll_show_int_end clamp_i64_id)
next
  case (4 s)
  then show ?case by (simp add: c_field_defs one_line_def)
next
  case (5 s)
  then show ?case
    using other_prefix [of s] by (simp add: read_line_def parse_ring_def parse_attested_def parse_i64_field_def
        parse_string_field_def parse_root_attested_def field_names_def)
qed (simp_all add: c_field_defs show_bool_field_def parse_bool_def)

lemmas zig_field_defs = zig_read_line_def parseI64_def parseBool_def parseText_def strip_prefix_def starts_with_def

lemma zig_read_line_field: "field_ok f \<Longrightarrow> zig_read_line (show_field f) t = Some (set_field f t)"
proof (induction f rule: field_ok.induct)
  case (1 v)
  then have "in_i64 v" by (simp add: in_i64_def)
  then show ?case by (simp add: zig_field_defs parseInt_show_int)
next
  case (2 v)
  then show ?case by (simp add: zig_field_defs parseInt_show_int)
next
  case (3 v)
  then show ?case by (simp add: zig_field_defs parseInt_show_int)
next
  case (4 s)
  then show ?case by (simp add: zig_field_defs one_line_def)
next
  case (5 s)
  then show ?case
    using other_prefix [of s] by (simp add: zig_read_line_def parseI64_def parseBool_def parseText_def field_names_def)
qed (simp_all add: zig_field_defs show_bool_field_def)

lemma read_token_fields: "list_all field_ok fs \<Longrightarrow> read_token (show_fields fs) = fields_token fs"
proof -
  have "list_all field_ok fs \<Longrightarrow> fold read_line (map show_field fs) t = fold set_field fs t" for t
    by (induction fs arbitrary: t) (simp_all add: read_line_field)
  then show "list_all field_ok fs \<Longrightarrow> read_token (show_fields fs) = fields_token fs"
    by (simp add: read_token_def fields_token_def token_lines_fields)
qed

lemma zig_read_token_fields: "list_all field_ok fs \<Longrightarrow> zig_read_token (show_fields fs) no_token = Some (fields_token fs)"
proof -
  have "list_all field_ok fs \<Longrightarrow> zig_read_token (show_fields fs) t = Some (fold set_field fs t)" for t
    by (induction fs arbitrary: t)
       (simp_all add: show_fields_def zig_read_line_step [OF field_one_line] zig_read_line_field)
  then show "list_all field_ok fs \<Longrightarrow> zig_read_token (show_fields fs) no_token = Some (fields_token fs)"
    by (simp add: fields_token_def)
qed

section \<open>Decisions\<close>

lemma i64_sub_in_range: "in_i64 (a - b) \<Longrightarrow> i64_sub a b = a - b"
  unfolding i64_sub_def in_i64_def by (subst sint_sbintrunc') (simp add: signed_take_bit_int_eq_self)

lemma checks_agree:
  assumes "now \<noteq> - 1" "\<forall>ts. tok_timestamp t = Some ts \<and> ts \<le> now \<longrightarrow> in_i64 (now - ts)"
  shows "zig_token_checks t ring max_age now nonce = Some (token_checks t ring max_age now nonce)"
  using assms i64_sub_in_range [of now]
  by (auto simp: zig_token_checks_def token_checks_def not_less not_le split: option.splits)

text \<open>A replay file in order: absent, or a secure file of the user that is empty or holds a counter as
  the bridges write it; and no system call on it fails.\<close>

definition plain_state :: "world \<Rightarrow> path \<Rightarrow> bool" where
  "plain_state w p \<longleftrightarrow>
     is_absolute p \<and> (\<forall>c. \<not> sys_fails w c p) \<and>
     (case files w p of
        None \<Rightarrow> True
      | Some f \<Rightarrow> bridge_secure w f \<and> readable f \<and>
          (content f = '''' \<or> (\<exists>v. in_i64 v \<and> content f = show_int v @ [CHR 0x0A])))"

lemma plain_target: "plain_state w p \<Longrightarrow> target w p = p"
  by (auto simp: plain_state_def target_def bridge_secure_def split: option.splits)

lemma zig_stored_counter_written: "in_i64 v \<Longrightarrow> zig_stored_counter (show_int v @ [CHR 0x0A]) = Some v"
proof -
  assume v: "in_i64 v"
  have "takeWhile (\<lambda>c. c \<noteq> CHR 0x0A) (show_int v @ [CHR 0x0A]) = show_int v"
    using one_line_int [OF v] by (subst takeWhile_append2) (auto simp: one_line_def list_all_iff)
  moreover have "length (show_int v) \<le> 20" by (rule show_int_length [OF v])
  ultimately show ?thesis
    using trimLine_one_line [OF one_line_int [OF v]] parseInt_show_int [OF v]
    by (simp add: zig_stored_counter_def readUntilDelimiterOrEof_def Let_def)
qed

lemma plain_last_counter:
  assumes "plain_state w p"
  shows "zig_last_counter w p = Some (current_counter w p)"
proof (cases "files w p")
  case None
  then show ?thesis using plain_target [OF assms]
    by (simp add: zig_last_counter_def isSecureRegularFile_def current_counter_def)
next
  case (Some f)
  have "zig_stored_counter '''' = Some (stored_counter '''')"
    by (simp add: zig_stored_counter_def stored_counter_def)
  then have "zig_stored_counter (content f) = Some (stored_counter (content f))"
    using assms Some stored_counter_written zig_stored_counter_written by (auto simp: plain_state_def)
  then show ?thesis using Some plain_target [OF assms] assms
    by (simp add: zig_last_counter_def isSecureRegularFile_def fs_read_def current_counter_def plain_state_def
        bridge_secure_def)
qed

lemma created_secure:
  "bridge_secure w \<lparr>kind = RegularFile, uid = euid w, fmode = 0x180 AND NOT (umask w), readable = True, content = c\<rparr>"
proof -
  have "((0x180 :: u32) AND NOT (umask w)) AND 0x12 = (0x180 AND 0x12) AND NOT (umask w)"
    by (simp only: and.assoc and.commute and.left_commute)
  also have "\<dots> = 0" by simp
  finally show ?thesis by (simp add: bridge_secure_def group_world_writable_def)
qed

lemma plain_create:
  assumes "plain_state w p"
  obtains f where "files (create_state w p) p = Some f" "bridge_secure (create_state w p) f"
proof (cases "files w p")
  case None
  then show ?thesis using that plain_target [OF assms] created_secure [of w "[]"]
    by (auto simp: create_state_def bridge_secure_def)
next
  case (Some f)
  then show ?thesis using that [of f] plain_target [OF assms] assms
    by (auto simp: create_state_def plain_state_def bridge_secure_def)
qed

lemma replay_agrees:
  assumes "plain_state w p" "in_i64 n"
  shows "\<exists>ok wc wz. check_replay w p n = (ok, wc) \<and> zig_check_replay w p n = Some (ok, wz) \<and>
     current_counter wz p = current_counter wc p"
proof -
  have ne: "p \<noteq> []" "is_absolute p" and ok: "\<And>c. \<not> sys_fails w c p"
    using assms(1) by (auto simp: plain_state_def is_absolute_def starts_with_def)
  let ?w = "create_state w p"
  have t: "target ?w p = p" using plain_target [OF assms(1)] by (simp add: target_create_state)
  obtain f where f: "files ?w p = Some f" "bridge_secure ?w f" by (rule plain_create [OF assms(1)])
  then have c: "stored_counter (content f) = current_counter w p"
    using current_counter_create [of w p] t by (simp add: current_counter_def)
  show ?thesis
  proof (cases "n \<le> current_counter w p")
    case True
    then have "check_replay w p n = (False, ?w)" "zig_check_replay w p n = Some (False, w)"
      using ne ok f t c plain_last_counter [OF assms(1)]
      by (simp_all add: check_replay_def open_state_def zig_check_replay_def)
    then show ?thesis using current_counter_create [of w p] by simp blast
  next
    case False
    have ex: "files (truncate_state ?w p) (target (truncate_state ?w p) p) \<noteq> None"
      using f t by (simp add: state_targets state_frames)
    have "check_replay w p n = (True, chmod_state (write_state (truncate_state ?w p) p n) p)"
      using False ne ok f t c
      by (simp add: check_replay_def open_state_def advance_state_def Let_def create_state_frame)
    moreover have "zig_check_replay w p n = Some (True, write_state (truncate_state ?w p) p n)"
      using False ne ok plain_last_counter [OF assms(1)] by (simp add: zig_check_replay_def create_truncated_def)
    ultimately show ?thesis
      using current_counter_write [OF assms(2) ex] by (simp add: current_counter_chmod) blast
  qed
qed

lemma bridges_decide_alike:
  assumes f: "files w tp = Some f" "bridge_secure w f" "readable f" "content f = show_fields fs" "list_all field_ok fs"
    and "is_absolute tp" "plain_state w rp" "clock w \<noteq> - 1"
    and age: "\<forall>ts. tok_timestamp (fields_token fs) = Some ts \<and> ts \<le> clock w \<longrightarrow> in_i64 (clock w - ts)"
  shows "\<exists>ok wc wz. skv_validate_attestation_token w tp ring max_age nonce rp = (ok, wc) \<and>
     zig_validate w tp ring max_age nonce rp = Some (ok, wz) \<and> current_counter wz rp = current_counter wc rp"
proof -
  have ne: "tp \<noteq> []" "rp \<noteq> []" using assms by (auto simp: plain_state_def is_absolute_def starts_with_def)
  have t: "target w tp = tp" using f by (simp add: target_def bridge_secure_def)
  note c = read_token_fields [OF f(5)] and z = zig_read_token_fields [OF f(5)] and k = checks_agree [OF assms(8) age]
  have C: "skv_validate_attestation_token w tp ring max_age nonce rp =
      (if token_checks (fields_token fs) ring max_age (clock w) nonce
       then check_replay w rp (the (tok_counter (fields_token fs))) else (False, w))"
    using f ne c by (simp add: skv_validate_attestation_token_def read_token_file_def)
  have Z: "zig_validate w tp ring max_age nonce rp =
      (if token_checks (fields_token fs) ring max_age (clock w) nonce
       then zig_check_replay w rp (the (tok_counter (fields_token fs))) else Some (False, w))"
    using f ne z k assms(6) t
    by (simp add: zig_validate_def parseToken_def isSecureRegularFile_def bridge_secure_def fs_read_def)
  show ?thesis
  proof (cases "token_checks (fields_token fs) ring max_age (clock w) nonce")
    case True
    then obtain n where n: "tok_counter (fields_token fs) = Some n"
      by (auto simp: token_checks_def split: option.splits)
    then have "in_i64 n" using read_token_counter_in_i64 [of "show_fields fs" n] c by simp
    then show ?thesis using C Z True n replay_agrees [OF assms(7)] by simp
  next
    case False
    then show ?thesis using C Z by simp blast
  qed
qed

end
