(* ===== verification/Replay_Processes.thy ===== *)
theory Replay_Processes
  imports Attestation
begin

text \<open>
  Several processes on one replay file. The part of the C bridge from \<open>open\<close> to the last \<open>close\<close> is cut
  into its system calls, one step each; any process can take the next step. The lock of \<open>fcntl\<close> is
  waited for in the step that takes it and released by \<open>close\<close>. A step is a function, so that a process
  that runs alone can be compared with \<open>check_replay\<close>.
\<close>

section \<open>The steps of one process\<close>

type_synonym pid = nat

text \<open>Where a process is; \<open>Ended\<close> has the value returned.\<close>

datatype phase =
    Ready
  | Opened
  | Locked
  | Checked
  | Has_Read int
  | Truncated
  | Positioned
  | Written
  | Synced
  | Ended bool

text \<open>A process \<open>i\<close> with token counter \<open>n\<close>; \<open>f\<close> tells which of its system calls fail. None: it has to
  wait, or has ended.\<close>

definition fails_if :: "bool \<Rightarrow> phase \<times> world \<times> pid option \<Rightarrow> world \<Rightarrow> (phase \<times> world \<times> pid option) option" where
  "fails_if b s w = Some (if b then (Ended False, w, None) else s)"

fun call_step ::
  "(syscall \<Rightarrow> bool) \<Rightarrow> path \<Rightarrow> int \<Rightarrow> pid \<Rightarrow> phase \<Rightarrow> world \<Rightarrow> pid option \<Rightarrow> (phase \<times> world \<times> pid option) option" where
  "call_step f p n i Ready w h =
     Some (if p = [] \<or> f Sys_open_write then (Ended False, w, h) else (Opened, create_state w p, h))"
| "call_step f p n i Opened w h =
     (if f Sys_lock then Some (Ended False, w, h)
      else case h of None \<Rightarrow> Some (Locked, w, Some i) | Some _ \<Rightarrow> None)"
| "call_step f p n i Locked w h =
     fails_if (f Sys_stat \<or> (case files w (target w p) of None \<Rightarrow> True | Some g \<Rightarrow> \<not> bridge_secure w g))
       (Checked, w, h) w"
| "call_step f p n i Checked w h =
     Some (Has_Read (if f Sys_read then - 1 else current_counter w p), w, h)"
| "call_step f p n i (Has_Read last_counter) w h =
     fails_if (n \<le> last_counter \<or> f Sys_truncate) (Truncated, truncate_state w p, h) w"
| "call_step f p n i Truncated w h = fails_if (f Sys_seek) (Positioned, w, h) w"
| "call_step f p n i Positioned w h = fails_if (f Sys_write) (Written, write_state w p n, h) w"
| "call_step f p n i Written w h = fails_if (f Sys_sync) (Synced, w, h) w"
| "call_step f p n i Synced w h = fails_if (f Sys_set_permissions) (Ended True, chmod_state w p, None) w"
| "call_step f p n i (Ended ok) w h = None"

section \<open>A process alone\<close>

fun run_alone ::
  "nat \<Rightarrow> (syscall \<Rightarrow> bool) \<Rightarrow> path \<Rightarrow> int \<Rightarrow> phase \<times> world \<times> pid option \<Rightarrow> phase \<times> world \<times> pid option" where
  "run_alone 0 f p n s = s"
| "run_alone (Suc k) f p n (ph, w, h) =
     (case call_step f p n 0 ph w h of None \<Rightarrow> (ph, w, h) | Some s \<Rightarrow> run_alone k f p n s)"

lemma run_alone_Ended [simp]: "run_alone k f p n (Ended ok, w, h) = (Ended ok, w, h)"
  by (cases k) simp_all

lemma run_alone_numeral [simp]:
  "run_alone (numeral k) f p n (ph, w, h) =
     (case call_step f p n 0 ph w h of None \<Rightarrow> (ph, w, h) | Some s \<Rightarrow> run_alone (pred_numeral k) f p n s)"
  by (simp add: numeral_eq_Suc)

lemma advance_alone:
  "run_alone 5 (\<lambda>c. sys_fails w c p) p n
     (if sys_fails w Sys_truncate p then (Ended False, w, None) else (Truncated, truncate_state w p, Some 0)) =
   (case advance_state w p n of (ok, w') \<Rightarrow> (Ended ok, w', None))"
  by (simp add: advance_state_def Let_def fails_if_def)

lemma process_alone:
  "run_alone 10 (\<lambda>c. sys_fails w c p) p n (Ready, w, None) =
     (case check_replay w p n of (ok, w') \<Rightarrow> (Ended ok, w', None))"
proof -
  let ?w = "create_state w p"
  have c: "open_state w p = (if sys_fails w Sys_open_write p then None else Some ?w)" by (simp add: open_state_def)
  obtain g where g: "files ?w (target ?w p) = Some g" "current_counter ?w p = stored_counter (content g)"
    using create_state_frame(4) [of w p] by (auto simp: target_create_state current_counter_def)
  show ?thesis
    using advance_alone [of ?w p n]
    by (auto simp: check_replay_def c g create_state_frame Let_def fails_if_def split: if_splits)
qed

section \<open>Any number of processes\<close>

record shared_state =
  shared :: world
  holder :: "pid option"
  phases :: "pid \<Rightarrow> phase"

text \<open>
  \<open>ctr i\<close> is the counter of the token of process \<open>i\<close>, \<open>fl i\<close> the system calls that fail for it, and
  \<open>kills i\<close> the places at which it can be killed, which closes its files. Other programs may change
  anything but the replay file.
\<close>

inductive replay_step ::
  "(pid \<Rightarrow> syscall \<Rightarrow> bool) \<Rightarrow> (pid \<Rightarrow> phase \<Rightarrow> bool) \<Rightarrow> path \<Rightarrow> (pid \<Rightarrow> int) \<Rightarrow> shared_state \<Rightarrow> shared_state \<Rightarrow> bool"
  for fl kills p ctr where
  call: "call_step (fl i) p (ctr i) i (phases s i) (shared s) (holder s) = Some (ph, w, h) \<Longrightarrow>
    replay_step fl kills p ctr s \<lparr>shared = w, holder = h, phases = (phases s)(i := ph)\<rparr>"
| kill: "kills i (phases s i) \<Longrightarrow> phases s i \<noteq> Ended True \<Longrightarrow>
    replay_step fl kills p ctr s
      (s\<lparr>holder := (if holder s = Some i then None else holder s), phases := (phases s)(i := Ended False)\<rparr>)"
| others: "target w p = target (shared s) p \<Longrightarrow> files w (target w p) = files (shared s) (target w p) \<Longrightarrow>
    replay_step fl kills p ctr s (s\<lparr>shared := w\<rparr>)"

definition start_state :: "world \<Rightarrow> shared_state" where
  "start_state w = \<lparr>shared = w, holder = None, phases = (\<lambda>i. Ready)\<rparr>"

inductive reached ::
  "(pid \<Rightarrow> syscall \<Rightarrow> bool) \<Rightarrow> (pid \<Rightarrow> phase \<Rightarrow> bool) \<Rightarrow> path \<Rightarrow> (pid \<Rightarrow> int) \<Rightarrow> world \<Rightarrow> shared_state \<Rightarrow> bool"
  for fl kills p ctr w where
  init: "reached fl kills p ctr w (start_state w)"
| step: "reached fl kills p ctr w s \<Longrightarrow> replay_step fl kills p ctr s s' \<Longrightarrow> reached fl kills p ctr w s'"

section \<open>The invariant\<close>

text \<open>Places inside the lock; between truncation and write; after the write.\<close>

fun in_section :: "phase \<Rightarrow> bool" where
  "in_section Ready = False"
| "in_section Opened = False"
| "in_section (Ended ok) = False"
| "in_section _ = True"

fun midway :: "phase \<Rightarrow> bool" where
  "midway Truncated = True"
| "midway Positioned = True"
| "midway _ = False"

fun stored :: "phase \<Rightarrow> bool" where
  "stored Written = True"
| "stored Synced = True"
| "stored (Ended ok) = ok"
| "stored _ = False"

text \<open>
  The lock is held exactly from \<open>Locked\<close> on; what was read is still what the file holds; while nobody is
  between truncation and write the file holds at least every counter that was stored and the first one,
  and who is between the two has a counter above all of them.
\<close>

definition lock_agrees :: "shared_state \<Rightarrow> bool" where
  "lock_agrees s \<longleftrightarrow> (\<forall>i. in_section (phases s i) \<longleftrightarrow> holder s = Some i)"

definition file_exists :: "path \<Rightarrow> shared_state \<Rightarrow> bool" where
  "file_exists p s \<longleftrightarrow>
     (\<forall>i. in_section (phases s i) \<or> phases s i = Opened \<longrightarrow> files (shared s) (target (shared s) p) \<noteq> None)"

definition reads_agree :: "int \<Rightarrow> (pid \<Rightarrow> phase) \<Rightarrow> bool" where
  "reads_agree v phs \<longleftrightarrow> (\<forall>i n. phs i = Has_Read n \<longrightarrow> n = v)"

definition counters_agree :: "(pid \<Rightarrow> int) \<Rightarrow> int \<Rightarrow> int \<Rightarrow> (pid \<Rightarrow> phase) \<Rightarrow> bool" where
  "counters_agree ctr c v phs \<longleftrightarrow>
     ((\<forall>i. \<not> midway (phs i)) \<longrightarrow> c \<le> v \<and> (\<forall>j. stored (phs j) \<longrightarrow> ctr j \<le> v)) \<and>
     (\<forall>i. midway (phs i) \<longrightarrow> c < ctr i \<and> (\<forall>j. stored (phs j) \<longrightarrow> ctr j < ctr i)) \<and>
     (\<forall>j. stored (phs j) \<longrightarrow> c < ctr j) \<and>
     (\<forall>i j. stored (phs i) \<and> stored (phs j) \<and> ctr i = ctr j \<longrightarrow> i = j)"

definition replay_inv :: "path \<Rightarrow> (pid \<Rightarrow> int) \<Rightarrow> int \<Rightarrow> shared_state \<Rightarrow> bool" where
  "replay_inv p ctr c s \<longleftrightarrow>
     lock_agrees s \<and> file_exists p s \<and> reads_agree (current_counter (shared s) p) (phases s) \<and>
     counters_agree ctr c (current_counter (shared s) p) (phases s)"

text \<open>Reads and writes of the replay file are not lost, and nobody is killed between truncation and write.\<close>

definition no_loss :: "(pid \<Rightarrow> syscall \<Rightarrow> bool) \<Rightarrow> (pid \<Rightarrow> phase \<Rightarrow> bool) \<Rightarrow> bool" where
  "no_loss fl kills \<longleftrightarrow>
     (\<forall>i. \<not> fl i Sys_read \<and> \<not> fl i Sys_seek \<and> \<not> fl i Sys_write \<and> (\<forall>ph. midway ph \<longrightarrow> \<not> kills i ph))"

lemma midway_in_section: "midway ph \<Longrightarrow> in_section ph"
  by (cases ph) simp_all

lemma call_lock:
  assumes "call_step f p n i ph w h = Some (ph', w', h')" "in_section ph \<longleftrightarrow> h = Some i"
  shows "in_section ph' \<longleftrightarrow> h' = Some i" "j \<noteq> i \<Longrightarrow> h' = Some j \<longleftrightarrow> h = Some j"
proof -
  show "in_section ph' \<longleftrightarrow> h' = Some i"
    using assms by (cases ph) (auto simp: fails_if_def split: if_splits option.splits)
  show "h' = Some j \<longleftrightarrow> h = Some j" if "j \<noteq> i"
    using assms that by (cases ph) (auto simp: fails_if_def split: if_splits option.splits)
qed

lemma lock_kept:
  assumes "replay_step fl kills p ctr s s'" "lock_agrees s"
  shows "lock_agrees s'"
  using assms(1)
proof (cases rule: replay_step.cases)
  case (call i ph w h)
  have "in_section (phases s' j) \<longleftrightarrow> holder s' = Some j" for j
    using call_lock [OF call(2)] assms(2) call(1) by (cases "j = i") (simp_all add: lock_agrees_def)
  then show ?thesis by (simp add: lock_agrees_def)
qed (use assms(2) in \<open>auto simp: lock_agrees_def\<close>)

text \<open>What one call does to the counter in the file.\<close>

lemma call_file:
  assumes "call_step f p n i ph w h = Some (ph', w', h')"
    "in_section ph \<or> ph = Opened \<longrightarrow> files w (target w p) \<noteq> None"
  shows "target w' p = target w p"
    "in_section ph' \<or> ph' = Opened \<or> files w (target w p) \<noteq> None \<Longrightarrow> files w' (target w p) \<noteq> None"
proof -
  show "target w' p = target w p"
    using assms(1) by (cases ph) (auto simp: fails_if_def target_create_state state_targets split: if_splits option.splits)
  show "files w' (target w p) \<noteq> None" if "in_section ph' \<or> ph' = Opened \<or> files w (target w p) \<noteq> None"
    using assms that create_state_frame(4) [of w p]
    by (cases ph) (auto simp: fails_if_def state_frames create_state_def split: if_splits option.splits)
qed

lemma call_effect:
  assumes "call_step f p n i ph w h = Some (ph', w', h')" "in_i64 n"
    "in_section ph \<or> ph = Opened \<longrightarrow> files w (target w p) \<noteq> None"
    "\<not> f Sys_read" "\<not> f Sys_seek" "\<not> f Sys_write"
  obtains (quiet) "\<not> midway ph" "\<not> midway ph'" "current_counter w' p = current_counter w p"
      "stored ph' \<longrightarrow> stored ph" "\<And>m. ph' = Has_Read m \<Longrightarrow> m = current_counter w' p"
  | (begins) m where "ph = Has_Read m" "m < n" "ph' = Truncated"
  | (seeks) "ph = Truncated" "ph' = Positioned" "w' = w"
  | (stores) "ph = Positioned" "ph' = Written" "current_counter w' p = n"
  using assms current_counter_create [of w p] current_counter_chmod [of w p] current_counter_write [of n w p]
  by (cases ph) (auto simp: fails_if_def split: if_splits option.splits)

lemma counters_quiet:
  assumes "counters_agree ctr c v phs" "\<And>j. midway (phs' j) = midway (phs j)" "\<And>j. stored (phs' j) \<Longrightarrow> stored (phs j)"
  shows "counters_agree ctr c v phs'"
  using assms unfolding counters_agree_def by simp

lemma counters_begin:
  assumes "counters_agree ctr c v phs" "\<And>j. \<not> midway (phs j)" "v < ctr i"
  shows "counters_agree ctr c v' (phs(i := Truncated))"
proof -
  have "c < ctr i" "stored (phs j) \<Longrightarrow> ctr j < ctr i \<and> c < ctr j" for j
    using assms unfolding counters_agree_def by fastforce+
  then show ?thesis using assms(1,2) unfolding counters_agree_def by (auto split: if_splits)
qed

lemma counters_store:
  assumes "counters_agree ctr c v phs" "midway (phs i)" "\<And>j. j \<noteq> i \<Longrightarrow> \<not> midway (phs j)"
  shows "counters_agree ctr c (ctr i) (phs(i := Written))"
proof -
  have "c < ctr i" "stored (phs j) \<Longrightarrow> ctr j < ctr i \<and> c < ctr j" for j
    using assms unfolding counters_agree_def by blast+
  moreover have "stored (phs j) \<Longrightarrow> stored (phs k) \<Longrightarrow> ctr j = ctr k \<Longrightarrow> j = k" for j k
    using assms(1) unfolding counters_agree_def by blast
  ultimately show ?thesis using assms(3) unfolding counters_agree_def
    by (auto split: if_splits) (metis less_irrefl less_imp_le)+
qed

lemma call_keeps:
  assumes step: "call_step (fl i) p (ctr i) i (phases s i) (shared s) (holder s) = Some (ph, w, h)"
    and loss: "no_loss fl kills" and ctr: "in_i64 (ctr i)" and inv: "replay_inv p ctr c s"
  shows "reads_agree (current_counter w p) ((phases s)(i := ph)) \<and>
    counters_agree ctr c (current_counter w p) ((phases s)(i := ph))"
proof -
  have fex: "in_section (phases s i) \<or> phases s i = Opened \<longrightarrow> files (shared s) (target (shared s) p) \<noteq> None"
    and r: "reads_agree (current_counter (shared s) p) (phases s)"
    and c: "counters_agree ctr c (current_counter (shared s) p) (phases s)"
    using inv by (auto simp: replay_inv_def file_exists_def)
  have alone: "\<not> midway (phases s j) \<and> phases s j \<noteq> Has_Read m" if "in_section (phases s i)" "j \<noteq> i" for j m
    using inv that midway_in_section [of "phases s j"] by (auto simp: replay_inv_def lock_agrees_def)
  have calls: "\<not> fl i Sys_read" "\<not> fl i Sys_seek" "\<not> fl i Sys_write" using loss by (auto simp: no_loss_def)
  from step ctr fex calls show ?thesis
  proof (cases rule: call_effect)
    case quiet
    have "counters_agree ctr c (current_counter (shared s) p) ((phases s)(i := ph))"
      by (rule counters_quiet [OF c]) (use quiet in \<open>simp_all split: if_splits\<close>)
    then show ?thesis using quiet(3,5) r by (auto simp: reads_agree_def)
  next
    case (begins m)
    then have "\<not> midway (phases s j)" for j using alone [of j] by (cases "j = i") auto
    moreover have "current_counter (shared s) p < ctr i" using r begins by (auto simp: reads_agree_def)
    ultimately show ?thesis using counters_begin [OF c] begins(1,3) alone by (simp add: reads_agree_def)
  next
    case seeks
    have "counters_agree ctr c (current_counter (shared s) p) ((phases s)(i := ph))"
      by (rule counters_quiet [OF c]) (use seeks in \<open>simp_all split: if_splits\<close>)
    then show ?thesis using seeks alone by (simp add: reads_agree_def)
  next
    case stores
    then show ?thesis using counters_store [OF c, of i] alone by (simp add: reads_agree_def)
  qed
qed

lemma replay_inv_kept:
  assumes "replay_step fl kills p ctr s s'" "no_loss fl kills" "\<forall>i. in_i64 (ctr i)" "replay_inv p ctr c s"
  shows "replay_inv p ctr c s'"
  using assms(1)
proof (cases rule: replay_step.cases)
  case (call i ph w h)
  have "files (shared s) (target (shared s) p) \<noteq> None" if "in_section (phases s j) \<or> phases s j = Opened" for j
    using that assms(4) by (auto simp: replay_inv_def file_exists_def)
  then have "file_exists p s'" using call_file [OF call(2)] call(1) by (auto simp: file_exists_def)
  then show ?thesis using call_keeps [OF call(2) assms(2) _ assms(4)] lock_kept [OF assms(1)] assms(3,4) call(1)
    by (simp add: replay_inv_def)
next
  case (kill i)
  then have "\<not> midway (phases s i)" using assms(2) by (auto simp: no_loss_def)
  then have "midway (((phases s)(i := Ended False)) j) = midway (phases s j)"
    "stored (((phases s)(i := Ended False)) j) \<Longrightarrow> stored (phases s j)" for j
    by (simp_all split: if_splits)
  then have "counters_agree ctr c (current_counter (shared s) p) ((phases s)(i := Ended False))"
    using assms(4) counters_quiet unfolding replay_inv_def by blast
  then show ?thesis using lock_kept [OF assms(1)] assms(4) kill(1)
    by (auto simp: replay_inv_def file_exists_def reads_agree_def)
next
  case (others w)
  have "current_counter w p = current_counter (shared s) p" using others(2,3) by (simp add: current_counter_def)
  then show ?thesis using lock_kept [OF assms(1)] assms(4) others
    by (auto simp: replay_inv_def file_exists_def)
qed

lemma reached_inv:
  assumes "reached fl kills p ctr w s" "no_loss fl kills" "\<forall>i. in_i64 (ctr i)"
  shows "replay_inv p ctr (current_counter w p) s"
  using assms(1)
proof induction
  case init
  then show ?case by (simp add: replay_inv_def lock_agrees_def file_exists_def reads_agree_def counters_agree_def
      start_state_def)
next
  case (step s s')
  then show ?case using replay_inv_kept assms(2,3) by blast
qed

text \<open>Somebody can always go on: the holder of the lock, or anybody when it is free.\<close>

lemma call_possible:
  "in_section ph \<or> (h = None \<and> (\<forall>ok. ph \<noteq> Ended ok)) \<Longrightarrow> call_step f p n i ph w h \<noteq> None"
  by (cases ph) (auto simp: fails_if_def)

lemma replay_progress:
  assumes "lock_agrees s" "\<forall>ok. phases s i \<noteq> Ended ok"
  shows "\<exists>s'. replay_step fl kills p ctr s s' \<and> phases s' \<noteq> phases s"
proof -
  obtain j where j: "in_section (phases s j) \<or> (holder s = None \<and> (\<forall>ok. phases s j \<noteq> Ended ok))"
    using assms by (cases "holder s") (auto simp: lock_agrees_def)
  then obtain ph w h where c: "call_step (fl j) p (ctr j) j (phases s j) (shared s) (holder s) = Some (ph, w, h)"
    using call_possible [of "phases s j" "holder s" "fl j" p "ctr j" j "shared s"] by auto
  have "ph \<noteq> phases s j"
    using c by (cases "phases s j") (auto simp: fails_if_def split: if_splits option.splits)
  then have "((phases s)(j := ph)) \<noteq> phases s" by (metis fun_upd_same)
  moreover have "replay_step fl kills p ctr s \<lparr>shared = w, holder = h, phases = (phases s)(j := ph)\<rparr>"
    using c by (rule replay_step.call)
  ultimately show ?thesis by (metis shared_state.select_convs(3))
qed

text \<open>The state after the processes have been given turns in some order.\<close>

fun replay_schedule ::
  "(pid \<Rightarrow> syscall \<Rightarrow> bool) \<Rightarrow> path \<Rightarrow> (pid \<Rightarrow> int) \<Rightarrow> pid list \<Rightarrow> shared_state \<Rightarrow> shared_state" where
  "replay_schedule fl p ctr [] s = s"
| "replay_schedule fl p ctr (i # is) s =
     replay_schedule fl p ctr is
       (case call_step (fl i) p (ctr i) i (phases s i) (shared s) (holder s) of
          None \<Rightarrow> s
        | Some (ph, w, h) \<Rightarrow> \<lparr>shared = w, holder = h, phases = (phases s)(i := ph)\<rparr>)"

lemma replay_schedule_reached:
  "reached fl kills p ctr w s \<Longrightarrow> reached fl kills p ctr w (replay_schedule fl p ctr is s)"
  by (induction "is" arbitrary: s) (auto split: option.split intro: reached.step replay_step.call)

lemma run_alone_stuck: "call_step f p n 0 ph w h = None \<Longrightarrow> run_alone k f p n (ph, w, h) = (ph, w, h)"
  by (cases k) simp_all

lemma schedule_alone:
  "run_alone k (fl 0) p (ctr 0) (phases s 0, shared s, holder s) = (ph, w, h) \<Longrightarrow>
     phases (replay_schedule fl p ctr (replicate k 0) s) 0 = ph"
  by (induction k arbitrary: s) (auto simp: run_alone_stuck split: option.splits)

end
