(* ===== verification/Zig_Replay.thy ===== *)
theory Zig_Replay
  imports Bridge_Agreement Replay_Processes
begin

text \<open>
  The replay protection of the Zig bridge: what holds when the state file is a secure file and one
  process uses it, and the two ways in which it fails: a state file that is not secure counts as
  absent, and there is no lock.
\<close>

section \<open>One process, a secure file\<close>

lemma parseInt_in_i64: "parseInt s = Some v \<Longrightarrow> in_i64 v"
  by (auto simp: parseInt_def parseInt_digits_def Let_def split: list.splits if_splits)

lemma zig_read_line_counter:
  assumes "zig_read_line l t = Some t'" "tok_counter t' = Some v" "\<forall>v. tok_counter t = Some v \<longrightarrow> in_i64 v"
  shows "in_i64 v"
  using assms parseInt_in_i64
  by (auto simp: zig_read_line_def parseI64_def bind_eq_Some_conv split: if_splits)

lemma zig_token_counter:
  "zig_read_token s t = Some t' \<Longrightarrow> tok_counter t' = Some v \<Longrightarrow> (\<forall>v. tok_counter t = Some v \<longrightarrow> in_i64 v) \<Longrightarrow> in_i64 v"
proof (induction s t arbitrary: v rule: zig_read_token.induct)
  case (2 c s t)
  then show ?case using zig_read_line_counter by (auto split: option.splits prod.splits)
qed simp

text \<open>The counter that the Zig bridge finds in a file; above every counter when it cannot be read.\<close>

definition zig_counter :: "world \<Rightarrow> path \<Rightarrow> int" where
  "zig_counter w p =
     (case files w p of
        None \<Rightarrow> - 1
      | Some f \<Rightarrow> (case zig_stored_counter (content f) of Some v \<Rightarrow> v | None \<Rightarrow> 2 ^ 63))"

definition zig_guarded :: "world \<Rightarrow> path \<Rightarrow> bool" where
  "zig_guarded w p \<longleftrightarrow> (files w p = None \<or> isSecureRegularFile w p) \<and> \<not> sys_fails w Sys_write p"

definition zig_accepts :: "path \<Rightarrow> world \<Rightarrow> int \<Rightarrow> world \<Rightarrow> bool" where
  "zig_accepts p w n w' \<longleftrightarrow> zig_guarded w p \<and>
     (\<exists>tp ring max_age nonce s t. zig_validate w tp ring max_age nonce p = Some (True, w') \<and>
        fs_read w tp = Some s \<and> zig_read_token s no_token = Some t \<and> tok_counter t = Some n)"

definition zig_rejects :: "path \<Rightarrow> world \<Rightarrow> world \<Rightarrow> bool" where
  "zig_rejects p w w' \<longleftrightarrow> zig_guarded w p \<and>
     (\<exists>tp ring max_age nonce. zig_validate w tp ring max_age nonce p = Some (False, w'))"

lemma zig_validate_Some:
  assumes "zig_validate w tp ring max_age nonce p = Some (ok, w')"
  obtains (rejected) "\<not> ok" "w' = w"
  | (replay) s t n where "fs_read w tp = Some s" "zig_read_token s no_token = Some t" "tok_counter t = Some n"
      "zig_check_replay w p n = Some (ok, w')"
  using assms
  by (auto simp: zig_validate_def parseToken_def zig_token_checks_def split: if_splits option.splits)

lemma zig_check_replay_guarded:
  assumes "zig_check_replay w p n = Some (ok, w')" "zig_guarded w p" "in_i64 n"
  shows "if ok then zig_counter w p < n \<and> zig_counter w' p = n else w' = w"
proof -
  have t: "target w p = p"
    using assms(2) by (auto simp: zig_guarded_def isSecureRegularFile_def target_def split: option.splits)
  show ?thesis
  proof (cases "ok")
    case True
    then obtain m where m: "zig_last_counter w p = Some m" "m < n" "w' = write_state (create_truncated w p) p n"
      using assms(1) by (auto simp: zig_check_replay_def not_le split: if_splits option.splits)
    have "zig_counter w p = m"
      using m(1) assms(2) t
      by (auto simp: zig_last_counter_def zig_counter_def zig_guarded_def isSecureRegularFile_def fs_read_def
          split: option.splits if_splits)
    moreover have "target (create_truncated w p) p = p"
      using t by (simp add: create_truncated_def state_targets target_create_state)
    moreover have "\<exists>f. files (create_truncated w p) p = Some f"
      using create_state_frame(4) [of w p] t by (auto simp: create_truncated_def state_frames target_create_state)
    ultimately show ?thesis
      using True m zig_stored_counter_written [OF assms(3)] by (auto simp: zig_counter_def state_frames)
  next
    case False
    then show ?thesis using assms(1,2) by (auto simp: zig_check_replay_def zig_guarded_def split: if_splits option.splits)
  qed
qed

lemma zig_validate_counter:
  assumes "zig_validate w tp ring max_age nonce p = Some (ok, w')" "zig_guarded w p"
  shows "\<not> ok \<Longrightarrow> w' = w"
    "ok \<Longrightarrow> fs_read w tp = Some s \<Longrightarrow> zig_read_token s no_token = Some t \<Longrightarrow> tok_counter t = Some n \<Longrightarrow>
       zig_counter w p < n \<and> zig_counter w' p = n"
  using assms(1)
  by (cases rule: zig_validate_Some;
      use zig_check_replay_guarded [OF _ assms(2)] zig_token_counter [of _ no_token] in \<open>fastforce simp: no_token_def\<close>)+

interpretation zig_bridge: replay_guard "zig_accepts p" "zig_rejects p" "\<lambda>w. zig_counter w p" for p
  using zig_validate_counter(2) zig_validate_counter(1) [where ok = False]
  by unfold_locales (fastforce simp: zig_accepts_def zig_rejects_def)+

section \<open>A state file that is not secure\<close>

text \<open>A link or a file that others can write counts as absent: nothing is remembered.\<close>

lemma insecure_kept:
  assumes "files w p = Some g" "\<not> isSecureRegularFile w p"
  shows "\<not> isSecureRegularFile (write_state (create_truncated w p) p n) p"
    "\<exists>g'. files (write_state (create_truncated w p) p n) p = Some g' \<and> kind g' = kind g \<and> fmode g' = fmode g"
proof -
  have "target (create_state w p) p = target w p" "target (create_truncated w p) p = target w p"
    by (simp_all add: create_truncated_def state_targets target_create_state)
  moreover have "files (create_state w p) p = Some g" using assms(1) by (auto simp: create_state_def Let_def split: option.splits)
  ultimately show *: "\<exists>g'. files (write_state (create_truncated w p) p n) p = Some g' \<and> kind g' = kind g \<and> fmode g' = fmode g"
    by (auto simp: create_truncated_def state_frames)
  then show "\<not> isSecureRegularFile (write_state (create_truncated w p) p n) p"
    using assms by (auto simp: isSecureRegularFile_def group_world_writable_def)
qed

lemma write_frame:
  assumes "q \<noteq> target w p" "w' = write_state (create_truncated w p) p n"
  shows "files w' q = files w q" "clock w' = clock w" "sys_fails w' = sys_fails w" "resolve w' = resolve w"
proof -
  have t: "target (create_state w p) p = target w p" "target (create_truncated w p) p = target w p"
    by (simp_all add: create_truncated_def state_targets target_create_state)
  show "files w' q = files w q"
    using assms t create_state_frame(3) [of q w p] by (simp add: create_truncated_def state_frames)
  show "clock w' = clock w" "sys_fails w' = sys_fails w" "resolve w' = resolve w"
    using assms(2) by (simp_all add: write_state_def create_truncated_def truncate_state_def update_inode_files
        create_state_def Let_def split: option.splits)
qed

lemma zig_insecure_again:
  assumes ok: "zig_validate w tp ring max_age nonce rp = Some (True, w')"
    and g: "files w rp = Some g" "\<not> isSecureRegularFile w rp" and "tp \<noteq> target w rp"
  shows "\<exists>w''. zig_validate w' tp ring max_age nonce rp = Some (True, w'')"
proof -
  obtain s t n where r: "tp \<noteq> []" "rp \<noteq> []" "isSecureRegularFile w tp" "is_absolute tp" "fs_read w tp = Some s"
      "zig_read_token s no_token = Some t" "zig_token_checks t ring max_age (clock w) nonce = Some True"
      "tok_counter t = Some n" "zig_check_replay w rp n = Some (True, w')"
    using ok by (auto simp: zig_validate_def parseToken_def zig_token_checks_def split: if_splits option.splits)
  then have c: "is_absolute rp" "- 1 < n" "\<not> sys_fails w Sys_open_write rp" "\<not> sys_fails w Sys_write rp"
      and w': "w' = write_state (create_truncated w rp) rp n"
    using g(2) by (auto simp: zig_check_replay_def zig_last_counter_def split: if_splits)
  note f = write_frame [OF assms(4) w']
  have "isSecureRegularFile w' tp" "fs_read w' tp = Some s"
    using r(3,5) f by (auto simp: isSecureRegularFile_def fs_read_def target_def split: option.splits)
  moreover have "\<not> isSecureRegularFile w' rp" using insecure_kept(1) [OF g] w' by simp
  then have "\<exists>w''. zig_check_replay w' rp n = Some (True, w'')"
    using r(2) c f by (simp add: zig_check_replay_def zig_last_counter_def)
  ultimately show ?thesis using r f by (simp add: zig_validate_def parseToken_def)
qed

text \<open>The C bridge rejects when the file it opens is not secure.\<close>

lemma c_insecure_rejected:
  assumes "files w (target w p) = Some g" "\<not> bridge_secure w g"
  shows "\<not> fst (check_replay w p n)"
proof -
  have "create_state w p = w" using assms(1) by (simp add: create_state_def)
  then show ?thesis using assms by (simp add: check_replay_def open_state_def)
qed

section \<open>Two processes\<close>

datatype zig_phase =
    Zig_Ready
  | Zig_Read int
  | Zig_Created
  | Zig_Ended bool
  | Zig_Panicked

text \<open>Reading the state, creating the file and writing it are three steps without a lock.\<close>

fun zig_call_step :: "path \<Rightarrow> int \<Rightarrow> zig_phase \<Rightarrow> world \<Rightarrow> (zig_phase \<times> world) option" where
  "zig_call_step p n Zig_Ready w =
     Some (if p = [] then (Zig_Ended False, w)
           else if isSecureRegularFile w p \<and> \<not> is_absolute p then (Zig_Panicked, w)
           else case zig_last_counter w p of None \<Rightarrow> (Zig_Ended False, w) | Some v \<Rightarrow> (Zig_Read v, w))"
| "zig_call_step p n (Zig_Read v) w =
     Some (if n \<le> v then (Zig_Ended False, w)
           else if \<not> is_absolute p then (Zig_Panicked, w)
           else if sys_fails w Sys_open_write p then (Zig_Ended False, w)
           else (Zig_Created, create_truncated w p))"
| "zig_call_step p n Zig_Created w =
     Some (if sys_fails w Sys_write p then (Zig_Ended False, w) else (Zig_Ended True, write_state w p n))"
| "zig_call_step p n (Zig_Ended ok) w = None"
| "zig_call_step p n Zig_Panicked w = None"

fun zig_alone :: "nat \<Rightarrow> path \<Rightarrow> int \<Rightarrow> zig_phase \<times> world \<Rightarrow> zig_phase \<times> world" where
  "zig_alone 0 p n s = s"
| "zig_alone (Suc k) p n (ph, w) =
     (case zig_call_step p n ph w of None \<Rightarrow> (ph, w) | Some s \<Rightarrow> zig_alone k p n s)"

lemma zig_process_alone:
  "zig_alone 3 p n (Zig_Ready, w) =
     (case zig_check_replay w p n of None \<Rightarrow> (Zig_Panicked, w) | Some (ok, w') \<Rightarrow> (Zig_Ended ok, w'))"
proof -
  have "sys_fails (create_truncated w p) = sys_fails w"
    by (simp add: create_truncated_def state_frames create_state_frame)
  then show ?thesis by (simp add: numeral_eq_Suc zig_check_replay_def split: option.split)
qed

record zig_state =
  zig_world :: world
  zig_phases :: "pid \<Rightarrow> zig_phase"

inductive zig_reached :: "path \<Rightarrow> (pid \<Rightarrow> int) \<Rightarrow> world \<Rightarrow> zig_state \<Rightarrow> bool" for p ctr w where
  init: "zig_reached p ctr w \<lparr>zig_world = w, zig_phases = (\<lambda>i. Zig_Ready)\<rparr>"
| step: "zig_reached p ctr w s \<Longrightarrow> zig_call_step p (ctr i) (zig_phases s i) (zig_world s) = Some (ph, w') \<Longrightarrow>
    zig_reached p ctr w \<lparr>zig_world = w', zig_phases = (zig_phases s)(i := ph)\<rparr>"

text \<open>The state after the processes have been given turns in some order.\<close>

fun zig_schedule :: "path \<Rightarrow> (pid \<Rightarrow> int) \<Rightarrow> pid list \<Rightarrow> zig_state \<Rightarrow> zig_state" where
  "zig_schedule p ctr [] s = s"
| "zig_schedule p ctr (i # is) s =
     zig_schedule p ctr is
       (case zig_call_step p (ctr i) (zig_phases s i) (zig_world s) of
          None \<Rightarrow> s
        | Some (ph, w') \<Rightarrow> \<lparr>zig_world = w', zig_phases = (zig_phases s)(i := ph)\<rparr>)"

lemma zig_schedule_reached: "zig_reached p ctr w s \<Longrightarrow> zig_reached p ctr w (zig_schedule p ctr is s)"
  by (induction "is" arbitrary: s) (auto split: option.split intro: zig_reached.step)

lemma zig_race:
  assumes "plain_state w p" "current_counter w p < n" "i \<noteq> j"
  shows "\<exists>s. zig_reached p (\<lambda>k. n) w s \<and> zig_phases s i = Zig_Ended True \<and> zig_phases s j = Zig_Ended True"
proof -
  have p: "p \<noteq> []" "is_absolute p" "\<And>c. \<not> sys_fails w c p"
    using assms(1) by (auto simp: plain_state_def is_absolute_def starts_with_def)
  have f: "sys_fails (create_truncated v p) = sys_fails v" "sys_fails (write_state v p n) = sys_fails v" for v
    by (simp_all add: create_truncated_def state_frames create_state_frame)
  let ?s = "zig_schedule p (\<lambda>k. n) [i, j, i, j, i, j] \<lparr>zig_world = w, zig_phases = (\<lambda>k. Zig_Ready)\<rparr>"
  have "zig_phases ?s i = Zig_Ended True \<and> zig_phases ?s j = Zig_Ended True"
    using p assms(2,3) plain_last_counter [OF assms(1)] f by simp
  then show ?thesis using zig_schedule_reached [OF zig_reached.init] by blast
qed

end
