(* ===== verification/Attestation_Properties.thy ===== *)
theory Attestation_Properties
  imports Zig_Replay Sample_World
begin

text \<open>
  The properties of the two attestation bridges and of several processes that share a replay file,
  with the files on which they are run.
\<close>

section \<open>Files\<close>

definition bridge_fields :: "token_field list" where
  "bridge_fields =
     [Ring_Field (- 1), Attested_Field True, Timestamp_Field 1000, Nonce_Field ''n1'', Counter_Field 5]"

text \<open>A token, a state file that is a link and its target.\<close>

definition bridge_world :: world where
  "bridge_world =
     sample_world\<lparr>files := [''/tok'' \<mapsto> own_file (show_fields bridge_fields),
        ''/link'' \<mapsto> (own_file '''')\<lparr>kind := Symlink\<rparr>, ''/kept'' \<mapsto> own_file (''5'' @ [CHR 0x0A])],
      resolve := (\<lambda>p. ''/kept'')\<rparr>"

lemma bridge_fields_ok: "list_all field_ok bridge_fields"
  by (simp add: bridge_fields_def in_i64_def one_line_def)

lemma bridge_token:
  "fields_token bridge_fields = \<lparr>tok_ring = Some (- 1), tok_attested = Some True, tok_timestamp = Some 1000,
     tok_nonce = Some ''n1'', tok_counter = Some 5, tok_root_attested = None\<rparr>"
  by (simp add: fields_token_def bridge_fields_def no_token_def)

lemma bridge_files:
  "files bridge_world ''/tok'' = Some (own_file (show_fields bridge_fields))" "files bridge_world ''/state'' = None"
  "clock bridge_world = 1100" "sys_fails bridge_world c p = False" "bridge_secure bridge_world (own_file t)"
  by (simp_all add: bridge_world_def sample_world_def bridge_secure_def own_file_def group_world_writable_def)

lemma bridge_plain: "plain_state bridge_world ''/state''"
  by (simp add: plain_state_def bridge_files is_absolute_def starts_with_def)

lemma bridge_replay: "\<exists>v. check_replay bridge_world ''/state'' 5 = (True, v)"
proof -
  have "current_counter bridge_world ''/state'' = - 1"
    by (simp add: current_counter_def target_def bridge_files)
  then have "zig_check_replay bridge_world ''/state'' 5 =
      Some (True, write_state (create_truncated bridge_world ''/state'') ''/state'' 5)"
    using plain_last_counter [OF bridge_plain]
    by (simp add: zig_check_replay_def is_absolute_def starts_with_def bridge_files)
  then show ?thesis using replay_agrees [OF bridge_plain, of 5] by (auto simp: in_i64_def)
qed

section \<open>Several processes\<close>

text \<open>
  (C7) No token is accepted twice, also when any number of processes validate tokens against one replay
  file at the same time, in any interleaving of their system calls, with any failures and killed at any
  place, as long as reads and writes of the file are not lost and nobody is killed between truncation and
  write: the processes that accept have different counters, all above the one the file held at first, and
  never are two processes inside the lock.
\<close>

theorem concurrent_no_token_twice:
  assumes "reached fl kills p ctr w s" "no_loss fl kills" "\<forall>i. in_i64 (ctr i)"
  shows "(\<forall>i. phases s i = Ended True \<longrightarrow> current_counter w p < ctr i) \<and>
    (\<forall>i j. phases s i = Ended True \<and> phases s j = Ended True \<and> ctr i = ctr j \<longrightarrow> i = j) \<and>
    (\<forall>i j. in_section (phases s i) \<and> in_section (phases s j) \<longrightarrow> i = j)"
proof -
  have "replay_inv p ctr (current_counter w p) s" by (rule reached_inv [OF assms])
  then have l: "lock_agrees s" and c: "counters_agree ctr (current_counter w p) (current_counter (shared s) p) (phases s)"
    by (simp_all add: replay_inv_def)
  have "i = j" if "in_section (phases s i)" "in_section (phases s j)" for i j
    using l that by (simp add: lock_agrees_def)
  moreover have "current_counter w p < ctr i" if "phases s i = Ended True" for i
    using c that by (auto simp: counters_agree_def)
  moreover have "i = j" if "phases s i = Ended True" "phases s j = Ended True" "ctr i = ctr j" for i j
    using c that unfolding counters_agree_def by (metis stored.simps(3))
  ultimately show ?thesis by blast
qed

text \<open>Processes with the same token: the first is accepted.\<close>

theorem concurrent_no_token_twice_witness:
  "\<exists>s. reached (\<lambda>i c. False) (\<lambda>i ph. False) ''/state'' (\<lambda>i. 5) bridge_world s \<and>
     phases s 0 = Ended True \<and> phases s 1 \<noteq> Ended True \<and> current_counter bridge_world ''/state'' < 5"
proof -
  let ?s = "replay_schedule (\<lambda>i c. False) ''/state'' (\<lambda>i. 5) (replicate 10 0) (start_state bridge_world)"
  have f: "(\<lambda>c. sys_fails bridge_world c ''/state'') = (\<lambda>c. False)" by (simp add: bridge_files)
  obtain v where "check_replay bridge_world ''/state'' 5 = (True, v)" using bridge_replay by blast
  then have "phases ?s 0 = Ended True"
    using process_alone [of bridge_world "''/state''" 5] unfolding f
    by (intro schedule_alone) (simp add: start_state_def del: run_alone_numeral)
  moreover have r: "reached (\<lambda>i c. False) (\<lambda>i ph. False) ''/state'' (\<lambda>i. 5) bridge_world ?s"
    by (rule replay_schedule_reached [OF reached.init])
  moreover have "no_loss (\<lambda>i c. False) (\<lambda>i ph. False)" by (simp add: no_loss_def)
  ultimately show ?thesis
    using concurrent_no_token_twice [OF r] by (intro exI [of _ ?s]) (auto simp: in_i64_def)
qed

text \<open>
  (C8) The system calls that the processes interleave are those of the bridge: a process that runs alone
  ends after at most ten of them as \<open>check_replay\<close> says, with the same result and the same files, whatever
  fails; and as long as some process has not ended some process can go on.
\<close>

theorem replay_steps_refine:
  assumes "reached fl kills p ctr w s" "\<forall>ok. phases s i \<noteq> Ended ok"
  shows "run_alone 10 (\<lambda>c. sys_fails v c q) q n (Ready, v, None) =
      (case check_replay v q n of (ok, v') \<Rightarrow> (Ended ok, v', None)) \<and>
    (\<exists>s'. replay_step fl kills p ctr s s' \<and> phases s' \<noteq> phases s)"
proof -
  have "lock_agrees s"
    using assms(1) by induction (simp add: lock_agrees_def start_state_def, rule lock_kept)
  then show ?thesis using replay_progress [OF _ assms(2)] process_alone by blast
qed

theorem replay_steps_refine_witness:
  "run_alone 10 (\<lambda>c. sys_fails bridge_world c ''/state'') ''/state'' 5 (Ready, bridge_world, None) =
     (case check_replay bridge_world ''/state'' 5 of (ok, v') \<Rightarrow> (Ended ok, v', None))"
  using replay_steps_refine [OF reached.init, of bridge_world 0 bridge_world "''/state''" 5]
  by (simp add: start_state_def)

section \<open>The Zig bridge\<close>

text \<open>
  (C9) The two bridges agree. For a token file of well-formed fields and a replay file in order, both files
  secure and of the user, with absolute paths, a clock that works and an age within 64 bits, the Zig bridge
  does not panic, returns what the C bridge returns and leaves the same counter behind.
\<close>

theorem bridges_agree:
  assumes "files w tp = Some f" "bridge_secure w f" "readable f" "content f = show_fields fs" "list_all field_ok fs"
    and "is_absolute tp" "plain_state w rp" "clock w \<noteq> - 1"
    and "\<forall>ts. tok_timestamp (fields_token fs) = Some ts \<and> ts \<le> clock w \<longrightarrow> in_i64 (clock w - ts)"
  shows "\<exists>ok wc wz. skv_validate_attestation_token w tp ring max_age nonce rp = (ok, wc) \<and>
     zig_validate w tp ring max_age nonce rp = Some (ok, wz) \<and> current_counter wz rp = current_counter wc rp"
  using assms by (rule bridges_decide_alike)

theorem bridges_agree_witness:
  "\<exists>ok wc wz. skv_validate_attestation_token bridge_world ''/tok'' (- 1) 300 (Some ''n1'') ''/state'' = (ok, wc) \<and>
     zig_validate bridge_world ''/tok'' (- 1) 300 (Some ''n1'') ''/state'' = Some (ok, wz) \<and>
     current_counter wz ''/state'' = current_counter wc ''/state''"
  by (rule bridges_agree [OF bridge_files(1,5) _ _ bridge_fields_ok _ bridge_plain])
     (simp_all add: bridge_files own_file_def is_absolute_def starts_with_def bridge_token in_i64_def)

text \<open>
  (C28) Replay protection of the Zig bridge, one process at a time: as long as the state file is absent or a
  regular file that only its owner can write and no write is lost, the counters of the tokens it accepts
  increase strictly from the counter it found first.
\<close>

theorem zig_no_token_twice:
  assumes "history (zig_accepts p) (zig_rejects p) (\<lambda>w. zig_counter w p) w ns w'"
  shows "sorted_wrt (<) (zig_counter w p # ns) \<and> distinct ns \<and> (\<forall>n \<in> set ns. n \<le> zig_counter w' p)"
  using zig_bridge.history_increasing [OF assms] zig_bridge.history_distinct [OF assms] by simp

lemma bridge_zig_accepts: "\<exists>w'. zig_accepts ''/state'' bridge_world 5 w'"
proof -
  let ?v = "zig_validate bridge_world ''/tok'' (- 1) 300 (Some ''n1'') ''/state''"
  have "target bridge_world ''/tok'' = ''/tok''" by (simp add: target_def bridge_files own_file_def)
  then have t: "fs_read bridge_world ''/tok'' = Some (show_fields bridge_fields)"
    by (simp add: fs_read_def bridge_files own_file_def)
  note z = zig_read_token_fields [OF bridge_fields_ok]
  have "\<exists>w'. ?v = Some (True, w')"
    using t z plain_last_counter [OF bridge_plain] bridge_files(5)
    by (auto simp: zig_validate_def parseToken_def isSecureRegularFile_def bridge_files own_file_def bridge_secure_def
        is_absolute_def starts_with_def bridge_token zig_token_checks_def in_i64_def zig_check_replay_def
        zig_last_counter_def)
  then show ?thesis using t z
    by (auto simp: zig_accepts_def zig_guarded_def bridge_files bridge_token)
       (metis bridge_token token.select_convs(5))
qed

theorem zig_no_token_twice_witness:
  "\<exists>w'. history (zig_accepts ''/state'') (zig_rejects ''/state'') (\<lambda>w. zig_counter w ''/state'') bridge_world [5] w' \<and>
     5 \<le> zig_counter w' ''/state''"
proof -
  obtain w' where "zig_accepts ''/state'' bridge_world 5 w'" using bridge_zig_accepts by blast
  then have h: "history (zig_accepts ''/state'') (zig_rejects ''/state'') (\<lambda>w. zig_counter w ''/state'') bridge_world ([] @ [5]) w'"
    by (rule history.accept [OF history.start])
  then show ?thesis using zig_no_token_twice [OF h] by auto
qed

text \<open>
  (C29) A state file that is not secure switches the replay protection of the Zig bridge off: if it is a link
  or others can write it, a token that was accepted is accepted again, the same file being read and written.
  The C bridge rejects every token when the file that it opens, the target of a link, is not a regular file,
  belongs to another user or can be written by others.
\<close>

theorem zig_insecure_state_replays:
  assumes "zig_validate w tp ring max_age nonce rp = Some (True, w')" "files w rp = Some g"
    and "kind g = Symlink \<or> group_world_writable g" "tp \<noteq> target w rp"
  shows "(\<exists>w''. zig_validate w' tp ring max_age nonce rp = Some (True, w'')) \<and>
    (\<forall>v p h tp2 ring2 age2 nonce2. files v (target v p) = Some h \<and>
       (kind h \<noteq> RegularFile \<or> uid h \<noteq> euid v \<or> group_world_writable h) \<longrightarrow>
       \<not> fst (skv_validate_attestation_token v tp2 ring2 age2 nonce2 p))"
proof -
  have "\<not> isSecureRegularFile w rp" using assms(2,3) by (auto simp: isSecureRegularFile_def)
  then have "\<exists>w''. zig_validate w' tp ring max_age nonce rp = Some (True, w'')"
    using zig_insecure_again assms by blast
  moreover have "\<not> fst (skv_validate_attestation_token v tp2 ring2 age2 nonce2 p)"
    if "files v (target v p) = Some h" "kind h \<noteq> RegularFile \<or> uid h \<noteq> euid v \<or> group_world_writable h"
    for v p h tp2 ring2 age2 nonce2
    using c_insecure_rejected [OF that(1)] that(2)
    by (simp add: skv_validate_attestation_token_def bridge_secure_def split: option.split)
  ultimately show ?thesis by blast
qed

lemma bridge_link_accepts: "\<exists>w'. zig_validate bridge_world ''/tok'' (- 1) 300 (Some ''n1'') ''/link'' = Some (True, w')"
proof -
  have "target bridge_world ''/tok'' = ''/tok''" by (simp add: target_def bridge_files own_file_def)
  then have t: "fs_read bridge_world ''/tok'' = Some (show_fields bridge_fields)"
    by (simp add: fs_read_def bridge_files own_file_def)
  have l: "\<not> isSecureRegularFile bridge_world ''/link''"
    by (simp add: isSecureRegularFile_def bridge_world_def)
  show ?thesis
    using t l zig_read_token_fields [OF bridge_fields_ok] bridge_files(5)
    by (simp add: zig_validate_def parseToken_def isSecureRegularFile_def [of _ "''/tok''"] bridge_files own_file_def
        bridge_secure_def is_absolute_def starts_with_def bridge_token zig_token_checks_def in_i64_def
        zig_check_replay_def zig_last_counter_def)
qed

text \<open>The file behind the link holds 5, and the token with counter 5 is accepted twice.\<close>

theorem zig_insecure_state_replays_witness:
  "\<exists>w' w''. zig_validate bridge_world ''/tok'' (- 1) 300 (Some ''n1'') ''/link'' = Some (True, w') \<and>
     zig_validate w' ''/tok'' (- 1) 300 (Some ''n1'') ''/link'' = Some (True, w'')"
proof -
  obtain w' where w': "zig_validate bridge_world ''/tok'' (- 1) 300 (Some ''n1'') ''/link'' = Some (True, w')"
    using bridge_link_accepts by blast
  have "files bridge_world ''/link'' = Some ((own_file '''')\<lparr>kind := Symlink\<rparr>)" "''/tok'' \<noteq> target bridge_world ''/link''"
    by (simp_all add: bridge_world_def target_def)
  then show ?thesis using zig_insecure_state_replays [OF w'] w' by auto
qed

text \<open>
  (C30) The Zig bridge takes no lock: from every state file in order two processes can both accept a token
  with the same new counter, by reading the file before the other writes it. The steps are those of the
  bridge: alone, a process ends as \<open>zig_check_replay\<close> says.
\<close>

theorem zig_race_accepts_twice:
  assumes "plain_state w p" "current_counter w p < n" "i \<noteq> j"
  shows "(\<exists>s. zig_reached p (\<lambda>k. n) w s \<and> zig_phases s i = Zig_Ended True \<and> zig_phases s j = Zig_Ended True) \<and>
    zig_alone 3 p n (Zig_Ready, w) =
      (case zig_check_replay w p n of None \<Rightarrow> (Zig_Panicked, w) | Some (ok, w') \<Rightarrow> (Zig_Ended ok, w'))"
  using zig_race [OF assms] zig_process_alone by blast

theorem zig_race_accepts_twice_witness:
  "\<exists>s. zig_reached ''/state'' (\<lambda>k. 5) bridge_world s \<and> zig_phases s 0 = Zig_Ended True \<and> zig_phases s 1 = Zig_Ended True"
proof -
  have "current_counter bridge_world ''/state'' < 5" by (simp add: current_counter_def target_def bridge_files)
  then show ?thesis using zig_race_accepts_twice [OF bridge_plain, of 5 0 1] by simp
qed

end
