(* ===== verification/Attestation_Limits.thy ===== *)
theory Attestation_Limits
  imports Attestation
begin

text \<open>
  The C bridge at its limits: the age of a token where the 64-bit subtraction overflows, what an accepted
  counter means when the replay file cannot be read, and what a failed write leaves behind.
\<close>

section \<open>The age of a token\<close>

text \<open>The overflow is undefined in C; the model wraps around.\<close>

lemma i64_sub_small: "in_i64 (a - b) \<Longrightarrow> i64_sub a b = a - b"
  unfolding i64_sub_def in_i64_def by (subst sint_sbintrunc') (simp add: signed_take_bit_int_eq_self)

lemma i64_sub_large:
  assumes "in_i64 a" "in_i64 b" "2 ^ 63 \<le> a - b"
  shows "i64_sub a b = a - b - 2 ^ 64"
proof -
  have e: "(word_of_int (a - b) :: 64 word) = word_of_int (a - b - 2 ^ 64)"
    by (rule word_of_int_eq_iff [THEN iffD2]) (simp add: take_bit_eq_mod)
  have "in_i64 (a - b - 2 ^ 64 - 0)" using assms by (simp add: in_i64_def)
  from i64_sub_small [OF this] show ?thesis unfolding i64_sub_def e diff_0_right .
qed

lemma age_accepted:
  assumes "in_i64 ts" "in_i64 now" "ts \<le> now" "0 < max_age"
  shows "i64_sub now ts \<le> max_age \<longleftrightarrow> now - ts \<le> max_age \<or> 2 ^ 63 \<le> now - ts"
proof (cases "2 ^ 63 \<le> now - ts")
  case True
  then show ?thesis using i64_sub_large [OF assms(2,1)] assms by (simp add: in_i64_def)
next
  case False
  then have "in_i64 (now - ts)" using assms(3) by (simp add: in_i64_def)
  then show ?thesis using i64_sub_small False by simp
qed

section \<open>The replay file\<close>

text \<open>A read of the replay file that fails counts as a file without a counter.\<close>

definition counter_read :: "world \<Rightarrow> path \<Rightarrow> int" where
  "counter_read w p = (if sys_fails w Sys_read p then - 1 else current_counter w p)"

lemma advance_state_True:
  "advance_state w p n = (True, w') \<Longrightarrow> w' = chmod_state (write_state (truncate_state w p) p n) p"
  by (simp add: advance_state_def Let_def split: if_splits)

lemma check_replay_True:
  assumes "check_replay w p n = (True, w')" "in_i64 n"
  shows "counter_read w p < n" "current_counter w' p = n"
proof -
  obtain f where o: "open_state w p = Some (create_state w p)"
    and f: "files (create_state w p) (target w p) = Some f" "counter_read w p < n"
    and a: "advance_state (create_state w p) p n = (True, w')"
    using assms(1) current_counter_create [of w p]
    by (auto simp: check_replay_def Let_def open_state_def counter_read_def current_counter_def target_create_state
        split: if_splits option.splits)
  show "counter_read w p < n" by (rule f(2))
  show "current_counter w' p = n"
    using f(1) current_counter_write [OF assms(2), of "truncate_state (create_state w p) p" p]
    by (simp add: advance_state_True [OF a] current_counter_chmod state_targets state_frames target_create_state)
qed

text \<open>A write that fails after the truncation: the call is rejected and the counter is gone.\<close>

lemma create_existing: "files w (target w p) = Some f \<Longrightarrow> create_state w p = w"
  by (simp add: create_state_def)

lemma check_replay_accepts:
  assumes "p \<noteq> []" "files w (target w p) = Some f" "bridge_secure w f" "\<And>c. \<not> sys_fails w c p"
  shows "fst (check_replay w p n) \<longleftrightarrow> stored_counter (content f) < n"
  using assms by (auto simp: check_replay_def open_state_def create_existing advance_state_def Let_def)

lemma lost_write:
  assumes "p \<noteq> []" "files w (target w p) = Some f" "bridge_secure w f" "stored_counter (content f) < n"
  shows "check_replay (w\<lparr>sys_fails := \<lambda>c q. c = Sys_write\<rparr>) p n =
    (False, truncate_state (w\<lparr>sys_fails := \<lambda>c q. c = Sys_write\<rparr>) p)"
proof -
  let ?w = "w\<lparr>sys_fails := \<lambda>c q. c = Sys_write\<rparr>"
  have t: "target ?w p = target w p" by (simp add: target_def split: option.split)
  have "files ?w (target ?w p) = Some f" "bridge_secure ?w f" using assms(2,3) t by (simp_all add: bridge_secure_def)
  then show ?thesis using assms(1,4)
    by (simp add: check_replay_def open_state_def create_existing advance_state_def Let_def)
qed

end
