(* ===== verification/Analyzer_Order.thy ===== *)
theory Analyzer_Order
  imports Analyzer_Soundness
begin

text \<open>
  The order of what a run does. The visits of a run form a chain, each starting in the state the one before
  has left. From it: what has been mapped for DMA was mapped by a call of \<open>iommu_map\<close>, and in a run that
  passes under \<open>require-iommu\<close> every call of \<open>dma_alloc_coherent\<close> is followed by one.
\<close>

section \<open>Visits follow each other\<close>

text \<open>The visits of a run, from the state before the first to the state after the last.\<close>

fun chained :: "astate \<Rightarrow> visit list \<Rightarrow> astate \<Rightarrow> bool" where
  "chained st [] st' \<longleftrightarrow> st' = st"
| "chained st ((ctx, i, s) # vs) st' \<longleftrightarrow> s = st \<and> chained (snd (step_instr ctx i st)) vs st'"

lemma chained_append: "chained st (xs @ ys) st' \<longleftrightarrow> (\<exists>s. chained st xs s \<and> chained s ys st')"
  by (induction xs arbitrary: st) auto

lemma chained_instrs: "chained st (trace_instrs ctx is st) (snd (run_instrs ctx is st))"
  by (induction ctx "is" st rule: run_instrs.induct) (auto split: prod.split ctl.split)

lemma chained_blocks: "chained st (trace_blocks ctx bbs st) (snd (run_blocks ctx bbs st))"
proof (induction bbs arbitrary: ctx st)
  case (Cons bb rest)
  obtain k1 st1 where s: "run_instrs (ctx\<lparr>instr_idx := 0\<rparr>) (instrs bb) st = (k1, st1)"
    by (cases "run_instrs (ctx\<lparr>instr_idx := 0\<rparr>) (instrs bb) st")
  have here: "chained st (trace_instrs (ctx\<lparr>instr_idx := 0\<rparr>) (instrs bb) st) st1"
    using chained_instrs [of st "ctx\<lparr>instr_idx := 0\<rparr>" "instrs bb"] s by simp
  show ?case
  proof (cases "k1 = Crash \<or> is_Fail (final_result st1)")
    case True
    then show ?thesis using here unfolding trace_blocks_stop [OF s True] run_blocks_stop [OF s True] by simp
  next
    case False
    then show ?thesis unfolding trace_blocks_go [OF s False] run_blocks_go [OF s False]
      using here Cons.IH by (auto simp: chained_append)
  qed
qed simp

lemma chained_functions: "chained st (trace_functions ctx fs st) (snd (run_functions ctx fs st))"
proof (induction fs arbitrary: st)
  case (Cons f rest)
  let ?c = "ctx\<lparr>fname := func_name f, bb_idx := 0\<rparr>"
  obtain k1 st1 where s: "run_blocks ?c (basic_blocks f) st = (k1, st1)" by (cases "run_blocks ?c (basic_blocks f) st")
  have here: "chained st (trace_blocks ?c (basic_blocks f) st) st1"
    using chained_blocks [of st ?c "basic_blocks f"] s by simp
  show ?case
  proof (cases "k1 = Crash \<or> is_Fail (final_result st1)")
    case True
    then show ?thesis using here unfolding trace_functions_stop [OF s True] run_functions_stop [OF s True] by simp
  next
    case False
    then show ?thesis unfolding trace_functions_go [OF s False] run_functions_go [OF s False]
      using here Cons.IH by (auto simp: chained_append)
  qed
qed simp

lemma chained_trace: "chained (init_state gate) (trace c m gate) (last_state c m gate)"
  unfolding trace_def last_state_def by (rule chained_functions)

section \<open>Mappings\<close>

definition is_call_of :: "string \<Rightarrow> Instruction \<Rightarrow> bool" where
  "is_call_of nm i \<longleftrightarrow> (\<exists>call. i = Call call \<and> function_name_of_call call = Some nm)"

lemma iommu_keeps [simp]:
  "iommu_mapped_in_func (mark r st) = iommu_mapped_in_func st"
  "iommu_mapped_in_func (fail msg st) = iommu_mapped_in_func st"
  "iommu_mapped_in_func (set_ptr nm pv st) = iommu_mapped_in_func st"
  "iommu_mapped_in_func (set_int nm v st) = iommu_mapped_in_func st"
  "iommu_mapped_in_func (snd (ask_gate vc cl st)) = iommu_mapped_in_func st"
  "iommu_mapped_in_func (snd (bounds_check ctx asz off n vc cl st)) = iommu_mapped_in_func st"
  by (simp_all add: mark_def fail_def set_ptr_def set_int_def ask_gate_def bounds_check_def split_beta)

lemma iommu_parts [simp]:
  "iommu_mapped_in_func (spill_pointer nm val st) = iommu_mapped_in_func st"
  "iommu_mapped_in_func (reload_pointer nm nm' st) = iommu_mapped_in_func st"
  "iommu_mapped_in_func (snd (on_check m1 m2 vc rs)) = iommu_mapped_in_func (snd rs)"
  "iommu_mapped_in_func (snd (on_dma_check ctx vc rs)) = iommu_mapped_in_func (snd rs)"
  "iommu_mapped_in_func (irq_race_check ctx knd what a st) = iommu_mapped_in_func st"
  by (simp_all add: spill_pointer_def reload_pointer_def on_check_def on_dma_check_def irq_race_check_def
      Let_def split_beta split: option.split prod.split Operand.split AccessCheckResult.split)

lemma check_deref_iommu: "iommu_mapped_in_func (snd (check_deref ctx what msg pv ty st)) = iommu_mapped_in_func st"
  by (simp add: check_deref_def Let_def split_beta split: option.split prod.split)

lemma library_iommu:
  "iommu_mapped_in_func (snd (handle_kmalloc call st)) = iommu_mapped_in_func st"
  "iommu_mapped_in_func (snd (handle_kcalloc call st)) = iommu_mapped_in_func st"
  "iommu_mapped_in_func (snd (handle_kfree ctx call st)) = iommu_mapped_in_func st"
  "iommu_mapped_in_func (snd (handle_memset ctx call st)) = iommu_mapped_in_func st"
  "iommu_mapped_in_func (snd (memcpy_side ctx len op knd st)) = iommu_mapped_in_func st"
  "iommu_mapped_in_func (snd (handle_inline_asm ctx call st)) = iommu_mapped_in_func st"
  "iommu_mapped_in_func (snd (handle_dma_alloc ctx call st)) = iommu_mapped_in_func st"
  "iommu_mapped_in_func (snd (handle_dma_map ctx call st)) = iommu_mapped_in_func st"
  by (simp_all add: handle_kmalloc_def handle_kcalloc_def handle_kfree_def handle_memset_def memcpy_side_def
      handle_inline_asm_def handle_dma_alloc_def handle_dma_map_def Let_def split_beta
      split: option.split prod.split PtrVal.split sum.split InlineAsmPolicy.split)

lemma memcpy_iommu: "iommu_mapped_in_func (snd (handle_memcpy ctx call st)) = iommu_mapped_in_func st"
  by (simp add: handle_memcpy_def Let_def split_beta library_iommu split: option.split)

text \<open>Only a call of \<open>iommu_map\<close> maps anything.\<close>

lemma step_iommu:
  assumes "\<not> is_call_of ''iommu_map'' i"
  shows "iommu_mapped_in_func (snd (step_instr ctx i st)) = iommu_mapped_in_func st"
proof (cases i)
  case (Call call)
  then have "function_name_of_call call \<noteq> Some ''iommu_map''" using assms by (simp add: is_call_of_def)
  then show ?thesis using Call
    by (simp add: step_instr_def handle_call_def library_iommu memcpy_iommu split: option.split)
qed (simp_all add: step_instr_def handle_alloca_def handle_gep_def gep_result_def handle_ptrtoint_def handle_inttoptr_def
    handle_add_def handle_sub_def handle_bitcast_def handle_store_def handle_load_def check_deref_iommu Let_def
    split: option.split Operand.split PtrVal.split)

lemma chained_mapped:
  assumes "chained st vs st'" "a \<in> iommu_mapped_in_func st'" "a \<notin> iommu_mapped_in_func st"
  shows "\<exists>(ctx, i, s) \<in> set vs. is_call_of ''iommu_map'' i"
  using assms
proof (induction vs arbitrary: st)
  case (Cons v vs)
  obtain ctx i s where v: "v = (ctx, i, s)" by (cases v)
  show ?case
  proof (cases "is_call_of ''iommu_map'' i")
    case False
    then show ?thesis using Cons.prems Cons.IH [of "snd (step_instr ctx i st)"] step_iommu [OF False] v by auto
  qed (use v in auto)
qed simp

text \<open>A call of \<open>dma_alloc_coherent\<close> in a run that passes makes an allocation.\<close>

lemma step_dma_alloc:
  assumes "is_call_of ''dma_alloc_coherent'' i" "dma_policy (cfg ctx) \<noteq> Dma_Ignore" "\<not> is_Fail (final_result st)"
    "final_result (snd (step_instr ctx i st)) = Pass"
  shows "alloc_counter st \<in> dma_allocs_in_func (snd (step_instr ctx i st))"
proof -
  obtain call where i: "i = Call call" "function_name_of_call call = Some ''dma_alloc_coherent''"
    using assms(1) by (auto simp: is_call_of_def)
  then show ?thesis using assms(2-4)
    by (auto simp: step_instr_def handle_call_def handle_dma_alloc_def Let_def heap_partD(7) [OF heap_part_keeps(3)]
        split: option.splits)
qed

lemma pass_allocs_mapped:
  assumes "analyze c m gate = Some (oc, g)" "oc_result oc = Pass" "dma_policy c = RequireIommu"
    and iter: "\<And>S. finite S \<Longrightarrow> set (set_iter c S) = S"
  shows "dma_allocs_in_func (last_state c m gate) \<subseteq> iommu_mapped_in_func (last_state c m gate)"
proof -
  let ?st = "last_state c m gate"
  have "wf_state ?st" by (rule wf.I_last [OF wf_init])
  then have "finite (dma_allocs_in_func ?st)"
    by (auto simp: wf_state_def intro: finite_subset [OF _ finite_lessThan])
  moreover have "final_result (enforce_iommu c ?st) = Pass"
    using assms(1,2) final_state_run(2) by (fastforce simp: analyze_final)
  ultimately show ?thesis using assms(3) iter by (simp add: enforce_iommu_Pass)
qed

lemma pass_dma_order:
  assumes "analyze c m gate = Some (oc, g)" "oc_result oc = Pass" "dma_policy c = RequireIommu"
    and iter: "\<And>S. finite S \<Longrightarrow> set (set_iter c S) = S"
    and tr: "trace c m gate = xs @ (ctx, i, st) # ys" and i: "is_call_of ''dma_alloc_coherent'' i"
  shows "\<exists>(ctx', i', st') \<in> set ys. is_call_of ''iommu_map'' i'"
proof -
  let ?st1 = "snd (step_instr ctx i st)" and ?last = "last_state c m gate" and ?a = "alloc_counter st"
  have v: "(ctx, i, st) \<in> set (trace c m gate)" using tr by simp
  have wf: "wf_state st" "ctx_of c m ctx" "\<not> is_Fail (final_result st)"
    using wf.I_trace [OF wf_init v] by blast+
  have "?a \<in> dma_allocs_in_func ?st1"
    using step_dma_alloc [OF i _ wf(3)] pass_step(2) [OF assms(1,2) v] wf(2) assms(3) by (simp add: ctx_of_def)
  moreover have "heap_grows ?st1 ?last" using heap_order.between_trace [OF v] by (simp add: between_def)
  ultimately have "?a \<in> iommu_mapped_in_func ?last"
    using pass_allocs_mapped [OF assms(1-3) iter] by (auto simp: heap_grows_def)
  moreover have "\<not> is_call_of ''iommu_map'' i" using i by (auto simp: is_call_of_def)
  then have "?a \<notin> iommu_mapped_in_func ?st1" using wf(1) step_iommu by (auto simp: wf_state_def)
  moreover have "chained ?st1 ys ?last"
    using chained_trace [of gate c m] unfolding tr by (auto simp: chained_append)
  ultimately show ?thesis using chained_mapped by blast
qed

end
