(* ===== verification/Build_Config.thy ===== *)
theory Build_Config
  imports Rust_Text
begin

text \<open>
  The build: \<open>skv-analyzer/build.rs\<close> chooses the attestation bridge that is linked, the build script of
  the patched llvm-ir checks that one LLVM version is selected, and \<open>llvm_version\<close> in lib.rs reports it.
  The compilers that the scripts start are parameters.
\<close>

section \<open>The LLVM version\<close>

definition known_versions :: "nat list" where
  "known_versions = [9, 10, 11, 12, 13, 14, 15, 16, 17, 18, 19]"

definition version_feature :: "nat \<Rightarrow> string" where
  "version_feature v = ''llvm-'' @ show_nat v"

text \<open>The features that are on are a set; \<open>cfg!(feature = ...)\<close> asks for one.\<close>

definition selected_versions :: "string set \<Rightarrow> nat list" where
  "selected_versions features = filter (\<lambda>v. version_feature v \<in> features) known_versions"

fun show_versions :: "nat list \<Rightarrow> string" where
  "show_versions [] = ''''"
| "show_versions [v] = show_nat v"
| "show_versions (v # vs) = show_nat v @ '', '' @ show_versions vs"

text \<open>Inl is the message of a panic, which ends the build.\<close>

definition llvm_ir_build :: "string set \<Rightarrow> string + unit" where
  "llvm_ir_build features =
     (let versions = selected_versions features
      in case length versions of
           0 \<Rightarrow> Inl ''llvm-ir: Please select an LLVM version using a Cargo feature.''
         | Suc 0 \<Rightarrow> Inr ()
         | _ \<Rightarrow> Inl (''llvm-ir: Multiple LLVM versions selected. Please activate only one LLVM version feature. (Got ['' @
                   show_versions versions @ ''])''))"

text \<open>\<open>llvm_version\<close>: the first feature that is on, without its prefix; None is \<open>unreachable!()\<close>.\<close>

definition llvm_version :: "string set \<Rightarrow> string option" where
  "llvm_version features =
     (case find (\<lambda>f. f \<in> features) (map version_feature known_versions) of
        None \<Rightarrow> None
      | Some f \<Rightarrow> strip_prefix ''llvm-'' f)"

lemma version_feature_inj: "version_feature v = version_feature v' \<longleftrightarrow> v = v'"
  by (simp add: version_feature_def)

lemma find_map_feature:
  "find (\<lambda>f. f \<in> fs) (map version_feature vs) =
     (case filter (\<lambda>v. version_feature v \<in> fs) vs of [] \<Rightarrow> None | v # _ \<Rightarrow> Some (version_feature v))"
  by (induction vs) auto

lemma llvm_version_selected:
  "llvm_version fs = (case selected_versions fs of [] \<Rightarrow> None | v # _ \<Rightarrow> Some (show_nat v))"
  by (simp add: llvm_version_def find_map_feature selected_versions_def version_feature_def strip_prefix_def
      starts_with_def split: list.split)

lemma llvm_ir_build_ok: "llvm_ir_build fs = Inr () \<longleftrightarrow> (\<exists>v. selected_versions fs = [v])"
  by (cases "selected_versions fs"; cases "tl (selected_versions fs)")
     (auto simp: llvm_ir_build_def Let_def)

lemma selected_singleton:
  "selected_versions fs = [v] \<longleftrightarrow>
     v \<in> set known_versions \<and> version_feature v \<in> fs \<and>
     (\<forall>v' \<in> set known_versions. version_feature v' \<in> fs \<longrightarrow> v' = v)"
proof -
  have d: "distinct (selected_versions fs)" by (simp add: selected_versions_def known_versions_def)
  have s: "set (selected_versions fs) = {v \<in> set known_versions. version_feature v \<in> fs}"
    by (auto simp: selected_versions_def)
  have "selected_versions fs = [v] \<longleftrightarrow> set (selected_versions fs) = {v}"
    using d by (cases "selected_versions fs"; cases "tl (selected_versions fs)") auto
  then show ?thesis unfolding s by blast
qed

section \<open>The attestation bridge\<close>

datatype backend = C_Backend | Zig_Backend

text \<open>
  What the script finds: the variable \<open>SKV_ATTESTATION_IMPL\<close>, whether \<open>zig version\<close> succeeds, \<open>OUT_DIR\<close>, how
  \<open>zig build-lib\<close> ends (None: it cannot be started) and the message with which the C compiler fails, if it does.
\<close>

record build_env =
  skv_attestation_impl :: "string option"
  zig_version_ok :: bool
  out_dir :: "string option"
  zig_build_lib :: "bool option"
  cc_compile :: "string option"

definition has_zig :: "build_env \<Rightarrow> bool" where
  "has_zig e = zig_version_ok e"

definition compile_c :: "build_env \<Rightarrow> string list \<Rightarrow> string + backend \<times> string list" where
  "compile_c e out = (case cc_compile e of None \<Rightarrow> Inr (C_Backend, out) | Some msg \<Rightarrow> Inl msg)"

definition compile_zig :: "build_env \<Rightarrow> string list \<Rightarrow> string + backend \<times> string list" where
  "compile_zig e out =
     (case out_dir e of
        None \<Rightarrow> Inl ''OUT_DIR is required''
      | Some dir \<Rightarrow>
          (case zig_build_lib e of
             None \<Rightarrow> Inl ''failed to invoke zig''
           | Some ok \<Rightarrow>
               if \<not> ok then Inl ''zig backend compilation failed''
               else Inr (Zig_Backend, out @ [''cargo:rustc-link-search=native='' @ dir,
                      ''cargo:rustc-link-lib=static=attestation_bridge''])))"

definition rerun_lines :: "string list" where
  "rerun_lines =
     [''cargo:rerun-if-env-changed=SKV_ATTESTATION_IMPL'', ''cargo:rerun-if-changed=src/c/attestation_bridge.c'',
      ''cargo:rerun-if-changed=src/c/attestation_bridge.h'', ''cargo:rerun-if-changed=src/zig/attestation_bridge.zig'']"

definition build_main :: "build_env \<Rightarrow> string + backend \<times> string list" where
  "build_main e =
     (let b = (case skv_attestation_impl e of Some v \<Rightarrow> v | None \<Rightarrow> ''c'')
      in if to_ascii_lowercase b = ''zig'' then
           (if has_zig e then compile_zig e rerun_lines
            else compile_c e (rerun_lines @ [''cargo:warning=SKV_ATTESTATION_IMPL=zig requested, but '' @ [CHR 0x60] @
                   ''zig'' @ [CHR 0x60] @ '' not found; falling back to C backend'']))
         else compile_c e rerun_lines)"

text \<open>The Zig bridge is linked only when it is asked for by name and a compiler is found; any other value
  of the variable, a misspelt one too, gives the C bridge without a warning.\<close>

lemma build_main_backend:
  assumes "build_main e = Inr (b, out)"
  shows "b = Zig_Backend \<longleftrightarrow>
     has_zig e \<and> (\<exists>v. skv_attestation_impl e = Some v \<and> to_ascii_lowercase v = ''zig'')"
proof -
  have "to_ascii_lowercase ''c'' = ''c''" by code_simp
  then show ?thesis
    using assms
    by (auto simp: build_main_def compile_c_def compile_zig_def Let_def split: if_splits option.splits)
qed

end
