(* ===== verification/LLVM_Display.thy ===== *)
theory LLVM_Display
  imports LLVM_Module
begin

text \<open>
  Printing: the \<open>Display\<close> implementations of constants, operands, instructions and terminators in
  \<open>constant.rs\<close>, \<open>operand.rs\<close>, \<open>instruction.rs\<close> and \<open>terminator.rs\<close>. Formatting of floating-point numbers
  (\<open>f32\<close>, \<open>f64\<close>) is the parameter \<open>float_fmt\<close>. A panic is None.

  Results: the text of an instruction starts with its result exactly when it has one and ends with
  the mark of a debug location when it has one; the only values that cannot be printed are those with
  an empty list where the code expects one; integer constants print unambiguously.
\<close>

section \<open>Constants\<close>

record float_fmt =
  fmt_f32 :: "32 word \<Rightarrow> string"
  fmt_f64 :: "64 word \<Rightarrow> string"

fun show_Float :: "float_fmt \<Rightarrow> Float \<Rightarrow> string" where
  "show_Float fm Float_Half = ''half''"
| "show_Float fm Float_BFloat = ''bfloat''"
| "show_Float fm (Float_Single s) = ''float '' @ fmt_f32 fm s"
| "show_Float fm (Float_Double d) = ''double '' @ fmt_f64 fm d"
| "show_Float fm Float_Quadruple = ''quadruple''"
| "show_Float fm Float_X86_FP80 = ''x86_fp80''"
| "show_Float fm Float_PPC_FP128 = ''ppc_fp128''"

text \<open>The heuristic for integers: values that are not far below zero at the width 16, 32 or 64 are
  printed as signed numbers.\<close>

definition show_int_value :: "u32 \<Rightarrow> u64 \<Rightarrow> string" where
  "show_int_value bits v =
     (if bits = 16 then
        (let signed_val = sint (ucast v :: 16 word)
         in if signed_val > - 1000 then show_int signed_val else show_word v)
      else if bits = 32 then
        (let signed_val = sint (ucast v :: 32 word)
         in if signed_val > - 1000 then show_int signed_val else show_word v)
      else if bits = 64 then
        (let signed_val = sint v
         in if signed_val > - 1000 then show_int signed_val else show_word v)
      else show_word v)"

definition show_Int :: "u32 \<Rightarrow> u64 \<Rightarrow> string" where
  "show_Int bits v =
     (if bits = 1 then (if v = 0 then ''i1 false'' else ''i1 true'')
      else ''i'' @ show_word bits @ '' '' @ show_int_value bits v)"

fun show_GlobalReference :: "Name \<Rightarrow> TypeRef \<Rightarrow> string" where
  "show_GlobalReference nm ty =
     (let n = (case nm of Name s \<Rightarrow> s | Number k \<Rightarrow> show_word k)
      in case ty of FuncType _ _ _ \<Rightarrow> ''@'' @ n | _ \<Rightarrow> ''ptr @'' @ n)"

text \<open>The texts of constant expressions, made of the texts of their operands.\<close>

definition const_binop_text :: "string \<Rightarrow> string \<Rightarrow> string \<Rightarrow> string" where
  [simp]: "const_binop_text dispname a b = dispname @ '' ('' @ a @ '', '' @ b @ '')''"

definition const_cast_text :: "string \<Rightarrow> string \<Rightarrow> TypeRef \<Rightarrow> string" where
  [simp]: "const_cast_text dispname c ty = dispname @ '' ('' @ c @ '' to '' @ show_Type ty @ '')''"

definition show_ExtractElement_c :: "string \<Rightarrow> string \<Rightarrow> string" where
  [simp]: "show_ExtractElement_c v i = ''extractelement ('' @ v @ '', '' @ i @ '')''"

definition show_InsertElement_c :: "string \<Rightarrow> string \<Rightarrow> string \<Rightarrow> string" where
  [simp]: "show_InsertElement_c v e i = ''insertelement ('' @ v @ '', '' @ e @ '', '' @ i @ '')''"

definition show_ShuffleVector_c :: "string \<Rightarrow> string \<Rightarrow> string \<Rightarrow> string" where
  [simp]: "show_ShuffleVector_c a b m = ''shufflevector ('' @ a @ '', '' @ b @ '', '' @ m @ '')''"

definition show_GetElementPtr_c :: "string \<Rightarrow> string list \<Rightarrow> bool \<Rightarrow> string" where
  [simp]: "show_GetElementPtr_c address indices in_bounds =
     ''getelementptr'' @ (if in_bounds then '' inbounds'' else '''') @ '' ('' @ address @
     concat (map (\<lambda>idx. '', '' @ idx) indices) @ '')''"

fun show_Constant :: "float_fmt \<Rightarrow> Constant \<Rightarrow> string" where
  "show_Constant fm (Int_c bits v) = show_Int bits v"
| "show_Constant fm (Float_c f) = show_Float fm f"
| "show_Constant fm (Null_c ty) = show_Type ty @ '' null''"
| "show_Constant fm (AggregateZero_c ty) = show_Type ty @ '' zeroinitializer''"
| "show_Constant fm (Struct_c _ values is_packed) =
     (if is_packed then ''<'' else '''') @ ''{ '' @ comma_list (map (show_Constant fm) values) @ '' }'' @
     (if is_packed then ''>'' else '''')"
| "show_Constant fm (Array_c _ elements) = ''[ '' @ comma_list (map (show_Constant fm) elements) @ '' ]''"
| "show_Constant fm (Vector_c v) = ''< '' @ comma_list (map (show_Constant fm) v) @ '' >''"
| "show_Constant fm (Undef_c ty) = show_Type ty @ '' undef''"
| "show_Constant fm (Poison_c ty) = show_Type ty @ '' poison''"
| "show_Constant fm BlockAddress_c = ''blockaddr''"
| "show_Constant fm (GlobalReference_c nm ty) = show_GlobalReference nm ty"
| "show_Constant fm TokenNone_c = ''none''"
| "show_Constant fm (PtrAuth_c p k d a) =
     ''ptrauth('' @ show_Constant fm p @ '', '' @ show_Constant fm k @ '', '' @ show_Constant fm d @ '', '' @
     show_Constant fm a @ '')''"
| "show_Constant fm (Add_c a b) = const_binop_text ''add'' (show_Constant fm a) (show_Constant fm b)"
| "show_Constant fm (Sub_c a b) = const_binop_text ''sub'' (show_Constant fm a) (show_Constant fm b)"
| "show_Constant fm (Mul_c a b) = const_binop_text ''mul'' (show_Constant fm a) (show_Constant fm b)"
| "show_Constant fm (Xor_c a b) = const_binop_text ''xor'' (show_Constant fm a) (show_Constant fm b)"
| "show_Constant fm (ExtractElement_c v i) =
     show_ExtractElement_c (show_Constant fm v) (show_Constant fm i)"
| "show_Constant fm (InsertElement_c v e i) =
     show_InsertElement_c (show_Constant fm v) (show_Constant fm e) (show_Constant fm i)"
| "show_Constant fm (ShuffleVector_c a b m) =
     show_ShuffleVector_c (show_Constant fm a) (show_Constant fm b) (show_Constant fm m)"
| "show_Constant fm (GetElementPtr_c address indices in_bounds) =
     show_GetElementPtr_c (show_Constant fm address) (map (show_Constant fm) indices) in_bounds"
| "show_Constant fm (Trunc_c c ty) = const_cast_text ''trunc'' (show_Constant fm c) ty"
| "show_Constant fm (PtrToInt_c c ty) = const_cast_text ''ptrtoint'' (show_Constant fm c) ty"
| "show_Constant fm (IntToPtr_c c ty) = const_cast_text ''inttoptr'' (show_Constant fm c) ty"
| "show_Constant fm (BitCast_c c ty) = const_cast_text ''bitcast'' (show_Constant fm c) ty"
| "show_Constant fm (AddrSpaceCast_c c ty) = const_cast_text ''addrspacecast'' (show_Constant fm c) ty"

fun show_Operand :: "float_fmt \<Rightarrow> Operand \<Rightarrow> string" where
  "show_Operand fm (LocalOperand nm ty) = show_Type ty @ '' '' @ show_Name nm"
| "show_Operand fm (ConstantOperand c) = show_Constant fm c"
| "show_Operand fm MetadataOperand = ''<metadata>''"

section \<open>Parts of instructions\<close>

primrec show_MemoryOrdering :: "MemoryOrdering \<Rightarrow> string" where
  "show_MemoryOrdering Unordered = ''unordered''"
| "show_MemoryOrdering Monotonic = ''monotonic''"
| "show_MemoryOrdering Acquire = ''acquire''"
| "show_MemoryOrdering Release = ''release''"
| "show_MemoryOrdering AcquireRelease = ''acq_rel''"
| "show_MemoryOrdering SequentiallyConsistent = ''seq_cst''"
| "show_MemoryOrdering NotAtomic = ''not_atomic''"

definition show_Atomicity :: "Atomicity \<Rightarrow> string" where
  "show_Atomicity a =
     (case synch_scope a of SingleThread \<Rightarrow> ''syncscope('' @ [CHR 0x22] @ ''singlethread'' @ [CHR 0x22] @ '') ''
      | System \<Rightarrow> '''') @ show_MemoryOrdering (mem_ordering a)"

primrec show_RMWBinOp :: "RMWBinOp \<Rightarrow> string" where
  "show_RMWBinOp RMW_Xchg = ''xchg''"
| "show_RMWBinOp RMW_Add = ''add''"
| "show_RMWBinOp RMW_Sub = ''sub''"
| "show_RMWBinOp RMW_And = ''and''"
| "show_RMWBinOp RMW_Nand = ''nand''"
| "show_RMWBinOp RMW_Or = ''or''"
| "show_RMWBinOp RMW_Xor = ''xor''"
| "show_RMWBinOp RMW_Max = ''max''"
| "show_RMWBinOp RMW_Min = ''min''"
| "show_RMWBinOp RMW_UMax = ''umax''"
| "show_RMWBinOp RMW_UMin = ''umin''"
| "show_RMWBinOp RMW_FAdd = ''fadd''"
| "show_RMWBinOp RMW_FSub = ''fsub''"
| "show_RMWBinOp RMW_FMax = ''fmax''"
| "show_RMWBinOp RMW_FMin = ''fmin''"
| "show_RMWBinOp RMW_UIncWrap = ''uinc_wrap''"
| "show_RMWBinOp RMW_UDecWrap = ''udec_wrap''"

definition with_debugloc :: "('a Inst_scheme) \<Rightarrow> string" where
  "with_debugloc i = (if debugloc i \<noteq> None then '' (with debugloc)'' else '''')"

definition flag :: "bool \<Rightarrow> string \<Rightarrow> string" where
  "flag b s = (if b then s else '''')"

definition opt_atomicity :: "Atomicity option \<Rightarrow> string" where
  "opt_atomicity a = (case a of None \<Rightarrow> '''' | Some x \<Rightarrow> '' '' @ show_Atomicity x)"

definition callee_text :: "float_fmt \<Rightarrow> InlineAssembly + Operand \<Rightarrow> string" where
  "callee_text fm f = (case f of Inl _ \<Rightarrow> ''<inline assembly>'' | Inr op \<Rightarrow> show_Operand fm op)"

section \<open>Instructions\<close>

text \<open>The macros for unary and binary operations.\<close>

definition binop_text :: "float_fmt \<Rightarrow> string \<Rightarrow> ('a BinaryInst_scheme) \<Rightarrow> string" where
  "binop_text fm dispname i =
     show_Name (dest i) @ '' = '' @ dispname @ '' '' @ show_Operand fm (operand0 i) @ '', '' @
     show_Operand fm (operand1 i) @ with_debugloc i"

definition binop_nuw_nsw_text :: "float_fmt \<Rightarrow> string \<Rightarrow> WrapInst \<Rightarrow> string" where
  "binop_nuw_nsw_text fm dispname i =
     show_Name (dest i) @ '' = '' @ dispname @ flag (nuw i) '' nuw'' @ flag (nsw i) '' nsw'' @ '' '' @
     show_Operand fm (operand0 i) @ '', '' @ show_Operand fm (operand1 i) @ with_debugloc i"

definition binop_exact_text :: "float_fmt \<Rightarrow> string \<Rightarrow> ExactInst \<Rightarrow> string" where
  "binop_exact_text fm dispname i =
     show_Name (dest i) @ '' = '' @ dispname @ flag (exact i) '' exact'' @ '' '' @
     show_Operand fm (operand0 i) @ '', '' @ show_Operand fm (operand1 i) @ with_debugloc i"

definition unop_text :: "float_fmt \<Rightarrow> string \<Rightarrow> UnaryInst \<Rightarrow> string" where
  "unop_text fm dispname i =
     show_Name (dest i) @ '' = '' @ dispname @ '' '' @ show_Operand fm (operand i) @ with_debugloc i"

definition cast_text :: "float_fmt \<Rightarrow> string \<Rightarrow> CastInst \<Rightarrow> string" where
  "cast_text fm dispname i =
     show_Name (dest i) @ '' = '' @ dispname @ '' '' @ show_Operand fm (operand i) @ '' to '' @
     show_Type (to_type i) @ with_debugloc i"

definition show_ExtractElement :: "float_fmt \<Rightarrow> ExtractElement \<Rightarrow> string" where
  "show_ExtractElement fm i =
     show_Name (dest i) @ '' = extractelement '' @ show_Operand fm (ee_vector i) @ '', '' @
     show_Operand fm (ee_index i) @ with_debugloc i"

definition show_InsertElement :: "float_fmt \<Rightarrow> InsertElement \<Rightarrow> string" where
  "show_InsertElement fm i =
     show_Name (dest i) @ '' = insertelement '' @ show_Operand fm (ie_vector i) @ '', '' @
     show_Operand fm (ie_element i) @ '', '' @ show_Operand fm (ie_index i) @ with_debugloc i"

definition show_ShuffleVector :: "float_fmt \<Rightarrow> ShuffleVector \<Rightarrow> string" where
  "show_ShuffleVector fm i =
     show_Name (dest i) @ '' = shufflevector '' @ show_Operand fm (operand0 i) @ '', '' @
     show_Operand fm (operand1 i) @ '', '' @ show_Constant fm (shuffle_mask i) @ with_debugloc i"

definition show_ExtractValue :: "float_fmt \<Rightarrow> ExtractValue \<Rightarrow> string option" where
  "show_ExtractValue fm i =
     (case ev_indices i of
        [] \<Rightarrow> None
      | first # rest \<Rightarrow>
          Some (show_Name (dest i) @ '' = extractvalue '' @ show_Operand fm (ev_aggregate i) @ '', '' @
            show_word first @ concat (map (\<lambda>idx. '', '' @ show_word idx) rest) @ with_debugloc i))"

definition show_InsertValue :: "float_fmt \<Rightarrow> InsertValue \<Rightarrow> string option" where
  "show_InsertValue fm i =
     (case iv_indices i of
        [] \<Rightarrow> None
      | first # rest \<Rightarrow>
          Some (show_Name (dest i) @ '' = insertvalue '' @ show_Operand fm (iv_aggregate i) @ '', '' @
            show_Operand fm (iv_element i) @ '', '' @ show_word first @
            concat (map (\<lambda>idx. '', '' @ show_word idx) rest) @ with_debugloc i))"

definition show_Alloca :: "float_fmt \<Rightarrow> Alloca \<Rightarrow> string" where
  "show_Alloca fm i =
     show_Name (dest i) @ '' = alloca '' @ show_Type (allocated_type i) @
     (case as_constant (num_elements i) of
        Some (Int_c _ v) \<Rightarrow> if v = 1 then '''' else '', '' @ show_Operand fm (num_elements i)
      | _ \<Rightarrow> '', '' @ show_Operand fm (num_elements i)) @
     '', align '' @ show_word (alloca_alignment i) @ with_debugloc i"

definition show_Load :: "float_fmt \<Rightarrow> Load \<Rightarrow> string" where
  "show_Load fm i =
     show_Name (dest i) @ '' = load '' @ flag (load_atomicity i \<noteq> None) ''atomic '' @
     flag (load_volatile i) ''volatile '' @ show_Type (loaded_ty i) @ '', '' @
     show_Operand fm (load_address i) @ opt_atomicity (load_atomicity i) @ '', align '' @
     show_word (load_alignment i) @ with_debugloc i"

definition show_Store :: "float_fmt \<Rightarrow> Store \<Rightarrow> string" where
  "show_Store fm i =
     ''store '' @ flag (store_atomicity i \<noteq> None) ''atomic '' @ flag (store_volatile i) ''volatile '' @
     show_Operand fm (store_value i) @ '', '' @ show_Operand fm (store_address i) @
     opt_atomicity (store_atomicity i) @ '', align '' @ show_word (store_alignment i) @ with_debugloc i"

definition show_Fence :: "float_fmt \<Rightarrow> Fence \<Rightarrow> string" where
  "show_Fence fm i = ''fence '' @ show_Atomicity (fence_atomicity i) @ with_debugloc i"

definition show_CmpXchg :: "float_fmt \<Rightarrow> CmpXchg \<Rightarrow> string" where
  "show_CmpXchg fm i =
     show_Name (dest i) @ '' = cmpxchg '' @ flag (cx_weak i) ''weak '' @ flag (cx_volatile i) ''volatile '' @
     show_Operand fm (cx_address i) @ '', '' @ show_Operand fm (cx_expected i) @ '', '' @
     show_Operand fm (cx_replacement i) @ '' '' @ show_Atomicity (cx_atomicity i) @ '' '' @
     show_MemoryOrdering (cx_failure_memory_ordering i) @ with_debugloc i"

definition show_AtomicRMW :: "float_fmt \<Rightarrow> AtomicRMW \<Rightarrow> string" where
  "show_AtomicRMW fm i =
     show_Name (dest i) @ '' = atomicrmw '' @ flag (rmw_volatile i) ''volatile '' @
     show_RMWBinOp (rmw_operation i) @ '' '' @ show_Operand fm (rmw_address i) @ '', '' @
     show_Operand fm (rmw_value i) @ '' '' @ show_Atomicity (rmw_atomicity i) @ with_debugloc i"

definition show_GetElementPtr :: "float_fmt \<Rightarrow> GetElementPtr \<Rightarrow> string" where
  "show_GetElementPtr fm i =
     show_Name (dest i) @ '' = getelementptr '' @ flag (gep_in_bounds i) ''inbounds '' @
     show_Operand fm (gep_address i) @
     concat (map (\<lambda>idx. '', '' @ show_Operand fm idx) (gep_indices i)) @ with_debugloc i"

definition show_ICmp :: "float_fmt \<Rightarrow> ICmp \<Rightarrow> string" where
  "show_ICmp fm i =
     show_Name (dest i) @ '' = icmp '' @ show_IntPredicate (icmp_predicate i) @ '' '' @
     show_Operand fm (operand0 i) @ '', '' @ show_Operand fm (operand1 i) @ with_debugloc i"

definition show_FCmp :: "float_fmt \<Rightarrow> FCmp \<Rightarrow> string" where
  "show_FCmp fm i =
     show_Name (dest i) @ '' = fcmp '' @ show_FPPredicate (fcmp_predicate i) @ '' '' @
     show_Operand fm (operand0 i) @ '', '' @ show_Operand fm (operand1 i) @ with_debugloc i"

definition show_Phi :: "float_fmt \<Rightarrow> Phi \<Rightarrow> string option" where
  "show_Phi fm i =
     (case incoming_values i of
        [] \<Rightarrow> None
      | (v, l) # rest \<Rightarrow>
          Some (show_Name (dest i) @ '' = phi '' @ show_Type (phi_to_type i) @ '' [ '' @ show_Operand fm v @
            '', '' @ show_Name l @ '' ]'' @
            concat (map (\<lambda>(w, k). '', [ '' @ show_Operand fm w @ '', '' @ show_Name k @ '' ]'') rest) @
            with_debugloc i))"

definition show_Select :: "float_fmt \<Rightarrow> Select \<Rightarrow> string" where
  "show_Select fm i =
     show_Name (dest i) @ '' = select '' @ show_Operand fm (condition i) @ '', '' @
     show_Operand fm (true_value i) @ '', '' @ show_Operand fm (false_value i) @ with_debugloc i"

definition show_Call :: "float_fmt \<Rightarrow> Call \<Rightarrow> string" where
  "show_Call fm i =
     (case call_dest i of Some d \<Rightarrow> show_Name d @ '' = '' | None \<Rightarrow> '''') @ flag (is_tail_call i) ''tail '' @
     ''call '' @ callee_text fm (call_function i) @ ''('' @
     comma_list (map (\<lambda>(arg, _). show_Operand fm arg) (call_arguments i)) @ '')'' @ with_debugloc i"

definition show_VAArg :: "float_fmt \<Rightarrow> VAArg \<Rightarrow> string" where
  "show_VAArg fm i =
     show_Name (dest i) @ '' = va_arg '' @ show_Operand fm (va_arg_list i) @ '', '' @
     show_Type (va_cur_type i) @ with_debugloc i"

definition show_LandingPad :: "float_fmt \<Rightarrow> LandingPad \<Rightarrow> string" where
  "show_LandingPad fm i =
     show_Name (dest i) @ '' = landingpad '' @ show_Type (lp_result_type i) @
     flag (lp_cleanup i) '' cleanup'' @ with_debugloc i"

definition show_CatchPad :: "float_fmt \<Rightarrow> CatchPad \<Rightarrow> string" where
  "show_CatchPad fm i =
     show_Name (dest i) @ '' = catchpad within '' @ show_Operand fm (catch_switch i) @ '' ['' @
     comma_list (map (show_Operand fm) (cp_args i)) @ '']'' @ with_debugloc i"

definition show_CleanupPad :: "float_fmt \<Rightarrow> CleanupPad \<Rightarrow> string" where
  "show_CleanupPad fm i =
     show_Name (dest i) @ '' = cleanuppad within '' @ show_Operand fm (parent_pad i) @ '' ['' @
     comma_list (map (show_Operand fm) (clp_args i)) @ '']'' @ with_debugloc i"

primrec show_Instruction :: "float_fmt \<Rightarrow> Instruction \<Rightarrow> string option" where
  "show_Instruction fm (Add i) = Some (binop_nuw_nsw_text fm ''add'' i)"
| "show_Instruction fm (Sub i) = Some (binop_nuw_nsw_text fm ''sub'' i)"
| "show_Instruction fm (Mul i) = Some (binop_nuw_nsw_text fm ''mul'' i)"
| "show_Instruction fm (UDiv i) = Some (binop_exact_text fm ''udiv'' i)"
| "show_Instruction fm (SDiv i) = Some (binop_exact_text fm ''sdiv'' i)"
| "show_Instruction fm (URem i) = Some (binop_text fm ''urem'' i)"
| "show_Instruction fm (SRem i) = Some (binop_text fm ''srem'' i)"
| "show_Instruction fm (And i) = Some (binop_text fm ''and'' i)"
| "show_Instruction fm (Or i) = Some (binop_text fm ''or'' i)"
| "show_Instruction fm (Xor i) = Some (binop_text fm ''xor'' i)"
| "show_Instruction fm (Shl i) = Some (binop_nuw_nsw_text fm ''shl'' i)"
| "show_Instruction fm (LShr i) = Some (binop_exact_text fm ''lshr'' i)"
| "show_Instruction fm (AShr i) = Some (binop_exact_text fm ''ashr'' i)"
| "show_Instruction fm (FAdd i) = Some (binop_text fm ''fadd'' i)"
| "show_Instruction fm (FSub i) = Some (binop_text fm ''fsub'' i)"
| "show_Instruction fm (FMul i) = Some (binop_text fm ''fmul'' i)"
| "show_Instruction fm (FDiv i) = Some (binop_text fm ''fdiv'' i)"
| "show_Instruction fm (FRem i) = Some (binop_text fm ''frem'' i)"
| "show_Instruction fm (FNeg i) = Some (unop_text fm ''fneg'' i)"
| "show_Instruction fm (ExtractElement i) = Some (show_ExtractElement fm i)"
| "show_Instruction fm (InsertElement i) = Some (show_InsertElement fm i)"
| "show_Instruction fm (ShuffleVector i) = Some (show_ShuffleVector fm i)"
| "show_Instruction fm (ExtractValue i) = show_ExtractValue fm i"
| "show_Instruction fm (InsertValue i) = show_InsertValue fm i"
| "show_Instruction fm (Alloca i) = Some (show_Alloca fm i)"
| "show_Instruction fm (Load i) = Some (show_Load fm i)"
| "show_Instruction fm (Store i) = Some (show_Store fm i)"
| "show_Instruction fm (Fence i) = Some (show_Fence fm i)"
| "show_Instruction fm (CmpXchg i) = Some (show_CmpXchg fm i)"
| "show_Instruction fm (AtomicRMW i) = Some (show_AtomicRMW fm i)"
| "show_Instruction fm (GetElementPtr i) = Some (show_GetElementPtr fm i)"
| "show_Instruction fm (Trunc i) = Some (cast_text fm ''trunc'' i)"
| "show_Instruction fm (ZExt i) = Some (cast_text fm ''zext'' i)"
| "show_Instruction fm (SExt i) = Some (cast_text fm ''sext'' i)"
| "show_Instruction fm (FPTrunc i) = Some (cast_text fm ''fptrunc'' i)"
| "show_Instruction fm (FPExt i) = Some (cast_text fm ''fpext'' i)"
| "show_Instruction fm (FPToUI i) = Some (cast_text fm ''fptoui'' i)"
| "show_Instruction fm (FPToSI i) = Some (cast_text fm ''fptosi'' i)"
| "show_Instruction fm (UIToFP i) = Some (cast_text fm ''uitofp'' i)"
| "show_Instruction fm (SIToFP i) = Some (cast_text fm ''sitofp'' i)"
| "show_Instruction fm (PtrToInt i) = Some (cast_text fm ''ptrtoint'' i)"
| "show_Instruction fm (IntToPtr i) = Some (cast_text fm ''inttoptr'' i)"
| "show_Instruction fm (BitCast i) = Some (cast_text fm ''bitcast'' i)"
| "show_Instruction fm (AddrSpaceCast i) = Some (cast_text fm ''addrspacecast'' i)"
| "show_Instruction fm (ICmp i) = Some (show_ICmp fm i)"
| "show_Instruction fm (FCmp i) = Some (show_FCmp fm i)"
| "show_Instruction fm (Phi i) = show_Phi fm i"
| "show_Instruction fm (Select i) = Some (show_Select fm i)"
| "show_Instruction fm (Freeze i) = Some (unop_text fm ''freeze'' i)"
| "show_Instruction fm (Call i) = Some (show_Call fm i)"
| "show_Instruction fm (VAArg i) = Some (show_VAArg fm i)"
| "show_Instruction fm (LandingPad i) = Some (show_LandingPad fm i)"
| "show_Instruction fm (CatchPad i) = Some (show_CatchPad fm i)"
| "show_Instruction fm (CleanupPad i) = Some (show_CleanupPad fm i)"

section \<open>Terminators\<close>

definition show_Ret :: "float_fmt \<Rightarrow> Ret \<Rightarrow> string" where
  "show_Ret fm t =
     ''ret '' @ (case return_operand t of None \<Rightarrow> ''void'' | Some op \<Rightarrow> show_Operand fm op) @ with_debugloc t"

definition show_Br :: "float_fmt \<Rightarrow> Br \<Rightarrow> string" where
  "show_Br fm t = ''br label '' @ show_Name (br_dest t) @ with_debugloc t"

definition show_CondBr :: "float_fmt \<Rightarrow> CondBr \<Rightarrow> string" where
  "show_CondBr fm t =
     ''br '' @ show_Operand fm (condbr_condition t) @ '', label '' @ show_Name (true_dest t) @ '', label '' @
     show_Name (false_dest t) @ with_debugloc t"

definition show_Switch :: "float_fmt \<Rightarrow> Switch \<Rightarrow> string" where
  "show_Switch fm t =
     ''switch '' @ show_Operand fm (switch_operand t) @ '', label '' @ show_Name (default_dest t) @ '' [ '' @
     concat (map (\<lambda>(v, l). show_Constant fm v @ '', label '' @ show_Name l @ ''; '') (switch_dests t)) @
     '']'' @ with_debugloc t"

definition show_IndirectBr :: "float_fmt \<Rightarrow> IndirectBr \<Rightarrow> string option" where
  "show_IndirectBr fm t =
     (case possible_dests t of
        [] \<Rightarrow> None
      | first # rest \<Rightarrow>
          Some (''indirectbr '' @ show_Operand fm (ibr_operand t) @ '', [ label '' @ show_Name first @
            concat (map (\<lambda>d. '', label '' @ show_Name d) rest) @ '' ]'' @ with_debugloc t))"

definition show_Invoke :: "float_fmt \<Rightarrow> Invoke \<Rightarrow> string" where
  "show_Invoke fm t =
     show_Name (invoke_result t) @ '' = invoke '' @ callee_text fm (invoke_function t) @ ''('' @
     comma_list (map (\<lambda>(arg, _). show_Operand fm arg) (invoke_arguments t)) @ '') to label '' @
     show_Name (invoke_return_label t) @ '' unwind label '' @ show_Name (exception_label t) @ with_debugloc t"

definition show_Resume :: "float_fmt \<Rightarrow> Resume \<Rightarrow> string" where
  "show_Resume fm t = ''resume '' @ show_Operand fm (resume_operand t) @ with_debugloc t"

definition show_Unreachable :: "float_fmt \<Rightarrow> Unreachable \<Rightarrow> string" where
  "show_Unreachable fm t = ''unreachable'' @ with_debugloc t"

definition unwind_text :: "Name option \<Rightarrow> string" where
  "unwind_text d = (case d of None \<Rightarrow> ''to caller'' | Some l \<Rightarrow> ''label '' @ show_Name l)"

definition show_CleanupRet :: "float_fmt \<Rightarrow> CleanupRet \<Rightarrow> string" where
  "show_CleanupRet fm t =
     ''cleanupret from '' @ show_Operand fm (cleanup_pad t) @ '' unwind '' @ unwind_text (unwind_dest t) @
     with_debugloc t"

definition show_CatchRet :: "float_fmt \<Rightarrow> CatchRet \<Rightarrow> string" where
  "show_CatchRet fm t =
     ''catchret from '' @ show_Operand fm (catch_pad t) @ '' to label '' @ show_Name (successor t) @ with_debugloc t"

definition show_CatchSwitch :: "float_fmt \<Rightarrow> CatchSwitch \<Rightarrow> string option" where
  "show_CatchSwitch fm t =
     (case catch_handlers t of
        [] \<Rightarrow> None
      | first # rest \<Rightarrow>
          Some (show_Name (cs_result t) @ '' = catchswitch within '' @ show_Operand fm (cs_parent_pad t) @
            '' [ label '' @ show_Name first @ concat (map (\<lambda>h. '', label '' @ show_Name h) rest) @
            '' ] unwind '' @ unwind_text (default_unwind_dest t) @ with_debugloc t))"

definition show_CallBr :: "float_fmt \<Rightarrow> CallBr \<Rightarrow> string" where
  "show_CallBr fm t =
     show_Name (callbr_result t) @ '' = callbr '' @ callee_text fm (callbr_function t) @ ''('' @
     comma_list (map (\<lambda>(arg, _). show_Operand fm arg) (callbr_arguments t)) @ '') to label '' @
     show_Name (callbr_return_label t) @ with_debugloc t"

primrec show_Terminator :: "float_fmt \<Rightarrow> Terminator \<Rightarrow> string option" where
  "show_Terminator fm (Ret t) = Some (show_Ret fm t)"
| "show_Terminator fm (Br t) = Some (show_Br fm t)"
| "show_Terminator fm (CondBr t) = Some (show_CondBr fm t)"
| "show_Terminator fm (Switch t) = Some (show_Switch fm t)"
| "show_Terminator fm (IndirectBr t) = show_IndirectBr fm t"
| "show_Terminator fm (Invoke t) = Some (show_Invoke fm t)"
| "show_Terminator fm (Resume t) = Some (show_Resume fm t)"
| "show_Terminator fm (Unreachable t) = Some (show_Unreachable fm t)"
| "show_Terminator fm (CleanupRet t) = Some (show_CleanupRet fm t)"
| "show_Terminator fm (CatchRet t) = Some (show_CatchRet fm t)"
| "show_Terminator fm (CatchSwitch t) = show_CatchSwitch fm t"
| "show_Terminator fm (CallBr t) = Some (show_CallBr fm t)"

section \<open>Properties\<close>

definition result_text :: "Name option \<Rightarrow> string" where
  "result_text r = (case r of Some n \<Rightarrow> show_Name n @ '' = '' | None \<Rightarrow> '''')"

definition debugloc_text :: "DebugLoc option \<Rightarrow> string" where
  "debugloc_text d = (if d \<noteq> None then '' (with debugloc)'' else '''')"

lemmas inst_texts = binop_text_def binop_nuw_nsw_text_def binop_exact_text_def unop_text_def cast_text_def
  show_ExtractElement_def show_InsertElement_def show_ShuffleVector_def show_Alloca_def show_Load_def
  show_Store_def show_Fence_def show_CmpXchg_def show_AtomicRMW_def show_GetElementPtr_def show_ICmp_def
  show_FCmp_def show_Select_def show_Call_def show_VAArg_def show_LandingPad_def show_CatchPad_def
  show_CleanupPad_def

lemmas opt_inst_texts = show_ExtractValue_def show_InsertValue_def show_Phi_def

lemmas term_texts = show_Ret_def show_Br_def show_CondBr_def show_Switch_def show_Invoke_def show_Resume_def
  show_Unreachable_def show_CleanupRet_def show_CatchRet_def show_CallBr_def

lemmas opt_term_texts = show_IndirectBr_def show_CatchSwitch_def

text \<open>A text framed by the result and the mark of a debug location.\<close>

definition framed :: "Name option \<Rightarrow> DebugLoc option \<Rightarrow> string \<Rightarrow> bool" where
  "framed r d s \<longleftrightarrow> (\<exists>body. s = result_text r @ body @ debugloc_text d)"

lemma framed_end: "framed None d (debugloc_text d)"
  by (auto simp: framed_def result_text_def)

lemma framed_Cons: "framed None d s \<Longrightarrow> framed None d (c # s)"
  by (auto simp: framed_def result_text_def intro: exI [of _ "c # b" for b])

lemma framed_append: "framed None d s \<Longrightarrow> framed None d (b @ s)"
  by (auto simp: framed_def result_text_def intro: exI [of _ "b @ r" for r])

lemma framed_result: "framed None d s \<Longrightarrow> framed (Some n) d (show_Name n @ CHR '' '' # CHR ''='' # CHR '' '' # s)"
  by (auto simp: framed_def result_text_def)

lemma with_debugloc_text: "with_debugloc i = debugloc_text (debugloc i)"
  by (simp add: with_debugloc_def debugloc_text_def)

lemmas framed_intros = framed_result framed_Cons framed_append framed_end

text \<open>The text of an instruction: its result if it has one, a body, and the mark of a debug location.\<close>

lemma show_Instruction_framed:
  "show_Instruction fm i = Some s \<Longrightarrow> framed (try_get_result i) (get_debug_loc i) s"
  by (cases i; simp add: inst_texts opt_inst_texts with_debugloc_text split: list.splits option.split prod.splits)
     (auto intro!: framed_intros split: option.split)

fun printable_inst :: "Instruction \<Rightarrow> bool" where
  "printable_inst (ExtractValue i) \<longleftrightarrow> ev_indices i \<noteq> []"
| "printable_inst (InsertValue i) \<longleftrightarrow> iv_indices i \<noteq> []"
| "printable_inst (Phi i) \<longleftrightarrow> incoming_values i \<noteq> []"
| "printable_inst _ \<longleftrightarrow> True"

lemma show_Instruction_None: "show_Instruction fm i = None \<longleftrightarrow> \<not> printable_inst i"
  by (cases i) (auto simp: opt_inst_texts split: list.split)

lemma show_Terminator_framed:
  "show_Terminator fm t = Some s \<Longrightarrow> framed (terminator_try_get_result t) (terminator_debug_loc t) s"
  by (cases t; simp add: term_texts opt_term_texts with_debugloc_text split: list.splits option.split)
     (auto intro!: framed_intros)

fun printable_term :: "Terminator \<Rightarrow> bool" where
  "printable_term (IndirectBr t) \<longleftrightarrow> possible_dests t \<noteq> []"
| "printable_term (CatchSwitch t) \<longleftrightarrow> catch_handlers t \<noteq> []"
| "printable_term _ \<longleftrightarrow> True"

lemma show_Terminator_None: "show_Terminator fm t = None \<longleftrightarrow> \<not> printable_term t"
  by (cases t) (auto simp: opt_term_texts split: list.split)

section \<open>Integer constants\<close>

text \<open>Integer constants print unambiguously: the printed number, read modulo the width, is the value.\<close>

definition fits :: "u32 \<Rightarrow> u64 \<Rightarrow> bool" where
  "fits bits v \<longleftrightarrow> unat v < 2 ^ unat bits"

definition shown :: "'a::len word \<Rightarrow> int" where
  "shown w = (if sint w > - 1000 then sint w else uint w)"

lemma shown_inj: "shown v = shown w \<longleftrightarrow> v = w"
proof -
  have "word_of_int (shown w) = w" for w :: "'a word" by (simp add: shown_def)
  then show ?thesis by metis
qed

lemma show_word_int: "show_word w = show_int (uint w)"
  by (simp add: show_word_def show_int_def)

lemma ucast_narrow:
  assumes "unat (v :: u64) < 2 ^ LENGTH('b::len)"
  shows "uint (ucast v :: 'b word) = uint v"
proof -
  have "int (unat v) < 2 ^ LENGTH('b)" using assms by (metis of_nat_less_iff of_nat_numeral of_nat_power)
  then have "uint v < 2 ^ LENGTH('b)" by (simp only: uint_nat [symmetric])
  then show ?thesis by (simp add: unsigned_ucast_eq take_bit_int_eq_self)
qed

lemma shown_cases:
  "show_word v = show_int (uint x) \<Longrightarrow>
     (if sint x > - 1000 then show_int (sint x) else show_word v) = show_int (shown x)"
  by (simp add: shown_def)

lemma fits_numeral: "fits (numeral n) v \<Longrightarrow> unat (numeral n :: u32) = k \<Longrightarrow> unat v < 2 ^ k"
  by (simp add: fits_def)

lemma show_int_value_shown:
  "fits 16 v \<Longrightarrow> show_int_value 16 v = show_int (shown (ucast v :: 16 word))"
  "fits 32 v \<Longrightarrow> show_int_value 32 v = show_int (shown (ucast v :: 32 word))"
  "show_int_value 64 v = show_int (shown v)"
proof -
  have def: "show_int_value 16 v =
      (if sint (ucast v :: 16 word) > - 1000 then show_int (sint (ucast v :: 16 word)) else show_word v)"
    "show_int_value 32 v =
      (if sint (ucast v :: 32 word) > - 1000 then show_int (sint (ucast v :: 32 word)) else show_word v)"
    "show_int_value 64 v = (if sint v > - 1000 then show_int (sint v) else show_word v)"
    by (simp_all add: show_int_value_def Let_def)
  show "show_int_value 16 v = show_int (shown (ucast v :: 16 word))" if "fits 16 v"
    unfolding def using fits_numeral [OF that, of 16] ucast_narrow [of v, where 'b = 16]
    by (intro shown_cases) (simp only: show_word_int, simp)
  show "show_int_value 32 v = show_int (shown (ucast v :: 32 word))" if "fits 32 v"
    unfolding def using fits_numeral [OF that, of 32] ucast_narrow [of v, where 'b = 32]
    by (intro shown_cases) (simp only: show_word_int, simp)
  show "show_int_value 64 v = show_int (shown v)"
    unfolding def by (intro shown_cases show_word_int)
qed

lemma ucast_narrow_inj:
  assumes "(ucast v :: 'b::len word) = ucast w" "unat (v :: u64) < 2 ^ LENGTH('b)" "unat w < 2 ^ LENGTH('b)"
  shows "v = w"
  using assms ucast_narrow [of v, where 'b = 'b] ucast_narrow [of w, where 'b = 'b] by (metis word_uint_eqI)

lemma show_int_value_inj:
  assumes "fits bits v" "fits bits w" "show_int_value bits v = show_int_value bits w"
  shows "v = w"
proof -
  consider "bits = 16" | "bits = 32" | "bits = 64" | "bits \<notin> {16, 32, 64}" by blast
  then show ?thesis
  proof cases
    case 1
    then have "(ucast v :: 16 word) = ucast w"
      using assms show_int_value_shown(1) [of v] show_int_value_shown(1) [of w] by (simp only: show_int_inj shown_inj)
    then show ?thesis using 1 assms fits_numeral [of _ _ 16] by (intro ucast_narrow_inj [where 'b = 16]) simp_all
  next
    case 2
    then have "(ucast v :: 32 word) = ucast w"
      using assms show_int_value_shown(2) [of v] show_int_value_shown(2) [of w] by (simp only: show_int_inj shown_inj)
    then show ?thesis using 2 assms fits_numeral [of _ _ 32] by (intro ucast_narrow_inj [where 'b = 32]) simp_all
  next
    case 3
    then show ?thesis using assms show_int_value_shown(3) by (simp only: show_int_inj shown_inj)
  next
    case 4
    then show ?thesis using assms by (simp add: show_int_value_def)
  qed
qed

lemma show_word_1: "show_word (1 :: u32) = ''1''"
  by code_simp

lemma show_Int_form: "\<exists>r. show_Int b v = ''i'' @ show_word b @ CHR '' '' # r"
  by (auto simp: show_Int_def show_word_1)

lemma fits_1: "fits 1 v \<longleftrightarrow> v = 0 \<or> v = 1"
proof -
  have "unat v < 2 \<longleftrightarrow> unat v = unat (0 :: u64) \<or> unat v = unat (1 :: u64)" by auto
  then show ?thesis unfolding word_unat_eq_iff by (simp add: fits_def)
qed

lemma show_Int_inj:
  assumes "fits b v" "fits c w" "show_Int b v = show_Int c w"
  shows "b = c \<and> v = w"
proof -
  obtain q r where "show_Int b v = ''i'' @ show_word b @ CHR '' '' # q"
    "show_Int c w = ''i'' @ show_word c @ CHR '' '' # r"
    using show_Int_form by metis
  then have "show_nat (unat b) @ CHR '' '' # q = show_nat (unat c) @ CHR '' '' # r"
    using assms(3) by (simp add: show_word_def)
  then have "unat b = unat c" by (rule show_nat_sep_inj [THEN conjunct1]) (simp_all add: is_digit_def)
  then have bc: "b = c" by (rule word_unat_eq_iff [THEN iffD2])
  show ?thesis
  proof (cases "b = 1")
    case True
    then have "v = 0 \<longleftrightarrow> w = 0" using assms(3) bc by (simp add: show_Int_def split: if_splits)
    moreover have "v = 0 \<or> v = 1" "w = 0 \<or> w = 1"
      using True assms(1,2) bc by (simp_all add: fits_1)
    ultimately show ?thesis using bc by auto
  next
    case False
    then show ?thesis using assms bc show_int_value_inj by (simp add: show_Int_def)
  qed
qed

end
