(* ===== verification/IR_Properties.thy ===== *)
theory IR_Properties
  imports Layout_Parser LLVM_Conversions LLVM_Display
begin

text \<open>
  The properties of the IR library: reading data-layout strings, types and attributes from LLVM, and
  printing instructions and constants.
\<close>

section \<open>Data layouts\<close>

text \<open>
  (C40) Reading a data-layout string inverts writing it: for every non-empty list of admissible
  specifications the reader accepts the written string and its result is the default layout changed
  by the specifications in order.
\<close>

theorem layout_reader_roundtrip:
  assumes "list_all spec_ok ss" "ss \<noteq> []"
  shows "DataLayout_from_str (show_layout ss) =
     Some (fold apply_spec ss (DataLayout_default\<lparr>layout_str := show_layout ss\<rparr>))"
  using from_str_show_layout [OF assms] .

definition x86_64_layout :: "layout_spec list" where
  "x86_64_layout =
     [LS_endian LittleEndian, LS_mangling ELF, LS_pointer 270 32 32 None, LS_int 64 64 None,
      LS_fp 80 128 None, LS_native 8 [16, 32, 64], LS_stack 128]"

theorem layout_reader_roundtrip_witness:
  "show_layout x86_64_layout = ''e-m:e-p270:32:32-i64:64-f80:128-n8:16:32:64-S128'' \<and>
   DataLayout_from_str (show_layout x86_64_layout) =
     Some (fold apply_spec x86_64_layout (DataLayout_default\<lparr>layout_str := show_layout x86_64_layout\<rparr>))"
proof
  show "show_layout x86_64_layout = ''e-m:e-p270:32:32-i64:64-f80:128-n8:16:32:64-S128''" by code_simp
  have "list_all spec_ok x86_64_layout" "x86_64_layout \<noteq> []" by (simp_all add: x86_64_layout_def)
  then show "DataLayout_from_str (show_layout x86_64_layout) =
     Some (fold apply_spec x86_64_layout (DataLayout_default\<lparr>layout_str := show_layout x86_64_layout\<rparr>))"
    by (rule layout_reader_roundtrip)
qed

text \<open>
  The alignments of a layout that was read: every accepted string is the default layout changed
  by admissible specifications; the lookups of pointers and vectors then never panic, and the
  alignment of an integer is the entry of the smallest listed size that is large enough or, if there
  is none, of the largest size.
\<close>

lemma layout_alignments:
  assumes "DataLayout_from_str s = Some d"
  shows "(\<exists>sps. list_all spec_ok sps \<and> d = fold apply_spec sps (DataLayout_default\<lparr>layout_str := s\<rparr>)) \<and>
     (\<exists>l. ptr_alignment (alignments d) a = Some l) \<and>
     (\<exists>v. vec_alignment (alignments d) n = Some v) \<and>
     (\<exists>k v. (k, v) \<in> set (int_alignments (alignments d)) \<and> int_alignment (alignments d) n = Some v \<and>
        ((n \<le> k \<and> (\<forall>(k', v') \<in> set (int_alignments (alignments d)). n \<le> k' \<longrightarrow> k \<le> k')) \<or>
         (\<forall>(k', v') \<in> set (int_alignments (alignments d)). k' < n \<and> k' \<le> k)))"
proof -
  note ok = from_str_alignments_ok [OF assms]
  show ?thesis
    using from_str_Some [OF assms] ptr_alignment_total [OF ok, of a] vec_alignment_total [OF ok, of n]
      int_alignment_spec [OF ok, of n] by blast
qed

section \<open>Types\<close>

text \<open>
  (C39) The memoising reader of types implements the meaning of type handles: whatever was read
  before, for a handle whose type is well-founded it returns, with a depth of recursion above the
  rank of the handle, exactly the type that the handle denotes; the type tables stay consistent with
  LLVM's; definitions of named structs are never changed, and every named struct that is met gets
  its definition.
\<close>

theorem type_reader_correct:
  assumes "finite_types api rank" "rank ty < depth" "reader_ok api b"
  shows "\<exists>t b'. type_from_llvm_ref api depth ty b = Some (t, b') \<and>
     (\<forall>t'. denotes api ty t' \<longleftrightarrow> t' = t) \<and> reader_ok api b' \<and>
     (\<forall>s \<in> dom (named_struct_types b). named_struct_defs b' s = named_struct_defs b s) \<and>
     dom (named_struct_types b') \<subseteq> dom (named_struct_types b) \<union> dom (named_struct_defs b')"
proof -
  obtain t b' where r: "type_from_llvm_ref api depth ty b = Some (t, b')"
    using type_from_llvm_ref_returns [OF assms(1,2)] assms(3) by (auto simp: returns_on_def)
  then have "denotes api ty t" "reader_ok api b'" "extends b b'"
    using type_from_llvm_ref_faithful assms(3) by (auto simp: faithful_def reads_def)
  then show ?thesis using r denotes_unique unfolding extends_def by blast
qed

text \<open>Types of a small program: i32, an array of four, a pointer and a struct of both.\<close>

definition node_types :: llvm_type_api where
  "node_types =
     \<lparr>LLVMGetTypeKind = (\<lambda>ty. if ty = 0 then LLVMIntegerTypeKind else if ty = 1 then LLVMArrayTypeKind
        else if ty = 2 then LLVMStructTypeKind else LLVMPointerTypeKind),
      LLVMGetIntTypeWidth = (\<lambda>ty. 32), LLVMGetPointerAddressSpace = (\<lambda>ty. 0), LLVMGetElementType = (\<lambda>ty. 0),
      LLVMGetArrayLength2 = (\<lambda>ty. 4), LLVMGetVectorSize = (\<lambda>ty. 0), LLVMIsLiteralStruct = (\<lambda>ty. False),
      LLVMGetStructName = (\<lambda>ty. Some ''node''), LLVMIsOpaqueStruct = (\<lambda>ty. False),
      LLVMGetStructElementTypes = (\<lambda>ty. [3, 1]), LLVMIsPackedStruct = (\<lambda>ty. False),
      LLVMGetReturnType = (\<lambda>ty. 0), LLVMGetParamTypes = (\<lambda>ty. []), LLVMIsFunctionVarArg = (\<lambda>ty. False)\<rparr>"

theorem type_reader_correct_witness:
  "\<exists>t b'. type_from_llvm_ref node_types 3 2 TypesBuilder_new = Some (t, b') \<and> denotes node_types 2 t"
proof -
  have "finite_types node_types (\<lambda>ty. if ty = 2 then 2 else if ty = 1 then 1 else 0)"
    by (simp add: finite_types_def components_def node_types_def struct_name_def)
  from type_reader_correct [OF this _ reader_ok_new, of 2 3] show ?thesis by auto
qed

section \<open>Attributes\<close>

text \<open>
  Reading attributes: every attribute of a function is read without panic; reading an attribute
  of a parameter panics exactly when a known attribute that carries a type comes without one or a
  known attribute that carries none comes with one; and no two calling-convention numbers are read
  as the same convention.
\<close>

lemma attribute_reader_panics:
  assumes "is_type_attribute api a \<Longrightarrow> rd (type_attribute_value api a) b \<noteq> None"
  shows "FunctionAttribute_from_llvm_ref api (AttributesData_create api) a \<noteq> None \<and>
     (ParameterAttribute_from_llvm_ref api (AttributesData_create api) rd a b = None \<longleftrightarrow>
       (\<exists>n. lookup_param_attr (AttributesData_create api) (enum_attribute_kind api a) = Some n \<and>
          (if is_enum_attribute api a then n \<in> type_attrs
           else \<not> is_string_attribute api a \<and> is_type_attribute api a \<and> n \<notin> type_attrs))) \<and>
     (CallingConvention_from_u32 num u = CallingConvention_from_u32 num v \<longleftrightarrow> u = v)"
proof -
  have "ParameterAttribute_from_llvm_ref api (AttributesData_create api) rd a b = None \<longleftrightarrow>
       (\<exists>n. lookup_param_attr (AttributesData_create api) (enum_attribute_kind api a) = Some n \<and>
          (if is_enum_attribute api a then n \<in> type_attrs
           else \<not> is_string_attribute api a \<and> is_type_attribute api a \<and> n \<notin> type_attrs))"
    using assms by (rule param_attribute_panics)
  then show ?thesis using function_attributes_total from_u32_inj by blast
qed

section \<open>Printing\<close>

text \<open>
  The text of an instruction starts with its result exactly when it has one and ends with the
  mark of a debug location exactly when it has one, and likewise for terminators; printing panics
  only for the instructions and terminators that need a non-empty list and have an empty one.
\<close>

lemma printed_instructions:
  "(show_Instruction fm i = None \<longleftrightarrow> \<not> printable_inst i) \<and>
   (show_Instruction fm i = Some s \<longrightarrow>
      (\<exists>body. s = result_text (try_get_result i) @ body @ debugloc_text (get_debug_loc i))) \<and>
   (show_Terminator fm t = None \<longleftrightarrow> \<not> printable_term t) \<and>
   (show_Terminator fm t = Some s \<longrightarrow>
      (\<exists>body. s = result_text (terminator_try_get_result t) @ body @ debugloc_text (terminator_debug_loc t)))"
  using show_Instruction_None show_Instruction_framed show_Terminator_None show_Terminator_framed
  unfolding framed_def by blast

text \<open>
  Integer constants print unambiguously although some are shown as signed and some as unsigned
  numbers: constants whose value fits their width have the same text only if they have the same
  width and value.
\<close>

lemma integer_constants_unambiguous:
  assumes "unat v < 2 ^ unat b" "unat w < 2 ^ unat c" "show_Int b v = show_Int c w"
  shows "b = c \<and> v = w"
  using show_Int_inj [of b v c w] assms by (simp add: fits_def)

end
