(* ===== verification/Sample_Llvm.thy ===== *)
theory Sample_Llvm
  imports Module_Reader
begin

text \<open>
  A small module as LLVM hands it over, on which the hypotheses of the properties of the readers are
  checked. It is, for the function name f,

    @0 = external global i32
    define i32 @f(i32 %0) {
    1: %2 = add i32 %0, 1
       store i32 %2, ptr @0
       br label %3
    3: ret i32 %2 }
\<close>

definition counter_types :: llvm_type_api where
  "counter_types =
     \<lparr>LLVMGetTypeKind = (\<lambda>ty. if ty = 0 then LLVMIntegerTypeKind else if ty = 1 then LLVMPointerTypeKind
        else LLVMFunctionTypeKind),
      LLVMGetIntTypeWidth = (\<lambda>ty. 32), LLVMGetPointerAddressSpace = (\<lambda>ty. 0), LLVMGetElementType = (\<lambda>ty. 0),
      LLVMGetArrayLength2 = (\<lambda>ty. 0), LLVMGetVectorSize = (\<lambda>ty. 0), LLVMIsLiteralStruct = (\<lambda>ty. False),
      LLVMGetStructName = (\<lambda>ty. None), LLVMIsOpaqueStruct = (\<lambda>ty. False),
      LLVMGetStructElementTypes = (\<lambda>ty. []), LLVMIsPackedStruct = (\<lambda>ty. False),
      LLVMGetReturnType = (\<lambda>ty. 0), LLVMGetParamTypes = (\<lambda>ty. [0]), LLVMIsFunctionVarArg = (\<lambda>ty. False)\<rparr>"

definition no_attributes :: attribute_api where
  "no_attributes =
     \<lparr>kind_for_name = (\<lambda>s. 0), is_enum_attribute = (\<lambda>a. False), is_string_attribute = (\<lambda>a. False),
      is_type_attribute = (\<lambda>a. False), enum_attribute_kind = (\<lambda>a. 0), enum_attribute_value = (\<lambda>a. 0),
      string_attribute_kind = (\<lambda>a. ''''), string_attribute_value = (\<lambda>a. ''''), type_attribute_value = (\<lambda>a. 0)\<rparr>"

definition counter_api :: "string \<Rightarrow> llvm_api" where
  "counter_api fname =
     \<lparr>types_api = counter_types, attrs_api = no_attributes, call_conv_number = (\<lambda>v. 0),
      get_value_name = (\<lambda>v. if v = 0 then fname else ''''),
      LLVMTypeOf = (\<lambda>v. if v = 0 \<or> v = 8 then 1 else 0),
      LLVMGetValueKind = (\<lambda>v. if v = 5 then LLVMConstantIntValueKind else LLVMOtherValueKind),
      LLVMIsAConstant = (\<lambda>v. v = 5 \<or> v = 8), LLVMIsAGlobalValue = (\<lambda>v. v = 8),
      LLVMGetNumOperands = (\<lambda>v. if v = 3 \<or> v = 4 then 1 else 2),
      LLVMGetOperand = (\<lambda>v i. if v = 2 then (if i = 0 then 1 else 5)
        else if v = 7 then (if i = 0 then 2 else 8) else if v = 3 then 6 else 2),
      get_debugloc_filename = (\<lambda>v. None), get_debugloc_directory = (\<lambda>v. None),
      LLVMGetDebugLocLine = (\<lambda>v. 0), LLVMGetDebugLocColumn = (\<lambda>v. 0),
      LLVMConstIntGetZExtValue = (\<lambda>v. 1), LLVMConstRealGetDouble = (\<lambda>v. 0),
      LLVMGetAggregateElement = (\<lambda>v i. 0), LLVMGetConstOpcode = (\<lambda>v. LLVMRet),
      LLVMGetConstantPtrAuthPointer = (\<lambda>v. 0), LLVMGetConstantPtrAuthKey = (\<lambda>v. 0),
      LLVMGetConstantPtrAuthDiscriminator = (\<lambda>v. 0), LLVMGetConstantPtrAuthAddrDiscriminator = (\<lambda>v. 0),
      LLVMGlobalGetValueType = (\<lambda>v. if v = 0 then 2 else 0), LLVMIsInBounds = (\<lambda>v. False),
      LLVMGetInstructionOpcode = (\<lambda>v. if v = 2 then LLVMAdd else if v = 7 then LLVMStore
        else if v = 3 then LLVMBr else LLVMRet),
      LLVMGetNUW = (\<lambda>v. False), LLVMGetNSW = (\<lambda>v. False), LLVMGetExact = (\<lambda>v. False),
      LLVMGetNumMaskElements = (\<lambda>v. 0), LLVMGetUndefMaskElem = 0xFFFFFFFF, LLVMGetMaskValue = (\<lambda>v i. 0),
      LLVMGetIndices = (\<lambda>v. []), LLVMGetNumIndices = (\<lambda>v. 0), LLVMGetAllocatedType = (\<lambda>v. 0),
      LLVMGetAlignment = (\<lambda>v. 4), LLVMGetVolatile = (\<lambda>v. False),
      LLVMGetOrdering = (\<lambda>v. LLVMAtomicOrderingNotAtomic), LLVMIsAtomicSingleThread = (\<lambda>v. False),
      LLVMGetCmpXchgSuccessOrdering = (\<lambda>v. LLVMAtomicOrderingMonotonic),
      LLVMGetCmpXchgFailureOrdering = (\<lambda>v. LLVMAtomicOrderingMonotonic), LLVMGetWeak = (\<lambda>v. False),
      LLVMGetAtomicRMWBinOp = (\<lambda>v. LLVMAtomicRMWBinOpXchg), LLVMGetGEPSourceElementType = (\<lambda>v. 0),
      LLVMGetICmpPredicate = (\<lambda>v. LLVMIntEQ), LLVMGetFCmpPredicate = (\<lambda>v. LLVMRealPredicateFalse),
      LLVMCountIncoming = (\<lambda>v. 0), LLVMGetIncomingValue = (\<lambda>v i. 0),
      LLVMGetIncomingBlock = (\<lambda>v i. 0), LLVMGetCalledValue = (\<lambda>v. 0), LLVMIsAInlineAsm = (\<lambda>v. False),
      LLVMGetInlineAsmAsmString = (\<lambda>v. None), LLVMGetCalledFunctionType = (\<lambda>v. 0),
      LLVMGetNumArgOperands = (\<lambda>v. 0), LLVMGetArgOperand = (\<lambda>v i. 0), LLVMAttributeReturnIndex = 0,
      LLVMAttributeFunctionIndex = 0xFFFFFFFF, LLVMGetCallSiteAttributes = (\<lambda>v i. []),
      LLVMGetInstructionCallConv = (\<lambda>v. 0), LLVMIsTailCall = (\<lambda>v. False),
      LLVMGetNumClauses = (\<lambda>v. 0), LLVMGetClause = (\<lambda>v i. 0), LLVMIsCleanup = (\<lambda>v. False),
      LLVMGetParentCatchSwitch = (\<lambda>v. 0), LLVMValueIsBasicBlock = (\<lambda>v. v = 6),
      LLVMValueAsBasicBlock = (\<lambda>v. 11), LLVMGetNumSuccessors = (\<lambda>v. if v = 3 then 1 else 0),
      LLVMGetSuccessor = (\<lambda>v i. 11), LLVMGetSwitchDefaultDest = (\<lambda>v. 0), LLVMGetNormalDest = (\<lambda>v. 0),
      LLVMGetUnwindDest = (\<lambda>v. None), LLVMGetHandlers = (\<lambda>v. []), LLVMGetFirstParam = (\<lambda>v. Some 1),
      LLVMGetNextParam = (\<lambda>v. None), LLVMGetFirstBasicBlock = (\<lambda>v. Some 10),
      LLVMGetNextBasicBlock = (\<lambda>v. if v = 10 then Some 11 else None),
      LLVMGetFirstInstruction = (\<lambda>v. if v = 10 then Some 2 else Some 4),
      LLVMGetNextInstruction = (\<lambda>v. if v = 2 then Some 7 else if v = 7 then Some 3 else None),
      get_bb_name = (\<lambda>v. ''''), LLVMGetBasicBlockTerminator = (\<lambda>v. if v = 10 then 3 else 4),
      LLVMIsAFunction = (\<lambda>v. v = 0), LLVMGetAttributesAtIndex = (\<lambda>v i. []),
      LLVMGetLinkage = (\<lambda>v. LLVMExternalLinkage), LLVMGetVisibility = (\<lambda>v. LLVMDefaultVisibility),
      LLVMGetDLLStorageClass = (\<lambda>v. LLVMDefaultStorageClass), LLVMGetFunctionCallConv = (\<lambda>v. 0),
      get_gc = (\<lambda>v. None), get_section = (\<lambda>v. None), LLVMGetComdat = (\<lambda>v. None),
      LLVMGetPersonalityFn = (\<lambda>v. None), LLVMGetFirstFunction = Some 0, LLVMGetNextFunction = (\<lambda>v. None),
      LLVMGetFirstGlobal = Some 8, LLVMGetNextGlobal = (\<lambda>v. None), LLVMGetFirstGlobalAlias = None,
      LLVMGetNextGlobalAlias = (\<lambda>v. None), LLVMGetFirstGlobalIFunc = None,
      LLVMGetNextGlobalIFunc = (\<lambda>v. None), LLVMIsDeclaration = (\<lambda>v. False),
      LLVMIsGlobalConstant = (\<lambda>v. False), LLVMGetThreadLocalMode = (\<lambda>v. LLVMNotThreadLocal),
      LLVMGetUnnamedAddress = (\<lambda>v. LLVMNoUnnamedAddr), LLVMGetInitializer = (\<lambda>v. None),
      LLVMAliasGetAliasee = (\<lambda>v. 0), LLVMGetGlobalIFuncResolver = (\<lambda>v. 0),
      get_module_identifier = ''counter.bc'', get_source_file_name = ''counter.c'', get_data_layout_str = '''',
      get_target = None, get_module_inline_asm = ''''\<rparr>"

end
