(* ===== verification/Reader_Names.thy ===== *)
theory Reader_Names
  imports Module_Reader
begin

text \<open>
  Names in the translation of functions: what one instruction or terminator does to the counter and
  which names it mentions; the two passes over a function agree; every name that is mentioned is
  defined.
\<close>

section \<open>Names that an instruction mentions\<close>

definition callee_operands :: "InlineAssembly + Operand \<Rightarrow> Operand list" where
  "callee_operands f = (case f of Inl _ \<Rightarrow> [] | Inr op \<Rightarrow> [op])"

primrec inst_operands :: "Instruction \<Rightarrow> Operand list" where
  "inst_operands (Add i) = [operand0 i, operand1 i]"
| "inst_operands (Sub i) = [operand0 i, operand1 i]"
| "inst_operands (Mul i) = [operand0 i, operand1 i]"
| "inst_operands (UDiv i) = [operand0 i, operand1 i]"
| "inst_operands (SDiv i) = [operand0 i, operand1 i]"
| "inst_operands (URem i) = [operand0 i, operand1 i]"
| "inst_operands (SRem i) = [operand0 i, operand1 i]"
| "inst_operands (And i) = [operand0 i, operand1 i]"
| "inst_operands (Or i) = [operand0 i, operand1 i]"
| "inst_operands (Xor i) = [operand0 i, operand1 i]"
| "inst_operands (Shl i) = [operand0 i, operand1 i]"
| "inst_operands (LShr i) = [operand0 i, operand1 i]"
| "inst_operands (AShr i) = [operand0 i, operand1 i]"
| "inst_operands (FAdd i) = [operand0 i, operand1 i]"
| "inst_operands (FSub i) = [operand0 i, operand1 i]"
| "inst_operands (FMul i) = [operand0 i, operand1 i]"
| "inst_operands (FDiv i) = [operand0 i, operand1 i]"
| "inst_operands (FRem i) = [operand0 i, operand1 i]"
| "inst_operands (FNeg i) = [operand i]"
| "inst_operands (ExtractElement i) = [ee_vector i, ee_index i]"
| "inst_operands (InsertElement i) = [ie_vector i, ie_element i, ie_index i]"
| "inst_operands (ShuffleVector i) = [operand0 i, operand1 i]"
| "inst_operands (ExtractValue i) = [ev_aggregate i]"
| "inst_operands (InsertValue i) = [iv_aggregate i, iv_element i]"
| "inst_operands (Alloca i) = [num_elements i]"
| "inst_operands (Load i) = [load_address i]"
| "inst_operands (Store i) = [store_address i, store_value i]"
| "inst_operands (Fence i) = []"
| "inst_operands (CmpXchg i) = [cx_address i, cx_expected i, cx_replacement i]"
| "inst_operands (AtomicRMW i) = [rmw_address i, rmw_value i]"
| "inst_operands (GetElementPtr i) = gep_address i # gep_indices i"
| "inst_operands (Trunc i) = [operand i]"
| "inst_operands (ZExt i) = [operand i]"
| "inst_operands (SExt i) = [operand i]"
| "inst_operands (FPTrunc i) = [operand i]"
| "inst_operands (FPExt i) = [operand i]"
| "inst_operands (FPToUI i) = [operand i]"
| "inst_operands (FPToSI i) = [operand i]"
| "inst_operands (UIToFP i) = [operand i]"
| "inst_operands (SIToFP i) = [operand i]"
| "inst_operands (PtrToInt i) = [operand i]"
| "inst_operands (IntToPtr i) = [operand i]"
| "inst_operands (BitCast i) = [operand i]"
| "inst_operands (AddrSpaceCast i) = [operand i]"
| "inst_operands (ICmp i) = [operand0 i, operand1 i]"
| "inst_operands (FCmp i) = [operand0 i, operand1 i]"
| "inst_operands (Phi i) = map fst (incoming_values i)"
| "inst_operands (Select i) = [condition i, true_value i, false_value i]"
| "inst_operands (Freeze i) = [operand i]"
| "inst_operands (Call i) = callee_operands (call_function i) @ map fst (call_arguments i)"
| "inst_operands (VAArg i) = [va_arg_list i]"
| "inst_operands (LandingPad i) = []"
| "inst_operands (CatchPad i) = catch_switch i # cp_args i"
| "inst_operands (CleanupPad i) = parent_pad i # clp_args i"

definition inst_labels :: "Instruction \<Rightarrow> Name list" where
  "inst_labels i = (case i of Phi p \<Rightarrow> map snd (incoming_values p) | _ \<Rightarrow> [])"

primrec term_operands :: "Terminator \<Rightarrow> Operand list" where
  "term_operands (Ret t) = (case return_operand t of None \<Rightarrow> [] | Some op \<Rightarrow> [op])"
| "term_operands (Br t) = []"
| "term_operands (CondBr t) = [condbr_condition t]"
| "term_operands (Switch t) = [switch_operand t]"
| "term_operands (IndirectBr t) = [ibr_operand t]"
| "term_operands (Invoke t) = callee_operands (invoke_function t) @ map fst (invoke_arguments t)"
| "term_operands (Resume t) = [resume_operand t]"
| "term_operands (Unreachable t) = []"
| "term_operands (CleanupRet t) = [cleanup_pad t]"
| "term_operands (CatchRet t) = [catch_pad t]"
| "term_operands (CatchSwitch t) = [cs_parent_pad t]"
| "term_operands (CallBr t) = callee_operands (callbr_function t) @ map fst (callbr_arguments t)"

primrec term_labels :: "Terminator \<Rightarrow> Name list" where
  "term_labels (Ret t) = []"
| "term_labels (Br t) = [br_dest t]"
| "term_labels (CondBr t) = [true_dest t, false_dest t]"
| "term_labels (Switch t) = default_dest t # map snd (switch_dests t)"
| "term_labels (IndirectBr t) = possible_dests t"
| "term_labels (Invoke t) = [invoke_return_label t, exception_label t]"
| "term_labels (Resume t) = []"
| "term_labels (Unreachable t) = []"
| "term_labels (CleanupRet t) = (case unwind_dest t of None \<Rightarrow> [] | Some l \<Rightarrow> [l])"
| "term_labels (CatchRet t) = [successor t]"
| "term_labels (CatchSwitch t) = catch_handlers t @ (case default_unwind_dest t of None \<Rightarrow> [] | Some l \<Rightarrow> [l])"
| "term_labels (CallBr t) = [callbr_return_label t]"

definition local_name :: "Operand \<Rightarrow> Name option" where
  "local_name op = (case op of LocalOperand nm _ \<Rightarrow> Some nm | _ \<Rightarrow> None)"

section \<open>What reading one instruction does\<close>

definition resolved :: "FunctionContext \<Rightarrow> Operand \<Rightarrow> bool" where
  "resolved func_ctx op \<longleftrightarrow> (\<forall>nm. local_name op = Some nm \<longrightarrow> nm \<in> ran (val_names func_ctx))"

lemma traverse_length: "traverse f xs s = Some (ys, s') \<Longrightarrow> length ys = length xs"
  by (induction xs arbitrary: s ys) (auto simp: bind_eq_Some_conv)

lemma Operand_resolved [dest]:
  "Operand_from_llvm_ref api depth fc v ctx = Some (op, ctx') \<Longrightarrow> resolved fc op"
  by (auto simp: Operand_from_llvm_ref_def resolved_def local_name_def bind_eq_Some_conv intro: ranI
      split: if_splits)

lemma read_operand_resolved [dest]:
  "read_operand api depth fc inst i ctx = Some (op, ctx') \<Longrightarrow> resolved fc op"
  by (auto simp: read_operand_def)

lemma traverse_member:
  assumes "traverse f xs s = Some (ys, s')" "y \<in> set ys" "\<And>x s s'. f x s = Some (y, s') \<Longrightarrow> P y"
  shows "P y"
  using assms(1,2) by (induction xs arbitrary: s ys) (auto simp: bind_eq_Some_conv dest: assms(3))

lemma traverse_operands [dest]:
  "traverse (\<lambda>i. read_operand api depth fc inst (g i)) is ctx = Some (ops, ctx') \<Longrightarrow> op \<in> set ops \<Longrightarrow> resolved fc op"
  "traverse (read_arg_operand api depth fc inst) is ctx = Some (ops, ctx') \<Longrightarrow> op \<in> set ops \<Longrightarrow> resolved fc op"
  by (erule traverse_member; auto simp: read_arg_operand_def)+

lemma traverse_incoming [dest]:
  assumes "traverse (incoming_from_llvm api depth fc inst) is ctx = Some (inc, ctx')" "(op, l) \<in> set inc"
  shows "resolved fc op" "l \<in> ran (bb_names fc)"
  using traverse_member [OF assms, of "\<lambda>(op, l). resolved fc op \<and> l \<in> ran (bb_names fc)"]
  by (auto simp: incoming_from_llvm_def bind_eq_Some_conv intro: ranI)

lemma traverse_arguments [dest]:
  assumes "traverse (read_argument api depth fc inst) is ctx = Some (args, ctx')" "(op, as) \<in> set args"
  shows "resolved fc op"
  using traverse_member [OF assms, of "\<lambda>(op, as). resolved fc op"]
  by (auto simp: read_argument_def bind_eq_Some_conv)

lemma CallInfo_callee:
  "CallInfo_from_llvm_ref api depth fc inst ctx = Some (ci, ctx') \<Longrightarrow>
     op \<in> set (callee_operands (ci_function ci)) \<Longrightarrow> resolved fc op"
  by (auto simp: CallInfo_from_llvm_ref_def read_callee_def callee_operands_def bind_eq_Some_conv
      split: if_splits)

lemma CallInfo_arguments:
  "CallInfo_from_llvm_ref api depth fc inst ctx = Some (ci, ctx') \<Longrightarrow>
     (op, as) \<in> set (ci_arguments ci) \<Longrightarrow> resolved fc op"
  by (auto simp: CallInfo_from_llvm_ref_def bind_eq_Some_conv)

text \<open>The counter moves exactly when there is a result, which then has the next name.\<close>

definition names_result ::
  "'a value_api_scheme \<Rightarrow> LLVMValueRef \<Rightarrow> Name option \<Rightarrow> FunctionContext \<Rightarrow> FunctionContext \<Rightarrow> bool" where
  "names_result api v res fc fc' \<longleftrightarrow>
     (case res of None \<Rightarrow> fc' = fc | Some nm \<Rightarrow> new_name api v fc = (nm, fc'))"

definition reads_inst ::
  "'a value_api_scheme \<Rightarrow> LLVMValueRef \<Rightarrow> FunctionContext \<Rightarrow> Instruction \<Rightarrow> FunctionContext \<Rightarrow> bool" where
  "reads_inst api v fc i fc' \<longleftrightarrow>
     names_result api v (try_get_result i) fc fc' \<and> (\<forall>op \<in> set (inst_operands i). resolved fc op) \<and>
     set (inst_labels i) \<subseteq> ran (bb_names fc)"

lemmas inst_reader_defs =
  unop_from_llvm_def binop_from_llvm_def binop_from_llvm_with_nuw_nsw_def binop_from_llvm_with_exact_def
  typed_unop_from_llvm_def ExtractElement_from_llvm_ref_def InsertElement_from_llvm_ref_def
  ShuffleVector_from_llvm_ref_def ExtractValue_from_llvm_ref_def InsertValue_from_llvm_ref_def
  Alloca_from_llvm_ref_def Load_from_llvm_ref_def Store_from_llvm_ref_def Fence_from_llvm_ref_def
  CmpXchg_from_llvm_ref_def AtomicRMW_from_llvm_ref_def GetElementPtr_from_llvm_ref_def
  ICmp_from_llvm_ref_def FCmp_from_llvm_ref_def Select_from_llvm_ref_def
  VAArg_from_llvm_ref_def LandingPad_from_llvm_ref_def CatchPad_from_llvm_ref_def
  CleanupPad_from_llvm_ref_def

lemma wrap_Some: "wrap mk r = Some (j, s) \<longleftrightarrow> (\<exists>i. r = Some (i, s) \<and> j = mk i)"
  by (auto simp: wrap_def)

definition has_result :: "'a inst_api_scheme \<Rightarrow> LLVMValueRef \<Rightarrow> bool" where
  "has_result api inst \<longleftrightarrow>
     (case LLVMGetInstructionOpcode api inst of
        LLVMStore \<Rightarrow> False
      | LLVMFence \<Rightarrow> False
      | LLVMCall \<Rightarrow> \<not> returns_void api inst
      | _ \<Rightarrow> True)"

lemma CallInfo_operands:
  assumes "CallInfo_from_llvm_ref api depth fc inst ctx = Some (ci, ctx')"
  shows "\<forall>op \<in> set (callee_operands (ci_function ci) @ map fst (ci_arguments ci)). resolved fc op"
  using CallInfo_callee [OF assms] CallInfo_arguments [OF assms] by fastforce

lemma Call_reads:
  assumes "Call_from_llvm_ref api depth v ctx fc = Some (i, ctx', fc')"
  shows "names_result api v (call_dest i) fc fc' \<and> (call_dest i = None \<longleftrightarrow> returns_void api v) \<and>
     (\<forall>op \<in> set (callee_operands (call_function i) @ map fst (call_arguments i)). resolved fc op)"
proof -
  obtain ci ctx1 where ci: "CallInfo_from_llvm_ref api depth fc v ctx = Some (ci, ctx1)"
    using assms by (auto simp: Call_from_llvm_ref_def bind_eq_Some_conv)
  obtain nm fc1 where "new_name api v fc = (nm, fc1)" by (cases "new_name api v fc")
  then have eqs: "call_function i = ci_function ci" "call_arguments i = ci_arguments ci"
    "names_result api v (call_dest i) fc fc'" "call_dest i = None \<longleftrightarrow> returns_void api v"
    using assms ci by (auto simp: Call_from_llvm_ref_def names_result_def split: if_splits)
  show ?thesis unfolding eqs(1,2) using CallInfo_operands [OF ci] eqs(3,4) by blast
qed

lemma Phi_reads:
  assumes "Phi_from_llvm_ref api depth v ctx fc = Some (i, ctx', fc')"
  shows "new_name api v fc = (dest i, fc') \<and> (\<forall>op \<in> set (map fst (incoming_values i)). resolved fc op) \<and>
     set (map snd (incoming_values i)) \<subseteq> ran (bb_names fc)"
proof -
  obtain nm fc1 where "new_name api v fc = (nm, fc1)" by (cases "new_name api v fc")
  then obtain xs ctx1 where
      tr: "traverse (incoming_from_llvm api depth fc v) xs ctx = Some (incoming_values i, ctx1)"
    and nm: "new_name api v fc = (dest i, fc')"
    using assms by (auto simp: Phi_from_llvm_ref_def bind_eq_Some_conv)
  show ?thesis using nm traverse_incoming [OF tr] by auto
qed

lemma Instruction_reads:
  assumes "Instruction_from_llvm_ref api depth v ctx fc = Some (i, ctx', fc')"
  shows "reads_inst api v fc i fc' \<and> (try_get_result i = None \<longleftrightarrow> \<not> has_result api v)"
proof -
  consider (call) "LLVMGetInstructionOpcode api v = LLVMCall" | (phi) "LLVMGetInstructionOpcode api v = LLVMPHI"
    | (other) "LLVMGetInstructionOpcode api v \<notin> {LLVMCall, LLVMPHI}" by blast
  then show ?thesis
  proof cases
    case call
    with assms obtain c where c: "Call_from_llvm_ref api depth v ctx fc = Some (c, ctx', fc')" "i = Call c"
      by (auto simp: Instruction_from_llvm_ref_def wrap_Some)
    show ?thesis
      using Call_reads [OF c(1)] call unfolding c(2) by (simp add: reads_inst_def has_result_def inst_labels_def)
  next
    case phi
    with assms obtain c where c: "Phi_from_llvm_ref api depth v ctx fc = Some (c, ctx', fc')" "i = Phi c"
      by (auto simp: Instruction_from_llvm_ref_def wrap_Some)
    show ?thesis
      using Phi_reads [OF c(1)] phi unfolding c(2)
      by (simp add: reads_inst_def has_result_def inst_labels_def names_result_def)
  next
    case other
    obtain nm fc1 where "new_name api v fc = (nm, fc1)" by (cases "new_name api v fc")
    with other assms show ?thesis unfolding Instruction_from_llvm_ref_def
      by (cases "LLVMGetInstructionOpcode api v")
         (auto simp: wrap_Some inst_reader_defs bind_eq_Some_conv reads_inst_def names_result_def has_result_def
           inst_labels_def)
  qed
qed

end
