(* ===== verification/Reader_Functions.thy ===== *)
theory Reader_Functions
  imports Reader_Names
begin

text \<open>
  The two passes over a function agree: the names that the second pass gives to blocks and results
  are those that the first pass has recorded for their handles. Hence no name that a translated
  function mentions is undefined, and no two of its names are equal.
\<close>

section \<open>Terminators\<close>

definition reads_term ::
  "'a value_api_scheme \<Rightarrow> LLVMValueRef \<Rightarrow> FunctionContext \<Rightarrow> Terminator \<Rightarrow> FunctionContext \<Rightarrow> bool" where
  "reads_term api v fc t fc' \<longleftrightarrow>
     names_result api v (terminator_try_get_result t) fc fc' \<and>
     (\<forall>op \<in> set (term_operands t). resolved fc op) \<and> set (term_labels t) \<subseteq> ran (bb_names fc)"

definition term_has_result :: "'a inst_api_scheme \<Rightarrow> LLVMValueRef \<Rightarrow> bool" where
  "term_has_result api v \<longleftrightarrow> LLVMGetInstructionOpcode api v \<in> {LLVMInvoke, LLVMCatchSwitch, LLVMCallBr}"

lemma new_name_frame:
  "new_name api v fc = (nm, fc') \<Longrightarrow> bb_names fc' = bb_names fc \<and> val_names fc' = val_names fc \<and>
     name_or_num (get_value_name api v) (ctr fc) = (nm, ctr fc')"
  by (auto simp: new_name_def Let_def split: if_splits)

lemma names_result_frame:
  "names_result api v res fc fc' \<Longrightarrow> bb_names fc' = bb_names fc \<and> val_names fc' = val_names fc"
  by (auto simp: names_result_def dest: new_name_frame split: option.splits)

lemma those_ran: "those (map f xs) = Some ys \<Longrightarrow> set ys = (the \<circ> f) ` set xs \<and> (\<forall>x \<in> set xs. f x \<noteq> None)"
  by (induction xs arbitrary: ys) (auto split: option.splits)

lemma those_ran_subset:
  assumes "those (map (\<lambda>x. m (g x)) xs) = Some ys"
  shows "set ys \<subseteq> ran m"
  using those_ran [OF assms] by (auto simp: ran_def)

lemma switch_cases_labels:
  assumes "traverse (switch_case api depth fc t) is ctx = Some (ds, ctx')"
  shows "set (map snd ds) \<subseteq> ran (bb_names fc)"
proof -
  have "snd p \<in> ran (bb_names fc)" if "p \<in> set ds" for p
    using assms that
    by (rule traverse_member) (auto simp: switch_case_def bind_eq_Some_conv intro: ranI)
  then show ?thesis by auto
qed

lemma unwind_labels:
  "unwind_from_llvm api fc t = Some l \<Longrightarrow> set (case l of None \<Rightarrow> [] | Some n \<Rightarrow> [n]) \<subseteq> ran (bb_names fc)"
  by (auto simp: unwind_from_llvm_def bind_eq_Some_conv intro: ranI split: option.splits)

lemma branch_target_ran: "branch_target api fc t i = Some l \<Longrightarrow> l \<in> ran (bb_names fc)"
  by (auto simp: branch_target_def bind_eq_Some_conv intro: ranI)

lemma unwind_ran: "unwind_from_llvm api fc t = Some (Some l) \<Longrightarrow> l \<in> ran (bb_names fc)"
  using unwind_labels [of api fc t "Some l"] by simp

lemma IndirectBr_reads:
  assumes "IndirectBr_from_llvm_ref api depth v ctx fc = Some (t, ctx', fc')"
  shows "reads_term api v fc (IndirectBr t) fc'"
proof -
  obtain xs where t: "read_operand api depth fc v 0 ctx = Some (ibr_operand t, ctx')"
    "those (map (\<lambda>i. bb_names fc (LLVMGetSuccessor api v (of_nat i))) xs) = Some (possible_dests t)" "fc' = fc"
    using assms by (auto simp: IndirectBr_from_llvm_ref_def bind_eq_Some_conv)
  show ?thesis
    using t(3) those_ran_subset [where m = "bb_names fc", OF t(2)] read_operand_resolved [OF t(1)]
    by (simp add: reads_term_def names_result_def)
qed

lemma Invoke_reads:
  assumes "Invoke_from_llvm_ref api depth v ctx fc = Some (t, ctx', fc')"
  shows "reads_term api v fc (Invoke t) fc'"
proof -
  obtain ci ctx1 where ci: "CallInfo_from_llvm_ref api depth fc v ctx = Some (ci, ctx1)"
    using assms by (auto simp: Invoke_from_llvm_ref_def bind_eq_Some_conv)
  obtain nm fc1 where nm: "new_name api v fc = (nm, fc1)" by (cases "new_name api v fc")
  then have eqs: "invoke_function t = ci_function ci" "invoke_arguments t = ci_arguments ci"
    "new_name api v fc = (invoke_result t, fc')" "set (term_labels (Invoke t)) \<subseteq> ran (bb_names fc1)"
    using assms ci by (auto simp: Invoke_from_llvm_ref_def bind_eq_Some_conv intro: ranI)
  show ?thesis
    using CallInfo_operands [OF ci] eqs new_name_frame [OF nm]
    by (simp add: reads_term_def names_result_def)
qed

lemma CallBr_reads:
  assumes "CallBr_from_llvm_ref api depth v ctx fc = Some (t, ctx', fc')"
  shows "reads_term api v fc (CallBr t) fc'"
proof -
  obtain ci ctx1 where ci: "CallInfo_from_llvm_ref api depth fc v ctx = Some (ci, ctx1)"
    using assms by (auto simp: CallBr_from_llvm_ref_def bind_eq_Some_conv)
  obtain nm fc1 where nm: "new_name api v fc = (nm, fc1)" by (cases "new_name api v fc")
  then have eqs: "callbr_function t = ci_function ci" "callbr_arguments t = ci_arguments ci"
    "new_name api v fc = (callbr_result t, fc')" "set (term_labels (CallBr t)) \<subseteq> ran (bb_names fc1)"
    using assms ci by (auto simp: CallBr_from_llvm_ref_def bind_eq_Some_conv intro: ranI)
  show ?thesis
    using CallInfo_operands [OF ci] eqs new_name_frame [OF nm]
    by (simp add: reads_term_def names_result_def)
qed

lemma CatchSwitch_reads:
  assumes "CatchSwitch_from_llvm_ref api depth v ctx fc = Some (t, ctx', fc')"
  shows "reads_term api v fc (CatchSwitch t) fc'"
proof -
  obtain nm fc1 where nm: "new_name api v fc = (nm, fc1)" by (cases "new_name api v fc")
  then obtain ctx1 where t: "read_operand api depth fc v 0 ctx = Some (cs_parent_pad t, ctx1)"
    "those (map (bb_names fc) (LLVMGetHandlers api v)) = Some (catch_handlers t)"
    "unwind_from_llvm api fc v = Some (default_unwind_dest t)" "new_name api v fc = (cs_result t, fc')"
    using assms by (auto simp: CatchSwitch_from_llvm_ref_def bind_eq_Some_conv)
  show ?thesis
    using t(4) unwind_labels [OF t(3)] those_ran_subset [of "bb_names fc" "\<lambda>x. x", OF t(2)]
      read_operand_resolved [OF t(1)]
    by (simp add: reads_term_def names_result_def)
qed

lemma Switch_reads:
  assumes "Switch_from_llvm_ref api depth v ctx fc = Some (t, ctx', fc')"
  shows "reads_term api v fc (Switch t) fc'"
proof -
  obtain ctx1 xs where t: "read_operand api depth fc v 0 ctx = Some (switch_operand t, ctx1)"
    "traverse (switch_case api depth fc v) xs ctx1 = Some (switch_dests t, ctx')"
    "bb_names fc (LLVMGetSwitchDefaultDest api v) = Some (default_dest t)" "fc' = fc"
    using assms by (auto simp: Switch_from_llvm_ref_def bind_eq_Some_conv)
  show ?thesis
    using t(3,4) switch_cases_labels [OF t(2)] read_operand_resolved [OF t(1)]
    by (simp add: reads_term_def names_result_def ranI)
qed

lemma Terminator_reads:
  assumes "Terminator_from_llvm_ref api depth v ctx fc = Some (t, ctx', fc')"
  shows "reads_term api v fc t fc' \<and> (terminator_try_get_result t = None \<longleftrightarrow> \<not> term_has_result api v)"
proof (cases "LLVMGetInstructionOpcode api v \<in> {LLVMInvoke, LLVMCallBr, LLVMCatchSwitch, LLVMSwitch, LLVMIndirectBr}")
  case True
  then show ?thesis
    using assms Invoke_reads CallBr_reads CatchSwitch_reads Switch_reads IndirectBr_reads
    by (auto simp: Terminator_from_llvm_ref_def wrap_Some term_has_result_def)
next
  case False
  with assms show ?thesis unfolding Terminator_from_llvm_ref_def
    by (cases "LLVMGetInstructionOpcode api v")
       (auto simp: wrap_Some bind_eq_Some_conv reads_term_def names_result_def term_has_result_def
         Ret_from_llvm_ref_def Br_from_llvm_ref_def CondBr_from_llvm_ref_def
         Resume_from_llvm_ref_def Unreachable_from_llvm_ref_def CleanupRet_from_llvm_ref_def
         CatchRet_from_llvm_ref_def split: if_splits option.splits
         dest: branch_target_ran unwind_ran intro: ranI)
qed

section \<open>Blocks\<close>

text \<open>The handles with a result, each with the name that the translated instruction has.\<close>

fun result_pairs :: "LLVMValueRef list \<Rightarrow> Instruction list \<Rightarrow> (LLVMValueRef \<times> Name) list" where
  "result_pairs (v # vs) (i # is) =
     (case try_get_result i of None \<Rightarrow> [] | Some nm \<Rightarrow> [(v, nm)]) @ result_pairs vs is"
| "result_pairs _ _ = []"

definition block_results ::
  "'a function_api_scheme \<Rightarrow> LLVMBasicBlockRef \<Rightarrow> BasicBlock \<Rightarrow> (LLVMValueRef \<times> Name) list" where
  "block_results api bb b =
     result_pairs (butlast (the (get_instructions api bb))) (instrs b) @
     (case terminator_try_get_result (bb_term b) of
        None \<Rightarrow> [] | Some nm \<Rightarrow> [(LLVMGetBasicBlockTerminator api bb, nm)])"

text \<open>LLVM gives no name to a value of type void.\<close>

definition void_unnamed :: "'a function_api_scheme \<Rightarrow> LLVMBasicBlockRef \<Rightarrow> bool" where
  "void_unnamed api bb \<longleftrightarrow>
     (\<forall>v \<in> set (butlast (the (get_instructions api bb))). \<not> has_result api v \<longrightarrow> get_value_name api v = []) \<and>
     (\<not> term_has_result api (LLVMGetBasicBlockTerminator api bb) \<longrightarrow>
        get_value_name api (LLVMGetBasicBlockTerminator api bb) = [])"

lemma needs_name_iff: "\<not> has_result api v \<longrightarrow> get_value_name api v = [] \<Longrightarrow> needs_name api v = has_result api v"
  by (cases "LLVMGetInstructionOpcode api v") (auto simp: needs_name_def has_result_def)

lemma term_needs_name_iff:
  "\<not> term_has_result api v \<longrightarrow> get_value_name api v = [] \<Longrightarrow> term_needs_name api v = term_has_result api v"
  by (auto simp: term_needs_name_def term_has_result_def)

text \<open>What a context keeps while a function is read.\<close>

definition same_maps :: "FunctionContext \<Rightarrow> FunctionContext \<Rightarrow> bool" where
  "same_maps fc fc' \<longleftrightarrow> bb_names fc' = bb_names fc \<and> val_names fc' = val_names fc"

lemma resolved_same: "same_maps fc fc' \<Longrightarrow> resolved fc' = resolved fc"
  by (rule ext) (simp add: same_maps_def resolved_def)

definition inst_names_ok :: "FunctionContext \<Rightarrow> Instruction \<Rightarrow> bool" where
  "inst_names_ok fc i \<longleftrightarrow>
     (\<forall>op \<in> set (inst_operands i). resolved fc op) \<and> set (inst_labels i) \<subseteq> ran (bb_names fc)"

definition term_names_ok :: "FunctionContext \<Rightarrow> Terminator \<Rightarrow> bool" where
  "term_names_ok fc t \<longleftrightarrow>
     (\<forall>op \<in> set (term_operands t). resolved fc op) \<and> set (term_labels t) \<subseteq> ran (bb_names fc)"

lemma names_ok_same:
  "same_maps fc fc' \<Longrightarrow> inst_names_ok fc' = inst_names_ok fc"
  "same_maps fc fc' \<Longrightarrow> term_names_ok fc' = term_names_ok fc"
  by (rule ext, simp add: inst_names_ok_def term_names_ok_def resolved_same, simp add: same_maps_def)+

lemma read_instructions_names:
  assumes "read_instructions api depth vs ctx fc = Some (is, ctx', fc')"
  shows "name_values api (filter (has_result api) vs) (ctr fc) = (result_pairs vs is, ctr fc') \<and>
     list_all2 (\<lambda>v i. try_get_result i = None \<longleftrightarrow> \<not> has_result api v) vs is \<and>
     same_maps fc fc' \<and> list_all (inst_names_ok fc) is"
  using assms
proof (induction vs arbitrary: ctx fc "is")
  case (Cons v vs)
  then obtain i ctx1 fc1 js where r: "Instruction_from_llvm_ref api depth v ctx fc = Some (i, ctx1, fc1)"
      "read_instructions api depth vs ctx1 fc1 = Some (js, ctx', fc')" "is = i # js"
    by (auto simp: bind_eq_Some_conv)
  note ri = Instruction_reads [OF r(1)]
  then have nr: "names_result api v (try_get_result i) fc fc1" and ok: "inst_names_ok fc i"
    by (simp_all add: reads_inst_def inst_names_ok_def)
  then have sm: "same_maps fc fc1" using names_result_frame by (simp add: same_maps_def)
  show ?case
    using Cons.IH [OF r(2)] r(3) ri nr ok sm names_ok_same(1) [OF sm]
    by (auto simp: names_result_def same_maps_def dest: new_name_frame split: option.splits prod.splits)
qed (simp add: same_maps_def)

lemma term_pairs:
  assumes "names_result api v res fc fc'" "res = None \<longleftrightarrow> \<not> has"
  shows "(if has then name_values api [v] (ctr fc) else ([], ctr fc)) =
     (case res of None \<Rightarrow> [] | Some nm \<Rightarrow> [(v, nm)], ctr fc')"
  using assms by (cases res) (auto simp: names_result_def Let_def dest!: new_name_frame split: prod.splits)

lemma block_passes_agree:
  assumes "void_unnamed api bb" "BasicBlock_from_llvm_ref api depth bb (ctx, fc) = Some (b, ctx', fc')"
  shows "first_pass_names api bb (ctr fc) = Some ((bb_name b, block_results api bb b), ctr fc') \<and>
     same_maps fc fc' \<and> list_all (inst_names_ok fc) (instrs b) \<and> term_names_ok fc (bb_term b) \<and>
     list_all2 (\<lambda>v i. try_get_result i = None \<longleftrightarrow> \<not> has_result api v)
       (butlast (the (get_instructions api bb))) (instrs b)"
proof -
  let ?t = "LLVMGetBasicBlockTerminator api bb"
  obtain nm c where nm: "name_or_num (get_bb_name api bb) (ctr fc) = (nm, c)"
    by (cases "name_or_num (get_bb_name api bb) (ctr fc)")
  then obtain vs ctx1 fc1 where r: "get_instructions api bb = Some vs"
      "read_instructions api depth (butlast vs) ctx (fc\<lparr>ctr := c\<rparr>) = Some (instrs b, ctx1, fc1)"
      "Terminator_from_llvm_ref api depth ?t ctx1 fc1 = Some (bb_term b, ctx', fc')" "bb_name b = nm"
    using assms(2) by (auto simp: BasicBlock_from_llvm_ref_def bind_eq_Some_conv simp del: name_or_num.simps)
  note ri = read_instructions_names [OF r(2)] and rt = Terminator_reads [OF r(3)]
  have sm: "same_maps fc (fc\<lparr>ctr := c\<rparr>)" "same_maps fc fc1" "same_maps fc fc'"
    using ri rt names_result_frame unfolding reads_term_def same_maps_def by (simp, force, force)
  have flt: "filter (needs_name api) (butlast vs) = filter (has_result api) (butlast vs)"
    using assms(1) r(1) needs_name_iff by (intro filter_cong) (auto simp: void_unnamed_def)
  have tn: "term_needs_name api ?t = term_has_result api ?t"
    using assms(1) term_needs_name_iff [of api ?t] by (auto simp: void_unnamed_def)
  have "first_pass_names api bb (ctr fc) = Some ((bb_name b, block_results api bb b), ctr fc')"
    using nm r ri rt term_pairs [of api ?t "terminator_try_get_result (bb_term b)" fc1 fc' "term_has_result api ?t"]
    by (simp add: first_pass_names_def flt tn block_results_def reads_term_def del: name_or_num.simps name_values.simps)
  moreover have "list_all (inst_names_ok fc) (instrs b)"
    using ri names_ok_same(1) [OF sm(1)] by simp
  moreover have "term_names_ok fc (bb_term b)"
    using rt unfolding names_ok_same(2) [OF sm(2), symmetric] by (simp add: reads_term_def term_names_ok_def)
  ultimately show ?thesis using sm(3) ri r(1) by simp
qed

lemma blocks_passes_agree:
  assumes "\<forall>bb \<in> set bbs. void_unnamed api bb"
    "traverse (BasicBlock_from_llvm_ref api depth) bbs (ctx, fc) = Some (blocks, ctx', fc')"
  shows "traverse (first_pass_names api) bbs (ctr fc) =
       Some (map2 (\<lambda>bb b. (bb_name b, block_results api bb b)) bbs blocks, ctr fc') \<and>
     (\<forall>b \<in> set blocks. list_all (inst_names_ok fc) (instrs b) \<and> term_names_ok fc (bb_term b)) \<and>
     list_all2 (\<lambda>bb b. list_all2 (\<lambda>v i. try_get_result i = None \<longleftrightarrow> \<not> has_result api v)
       (butlast (the (get_instructions api bb))) (instrs b)) bbs blocks"
  using assms
proof (induction bbs arbitrary: ctx fc blocks)
  case (Cons bb bbs)
  then obtain b ctx1 fc1 bs where r: "BasicBlock_from_llvm_ref api depth bb (ctx, fc) = Some (b, ctx1, fc1)"
      "traverse (BasicBlock_from_llvm_ref api depth) bbs (ctx1, fc1) = Some (bs, ctx', fc')" "blocks = b # bs"
    by (auto simp: bind_eq_Some_conv)
  have "void_unnamed api bb" using Cons.prems(1) by simp
  note ba = block_passes_agree [OF this r(1)]
  note IH = Cons.IH [OF _ r(2)] names_ok_same
  have "same_maps fc fc1" using ba by blast
  then show ?case using ba IH(1) Cons.prems(1) r(3) names_ok_same [of fc fc1] by simp
qed simp

section \<open>Functions\<close>

lemma parameters_names:
  assumes "traverse (Parameter_from_llvm api depth func) (enumerate n ps) (ctx, c) = Some (params, ctx', c')"
  shows "name_values api ps c = (zip ps (map param_name params), c') \<and> length params = length ps"
  using assms
proof (induction ps arbitrary: n ctx c params)
  case (Cons p ps)
  obtain nm c1 where nm: "name_or_num (get_value_name api p) c = (nm, c1)"
    by (cases "name_or_num (get_value_name api p) c")
  obtain q ctx1 c2 qs where q: "Parameter_from_llvm api depth func (n, p) (ctx, c) = Some (q, ctx1, c2)"
      "params = q # qs"
      "traverse (Parameter_from_llvm api depth func) (enumerate (Suc n) ps) (ctx1, c2) = Some (qs, ctx', c')"
    using Cons.prems by (auto simp: bind_eq_Some_conv)
  moreover have "param_name q = nm" "c2 = c1"
    using q(1) nm by (auto simp: Parameter_from_llvm_def bind_eq_Some_conv simp del: name_or_num.simps)
  ultimately show ?case using Cons.IH nm by (simp del: name_or_num.simps)
qed simp

text \<open>What a translated function is made of: its blocks and parameters in order, the counter after the
  parameters, and the context that the first pass leaves.\<close>

definition named_blocks ::
  "'a function_api_scheme \<Rightarrow> LLVMBasicBlockRef list \<Rightarrow> Function \<Rightarrow> (Name \<times> (LLVMValueRef \<times> Name) list) list" where
  "named_blocks api bbs f = map2 (\<lambda>bb b. (bb_name b, block_results api bb b)) bbs (basic_blocks f)"

definition translated ::
  "'a function_api_scheme \<Rightarrow> LLVMValueRef \<Rightarrow> Function \<Rightarrow> LLVMBasicBlockRef list \<Rightarrow> LLVMValueRef list \<Rightarrow> usize \<Rightarrow>
   FunctionContext \<Rightarrow> bool" where
  "translated api func f bbs ps c fc \<longleftrightarrow>
     get_basic_blocks api func = Some bbs \<and> get_parameters api func = Some ps \<and>
     name_values api ps 0 = (zip ps (map param_name (func_parameters f)), c) \<and>
     length (func_parameters f) = length ps \<and>
     (\<exists>c'. traverse (first_pass_names api) bbs c = Some (named_blocks api bbs f, c')) \<and>
     fc = function_context bbs (named_blocks api bbs f) ps (func_parameters f) c \<and>
     (\<forall>b \<in> set (basic_blocks f). list_all (inst_names_ok fc) (instrs b) \<and> term_names_ok fc (bb_term b)) \<and>
     list_all2 (\<lambda>bb b. list_all2 (\<lambda>v i. try_get_result i = None \<longleftrightarrow> \<not> has_result api v)
       (butlast (the (get_instructions api bb))) (instrs b)) bbs (basic_blocks f)"

text \<open>The context that the first pass over a function leaves.\<close>

definition first_pass ::
  "'a function_api_scheme \<Rightarrow> nat \<Rightarrow> LLVMValueRef \<Rightarrow> ModuleContext \<Rightarrow> FunctionContext option" where
  "first_pass api depth func ctx =
     do { ((decl, c), _) \<leftarrow> from_llvm_ref_internal api depth func ctx;
          bbs \<leftarrow> get_basic_blocks api func;
          (bbresults, _) \<leftarrow> traverse (first_pass_names api) bbs c;
          ps \<leftarrow> get_parameters api func;
          Some (function_context bbs bbresults ps (decl_parameters decl) c) }"

lemma Function_reads:
  assumes "Function_from_llvm_ref api depth func ctx = Some (f, ctx')"
    "\<forall>bb \<in> set (the (get_basic_blocks api func)). void_unnamed api bb"
  shows "\<exists>bbs ps c fc. first_pass api depth func ctx = Some fc \<and> translated api func f bbs ps c fc"
proof -
  obtain decl c ctx1 bbs res c1 ps ctx2 fc2 where r:
      "from_llvm_ref_internal api depth func ctx = Some ((decl, c), ctx1)"
      "get_basic_blocks api func = Some bbs" "traverse (first_pass_names api) bbs c = Some (res, c1)"
      "get_parameters api func = Some ps"
      "traverse (BasicBlock_from_llvm_ref api depth) bbs
         (ctx1, function_context bbs res ps (decl_parameters decl) c) = Some (basic_blocks f, ctx2, fc2)"
      "func_parameters f = decl_parameters decl"
    using assms(1) by (auto simp: Function_from_llvm_ref_def bind_eq_Some_conv Let_def)
  obtain ctx3 where "traverse (Parameter_from_llvm api depth func) (enumerate 0 ps) (ctx, 0) =
      Some (func_parameters f, ctx3, c)"
    using r(1,4,6) by (auto simp: from_llvm_ref_internal_def bind_eq_Some_conv Let_def)
  note pn = parameters_names [OF this]
  have "\<forall>bb \<in> set bbs. void_unnamed api bb" using assms(2) r(2) by simp
  note ba = blocks_passes_agree [OF this r(5)]
  have "ctr (function_context bbs res ps (decl_parameters decl) c) = c" by (simp add: function_context_def)
  then have "res = named_blocks api bbs f" using ba r(3) by (simp add: named_blocks_def)
  then have "translated api func f bbs ps c (function_context bbs res ps (func_parameters f) c)"
    using pn ba r(2-4,6) by (simp add: translated_def)
  moreover have "first_pass api depth func ctx = Some (function_context bbs res ps (func_parameters f) c)"
    using r by (simp add: first_pass_def)
  ultimately show ?thesis by blast
qed

section \<open>Names that are mentioned and defined\<close>

definition result_names :: "BasicBlock \<Rightarrow> Name list" where
  "result_names b =
     List.map_filter try_get_result (instrs b) @
     (case terminator_try_get_result (bb_term b) of None \<Rightarrow> [] | Some nm \<Rightarrow> [nm])"

definition value_names_of :: "Function \<Rightarrow> Name list" where
  "value_names_of f = map param_name (func_parameters f) @ concat (map result_names (basic_blocks f))"

definition block_operands :: "BasicBlock \<Rightarrow> Operand list" where
  "block_operands b = concat (map inst_operands (instrs b)) @ term_operands (bb_term b)"

definition block_labels :: "BasicBlock \<Rightarrow> Name list" where
  "block_labels b = concat (map inst_labels (instrs b)) @ term_labels (bb_term b)"

lemma result_pairs_names: "length vs = length is \<Longrightarrow> map snd (result_pairs vs is) = List.map_filter try_get_result is"
  by (induction vs "is" rule: list_induct2) (auto simp: List.map_filter_simps split: option.split)

lemma block_results_names:
  "length (butlast (the (get_instructions api bb))) = length (instrs b) \<Longrightarrow>
     map snd (block_results api bb b) = result_names b"
  by (auto simp: block_results_def result_names_def result_pairs_names split: option.split)

lemma ran_collect_map: "ran (collect_map ps) \<subseteq> snd ` set ps"
  by (force simp: collect_map_def ran_def dest!: map_of_SomeD)

lemma blocks_results_names:
  assumes "list_all2 (\<lambda>bb b. list_all2 P (butlast (the (get_instructions api bb))) (instrs b)) bbs bs"
  shows "map snd (concat (map2 (block_results api) bbs bs)) = concat (map result_names bs)"
  using assms by (induction rule: list_all2_induct) (auto dest: list_all2_lengthD simp: block_results_names)

lemma snd_zip: "length xs = length ys \<Longrightarrow> snd ` set (zip xs ys) = set ys"
  by (metis list.set_map map_snd_zip)

lemma named_blocks_results: "map snd (named_blocks api bbs f) = map2 (block_results api) bbs (basic_blocks f)"
  by (simp add: named_blocks_def case_prod_unfold)

lemma named_blocks_names:
  assumes "length bbs = length (basic_blocks f)"
  shows "map fst (named_blocks api bbs f) = map bb_name (basic_blocks f)"
proof -
  have "map fst (map2 (\<lambda>bb b. (bb_name b, block_results api bb b)) bbs bs) = map bb_name bs"
    if "length bbs = length bs" for bs
    using that by (induction bbs bs rule: list_induct2) simp_all
  then show ?thesis using assms by (simp only: named_blocks_def)
qed

lemma references_defined:
  assumes "Function_from_llvm_ref api depth func ctx = Some (f, ctx')"
    "\<forall>bb \<in> set (the (get_basic_blocks api func)). void_unnamed api bb" "b \<in> set (basic_blocks f)"
  shows "(\<forall>op \<in> set (block_operands b). \<forall>nm. local_name op = Some nm \<longrightarrow> nm \<in> set (value_names_of f)) \<and>
     set (block_labels b) \<subseteq> bb_name ` set (basic_blocks f)"
proof -
  obtain bbs ps c fc where tr: "translated api func f bbs ps c fc"
    using Function_reads [OF assms(1,2)] by blast
  then have r: "length (func_parameters f) = length ps"
      "fc = function_context bbs (named_blocks api bbs f) ps (func_parameters f) c"
      "\<forall>b \<in> set (basic_blocks f). list_all (inst_names_ok fc) (instrs b) \<and> term_names_ok fc (bb_term b)"
    and l2: "list_all2 (\<lambda>bb b. list_all2 (\<lambda>v i. try_get_result i = None \<longleftrightarrow> \<not> has_result api v)
         (butlast (the (get_instructions api bb))) (instrs b)) bbs (basic_blocks f)"
    unfolding translated_def by blast+
  have len: "length bbs = length (basic_blocks f)" using l2 by (rule list_all2_lengthD)
  have "ran (bb_names fc) \<subseteq> bb_name ` set (basic_blocks f)"
  proof -
    have "bb_names fc = collect_map (zip bbs (map bb_name (basic_blocks f)))"
      by (simp only: r(2) function_context_def named_blocks_names [OF len] FunctionContext.simps)
    moreover have "snd ` set (zip bbs (map bb_name (basic_blocks f))) = bb_name ` set (basic_blocks f)"
      using snd_zip [of bbs "map bb_name (basic_blocks f)"] len by simp
    ultimately show ?thesis using ran_collect_map by metis
  qed
  moreover have "ran (val_names fc) \<subseteq> set (value_names_of f)"
  proof -
    have "map snd (concat (map2 (block_results api) bbs (basic_blocks f)) @
        zip ps (map param_name (func_parameters f))) =
      concat (map result_names (basic_blocks f)) @ map param_name (func_parameters f)" (is "map snd ?L = _")
      using r(1) by (simp only: map_append blocks_results_names [OF l2] map_snd_zip length_map)
    then have "snd ` set ?L = set (value_names_of f)"
      unfolding value_names_of_def by (metis list.set_map set_append Un_commute)
    then show ?thesis
      using ran_collect_map unfolding r(2) function_context_def FunctionContext.simps named_blocks_results by metis
  qed
  ultimately show ?thesis
    using r(3) assms(3)
    by (fastforce simp: block_operands_def block_labels_def list_all_iff inst_names_ok_def term_names_ok_def
        resolved_def)
qed

end
