(* ===== verification/Reader_Numbering.thy ===== *)
theory Reader_Numbering
  imports Reader_Functions
begin

text \<open>
  The numbers that the readers give to unnamed values: within a function the names of both passes are
  those of one numbering of all its parameters, blocks and results in order; within a module the
  second pass over the global objects starts counting behind the functions.
\<close>

section \<open>Numbering in parts\<close>

text \<open>The counter after a list of names.\<close>

definition num_after :: "string list \<Rightarrow> usize \<Rightarrow> usize" where
  "num_after ss c = c + of_nat (length (filter (\<lambda>s. s = []) ss))"

lemma num_after_simps [simp]:
  "num_after [] c = c" "num_after (s # ss) c = num_after ss (snd (name_or_num s c))"
  "num_after (ss @ ss') c = num_after ss' (num_after ss c)"
  by (simp_all add: num_after_def)

lemma name_all_append: "name_all (ss @ ss') c = name_all ss c @ name_all ss' (num_after ss c)"
  by (induction ss arbitrary: c) (simp_all add: Let_def)

lemma name_values_all:
  "name_values api vs c =
     (zip vs (name_all (map (get_value_name api) vs) c), num_after (map (get_value_name api) vs) c)"
  by (induction vs arbitrary: c) (simp_all add: Let_def)

lemma name_all_length [simp]: "length (name_all ss c) = length ss"
  by (induction ss arbitrary: c) (simp_all add: Let_def)

section \<open>The names of a function\<close>

text \<open>What LLVM calls the block and its values with a result, in order; empty for an unnamed one.\<close>

definition block_texts :: "'a function_api_scheme \<Rightarrow> LLVMBasicBlockRef \<Rightarrow> string list" where
  "block_texts api bb =
     get_bb_name api bb #
     map (get_value_name api)
       (filter (needs_name api) (butlast (the (get_instructions api bb))) @
        filter (term_needs_name api) [LLVMGetBasicBlockTerminator api bb])"

definition function_texts :: "'a function_api_scheme \<Rightarrow> LLVMValueRef \<Rightarrow> string list" where
  "function_texts api func =
     map (get_value_name api) (the (get_parameters api func)) @
     concat (map (block_texts api) (the (get_basic_blocks api func)))"

definition function_names :: "Function \<Rightarrow> Name list" where
  "function_names f =
     map param_name (func_parameters f) @ concat (map (\<lambda>b. bb_name b # result_names b) (basic_blocks f))"

lemma blocks_found_by_name:
  assumes "distinct (function_names f)" "b \<in> set (basic_blocks f)"
  shows "get_bb_by_name f (bb_name b) = Some b"
proof -
  have "distinct (map bb_name bs)" if "distinct (concat (map (\<lambda>b. bb_name b # result_names b) bs))" for bs
    using that by (induction bs) auto
  then have "distinct (map bb_name (basic_blocks f))"
    using assms(1) by (simp add: function_names_def)
  then show ?thesis using assms(2) by (rule bb_lookup.lookup_distinct)
qed

lemma first_pass_texts:
  assumes "first_pass_names api bb c = Some ((nm, prs), c')"
  shows "nm # map snd prs = name_all (block_texts api bb) c \<and> c' = num_after (block_texts api bb) c"
  using assms
  by (auto simp: first_pass_names_def bind_eq_Some_conv block_texts_def name_values_all name_all_append
      Let_def split: if_splits)

lemma first_passes_texts:
  assumes "traverse (first_pass_names api) bbs c = Some (res, c')"
  shows "concat (map (\<lambda>(nm, prs). nm # map snd prs) res) = name_all (concat (map (block_texts api) bbs)) c"
  using assms
proof (induction bbs arbitrary: c res)
  case (Cons bb bbs)
  then obtain nm prs c1 rest where r: "first_pass_names api bb c = Some ((nm, prs), c1)"
      "traverse (first_pass_names api) bbs c1 = Some (rest, c')" "res = (nm, prs) # rest"
    by (auto simp: bind_eq_Some_conv)
  note t = first_pass_texts [OF r(1)]
  have "concat (map (\<lambda>(nm, prs). nm # map snd prs) res) =
      name_all (block_texts api bb) c @ name_all (concat (map (block_texts api) bbs)) c1"
    using Cons.IH [OF r(2)] r(3) conjunct1 [OF t, symmetric] by simp
  then show ?case using t by (simp add: name_all_append)
qed simp

lemma named_blocks_all:
  assumes "list_all2 (\<lambda>bb b. list_all2 P (butlast (the (get_instructions api bb))) (instrs b)) bbs (basic_blocks f)"
  shows "concat (map (\<lambda>(nm, prs). nm # map snd prs) (named_blocks api bbs f)) =
     concat (map (\<lambda>b. bb_name b # result_names b) (basic_blocks f))"
proof -
  have "concat (map (\<lambda>(nm, prs). nm # map snd prs) (map2 (\<lambda>bb b. (bb_name b, block_results api bb b)) bbs bs)) =
      concat (map (\<lambda>b. bb_name b # result_names b) bs)"
    if "list_all2 (\<lambda>bb b. list_all2 P (butlast (the (get_instructions api bb))) (instrs b)) bbs bs" for bs
    using that by (induction rule: list_all2_induct) (auto dest: list_all2_lengthD simp: block_results_names)
  then show ?thesis using assms by (simp only: named_blocks_def)
qed

lemma function_names_numbered:
  assumes "translated api func f bbs ps c fc"
  shows "function_names f = name_all (function_texts api func) 0"
proof -
  have r: "get_basic_blocks api func = Some bbs" "get_parameters api func = Some ps"
      "name_values api ps 0 = (zip ps (map param_name (func_parameters f)), c)"
      "length (func_parameters f) = length ps"
    using assms unfolding translated_def by blast+
  obtain c' where t: "traverse (first_pass_names api) bbs c = Some (named_blocks api bbs f, c')"
    using assms unfolding translated_def by blast
  have l2: "list_all2 (\<lambda>bb b. list_all2 (\<lambda>v i. try_get_result i = None \<longleftrightarrow> \<not> has_result api v)
         (butlast (the (get_instructions api bb))) (instrs b)) bbs (basic_blocks f)"
    using assms unfolding translated_def by blast
  have z: "zip ps (name_all (map (get_value_name api) ps) 0) = zip ps (map param_name (func_parameters f))"
    and c: "c = num_after (map (get_value_name api) ps) 0"
    using r(3) by (simp_all add: name_values_all)
  have "map param_name (func_parameters f) = name_all (map (get_value_name api) ps) 0"
    using arg_cong [OF z, of "map snd"] r(4) by simp
  then show ?thesis
    using first_passes_texts [OF t] named_blocks_all [OF l2] r(1,2) c
    by (simp add: function_names_def function_texts_def name_all_append)
qed

section \<open>Both passes name the same\<close>

text \<open>Handles with the result they have or have not, and the pairs that are collected for them.\<close>

definition result_assoc :: "('v \<times> Name option) list \<Rightarrow> ('v \<times> Name) list" where
  "result_assoc = List.map_filter (\<lambda>(v, r). map_option (Pair v) r)"

lemma result_assoc_simps [simp]:
  "result_assoc [] = []"
  "result_assoc ((v, r) # F) = (case r of None \<Rightarrow> [] | Some nm \<Rightarrow> [(v, nm)]) @ result_assoc F"
  "result_assoc (F @ G) = result_assoc F @ result_assoc G"
  by (induction F) (auto simp: result_assoc_def List.map_filter_simps split: option.splits)

lemma result_assoc_keys: "fst ` set (result_assoc F) \<subseteq> fst ` set F"
  by (induction F) (fastforce split: option.splits)+

lemma distinct_result_assoc: "distinct (map fst F) \<Longrightarrow> distinct (map fst (result_assoc F))"
proof (induction F)
  case (Cons p F)
  then show ?case using result_assoc_keys [of F] by (cases p) (force split: option.splits)
qed simp

lemma map_of_result_assoc: "distinct (map fst F) \<Longrightarrow> (v, r) \<in> set F \<Longrightarrow> map_of (result_assoc F) v = r"
proof (induction F)
  case (Cons p F)
  obtain w q where p: "p = (w, q)" by (cases p)
  have "map_of (result_assoc F) w = None"
    using Cons.prems(1) p result_assoc_keys [of F] by (auto simp: map_of_eq_None_iff)
  then show ?case using Cons p by (auto split: option.splits dest: image_eqI [of _ fst, OF fst_conv [symmetric]])
qed simp

lemma collect_map_distinct: "distinct (map fst ps) \<Longrightarrow> collect_map ps = map_of ps"
  unfolding collect_map_def by (subst map_of_inject_set) (simp_all flip: rev_map)

definition block_pairs :: "'a function_api_scheme \<Rightarrow> LLVMBasicBlockRef \<Rightarrow> BasicBlock \<Rightarrow> (LLVMValueRef \<times> Name option) list" where
  "block_pairs api bb b =
     zip (butlast (the (get_instructions api bb))) (map try_get_result (instrs b)) @
     [(LLVMGetBasicBlockTerminator api bb, terminator_try_get_result (bb_term b))]"

lemma result_pairs_assoc: "result_pairs vs is = result_assoc (zip vs (map try_get_result is))"
  by (induction vs "is" rule: result_pairs.induct) simp_all

lemma block_results_assoc: "block_results api bb b = result_assoc (block_pairs api bb b)"
  by (simp add: block_results_def block_pairs_def result_pairs_assoc)

lemma result_assoc_zip: "result_assoc (zip vs (map Some nms)) = zip vs nms"
  by (induction vs nms rule: list_induct2') simp_all

lemma result_assoc_concat: "result_assoc (concat Fs) = concat (map result_assoc Fs)"
  by (induction Fs) simp_all

text \<open>The handles that a function gives names to.\<close>

definition block_values :: "'a function_api_scheme \<Rightarrow> LLVMBasicBlockRef \<Rightarrow> LLVMValueRef list" where
  "block_values api bb = butlast (the (get_instructions api bb)) @ [LLVMGetBasicBlockTerminator api bb]"

definition distinct_handles :: "'a function_api_scheme \<Rightarrow> LLVMValueRef \<Rightarrow> bool" where
  "distinct_handles api func \<longleftrightarrow>
     distinct (the (get_basic_blocks api func)) \<and>
     distinct (concat (map (block_values api) (the (get_basic_blocks api func))) @ the (get_parameters api func))"

definition block_agrees :: "'a function_api_scheme \<Rightarrow> FunctionContext \<Rightarrow> LLVMBasicBlockRef \<Rightarrow> BasicBlock \<Rightarrow> bool" where
  "block_agrees api fc bb b \<longleftrightarrow>
     bb_names fc bb = Some (bb_name b) \<and>
     map (val_names fc) (butlast (the (get_instructions api bb))) = map try_get_result (instrs b) \<and>
     val_names fc (LLVMGetBasicBlockTerminator api bb) = terminator_try_get_result (bb_term b)"

lemma map_zip_values:
  assumes "length vs = length rs" "\<forall>(v, r) \<in> set (zip vs rs). m v = r"
  shows "map m vs = rs"
  using assms by (induction vs rs rule: list_induct2) simp_all

lemma passes_agree:
  assumes tr: "translated api func f bbs ps c fc" and dh: "distinct_handles api func"
  shows "map (val_names fc) ps = map (Some \<circ> param_name) (func_parameters f) \<and>
     list_all2 (block_agrees api fc) bbs (basic_blocks f)"
proof -
  have r: "get_basic_blocks api func = Some bbs" "get_parameters api func = Some ps"
      "length (func_parameters f) = length ps"
      "fc = function_context bbs (named_blocks api bbs f) ps (func_parameters f) c"
    and l2: "list_all2 (\<lambda>bb b. list_all2 (\<lambda>v i. try_get_result i = None \<longleftrightarrow> \<not> has_result api v)
         (butlast (the (get_instructions api bb))) (instrs b)) bbs (basic_blocks f)"
    using tr unfolding translated_def by blast+
  have len: "length bbs = length (basic_blocks f)" using l2 by (rule list_all2_lengthD)
  let ?B = "concat (map2 (block_pairs api) bbs (basic_blocks f))"
  let ?F = "?B @ zip ps (map Some (map param_name (func_parameters f)))"
  have "map fst ?B = concat (map (block_values api) bbs)"
    using l2 by (induction rule: list_all2_induct)
      (auto dest: list_all2_lengthD simp: block_pairs_def block_values_def)
  then have dist: "distinct (map fst ?F)"
    using dh r(1-3) by (simp add: distinct_handles_def)
  have "concat (map snd (named_blocks api bbs f)) @ zip ps (map param_name (func_parameters f)) = result_assoc ?F"
    using result_assoc_zip [of ps "map param_name (func_parameters f)"]
    by (simp add: named_blocks_results result_assoc_concat block_results_assoc case_prod_unfold comp_def)
  then have "val_names fc = map_of (result_assoc ?F)"
    using collect_map_distinct [OF distinct_result_assoc [OF dist]] by (simp add: r(4) function_context_def)
  then have val: "val_names fc v = x" if "(v, x) \<in> set ?F" for v x
    using map_of_result_assoc [OF dist that] by simp
  have bbn: "bb_names fc = map_of (zip bbs (map bb_name (basic_blocks f)))"
    using dh r(1) len named_blocks_names [OF len, of api]
      collect_map_distinct [of "zip bbs (map bb_name (basic_blocks f))"]
    by (simp add: r(4) function_context_def distinct_handles_def)
  have "block_agrees api fc bb b" if "(bb, b) \<in> set (zip bbs (basic_blocks f))" for bb b
  proof -
    have "set (block_pairs api bb b) \<subseteq> set ?F" using that by auto
    then have vp: "\<forall>(v, x) \<in> set (block_pairs api bb b). val_names fc v = x" using val by blast
    have "length (butlast (the (get_instructions api bb))) = length (instrs b)"
      using l2 that by (auto simp: list_all2_iff)
    moreover have "bb_names fc bb = Some (bb_name b)"
      using that dh r(1) len unfolding bbn
      by (intro map_of_is_SomeI) (auto simp: distinct_handles_def in_set_zip)
    ultimately show ?thesis
      using vp map_zip_values [of "butlast (the (get_instructions api bb))" "map try_get_result (instrs b)" "val_names fc"]
      by (simp add: block_agrees_def block_pairs_def)
  qed
  moreover have "map (val_names fc) ps = map Some (map param_name (func_parameters f))"
    using val r(3) by (intro map_zip_values) auto
  ultimately show ?thesis using len by (auto simp: list_all2_iff)
qed

section \<open>The names of a module\<close>

definition object_names :: "Module \<Rightarrow> Name list" where
  "object_names m = map gv_name (global_vars m) @ map ga_name (global_aliases m) @ map gi_name (global_ifuncs m)"

primrec shift_name :: "usize \<Rightarrow> Name \<Rightarrow> Name" where
  "shift_name k (Name s) = Name s"
| "shift_name k (Number n) = Number (n + k)"

lemma name_all_shift: "name_all ss (c + k) = map (shift_name k) (name_all ss c)"
proof (induction ss arbitrary: c)
  case (Cons s ss)
  show ?case using Cons [of "c + 1"] Cons [of c] by (simp add: ac_simps)
qed simp

lemma shift_name_same: "map (shift_name k) (name_all ss c) = name_all ss c \<longleftrightarrow> k = 0 \<or> [] \<notin> set ss"
proof -
  have "map (shift_name k) (name_all ss c) = name_all ss c" if "[] \<notin> set ss" for c
    using that by (induction ss arbitrary: c) auto
  moreover have "map (shift_name k) (name_all ss c) \<noteq> name_all ss c" if "[] \<in> set ss" "k \<noteq> 0" for c
    using that by (induction ss arbitrary: c) auto
  moreover have "shift_name 0 nm = nm" for nm by (cases nm) simp_all
  ultimately show ?thesis by (auto simp: map_idI)
qed

lemma unnamed_count:
  assumes "length gs < 2 ^ 64"
  shows "of_nat (length (filter (\<lambda>g. get_value_name api g = []) gs)) = (0 :: usize) \<longleftrightarrow>
     (\<forall>g \<in> set gs. get_value_name api g \<noteq> [])"
proof -
  let ?n = "length (filter (\<lambda>g. get_value_name api g = []) gs)"
  have "?n < 2 ^ 64" using assms length_filter_le [of _ gs] by (rule le_less_trans [rotated])
  then have "of_nat ?n = (0 :: usize) \<longleftrightarrow> ?n = 0"
    by (auto simp: word_of_nat_eq_0_iff dest: dvd_imp_le)
  then show ?thesis by (simp add: filter_empty_conv)
qed

lemma traverse_names:
  assumes "\<And>x s y s'. F x s = Some (y, s') \<Longrightarrow> name_or_num (get_value_name api x) (snd s) = (nm y, snd s')"
    "traverse F xs s = Some (ys, s')"
  shows "map nm ys = name_all (map (get_value_name api) xs) (snd s) \<and>
     snd s' = num_after (map (get_value_name api) xs) (snd s)"
  using assms(2)
proof (induction xs arbitrary: s ys)
  case (Cons x xs)
  then obtain y s1 zs where r: "F x s = Some (y, s1)" "traverse F xs s1 = Some (zs, s')" "ys = y # zs"
    by (auto simp: bind_eq_Some_conv)
  show ?case using Cons.IH [OF r(2)] assms(1) [OF r(1)] r(3) by (simp del: name_or_num.simps)
qed simp

lemma object_name:
  "GlobalVariable_from_llvm_ref api depth g s = Some (v, s') \<Longrightarrow> name_or_num (get_value_name api g) (snd s) = (gv_name v, snd s')"
  "GlobalAlias_from_llvm_ref api depth g s = Some (a, s') \<Longrightarrow> name_or_num (get_value_name api g) (snd s) = (ga_name a, snd s')"
  "GlobalIFunc_from_llvm_ref api depth g s = Some (i, s') \<Longrightarrow> name_or_num (get_value_name api g) (snd s) = (gi_name i, snd s')"
  by (cases s; cases "name_or_num (get_value_name api g) (snd s)";
      auto simp: GlobalVariable_from_llvm_ref_def GlobalAlias_from_llvm_ref_def GlobalIFunc_from_llvm_ref_def
        bind_eq_Some_conv simp del: name_or_num.simps)+

lemma module_object_names:
  assumes "Module_from_llvm_ref api depth = Some m" "get_globals api = Some vars"
    "get_global_aliases api = Some als" "get_global_ifuncs api = Some ifs"
  shows "object_names m = name_all (map (get_value_name api) (vars @ als @ ifs)) 0"
proof -
  obtain ctx gvs ctx1 c1 gas ctx2 c2 gis ctx3 c3 where t:
      "traverse (GlobalVariable_from_llvm_ref api depth) vars (ctx, 0) = Some (gvs, ctx1, c1)"
      "traverse (GlobalAlias_from_llvm_ref api depth) als (ctx1, c1) = Some (gas, ctx2, c2)"
      "traverse (GlobalIFunc_from_llvm_ref api depth) ifs (ctx2, c2) = Some (gis, ctx3, c3)"
      "global_vars m = gvs" "global_aliases m = gas" "global_ifuncs m = gis"
    using assms by (auto simp: Module_from_llvm_ref_def bind_eq_Some_conv)
  show ?thesis
    using traverse_names [where nm = gv_name, OF object_name(1) t(1)]
      traverse_names [where nm = ga_name, OF object_name(2) t(2)]
      traverse_names [where nm = gi_name, OF object_name(3) t(3)] t(4-)
    by (simp add: object_names_def name_all_append)
qed

lemma map_collect_zip:
  assumes "distinct xs" "length xs = length ns"
  shows "map (collect_map (zip xs ns)) xs = map Some ns"
proof -
  have "\<forall>(x, n) \<in> set (zip xs (map Some ns)). collect_map (zip xs ns) x = n"
    using assms by (fastforce simp: collect_map_distinct in_set_zip intro!: map_of_is_SomeI)
  then show ?thesis using assms(2) by (intro map_zip_values) simp_all
qed

text \<open>The names by which constants refer to the variables, aliases and ifuncs of a module.\<close>

definition reference_names ::
  "llvm_api \<Rightarrow> LLVMValueRef list \<Rightarrow> LLVMValueRef list \<Rightarrow> LLVMValueRef list \<Rightarrow> LLVMValueRef list \<Rightarrow>
   LLVMValueRef list \<Rightarrow> Name option list" where
  "reference_names api defs decls vars als ifs =
     map (module_global_names api defs decls vars als ifs) (vars @ als @ ifs)"

lemma module_first_pass:
  assumes "distinct (defs @ decls @ vars @ als @ ifs)"
  shows "reference_names api defs decls vars als ifs =
     map Some (name_all (map (get_value_name api) (vars @ als @ ifs))
       (num_after (map (get_value_name api) (defs @ decls)) 0))"
proof -
  let ?fs = "defs @ decls" and ?os = "vars @ als @ ifs" and ?n = "map (get_value_name api)"
  have "map (module_global_names api defs decls vars als ifs) (?fs @ ?os) = map Some (name_all (?n (?fs @ ?os)) 0)"
    using assms map_collect_zip [of "?fs @ ?os" "name_all (?n (?fs @ ?os)) 0"]
    by (simp add: module_global_names_def name_values_all)
  then have "map (module_global_names api defs decls vars als ifs) ?fs @
      map (module_global_names api defs decls vars als ifs) ?os =
      map Some (name_all (?n ?fs) 0) @ map Some (name_all (?n ?os) (num_after (?n ?fs) 0))"
    by (simp only: map_append name_all_append)
  then show ?thesis unfolding reference_names_def by (subst (asm) append_eq_append_conv) simp_all
qed

end
