(* ===== verification/Constant_Meaning.thy ===== *)
theory Constant_Meaning
  imports Constant_Reader
begin

text \<open>
  What a handle of a constant stands for, and that the memoising reader of \<open>Constant_Reader\<close> returns
  exactly that.

  \<open>constant_shape\<close> says for a handle from which types and which other constants its constant is made and
  how; \<open>constant_of\<close> closes this under the parts. Neither has a memo, a state or an order of reading.
  Results: in any context that the reader can have left, it returns a constant exactly when the handle
  stands for one, namely that one, and leaves such a context, when the stack is deeper than the types
  and the constant are nested.
\<close>

section \<open>The constant of a handle\<close>

fun binop_mk :: "LLVMOpcode \<Rightarrow> (Constant \<Rightarrow> Constant \<Rightarrow> Constant) option" where
  "binop_mk LLVMAdd = Some Add_c"
| "binop_mk LLVMSub = Some Sub_c"
| "binop_mk LLVMMul = Some Mul_c"
| "binop_mk LLVMXor = Some Xor_c"
| "binop_mk LLVMExtractElement = Some ExtractElement_c"
| "binop_mk _ = None"

fun cast_mk :: "LLVMOpcode \<Rightarrow> (Constant \<Rightarrow> TypeRef \<Rightarrow> Constant) option" where
  "cast_mk LLVMTrunc = Some Trunc_c"
| "cast_mk LLVMPtrToInt = Some PtrToInt_c"
| "cast_mk LLVMIntToPtr = Some IntToPtr_c"
| "cast_mk LLVMBitCast = Some BitCast_c"
| "cast_mk LLVMAddrSpaceCast = Some AddrSpaceCast_c"
| "cast_mk _ = None"

type_synonym shape =
  "LLVMTypeRef list \<times> LLVMValueRef list \<times> (Type list \<Rightarrow> Constant list \<Rightarrow> Constant option)"

definition expr_shape :: "'a constant_api_scheme \<Rightarrow> LLVMValueRef \<Rightarrow> shape option" where
  "expr_shape api c =
     (let opc = LLVMGetConstOpcode api c; n = LLVMGetNumOperands api c; ops = operand_refs api c n
      in case (binop_mk opc, cast_mk opc) of
           (Some mk, _) \<Rightarrow>
             if n = 2 then Some ([], ops, \<lambda>ts ks. case ks of [a, b] \<Rightarrow> Some (mk a b) | _ \<Rightarrow> None) else None
         | (None, Some mk) \<Rightarrow>
             if n = 1 then
               Some ([LLVMTypeOf api c], ops, \<lambda>ts ks. case (ts, ks) of ([t], [a]) \<Rightarrow> Some (mk a t) | _ \<Rightarrow> None)
             else None
         | (None, None) \<Rightarrow>
             if opc = LLVMInsertElement \<and> n = 3 then
               Some ([], ops, \<lambda>ts ks. case ks of [v, e, i] \<Rightarrow> Some (InsertElement_c v e i) | _ \<Rightarrow> None)
             else if opc = LLVMGetElementPtr then
               Some ([], operand_refs api c (Suc (num_indices n)), \<lambda>ts ks. case ks of a # is \<Rightarrow> Some (GetElementPtr_c a is (LLVMIsInBounds api c)) | [] \<Rightarrow> None)
             else None)"

definition struct_handle :: "llvm_type_api \<Rightarrow> LLVMTypeRef \<Rightarrow> bool" where
  "struct_handle api ty \<longleftrightarrow> LLVMGetTypeKind api ty = LLVMStructTypeKind \<and> \<not> LLVMIsOpaqueStruct api ty"

definition elements_of :: "(LLVMValueRef \<Rightarrow> u32 \<Rightarrow> LLVMValueRef) \<Rightarrow> LLVMValueRef \<Rightarrow> nat \<Rightarrow> LLVMValueRef list" where
  "elements_of elem c n = map (\<lambda>i. elem c (of_nat i)) [0..<n]"

definition constant_shape ::
  "'a constant_api_scheme \<Rightarrow> (LLVMValueRef \<rightharpoonup> Name) \<Rightarrow> LLVMValueRef \<Rightarrow> shape option" where
  "constant_shape api names c =
     (let ty = LLVMTypeOf api c; tapi = types_api api;
          only_type = (\<lambda>mk. Some ([ty], [], \<lambda>ts ks. case ts of [t] \<Rightarrow> mk t | _ \<Rightarrow> None));
          array_like = (\<lambda>elem. Some ([ty], elements_of elem c (unat (LLVMGetArrayLength2 tapi ty)),
             \<lambda>ts ks. case ts of [ArrayType et _] \<Rightarrow> Some (Array_c et ks) | _ \<Rightarrow> None))
      in if \<not> LLVMIsAConstant api c then None
         else case LLVMGetValueKind api c of
           LLVMConstantIntValueKind \<Rightarrow>
             only_type (\<lambda>t. case t of IntegerType b \<Rightarrow> Some (Int_c b (LLVMConstIntGetZExtValue api c)) | _ \<Rightarrow> None)
         | LLVMConstantFPValueKind \<Rightarrow>
             only_type (\<lambda>t. case t of FPType f \<Rightarrow> Some (Float_c (float_value f (LLVMConstRealGetDouble api c))) | _ \<Rightarrow> None)
         | LLVMConstantStructValueKind \<Rightarrow>
             if struct_handle tapi ty then
               Some ([ty], operand_refs api c (length (LLVMGetStructElementTypes tapi ty)),
                 \<lambda>ts ks. Some (Struct_c None ks (LLVMIsPackedStruct tapi ty)))
             else None
         | LLVMConstantArrayValueKind \<Rightarrow> array_like (LLVMGetOperand api)
         | LLVMConstantVectorValueKind \<Rightarrow>
             Some ([], operand_refs api c (LLVMGetNumOperands api c), \<lambda>ts ks. Some (Vector_c ks))
         | LLVMConstantDataArrayValueKind \<Rightarrow> array_like (LLVMGetAggregateElement api)
         | LLVMConstantDataVectorValueKind \<Rightarrow>
             Some ([ty], elements_of (LLVMGetAggregateElement api) c (unat (LLVMGetVectorSize tapi ty)),
               \<lambda>ts ks. case ts of [VectorType _ _ _] \<Rightarrow> Some (Vector_c ks) | _ \<Rightarrow> None)
         | LLVMConstantPointerNullValueKind \<Rightarrow> only_type (\<lambda>t. Some (Null_c t))
         | LLVMConstantAggregateZeroValueKind \<Rightarrow> only_type (\<lambda>t. Some (AggregateZero_c t))
         | LLVMUndefValueValueKind \<Rightarrow> only_type (\<lambda>t. Some (Undef_c t))
         | LLVMPoisonValueKind \<Rightarrow> only_type (\<lambda>t. Some (Poison_c t))
         | LLVMConstantTokenNoneValueKind \<Rightarrow> Some ([], [], \<lambda>ts ks. Some TokenNone_c)
         | LLVMBlockAddressValueKind \<Rightarrow> Some ([], [], \<lambda>ts ks. Some BlockAddress_c)
         | LLVMConstantExprValueKind \<Rightarrow> expr_shape api c
         | LLVMConstantPtrAuthValueKind \<Rightarrow>
             Some ([], [LLVMGetConstantPtrAuthPointer api c, LLVMGetConstantPtrAuthKey api c,
                 LLVMGetConstantPtrAuthDiscriminator api c, LLVMGetConstantPtrAuthAddrDiscriminator api c],
               \<lambda>ts ks. case ks of [p, k, d, a] \<Rightarrow> Some (PtrAuth_c p k d a) | _ \<Rightarrow> None)
         | _ \<Rightarrow>
             (case names c of
                Some nm \<Rightarrow>
                  if LLVMIsAGlobalValue api c then
                    Some ([LLVMGlobalGetValueType api c], [],
                      \<lambda>ts ks. case ts of [t] \<Rightarrow> Some (GlobalReference_c nm t) | _ \<Rightarrow> None)
                  else None
              | None \<Rightarrow> None))"

inductive constant_of ::
  "'a constant_api_scheme \<Rightarrow> (LLVMValueRef \<rightharpoonup> Name) \<Rightarrow> LLVMValueRef \<Rightarrow> Constant \<Rightarrow> bool" for api names where
  shape: "constant_shape api names c = Some (tys, parts, mk) \<Longrightarrow>
    list_all2 (denotes (types_api api)) tys ts \<Longrightarrow> list_all2 (constant_of api names) parts ks \<Longrightarrow>
    mk ts ks = Some k \<Longrightarrow> constant_of api names c k"
monos list_all2_mono

inductive_cases constant_of_elim: "constant_of api names c k"

section \<open>Contexts that the reader leaves\<close>

text \<open>LLVM keeps the names of structs unique within a context.\<close>

definition unique_structs :: "llvm_type_api \<Rightarrow> bool" where
  "unique_structs api \<longleftrightarrow>
     (\<forall>ty ty' s. LLVMGetTypeKind api ty = LLVMStructTypeKind \<longrightarrow> LLVMGetTypeKind api ty' = LLVMStructTypeKind \<longrightarrow>
        struct_name api ty = Some s \<longrightarrow> struct_name api ty' = Some s \<longrightarrow> ty = ty')"

definition ctx_ok :: "'a constant_api_scheme \<Rightarrow> (LLVMValueRef \<rightharpoonup> Name) \<Rightarrow> ModuleContext \<Rightarrow> bool" where
  "ctx_ok api names ctx \<longleftrightarrow>
     reader_ok (types_api api) (ctx_types ctx) \<and>
     dom (named_struct_types (ctx_types ctx)) \<subseteq> dom (named_struct_defs (ctx_types ctx)) \<and>
     global_names ctx = names \<and> (\<forall>c k. constants ctx c = Some k \<longrightarrow> constant_of api names c k)"

lemma ctx_ok_new: "ctx_ok api names (ModuleContext_new api names)"
proof -
  have "named_struct_types TypesBuilder_new = Map.empty" by (simp add: TypesBuilder_new_def TypeCache_new_def)
  then show ?thesis using reader_ok_new by (simp add: ctx_ok_def ModuleContext_new_def)
qed

text \<open>One step of the reader: new memos only for handles of a set.\<close>

definition leads ::
  "'a constant_api_scheme \<Rightarrow> (LLVMValueRef \<rightharpoonup> Name) \<Rightarrow> LLVMValueRef set \<Rightarrow> ModuleContext \<Rightarrow> ModuleContext \<Rightarrow> bool" where
  "leads api names S ctx ctx' \<longleftrightarrow> ctx_ok api names ctx' \<and> dom (constants ctx') \<subseteq> dom (constants ctx) \<union> S"

lemma leads_trans: "leads api names S a b \<Longrightarrow> leads api names S b c \<Longrightarrow> leads api names S a c"
  unfolding leads_def by blast

lemma leads_ok: "leads api names S a b \<Longrightarrow> ctx_ok api names b"
  by (simp add: leads_def)

lemma leads_refl: "ctx_ok api names a \<Longrightarrow> leads api names S a a"
  by (simp add: leads_def)

lemma complete_extends:
  assumes "extends b b'" "dom (named_struct_types b) \<subseteq> dom (named_struct_defs b)"
  shows "dom (named_struct_types b') \<subseteq> dom (named_struct_defs b')"
proof
  fix s assume "s \<in> dom (named_struct_types b')"
  then show "s \<in> dom (named_struct_defs b')"
    using assms extends_defs [OF assms(1), of s] unfolding extends_def by (cases "s \<in> dom (named_struct_types b)") (auto simp: domIff)
qed

lemma read_type_sound:
  assumes "ctx_ok api names ctx" "read_type api depth ty ctx = Some (t, ctx')"
  shows "denotes (types_api api) ty t \<and> met (types_api api) ty (ctx_types ctx') \<and> leads api names S ctx ctx'"
proof -
  obtain b where b: "type_from_llvm_ref (types_api api) depth ty (ctx_types ctx) = Some (t, b)"
      "ctx' = ctx\<lparr>ctx_types := b\<rparr>"
    using assms(2) by (auto simp: read_type_def bind_eq_Some_conv)
  have "denotes (types_api api) ty t" "met (types_api api) ty b" "reader_ok (types_api api) b" and ex: "extends (ctx_types ctx) b"
    using type_from_llvm_ref_faithful b(1) assms(1) by (auto simp: faithful_def reads_def ctx_ok_def)
  moreover have "dom (named_struct_types b) \<subseteq> dom (named_struct_defs b)"
    using ex assms(1) complete_extends by (auto simp: ctx_ok_def)
  ultimately show ?thesis using assms(1) b(2) by (auto simp: ctx_ok_def leads_def)
qed

text \<open>The definition of a struct in the tables is that of its handle.\<close>

lemma struct_shape_iff:
  assumes "ctx_ok api names ctx" "unique_structs (types_api api)" "denotes (types_api api) ty t"
    "met (types_api api) ty (ctx_types ctx)"
  shows "struct_shape (ctx_types ctx) t =
     (if struct_handle (types_api api) ty
      then Some (length (LLVMGetStructElementTypes (types_api api) ty), LLVMIsPackedStruct (types_api api) ty)
      else None)"
  using assms(3)
proof cases
  case (named s)
  let ?b = "ctx_types ctx"
  obtain d where d: "named_struct_defs ?b s = Some d"
    using assms(1,4) named by (auto simp: ctx_ok_def met_def)
  then have "struct_def_ok (types_api api) s d" using assms(1) by (auto simp: ctx_ok_def reader_ok_def)
  then have "case d of Opaque \<Rightarrow> LLVMIsOpaqueStruct (types_api api) ty
      | Defined u \<Rightarrow> \<not> LLVMIsOpaqueStruct (types_api api) ty \<and>
         (\<exists>us. length us = length (LLVMGetStructElementTypes (types_api api) ty) \<and>
            u = StructType us (LLVMIsPackedStruct (types_api api) ty))"
    using assms(2) named
    by (fastforce simp: struct_def_ok_def unique_structs_def split: NamedStructDef.splits dest: list_all2_lengthD)
  then show ?thesis
    using d named by (auto simp: struct_shape_def struct_handle_def tb_named_struct_def_def split: NamedStructDef.splits)
next
  case (plain)
  then show ?thesis
    by (cases "LLVMGetTypeKind (types_api api) ty") (auto simp: struct_shape_def struct_handle_def)
next
  case (fp f)
  then show ?thesis by (auto simp: struct_shape_def struct_handle_def)
qed (auto simp: struct_shape_def struct_handle_def dest: list_all2_lengthD)

section \<open>The reader is sound\<close>

definition rd_sound ::
  "'a constant_api_scheme \<Rightarrow> (LLVMValueRef \<rightharpoonup> Name) \<Rightarrow> (LLVMValueRef \<Rightarrow> nat) \<Rightarrow> constant_reader \<Rightarrow> bool" where
  "rd_sound api names rank rd \<longleftrightarrow>
     (\<forall>c ctx k ctx'. ctx_ok api names ctx \<longrightarrow> rd c ctx = Some (k, ctx') \<longrightarrow>
        constant_of api names c k \<and> leads api names {v. rank v \<le> rank c} ctx ctx')"

lemma leads_mono: "leads api names S a b \<Longrightarrow> S \<subseteq> T \<Longrightarrow> leads api names T a b"
  unfolding leads_def by blast

lemma rd_soundD:
  assumes "rd_sound api names rank rd" "ctx_ok api names ctx" "rd c ctx = Some (k, ctx')" "rank c < n"
  shows "constant_of api names c k" "leads api names {v. rank v < n} ctx ctx'"
proof -
  have r: "constant_of api names c k" "leads api names {v. rank v \<le> rank c} ctx ctx'"
    using assms(1-3) by (auto simp: rd_sound_def)
  have "{v. rank v \<le> rank c} \<subseteq> {v. rank v < n}" using assms(4) by auto
  then show "constant_of api names c k" "leads api names {v. rank v < n} ctx ctx'"
    using r leads_mono by blast+
qed

lemma traverse_sound:
  assumes "rd_sound api names rank rd" "\<forall>p \<in> set cs. rank p < n" "ctx_ok api names ctx"
    "traverse rd cs ctx = Some (ks, ctx')"
  shows "list_all2 (constant_of api names) cs ks \<and> leads api names {v. rank v < n} ctx ctx'"
  using assms(2-)
proof (induction cs arbitrary: ctx ks)
  case (Cons c cs)
  then obtain k ctx1 ks' where r: "rd c ctx = Some (k, ctx1)" "traverse rd cs ctx1 = Some (ks', ctx')" "ks = k # ks'"
    by (auto simp: bind_eq_Some_conv)
  note s = rd_soundD [OF assms(1) Cons.prems(2) r(1), of n]
  then show ?case using Cons.IH [OF _ _ r(2)] Cons.prems(1) r(3) leads_ok leads_trans by fastforce
qed (simp add: leads_refl)

definition parts_of :: "'a constant_api_scheme \<Rightarrow> (LLVMValueRef \<rightharpoonup> Name) \<Rightarrow> LLVMValueRef \<Rightarrow> LLVMValueRef list" where
  "parts_of api names c = (case constant_shape api names c of Some (_, parts, _) \<Rightarrow> parts | None \<Rightarrow> [])"

section \<open>Reading a shape\<close>

text \<open>The parse of a handle reads the types and the parts of its shape in order: the types first, except
  for casts.\<close>

definition types_first :: "'a constant_api_scheme \<Rightarrow> nat \<Rightarrow> constant_reader \<Rightarrow> shape \<Rightarrow> ModuleContext \<Rightarrow>
   (Constant \<times> ModuleContext) option" where
  "types_first api depth rd = (\<lambda>(tys, parts, mk) ctx.
     do { (ts, ctx) \<leftarrow> traverse (read_type api depth) tys ctx;
          (ks, ctx) \<leftarrow> traverse rd parts ctx;
          k \<leftarrow> mk ts ks;
          Some (k, ctx) })"

definition parts_first :: "'a constant_api_scheme \<Rightarrow> nat \<Rightarrow> constant_reader \<Rightarrow> shape \<Rightarrow> ModuleContext \<Rightarrow>
   (Constant \<times> ModuleContext) option" where
  "parts_first api depth rd = (\<lambda>(tys, parts, mk) ctx.
     do { (ks, ctx) \<leftarrow> traverse rd parts ctx;
          (ts, ctx) \<leftarrow> traverse (read_type api depth) tys ctx;
          k \<leftarrow> mk ts ks;
          Some (k, ctx) })"

definition is_cast :: "'a constant_api_scheme \<Rightarrow> LLVMValueRef \<Rightarrow> bool" where
  "is_cast api c \<longleftrightarrow>
     LLVMGetValueKind api c = LLVMConstantExprValueKind \<and> cast_mk (LLVMGetConstOpcode api c) \<noteq> None"

definition read_shape :: "'a constant_api_scheme \<Rightarrow> nat \<Rightarrow> constant_reader \<Rightarrow> LLVMValueRef \<Rightarrow> shape \<Rightarrow> ModuleContext \<Rightarrow>
   (Constant \<times> ModuleContext) option" where
  "read_shape api depth rd c = (if is_cast api c then parts_first else types_first) api depth rd"

lemma traverse_length_Some: "traverse f xs s = Some (ys, s') \<Longrightarrow> length ys = length xs"
  by (induction xs arbitrary: s ys) (auto simp: bind_eq_Some_conv)

lemma operand_refs_simps:
  "operand_refs api c 1 = [LLVMGetOperand api c 0]" "operand_refs api c (Suc 0) = [LLVMGetOperand api c 0]"
  "operand_refs api c 2 = [LLVMGetOperand api c 0, LLVMGetOperand api c 1]"
  "operand_refs api c 3 = [LLVMGetOperand api c 0, LLVMGetOperand api c 1, LLVMGetOperand api c 2]"
  by (simp_all add: operand_refs_def upt_rec)

lemma operand_refs_Cons:
  "n \<noteq> 0 \<Longrightarrow> operand_refs api c n =
     LLVMGetOperand api c 0 # map (\<lambda>i. LLVMGetOperand api c (of_nat i)) [1..<n]"
  by (simp add: operand_refs_def upt_conv_Cons)

lemma binop_read:
  "binop_constant mk api rd c ctx =
     (if LLVMGetNumOperands api c = 2
      then types_first api depth rd ([], operand_refs api c 2, \<lambda>ts ks. case ks of [a, b] \<Rightarrow> Some (mk a b) | _ \<Rightarrow> None) ctx
      else None)"
  by (auto simp: binop_constant_def types_first_def operand_refs_simps assert_def Option.bind_assoc case_prod_unfold
      intro!: bind_option_cong)

lemma insert_read:
  "insert_element_constant api rd c ctx =
     (if LLVMGetNumOperands api c = 3
      then types_first api depth rd ([], operand_refs api c 3,
        \<lambda>ts ks. case ks of [v, e, i] \<Rightarrow> Some (InsertElement_c v e i) | _ \<Rightarrow> None) ctx
      else None)"
  by (auto simp: insert_element_constant_def types_first_def operand_refs_simps assert_def Option.bind_assoc
      case_prod_unfold intro!: bind_option_cong)

lemma gep_read:
  "gep_constant api rd c ctx =
     types_first api depth rd ([], operand_refs api c (Suc (num_indices (LLVMGetNumOperands api c))),
       \<lambda>ts ks. case ks of a # is \<Rightarrow> Some (GetElementPtr_c a is (LLVMIsInBounds api c)) | [] \<Rightarrow> None) ctx"
  by (auto simp: gep_constant_def types_first_def operand_refs_Cons Option.bind_assoc case_prod_unfold
      intro!: bind_option_cong split: bind_splits)

lemma cast_read:
  "cast_constant mk api depth rd c ctx =
     (if LLVMGetNumOperands api c = 1
      then parts_first api depth rd ([LLVMTypeOf api c], operand_refs api c 1,
        \<lambda>ts ks. case (ts, ks) of ([t], [a]) \<Rightarrow> Some (mk a t) | _ \<Rightarrow> None) ctx
      else None)"
  by (auto simp: cast_constant_def parts_first_def operand_refs_simps assert_def Option.bind_assoc case_prod_unfold
      intro!: bind_option_cong)

lemma expr_read:
  assumes "LLVMGetValueKind api c = LLVMConstantExprValueKind"
  shows "constant_expr api depth rd c ctx =
     (case expr_shape api c of None \<Rightarrow> None | Some sh \<Rightarrow> read_shape api depth rd c sh ctx)"
  using assms binop_read [of _ api rd c ctx depth] insert_read [of api rd c ctx depth] gep_read [of api rd c ctx depth]
    cast_read [of _ api depth rd c ctx]
  by (cases "LLVMGetConstOpcode api c")
     (auto simp: constant_expr_def expr_shape_def read_shape_def is_cast_def Let_def)

lemma only_type_read:
  assumes "\<And>t ctx. f t ctx = map_option (\<lambda>k. (k, ctx)) (mk t)"
  shows "do { (t, ctx) \<leftarrow> read_type api depth ty ctx; f t ctx } =
     types_first api depth rd ([ty], [], \<lambda>ts ks. case ts of [t] \<Rightarrow> mk t | _ \<Rightarrow> None) ctx"
  by (auto simp: types_first_def assms Option.bind_assoc case_prod_unfold map_option_case
      intro!: bind_option_cong split: option.split)

text \<open>The number of elements comes with the type.\<close>

lemma unat_u32_u64: "unat (ucast (n :: u32) :: u64) = unat n"
proof -
  have "unat n < 2 ^ 32" using unsigned_less [of n] by simp
  then show ?thesis by (simp add: unsigned_ucast_eq take_bit_nat_eq_self)
qed

lemma denotes_counts:
  "denotes api ty (ArrayType t n) \<Longrightarrow> unat n = unat (LLVMGetArrayLength2 api ty)"
  "denotes api ty (VectorType t n sc) \<Longrightarrow> unat n = unat (LLVMGetVectorSize api ty)"
  by (erule denotes_elim; auto simp: unat_u32_u64 elim: plain_kind.elims)+

lemma array_read:
  assumes "ctx_ok api names ctx"
  shows "array_constant api depth rd elem c ctx =
     types_first api depth rd ([LLVMTypeOf api c],
       elements_of elem c (unat (LLVMGetArrayLength2 (types_api api) (LLVMTypeOf api c))),
       \<lambda>ts ks. case ts of [ArrayType et _] \<Rightarrow> Some (Array_c et ks) | _ \<Rightarrow> None) ctx"
proof (cases "read_type api depth (LLVMTypeOf api c) ctx")
  case (Some r)
  obtain t ctx1 where r: "r = (t, ctx1)" by (cases r)
  then have "denotes (types_api api) (LLVMTypeOf api c) t" using read_type_sound [OF assms] Some by blast
  then show ?thesis using Some r denotes_counts(1)
    by (cases t) (auto simp: array_constant_def types_first_def elements_of_def case_prod_unfold
        bind_eq_None_conv intro!: bind_option_cong split: bind_splits)
qed (simp add: array_constant_def types_first_def)

lemma data_vector_read:
  assumes "ctx_ok api names ctx"
  shows "data_vector_constant api depth rd c ctx =
     types_first api depth rd ([LLVMTypeOf api c],
       elements_of (LLVMGetAggregateElement api) c (unat (LLVMGetVectorSize (types_api api) (LLVMTypeOf api c))),
       \<lambda>ts ks. case ts of [VectorType _ _ _] \<Rightarrow> Some (Vector_c ks) | _ \<Rightarrow> None) ctx"
proof (cases "read_type api depth (LLVMTypeOf api c) ctx")
  case (Some r)
  obtain t ctx1 where r: "r = (t, ctx1)" by (cases r)
  then have "denotes (types_api api) (LLVMTypeOf api c) t" using read_type_sound [OF assms] Some by blast
  then show ?thesis using Some r denotes_counts(2)
    by (cases t) (auto simp: data_vector_constant_def types_first_def elements_of_def case_prod_unfold
        bind_eq_None_conv intro!: bind_option_cong split: bind_splits)
qed (simp add: data_vector_constant_def types_first_def)

lemma struct_read:
  assumes "ctx_ok api names ctx" "unique_structs (types_api api)"
  shows "struct_constant api depth rd c ctx =
     (if struct_handle (types_api api) (LLVMTypeOf api c)
      then types_first api depth rd ([LLVMTypeOf api c],
        operand_refs api c (length (LLVMGetStructElementTypes (types_api api) (LLVMTypeOf api c))),
        \<lambda>ts ks. Some (Struct_c None ks (LLVMIsPackedStruct (types_api api) (LLVMTypeOf api c)))) ctx
      else None)"
proof (cases "read_type api depth (LLVMTypeOf api c) ctx")
  case (Some r)
  obtain t ctx1 where r: "r = (t, ctx1)" by (cases r)
  note rt = read_type_sound [OF assms(1) Some [unfolded r]]
  then have "ctx_ok api names ctx1" using leads_ok by blast
  then have "struct_shape (ctx_types ctx1) t =
      (if struct_handle (types_api api) (LLVMTypeOf api c)
       then Some (length (LLVMGetStructElementTypes (types_api api) (LLVMTypeOf api c)),
         LLVMIsPackedStruct (types_api api) (LLVMTypeOf api c)) else None)"
    using struct_shape_iff [OF _ assms(2)] rt by blast
  then show ?thesis using Some r
    by (auto simp: struct_constant_def types_first_def case_prod_unfold intro!: bind_option_cong)
qed (simp add: struct_constant_def types_first_def)

lemma vector_read:
  "vector_constant api rd c ctx =
     types_first api depth rd ([], operand_refs api c (LLVMGetNumOperands api c), \<lambda>ts ks. Some (Vector_c ks)) ctx"
  by (simp add: vector_constant_def types_first_def)

lemma ptr_auth_read:
  "ptr_auth_constant api rd c ctx =
     types_first api depth rd ([], [LLVMGetConstantPtrAuthPointer api c, LLVMGetConstantPtrAuthKey api c,
         LLVMGetConstantPtrAuthDiscriminator api c, LLVMGetConstantPtrAuthAddrDiscriminator api c],
       \<lambda>ts ks. case ks of [p, k, d, a] \<Rightarrow> Some (PtrAuth_c p k d a) | _ \<Rightarrow> None) ctx"
  by (auto simp: ptr_auth_constant_def types_first_def Option.bind_assoc case_prod_unfold intro!: bind_option_cong)

lemma typed_read:
  "typed_constant mk api depth c ctx =
     types_first api depth rd ([LLVMTypeOf api c], [], \<lambda>ts ks. case ts of [t] \<Rightarrow> Some (mk t) | _ \<Rightarrow> None) ctx"
  unfolding typed_constant_def by (rule only_type_read) simp

lemma int_read:
  "int_constant api depth c ctx =
     types_first api depth rd ([LLVMTypeOf api c], [], \<lambda>ts ks. case ts of [t] \<Rightarrow>
       (case t of IntegerType b \<Rightarrow> Some (Int_c b (LLVMConstIntGetZExtValue api c)) | _ \<Rightarrow> None) | _ \<Rightarrow> None) ctx"
  unfolding int_constant_def by (rule only_type_read) (simp split: Type.split)

lemma fp_read:
  "fp_constant api depth c ctx =
     types_first api depth rd ([LLVMTypeOf api c], [], \<lambda>ts ks. case ts of [t] \<Rightarrow>
       (case t of FPType f \<Rightarrow> Some (Float_c (float_value f (LLVMConstRealGetDouble api c))) | _ \<Rightarrow> None) | _ \<Rightarrow> None) ctx"
  unfolding fp_constant_def by (rule only_type_read) (simp split: Type.split)

lemma global_read:
  "global_constant api depth c ctx =
     (case global_names ctx c of None \<Rightarrow> None | Some nm \<Rightarrow>
        types_first api depth rd ([LLVMGlobalGetValueType api c], [],
          \<lambda>ts ks. case ts of [t] \<Rightarrow> Some (GlobalReference_c nm t) | _ \<Rightarrow> None) ctx)"
proof (cases "global_names ctx c")
  case (Some nm)
  have "do { (t, ctx) \<leftarrow> read_type api depth (LLVMGlobalGetValueType api c) ctx; Some (GlobalReference_c nm t, ctx) } =
      types_first api depth rd ([LLVMGlobalGetValueType api c], [],
        \<lambda>ts ks. case ts of [t] \<Rightarrow> Some (GlobalReference_c nm t) | _ \<Rightarrow> None) ctx"
    by (rule only_type_read) simp
  then show ?thesis using Some by (simp add: global_constant_def)
qed (simp add: global_constant_def)

lemma no_reads: "types_first api depth rd ([], [], \<lambda>ts ks. Some k) ctx = Some (k, ctx)"
  by (simp add: types_first_def)

lemma parse_read:
  assumes "ctx_ok api names ctx" "unique_structs (types_api api)"
  shows "parse_from_llvm_ref api depth rd c ctx =
     (case constant_shape api names c of None \<Rightarrow> None | Some sh \<Rightarrow> read_shape api depth rd c sh ctx)"
proof -
  have "global_names ctx = names" using assms(1) by (simp add: ctx_ok_def)
  then show ?thesis
    using expr_read [of api c depth rd ctx] array_read [OF assms(1), of depth rd _ c] data_vector_read [OF assms(1), of depth rd c]
      struct_read [OF assms, of depth rd c] vector_read [of api rd c ctx depth] ptr_auth_read [of api rd c ctx depth]
      typed_read [of _ api depth c ctx rd] int_read [of api depth c ctx rd] fp_read [of api depth c ctx rd]
      global_read [of api depth c ctx rd]
    by (cases "LLVMGetValueKind api c")
       (simp_all add: no_reads parse_from_llvm_ref_def constant_shape_def Let_def read_shape_def is_cast_def split: option.split)
qed

section \<open>Soundness\<close>

text \<open>Constants are not part of themselves, except through the names of global objects.\<close>

definition finite_constants ::
  "'a constant_api_scheme \<Rightarrow> (LLVMValueRef \<rightharpoonup> Name) \<Rightarrow> (LLVMValueRef \<Rightarrow> nat) \<Rightarrow> bool" where
  "finite_constants api names rank \<longleftrightarrow> (\<forall>c. \<forall>p \<in> set (parts_of api names c). rank p < rank c)"

lemma read_types_sound:
  assumes "ctx_ok api names ctx" "traverse (read_type api depth) tys ctx = Some (ts, ctx')"
  shows "list_all2 (denotes (types_api api)) tys ts \<and> leads api names S ctx ctx'"
  using assms
proof (induction tys arbitrary: ctx ts)
  case (Cons ty tys)
  then obtain t ctx1 ts' where r: "read_type api depth ty ctx = Some (t, ctx1)"
      "traverse (read_type api depth) tys ctx1 = Some (ts', ctx')" "ts = t # ts'"
    by (auto simp: bind_eq_Some_conv)
  note rt = read_type_sound [OF Cons.prems(1) r(1), of S]
  then show ?case using Cons.IH [OF _ r(2)] r(3) leads_ok leads_trans by (metis list_all2_Cons)
qed (simp add: leads_refl)

lemma read_shape_sound:
  assumes "rd_sound api names rank rd" "\<forall>p \<in> set parts. rank p < n" "ctx_ok api names ctx"
    "read_shape api depth rd c (tys, parts, mk) ctx = Some (k, ctx')"
  shows "\<exists>ts ks. list_all2 (denotes (types_api api)) tys ts \<and> list_all2 (constant_of api names) parts ks \<and>
     mk ts ks = Some k \<and> leads api names {v. rank v < n} ctx ctx'"
proof (cases "is_cast api c")
  case True
  then obtain ks ctx1 ts where r: "traverse rd parts ctx = Some (ks, ctx1)"
      "traverse (read_type api depth) tys ctx1 = Some (ts, ctx')" "mk ts ks = Some k"
    using assms(4) by (auto simp: read_shape_def parts_first_def bind_eq_Some_conv)
  note p = traverse_sound [OF assms(1-3) r(1)]
  then show ?thesis using read_types_sound [OF leads_ok r(2)] r(3) leads_trans by blast
next
  case False
  then obtain ks ctx1 ts where r: "traverse (read_type api depth) tys ctx = Some (ts, ctx1)"
      "traverse rd parts ctx1 = Some (ks, ctx')" "mk ts ks = Some k"
    using assms(4) by (auto simp: read_shape_def types_first_def bind_eq_Some_conv)
  note t = read_types_sound [OF assms(3) r(1)]
  then show ?thesis using traverse_sound [OF assms(1,2) leads_ok r(2)] r(3) leads_trans by blast
qed

lemma parse_sound:
  assumes "finite_constants api names rank" "unique_structs (types_api api)" "rd_sound api names rank rd"
    "ctx_ok api names ctx" "parse_from_llvm_ref api depth rd c ctx = Some (k, ctx')"
  shows "constant_of api names c k \<and> leads api names {v. rank v < rank c} ctx ctx'"
proof -
  obtain tys parts mk where sh: "constant_shape api names c = Some (tys, parts, mk)"
      "read_shape api depth rd c (tys, parts, mk) ctx = Some (k, ctx')"
    using assms(5) unfolding parse_read [OF assms(4,2)] by (auto split: option.splits)
  have "\<forall>p \<in> set parts. rank p < rank c"
    using assms(1) sh(1) unfolding finite_constants_def parts_of_def by (auto split: option.splits dest: spec [of _ c])
  from read_shape_sound [OF assms(3) this assms(4) sh(2)] constant_of.shape [OF sh(1)] show ?thesis by blast
qed

lemma read_constant_sound:
  assumes "finite_constants api names rank" "unique_structs (types_api api)"
  shows "rd_sound api names rank (read_constant api depth n)"
proof (induction n)
  case (Suc n)
  have "constant_of api names c k \<and> leads api names {v. rank v \<le> rank c} ctx ctx'"
    if ok: "ctx_ok api names ctx" and r: "read_constant api depth (Suc n) c ctx = Some (k, ctx')" for c ctx k ctx'
  proof (cases "constants ctx c")
    case None
    then obtain ctx1 where p: "parse_from_llvm_ref api depth (read_constant api depth n) c ctx = Some (k, ctx1)"
        "ctx' = ctx1\<lparr>constants := (constants ctx1)(c \<mapsto> k)\<rparr>"
      using r by (auto simp: bind_eq_Some_conv)
    note ps = parse_sound [OF assms Suc ok p(1)]
    then show ?thesis using p(2) by (auto simp: leads_def ctx_ok_def)
  next
    case (Some k')
    then show ?thesis using r ok by (auto simp: ctx_ok_def leads_def)
  qed
  then show ?case unfolding rd_sound_def by blast
qed (simp add: rd_sound_def)

section \<open>The reader returns\<close>

lemma constant_of_unique: "constant_of api names c k \<Longrightarrow> constant_of api names c k' \<Longrightarrow> k = k'"
proof (induction arbitrary: k' rule: constant_of.induct)
  case (shape c tys parts mk ts ks k)
  from shape.prems obtain ts' ks' where r: "list_all2 (denotes (types_api api)) tys ts'"
      "list_all2 (constant_of api names) parts ks'" "mk ts' ks' = Some k'"
    using shape.hyps(1) by (auto elim: constant_of_elim)
  have "list_all2 (\<lambda>x y. denotes (types_api api) x y \<and> (\<forall>z. denotes (types_api api) x z \<longrightarrow> y = z)) tys ts"
    using shape.hyps(2) denotes_unique by (auto elim: list_all2_mono)
  then have "ts = ts'" using r(1) by (rule list_all2_unique)
  moreover have "ks = ks'" using list_all2_unique [OF shape.IH r(2)] .
  ultimately show ?case using r(3) shape.hyps(3) by simp
qed

lemma type_reads_return:
  assumes "finite_types (types_api api) trank" "\<forall>ty. trank ty < depth" "ctx_ok api names ctx"
  shows "traverse (read_type api depth) tys ctx \<noteq> None"
  using assms(3)
proof (induction tys arbitrary: ctx)
  case (Cons ty tys)
  have "type_from_llvm_ref (types_api api) depth ty (ctx_types ctx) \<noteq> None"
    using type_from_llvm_ref_returns [OF assms(1)] assms(2) Cons.prems by (auto simp: returns_on_def ctx_ok_def)
  then obtain t ctx1 where r: "read_type api depth ty ctx = Some (t, ctx1)" by (auto simp: read_type_def)
  then have "ctx_ok api names ctx1" using read_type_sound [OF Cons.prems] leads_ok by blast
  from Cons.IH [OF this] r show ?case by (auto split: option.splits)
qed simp

lemma read_parts_returns:
  assumes "rd_sound api names rank rd" "\<forall>p \<in> set cs. rank p < n"
    "\<forall>p \<in> set cs. \<forall>ctx. ctx_ok api names ctx \<longrightarrow> rd p ctx \<noteq> None" "ctx_ok api names ctx"
  shows "traverse rd cs ctx \<noteq> None"
  using assms(2-)
proof (induction cs arbitrary: ctx)
  case (Cons c cs)
  then obtain k ctx1 where r: "rd c ctx = Some (k, ctx1)" by fastforce
  have "ctx_ok api names ctx1" using rd_soundD(2) [OF assms(1) Cons.prems(3) r] Cons.prems(1) leads_ok by fastforce
  then have "traverse rd cs ctx1 \<noteq> None" using Cons by simp
  then show ?case using r by auto
qed simp

lemma list_all2_functional:
  "(\<And>x y z. P x y \<Longrightarrow> P x z \<Longrightarrow> y = z) \<Longrightarrow> list_all2 P xs ys \<Longrightarrow> list_all2 P xs zs \<Longrightarrow> zs = ys"
  by (induction xs arbitrary: ys zs) (fastforce simp: list_all2_Cons1)+

lemma read_shape_returns:
  assumes "finite_types (types_api api) trank" "\<forall>ty. trank ty < depth" "rd_sound api names rank rd"
    "\<forall>p \<in> set parts. rank p < n" "\<forall>p \<in> set parts. \<forall>ctx. ctx_ok api names ctx \<longrightarrow> rd p ctx \<noteq> None"
    "ctx_ok api names ctx" "list_all2 (denotes (types_api api)) tys ts"
    "list_all2 (constant_of api names) parts ks" "mk ts ks = Some k"
  shows "read_shape api depth rd c (tys, parts, mk) ctx \<noteq> None"
proof -
  have same: "ts' = ts" "ks' = ks"
    if "list_all2 (denotes (types_api api)) tys ts'" "list_all2 (constant_of api names) parts ks'" for ts' ks'
    using list_all2_functional [OF _ assms(7) that(1)] list_all2_functional [OF _ assms(8) that(2)]
      denotes_unique constant_of_unique by blast+
  show ?thesis
  proof (cases "is_cast api c")
    case True
    obtain ks' ctx1 where p: "traverse rd parts ctx = Some (ks', ctx1)"
      using read_parts_returns [OF assms(3-6)] by auto
    note ps = traverse_sound [OF assms(3,4,6) p]
    then obtain ts' ctx2 where t: "traverse (read_type api depth) tys ctx1 = Some (ts', ctx2)"
      using type_reads_return [OF assms(1,2) leads_ok] by fastforce
    then have "ts' = ts" "ks' = ks" using same ps read_types_sound [OF leads_ok t] by blast+
    then show ?thesis using True p t assms(9) by (simp add: read_shape_def parts_first_def)
  next
    case False
    obtain ts' ctx1 where t: "traverse (read_type api depth) tys ctx = Some (ts', ctx1)"
      using type_reads_return [OF assms(1,2,6)] by fastforce
    note rt = read_types_sound [OF assms(6) t]
    then obtain ks' ctx2 where p: "traverse rd parts ctx1 = Some (ks', ctx2)"
      using read_parts_returns [OF assms(3-5) leads_ok] by fastforce
    then have "ts' = ts" "ks' = ks" using same rt traverse_sound [OF assms(3,4) leads_ok p] by blast+
    then show ?thesis using False p t assms(9) by (simp add: read_shape_def types_first_def)
  qed
qed

lemma read_constant_returns:
  assumes "finite_types (types_api api) trank" "\<forall>ty. trank ty < depth" "finite_constants api names rank"
    "unique_structs (types_api api)"
  shows "constant_of api names c k \<Longrightarrow> rank c < n \<Longrightarrow> ctx_ok api names ctx \<Longrightarrow> read_constant api depth n c ctx \<noteq> None"
proof (induction n arbitrary: c k ctx)
  case (Suc n)
  let ?rd = "read_constant api depth n"
  note rs = read_constant_sound [OF assms(3,4), of depth n]
  obtain tys parts mk ts ks where sh: "constant_shape api names c = Some (tys, parts, mk)"
      "list_all2 (denotes (types_api api)) tys ts" "list_all2 (constant_of api names) parts ks" "mk ts ks = Some k"
    using Suc.prems(1) by (auto elim: constant_of_elim)
  have ranks: "\<forall>p \<in> set parts. rank p < rank c"
    using assms(3) sh(1) unfolding finite_constants_def parts_of_def by (auto split: option.splits dest: spec [of _ c])
  have "\<forall>p \<in> set parts. \<exists>k. constant_of api names p k"
    using sh(3) by (fastforce simp: list_all2_conv_all_nth in_set_conv_nth)
  then have "\<forall>p \<in> set parts. \<forall>ctx. ctx_ok api names ctx \<longrightarrow> ?rd p ctx \<noteq> None"
    using Suc.IH ranks Suc.prems(2) by (meson less_Suc_eq_le order_less_le_trans)
  then have "read_shape api depth ?rd c (tys, parts, mk) ctx \<noteq> None"
    using read_shape_returns [where mk = mk, OF assms(1,2) rs ranks _ Suc.prems(3) sh(2,3)] sh(4) by blast
  then obtain k' ctx1 where p: "parse_from_llvm_ref api depth ?rd c ctx = Some (k', ctx1)"
    using sh(1) parse_read [OF Suc.prems(3) assms(4), of depth ?rd c] by auto
  have "constants ctx1 c = None" if "constants ctx c = None"
    using parse_sound [OF assms(3,4) rs Suc.prems(3) p] that by (auto simp: leads_def)
  then show ?case using p by (auto simp: assert_def split: option.split)
qed simp

end
