(* ===== verification/Constant_Typing.thy ===== *)
theory Constant_Typing
  imports Constant_Meaning
begin

text \<open>
  The types of constants that were read: \<open>get_type\<close> of the constant is the type that LLVM gives to the
  handle. The constants for which the code computes another type are excluded by \<open>plainly_typed\<close>:
  constants of named structs (the name is not kept), block addresses (typed as labels), and pointers
  outside address space 0.
\<close>

definition generic_pointer :: "llvm_type_api \<Rightarrow> LLVMTypeRef \<Rightarrow> bool" where
  "generic_pointer api ty \<longleftrightarrow> LLVMGetTypeKind api ty = LLVMPointerTypeKind \<and> LLVMGetPointerAddressSpace api ty = 0"

definition vector_of_parts :: "'a constant_api_scheme \<Rightarrow> LLVMValueRef list \<Rightarrow> LLVMTypeRef \<Rightarrow> bool" where
  "vector_of_parts api parts ty \<longleftrightarrow>
     parts \<noteq> [] \<and> LLVMGetTypeKind (types_api api) ty = LLVMVectorTypeKind \<and>
     length parts = unat (LLVMGetVectorSize (types_api api) ty) \<and>
     LLVMTypeOf api (hd parts) = LLVMGetElementType (types_api api) ty"

text \<open>LLVM's typing rules for a constant and its parts.\<close>

definition plainly_typed :: "'a constant_api_scheme \<Rightarrow> (LLVMValueRef \<rightharpoonup> Name) \<Rightarrow> LLVMValueRef \<Rightarrow> bool" where
  "plainly_typed api names c \<longleftrightarrow>
     (let ty = LLVMTypeOf api c; tapi = types_api api; parts = parts_of api names c; first = LLVMTypeOf api (hd parts)
      in case LLVMGetValueKind api c of
           LLVMConstantStructValueKind \<Rightarrow>
             struct_name tapi ty = None \<and> map (LLVMTypeOf api) parts = LLVMGetStructElementTypes tapi ty
         | LLVMConstantVectorValueKind \<Rightarrow> vector_of_parts api parts ty
         | LLVMConstantDataVectorValueKind \<Rightarrow> vector_of_parts api parts ty
         | LLVMConstantTokenNoneValueKind \<Rightarrow> LLVMGetTypeKind tapi ty = LLVMTokenTypeKind
         | LLVMBlockAddressValueKind \<Rightarrow> False
         | LLVMConstantPtrAuthValueKind \<Rightarrow> generic_pointer tapi ty
         | LLVMConstantExprValueKind \<Rightarrow>
             (case LLVMGetConstOpcode api c of
                LLVMExtractElement \<Rightarrow>
                  LLVMGetTypeKind tapi first = LLVMVectorTypeKind \<and> LLVMGetElementType tapi first = ty
              | LLVMGetElementPtr \<Rightarrow> generic_pointer tapi ty
              | opc \<Rightarrow> cast_mk opc \<noteq> None \<or> first = ty)
         | LLVMMetadataAsValueValueKind \<Rightarrow> generic_pointer tapi ty
         | LLVMOtherValueKind \<Rightarrow> generic_pointer tapi ty
         | _ \<Rightarrow> True)"

text \<open>The constant has the type of the handle.\<close>

definition has_llvm_type :: "'a constant_api_scheme \<Rightarrow> LLVMValueRef \<Rightarrow> Constant \<Rightarrow> bool" where
  "has_llvm_type api c k \<longleftrightarrow>
     (\<exists>t. denotes (types_api api) (LLVMTypeOf api c) t \<and> (\<forall>ts. types_ok ts \<longrightarrow> get_type_Constant ts k = Some t))"

lemma has_llvm_typeI:
  "denotes (types_api api) (LLVMTypeOf api c) t \<Longrightarrow> (\<And>ts. types_ok ts \<Longrightarrow> get_type_Constant ts k = Some t) \<Longrightarrow>
     has_llvm_type api c k"
  unfolding has_llvm_type_def by blast

lemma pointer_typed:
  "generic_pointer (types_api api) (LLVMTypeOf api c) \<Longrightarrow> (\<And>ts. get_type_Constant ts k = Some (types_pointer ts)) \<Longrightarrow>
     has_llvm_type api c k"
  using denotes.pointer [of "types_api api" "LLVMTypeOf api c"]
  by (intro has_llvm_typeI [of _ _ "PointerType 0"]) (auto simp: generic_pointer_def types_ok_simps)

lemma pointer_leaf_typed:
  "generic_pointer (types_api api) (LLVMTypeOf api c) \<Longrightarrow> has_llvm_type api c (GlobalReference_c nm t)"
  "generic_pointer (types_api api) (LLVMTypeOf api c) \<Longrightarrow> has_llvm_type api c (PtrAuth_c p k d a)"
  "generic_pointer (types_api api) (LLVMTypeOf api c) \<Longrightarrow> has_llvm_type api c (GetElementPtr_c p ks b)"
  by (auto intro: pointer_typed)

lemma float_value_type: "types_ok ts \<Longrightarrow> get_type_Float ts (float_value f d) = FPType f"
  by (cases f) (simp_all add: float_value_def types_ok_simps)

lemma leaf_typed:
  "denotes (types_api api) (LLVMTypeOf api c) (IntegerType b) \<Longrightarrow> has_llvm_type api c (Int_c b v)"
  "denotes (types_api api) (LLVMTypeOf api c) (FPType f) \<Longrightarrow> has_llvm_type api c (Float_c (float_value f d))"
  "denotes (types_api api) (LLVMTypeOf api c) t \<Longrightarrow> has_llvm_type api c (Null_c t)"
  "denotes (types_api api) (LLVMTypeOf api c) t \<Longrightarrow> has_llvm_type api c (AggregateZero_c t)"
  "denotes (types_api api) (LLVMTypeOf api c) t \<Longrightarrow> has_llvm_type api c (Undef_c t)"
  "denotes (types_api api) (LLVMTypeOf api c) t \<Longrightarrow> has_llvm_type api c (Poison_c t)"
  "LLVMGetTypeKind (types_api api) (LLVMTypeOf api c) = LLVMTokenTypeKind \<Longrightarrow> has_llvm_type api c TokenNone_c"
  by (erule has_llvm_typeI, simp add: types_ok_simps float_value_type)+
     (rule has_llvm_typeI [OF denotes.plain], auto simp: types_ok_simps)

lemma vector_typed:
  assumes "vector_of_parts api parts (LLVMTypeOf api c)" "list_all2 (has_llvm_type api) parts ks"
  shows "has_llvm_type api c (Vector_c ks)"
proof -
  obtain p ps k ks' where l: "parts = p # ps" "ks = k # ks'" "has_llvm_type api p k"
    using assms by (cases parts; cases ks) (auto simp: vector_of_parts_def)
  then obtain t where t: "denotes (types_api api) (LLVMTypeOf api p) t" "\<And>ts. types_ok ts \<Longrightarrow> get_type_Constant ts k = Some t"
    unfolding has_llvm_type_def by blast
  have "of_nat (length ks) = (ucast (LLVMGetVectorSize (types_api api) (LLVMTypeOf api c)) :: usize)"
    using assms list_all2_lengthD [OF assms(2)] by (simp add: vector_of_parts_def)
  moreover have "denotes (types_api api) (LLVMTypeOf api c)
      (VectorType t (ucast (LLVMGetVectorSize (types_api api) (LLVMTypeOf api c))) False)"
    using assms(1) l(1) t(1) by (intro denotes.vector) (auto simp: vector_of_parts_def)
  ultimately show ?thesis using l(2) t(2) by (intro has_llvm_typeI) (auto simp: types_ok_simps)
qed

lemma array_typed:
  assumes "denotes (types_api api) (LLVMTypeOf api c) (ArrayType et n)"
    "length ks = unat (LLVMGetArrayLength2 (types_api api) (LLVMTypeOf api c))"
  shows "has_llvm_type api c (Array_c et ks)"
proof -
  have "length ks = unat n" using denotes_counts(1) [OF assms(1)] assms(2) by simp
  then have "of_nat (length ks) = n" by simp
  then show ?thesis using assms(1) by (intro has_llvm_typeI) (auto simp: types_ok_simps)
qed

lemma struct_typed:
  assumes "struct_handle (types_api api) (LLVMTypeOf api c)" "struct_name (types_api api) (LLVMTypeOf api c) = None"
    "map (LLVMTypeOf api) parts = LLVMGetStructElementTypes (types_api api) (LLVMTypeOf api c)"
    "list_all2 (has_llvm_type api) parts ks"
  shows "has_llvm_type api c (Struct_c None ks (LLVMIsPackedStruct (types_api api) (LLVMTypeOf api c)))"
proof -
  have "\<exists>us. list_all2 (denotes (types_api api)) (map (LLVMTypeOf api) parts) us \<and>
      (\<forall>ts. types_ok ts \<longrightarrow> those (map (get_type_Constant ts) ks) = Some us)"
    using assms(4)
  proof (induction rule: list_all2_induct)
    case (Cons p ps k ks)
    then obtain t us where "denotes (types_api api) (LLVMTypeOf api p) t" "\<forall>ts. types_ok ts \<longrightarrow> get_type_Constant ts k = Some t"
        "list_all2 (denotes (types_api api)) (map (LLVMTypeOf api) ps) us"
        "\<forall>ts. types_ok ts \<longrightarrow> those (map (get_type_Constant ts) ks) = Some us"
      unfolding has_llvm_type_def by blast
    then show ?case by (intro exI [of _ "t # us"]) simp
  qed (auto intro: exI [of _ "[]"])
  then obtain us where us: "list_all2 (denotes (types_api api)) (LLVMGetStructElementTypes (types_api api) (LLVMTypeOf api c)) us"
      "\<And>ts. types_ok ts \<Longrightarrow> those (map (get_type_Constant ts) ks) = Some us"
    using assms(3) by auto
  then have "denotes (types_api api) (LLVMTypeOf api c) (StructType us (LLVMIsPackedStruct (types_api api) (LLVMTypeOf api c)))"
    using assms(1,2) denotes.literal by (auto simp: struct_handle_def)
  then show ?thesis using us(2) by (intro has_llvm_typeI) (auto simp: types_ok_simps)
qed

lemma first_typed:
  assumes "has_llvm_type api p a" "LLVMTypeOf api p = LLVMTypeOf api c"
    "\<And>ts. get_type_Constant ts k = get_type_Constant ts a"
  shows "has_llvm_type api c k"
  using assms unfolding has_llvm_type_def by simp

lemma extract_typed:
  assumes "has_llvm_type api p v" "LLVMGetTypeKind (types_api api) (LLVMTypeOf api p) = LLVMVectorTypeKind"
    "LLVMGetElementType (types_api api) (LLVMTypeOf api p) = LLVMTypeOf api c"
  shows "has_llvm_type api c (ExtractElement_c v i)"
proof -
  obtain t where t: "denotes (types_api api) (LLVMTypeOf api p) t" "\<And>ts. types_ok ts \<Longrightarrow> get_type_Constant ts v = Some t"
    using assms(1) unfolding has_llvm_type_def by blast
  obtain e where "denotes (types_api api) (LLVMTypeOf api c) e" "\<exists>n. t = VectorType e n False"
    using denotes_element(2) [OF t(1) assms(2)] assms(3) by auto
  then show ?thesis using t(2) by (intro has_llvm_typeI) auto
qed

lemma expr_typed:
  assumes "expr_shape api c = Some (tys, parts, mk)" "list_all2 (denotes (types_api api)) tys ts" "mk ts ks = Some k"
    "list_all2 (has_llvm_type api) parts ks" "plainly_typed api names c" "parts_of api names c = parts"
    "LLVMGetValueKind api c = LLVMConstantExprValueKind"
  shows "has_llvm_type api c k"
proof (cases "cast_mk (LLVMGetConstOpcode api c)")
  case (Some mk')
  then obtain t a where t: "denotes (types_api api) (LLVMTypeOf api c) t" "k = mk' a t"
    using assms(1-3)
    by (cases "LLVMGetConstOpcode api c")
       (auto simp: expr_shape_def Let_def list_all2_Cons1 split: if_splits list.splits)
  moreover have "get_type_Constant ts (mk' a t) = Some t" for ts
    using Some by (cases "LLVMGetConstOpcode api c") auto
  ultimately show ?thesis by (auto intro: has_llvm_typeI)
next
  case None
  then obtain p ps a as where l: "parts = p # ps" "ks = a # as" "has_llvm_type api p a"
    using assms(1,3,4)
    by (cases "LLVMGetConstOpcode api c")
       (auto simp: expr_shape_def Let_def list_all2_Cons2 split: if_splits list.splits)
  show ?thesis
    using None assms(1,3,5-7) l extract_typed [OF l(3)] first_typed [OF l(3)] pointer_leaf_typed(3) [of api c]
    by (cases "LLVMGetConstOpcode api c")
       (auto simp: expr_shape_def plainly_typed_def Let_def split: if_splits list.splits)
qed

theorem constant_has_llvm_type:
  assumes "\<forall>v \<in> P. plainly_typed api names v \<and> set (parts_of api names v) \<subseteq> P"
  shows "constant_of api names c k \<Longrightarrow> c \<in> P \<Longrightarrow> has_llvm_type api c k"
proof (induction rule: constant_of.induct)
  case (shape c tys parts mk ts ks k)
  have parts: "parts_of api names c = parts" using shape.hyps(1) by (simp add: parts_of_def)
  then have pt: "plainly_typed api names c" and sub: "set parts \<subseteq> P" using assms shape.prems by auto
  have lt: "list_all2 (has_llvm_type api) parts ks"
    using shape.IH sub by (auto simp: list_all2_conv_all_nth subset_code(1))
  have len: "length ks = length parts" using lt by (simp add: list_all2_lengthD)
  have const: "LLVMIsAConstant api c"
    using shape.hyps(1) by (cases "LLVMIsAConstant api c") (simp_all add: constant_shape_def Let_def)
  show ?case
  proof (cases "LLVMGetValueKind api c = LLVMConstantExprValueKind")
    case True
    then have "expr_shape api c = Some (tys, parts, mk)"
      using shape.hyps(1) const by (simp add: constant_shape_def Let_def)
    then show ?thesis using expr_typed [where mk = mk] shape.hyps(2,3) lt pt parts True by blast
  next
    case False
    then show ?thesis
      using shape.hyps pt lt len const
      by (cases "LLVMGetValueKind api c")
         (auto simp: constant_shape_def plainly_typed_def Let_def parts list_all2_Cons1 elements_of_def intro!: leaf_typed vector_typed array_typed struct_typed pointer_leaf_typed
           split: if_splits Type.splits option.splits)
  qed
qed

end
