(* ===== verification/Reader_Properties.thy ===== *)
theory Reader_Properties
  imports Sample_Llvm Reader_Numbering Constant_Typing
begin

text \<open>
  The properties of the translation of modules from LLVM, with the module of \<open>Sample_Llvm\<close> as the
  input on which their hypotheses hold.
\<close>

definition counter_ctx :: ModuleContext where
  "counter_ctx = ModuleContext_new (counter_api ''f'') [0 \<mapsto> Name ''f'', 8 \<mapsto> Number 0]"

lemma counter_function:
  "\<exists>f ctx'. Function_from_llvm_ref (counter_api ''f'') 5 0 counter_ctx = Some (f, ctx') \<and>
     map block_labels (basic_blocks f) = [[Number 3], []] \<and>
     function_names f = [Number 0, Number 1, Number 2, Number 3]"
proof -
  have "map_option (\<lambda>(f, _). (map block_labels (basic_blocks f), function_names f))
      (Function_from_llvm_ref (counter_api ''f'') 5 0 counter_ctx) =
      Some ([[Number 3], []], [Number 0, Number 1, Number 2, Number 3])"
    by code_simp
  then show ?thesis by auto
qed

lemma counter_well_formed:
  "\<forall>bb \<in> set (the (get_basic_blocks (counter_api ''f'') 0)). void_unnamed (counter_api ''f'') bb"
  "distinct_handles (counter_api ''f'') 0"
  "function_texts (counter_api ''f'') 0 = [[], [], [], []]"
  by code_simp+

section \<open>Constants and operands\<close>

text \<open>
  (C32) The memoising reader of constants implements the meaning of their handles: in every context that
  reading can have left, it returns a constant exactly when the handle stands for one, namely that one,
  and panics otherwise; and it leaves such a context again. LLVM guarantees that no type and no constant
  is part of itself and that no two structs share a name; the stack must be deeper than they are nested.
\<close>

theorem constant_reader_correct:
  assumes "finite_types (types_api api) trank" "\<forall>ty. trank ty < depth" "unique_structs (types_api api)"
    "finite_constants api names rank" "rank c < depth" "ctx_ok api names ctx"
  shows "((\<exists>ctx'. Constant_from_llvm_ref api depth c ctx = Some (k, ctx')) \<longleftrightarrow> constant_of api names c k) \<and>
     (Constant_from_llvm_ref api depth c ctx = Some (k, ctx') \<longrightarrow> ctx_ok api names ctx')"
proof -
  note rs = read_constant_sound [OF assms(4,3), of depth depth]
  have sound: "constant_of api names c k' \<and> ctx_ok api names ctx1"
    if "read_constant api depth depth c ctx = Some (k', ctx1)" for k' ctx1
    using rs assms(6) that leads_ok unfolding rd_sound_def by blast
  have "\<exists>ctx'. read_constant api depth depth c ctx = Some (k, ctx')" if dk: "constant_of api names c k"
  proof -
    obtain k' ctx1 where r: "read_constant api depth depth c ctx = Some (k', ctx1)"
      using read_constant_returns [OF assms(1,2,4,3) dk assms(5,6)] by auto
    then show ?thesis using sound [OF r] constant_of_unique dk by blast
  qed
  then show ?thesis using sound unfolding Constant_from_llvm_ref_def by blast
qed

lemma counter_ctx_ok: "ctx_ok (counter_api ''f'') [0 \<mapsto> Name ''f'', 8 \<mapsto> Number 0] counter_ctx"
  unfolding counter_ctx_def by (rule ctx_ok_new)

lemma counter_finite:
  "finite_types (types_api (counter_api ''f'')) (\<lambda>ty. if ty < 2 then 0 else 1)"
  "unique_structs (types_api (counter_api ''f''))"
  "finite_constants (counter_api ''f'') names (\<lambda>c. 0)"
  by (auto simp: counter_api_def counter_types_def finite_types_def components_def unique_structs_def
      finite_constants_def parts_of_def constant_shape_def Let_def split: if_splits option.splits)

lemma counter_global:
  "\<exists>ctx'. Constant_from_llvm_ref (counter_api ''f'') 5 8 counter_ctx =
     Some (GlobalReference_c (Number 0) (IntegerType 32), ctx')"
proof -
  have "map_option fst (Constant_from_llvm_ref (counter_api ''f'') 5 8 counter_ctx) =
      Some (GlobalReference_c (Number 0) (IntegerType 32))"
    by code_simp
  then show ?thesis by auto
qed

theorem constant_reader_correct_witness:
  "\<exists>ctx'. Constant_from_llvm_ref (counter_api ''f'') 5 8 counter_ctx =
     Some (GlobalReference_c (Number 0) (IntegerType 32), ctx')"
proof -
  let ?api = "counter_api ''f''" and ?names = "[0 \<mapsto> Name ''f'', 8 \<mapsto> Number 0] :: LLVMValueRef \<rightharpoonup> Name"
  have "denotes (types_api ?api) 0 (IntegerType 32)"
    using denotes.int [of "types_api ?api" 0] by (simp add: counter_api_def counter_types_def)
  then have "constant_of ?api ?names 8 (GlobalReference_c (Number 0) (IntegerType 32))"
    by (intro constant_of.shape [where tys = "[0]" and parts = "[]" and ts = "[IntegerType 32]" and ks = "[]"
          and mk = "\<lambda>ts ks. case ts of [t] \<Rightarrow> Some (GlobalReference_c (Number 0) t) | _ \<Rightarrow> None"])
       (simp_all add: constant_shape_def counter_api_def)
  then show ?thesis
    using constant_reader_correct [OF counter_finite(1) _ counter_finite(2,3) _ counter_ctx_ok, of 5 8
      "GlobalReference_c (Number 0) (IntegerType 32)"] by auto
qed

text \<open>
  (C33) Operands keep their types: the type that \<open>get_type\<close> computes for an operand that was read is the
  type that LLVM gives to its handle, whatever types have been interned. Excluded are metadata and the
  constants that are made of a named struct, a block address or a pointer outside address space 0, for
  which the code computes another type.
\<close>

theorem operand_types:
  assumes "Operand_from_llvm_ref api depth fc v ctx = Some (op, ctx')" "op \<noteq> MetadataOperand"
    "ctx_ok api names ctx" "unique_structs (types_api api)" "finite_constants api names rank"
    "\<forall>c \<in> P. plainly_typed api names c \<and> set (parts_of api names c) \<subseteq> P" "LLVMIsAConstant api v \<longrightarrow> v \<in> P"
  shows "\<exists>t. denotes (types_api api) (LLVMTypeOf api v) t \<and> (\<forall>ts. types_ok ts \<longrightarrow> get_type_Operand ts op = Some t)"
proof (cases "LLVMIsAConstant api v")
  case True
  then obtain k where k: "op = ConstantOperand k" "read_constant api depth depth v ctx = Some (k, ctx')"
    using assms(1) by (auto simp: Operand_from_llvm_ref_def Constant_from_llvm_ref_def bind_eq_Some_conv)
  then have "constant_of api names v k"
    using read_constant_sound [OF assms(5,4), of depth depth] assms(3) unfolding rd_sound_def by blast
  then have "has_llvm_type api v k" using constant_has_llvm_type [OF assms(6)] assms(7) True by blast
  then show ?thesis using k(1) by (simp add: has_llvm_type_def)
next
  case False
  then obtain nm t where "op = LocalOperand nm t" "read_type api depth (LLVMTypeOf api v) ctx = Some (t, ctx')"
    using assms(1,2) by (auto simp: Operand_from_llvm_ref_def bind_eq_Some_conv split: if_splits)
  then show ?thesis using read_type_sound [OF assms(3)] by (intro exI [of _ t]) auto
qed

theorem operand_types_witness:
  "\<exists>op ctx' t. Operand_from_llvm_ref (counter_api ''f'') 5 \<lparr>bb_names = Map.empty, val_names = Map.empty, ctr = 0\<rparr> 8 counter_ctx =
     Some (op, ctx') \<and> denotes counter_types 1 t \<and> get_type_Operand (TypesBuilder_build TypesBuilder_new) op = Some t"
proof -
  let ?api = "counter_api ''f''" and ?names = "[0 \<mapsto> Name ''f'', 8 \<mapsto> Number 0] :: LLVMValueRef \<rightharpoonup> Name"
  obtain ctx' where "Constant_from_llvm_ref ?api 5 8 counter_ctx = Some (GlobalReference_c (Number 0) (IntegerType 32), ctx')"
    using counter_global by blast
  then have op: "Operand_from_llvm_ref ?api 5 \<lparr>bb_names = Map.empty, val_names = Map.empty, ctr = 0\<rparr> 8 counter_ctx =
      Some (ConstantOperand (GlobalReference_c (Number 0) (IntegerType 32)), ctx')"
    by (simp add: Operand_from_llvm_ref_def counter_api_def)
  have "\<forall>c \<in> {8}. plainly_typed ?api ?names c \<and> set (parts_of ?api ?names c) \<subseteq> {8}"
    by (simp add: plainly_typed_def parts_of_def constant_shape_def generic_pointer_def counter_api_def counter_types_def)
  from operand_types [OF op _ counter_ctx_ok counter_finite(2,3) this]
  obtain t where "denotes (types_api ?api) (LLVMTypeOf ?api 8) t"
      "\<forall>ts. types_ok ts \<longrightarrow> get_type_Operand ts (ConstantOperand (GlobalReference_c (Number 0) (IntegerType 32))) = Some t"
    by auto
  then show ?thesis using op types_ok_new by (auto simp: counter_api_def)
qed

section \<open>Functions\<close>

text \<open>
  (C35) A translated function mentions no name that it does not define: every local value that an
  instruction or terminator of a block has as operand is a parameter or the result of an instruction
  of the function, and every label in it is the name of a block of the function. The hypothesis is
  LLVM's rule that a value of type void has no name.
\<close>

theorem references_resolve:
  assumes "Function_from_llvm_ref api depth func ctx = Some (f, ctx')"
    "\<forall>bb \<in> set (the (get_basic_blocks api func)). void_unnamed api bb" "b \<in> set (basic_blocks f)"
  shows "(\<forall>op \<in> set (block_operands b). \<forall>nm. local_name op = Some nm \<longrightarrow> nm \<in> set (value_names_of f)) \<and>
     set (block_labels b) \<subseteq> bb_name ` set (basic_blocks f)"
  using assms by (rule references_defined)

theorem references_resolve_witness:
  "\<exists>f ctx' b. Function_from_llvm_ref (counter_api ''f'') 5 0 counter_ctx = Some (f, ctx') \<and>
     b \<in> set (basic_blocks f) \<and> block_labels b = [Number 3] \<and> Number 3 \<in> bb_name ` set (basic_blocks f)"
proof -
  obtain f ctx' where f: "Function_from_llvm_ref (counter_api ''f'') 5 0 counter_ctx = Some (f, ctx')"
      "map block_labels (basic_blocks f) = [[Number 3], []]"
    using counter_function by (elim exE conjE)
  have "[Number 3] \<in> set (map block_labels (basic_blocks f))" by (simp only: f(2) list.set_intros)
  then obtain b where "b \<in> set (basic_blocks f)" "block_labels b = [Number 3]" by auto
  then show ?thesis using references_resolve [OF f(1) counter_well_formed(1)] f(1) by fastforce
qed

text \<open>
  (C36) The two passes over a function agree: the second pass, which counts unnamed values anew, gives
  every parameter, block and result the name that the first pass has recorded for its handle, and
  the first pass records a name for an instruction exactly when its translation has a result. So the
  debug assertion of \<open>BasicBlock::from_llvm_ref\<close>, that the block's name is the recorded one, never fails.
\<close>

theorem two_passes_agree:
  assumes "Function_from_llvm_ref api depth func ctx = Some (f, ctx')"
    "\<forall>bb \<in> set (the (get_basic_blocks api func)). void_unnamed api bb" "distinct_handles api func"
  shows "\<exists>fc. first_pass api depth func ctx = Some fc \<and>
     map (val_names fc) (the (get_parameters api func)) = map (Some \<circ> param_name) (func_parameters f) \<and>
     list_all2 (block_agrees api fc) (the (get_basic_blocks api func)) (basic_blocks f)"
proof -
  obtain bbs ps c fc where fp: "first_pass api depth func ctx = Some fc" and tr: "translated api func f bbs ps c fc"
    using Function_reads [OF assms(1,2)] by blast
  then have "get_basic_blocks api func = Some bbs" "get_parameters api func = Some ps"
    by (auto simp: translated_def)
  then show ?thesis using fp passes_agree [OF tr assms(3)] by simp
qed

theorem two_passes_agree_witness:
  "\<exists>f ctx' fc. Function_from_llvm_ref (counter_api ''f'') 5 0 counter_ctx = Some (f, ctx') \<and>
     first_pass (counter_api ''f'') 5 0 counter_ctx = Some fc \<and>
     list_all2 (block_agrees (counter_api ''f'') fc) [10, 11] (basic_blocks f)"
proof -
  have "the (get_basic_blocks (counter_api ''f'') 0) = [10, 11]" by code_simp
  then show ?thesis using counter_function two_passes_agree [OF _ counter_well_formed(1,2)] by metis
qed

text \<open>
  (C37) The names of a translated function are one numbering: its parameters first, then each block
  followed by the results in it, where a named value keeps LLVM's name and the unnamed ones are
  numbered from 0 in this order (an invoke of a void function is numbered too). When LLVM's names are
  distinct and the counter does not wrap, all names of the function are distinct and every block is
  found by its name.
\<close>

theorem function_numbering:
  assumes "Function_from_llvm_ref api depth func ctx = Some (f, ctx')"
    "\<forall>bb \<in> set (the (get_basic_blocks api func)). void_unnamed api bb"
  shows "function_names f = name_all (function_texts api func) 0 \<and>
     (distinct (filter (\<lambda>s. s \<noteq> []) (function_texts api func)) \<and> length (function_texts api func) < 2 ^ 64 \<longrightarrow>
       distinct (function_names f) \<and> (\<forall>b \<in> set (basic_blocks f). get_bb_by_name f (bb_name b) = Some b))"
proof -
  have eq: "function_names f = name_all (function_texts api func) 0"
    using Function_reads [OF assms] function_names_numbered by blast
  moreover have "distinct (function_names f)"
    if "distinct (filter (\<lambda>s. s \<noteq> []) (function_texts api func))" "length (function_texts api func) < 2 ^ 64"
    using name_all_distinct [OF that(1), of 0] that(2) eq by simp
  ultimately show ?thesis using blocks_found_by_name by blast
qed

theorem function_numbering_witness:
  "\<exists>f ctx'. Function_from_llvm_ref (counter_api ''f'') 5 0 counter_ctx = Some (f, ctx') \<and>
     function_names f = [Number 0, Number 1, Number 2, Number 3] \<and> distinct (function_names f)"
proof -
  obtain f ctx' where f: "Function_from_llvm_ref (counter_api ''f'') 5 0 counter_ctx = Some (f, ctx')"
      "function_names f = [Number 0, Number 1, Number 2, Number 3]"
    using counter_function by (elim exE conjE)
  then show ?thesis using function_numbering [OF f(1) counter_well_formed(1)] counter_well_formed(3) by simp
qed

section \<open>Modules\<close>

text \<open>
  (C38) The two passes over the global objects of a module do not agree: the first pass also numbers the
  unnamed functions, while the second starts at 0 with the global variables. The name by which
  constants refer to a variable, alias or ifunc is its own name with the number of unnamed functions
  added, and both are the same exactly when all functions or all of these objects are named.
\<close>

theorem global_numbering:
  assumes "Module_from_llvm_ref api depth = Some m" "get_defined_functions api = Some defs"
    "get_declared_functions api = Some decls" "get_globals api = Some vars"
    "get_global_aliases api = Some als" "get_global_ifuncs api = Some ifs"
    "distinct (defs @ decls @ vars @ als @ ifs)" "length (defs @ decls) < 2 ^ 64"
  shows "reference_names api defs decls vars als ifs =
       map (Some \<circ> shift_name (of_nat (length (filter (\<lambda>g. get_value_name api g = []) (defs @ decls)))))
         (object_names m) \<and>
     (reference_names api defs decls vars als ifs = map Some (object_names m) \<longleftrightarrow>
       (\<forall>g \<in> set (defs @ decls). get_value_name api g \<noteq> []) \<or>
       (\<forall>g \<in> set (vars @ als @ ifs). get_value_name api g \<noteq> []))"
proof -
  let ?k = "of_nat (length (filter (\<lambda>g. get_value_name api g = []) (defs @ decls))) :: usize"
  let ?os = "map (get_value_name api) (vars @ als @ ifs)"
  have objs: "object_names m = name_all ?os 0"
    using module_object_names [OF assms(1,4-6)] .
  have "num_after (map (get_value_name api) (defs @ decls)) 0 = 0 + ?k"
    by (simp add: num_after_def filter_map comp_def)
  then have eq: "reference_names api defs decls vars als ifs = map (Some \<circ> shift_name ?k) (object_names m)"
    using module_first_pass [OF assms(7), of api] objs name_all_shift [of ?os 0 ?k] by simp
  have named: "?k = 0 \<longleftrightarrow> (\<forall>g \<in> set (defs @ decls). get_value_name api g \<noteq> [])"
    using unnamed_count [OF assms(8)] .
  have "map (Some \<circ> shift_name ?k) (object_names m) = map Some (object_names m) \<longleftrightarrow> ?k = 0 \<or> [] \<notin> set ?os"
    unfolding map_map [symmetric] inj_map_eq_map [OF inj_Some] objs by (rule shift_name_same)
  moreover have "[] \<notin> set ?os \<longleftrightarrow> (\<forall>g \<in> set (vars @ als @ ifs). get_value_name api g \<noteq> [])" by force
  ultimately show ?thesis unfolding eq named by blast
qed

text \<open>In the module with an unnamed function the variable is number 0, and the store refers to number 1.\<close>

definition module_operands :: "Module \<Rightarrow> Operand list" where
  "module_operands m =
     concat (map (\<lambda>f. concat (map (\<lambda>b. concat (map inst_operands (instrs b))) (basic_blocks f))) (module_functions m))"

theorem global_numbering_witness:
  "\<exists>m. Module_from_llvm_ref (counter_api '''') 5 = Some m \<and>
     reference_names (counter_api '''') [0] [] [8] [] [] = [Some (Number 1)] \<and> object_names m = [Number 0] \<and>
     ConstantOperand (GlobalReference_c (Number 1) (IntegerType 32)) \<in> set (module_operands m)"
proof -
  have "map_option (\<lambda>m. (object_names m, module_operands m)) (Module_from_llvm_ref (counter_api '''') 5) =
      Some ([Number 0], [LocalOperand (Number 0) (IntegerType 32), ConstantOperand (Int_c 32 1),
        ConstantOperand (GlobalReference_c (Number 1) (IntegerType 32)), LocalOperand (Number 2) (IntegerType 32)])"
    by code_simp
  then obtain m where m: "Module_from_llvm_ref (counter_api '''') 5 = Some m" "object_names m = [Number 0]"
      "ConstantOperand (GlobalReference_c (Number 1) (IntegerType 32)) \<in> set (module_operands m)"
    by auto
  have l: "get_defined_functions (counter_api '''') = Some [0]" "get_declared_functions (counter_api '''') = Some []"
      "get_globals (counter_api '''') = Some [8]" "get_global_aliases (counter_api '''') = Some []"
      "get_global_ifuncs (counter_api '''') = Some []"
    by code_simp+
  have "get_value_name (counter_api '''') 0 = []" by code_simp
  then have "reference_names (counter_api '''') [0] [] [8] [] [] = [Some (Number 1)]"
    using global_numbering [OF m(1) l] m(2) by simp
  then show ?thesis using m by blast
qed

end
