(* ===== verification/Reader_Contract.thy ===== *)
theory Reader_Contract
  imports Reader_Names
begin

text \<open>
  What every reader keeps: the readers of instructions, terminators, blocks and functions change the
  context of the module only by reading types, constants and attributes. The locale \<open>reader_contract\<close>
  states what these three keep of the context and of the constants; the lemmas in it carry this over to
  all readers that are made of them.
\<close>

section \<open>Results and contexts\<close>

text \<open>If reading returns, the result has \<open>Q\<close> and the state left has \<open>I\<close>.\<close>

definition ok :: "('s \<Rightarrow> bool) \<Rightarrow> ('x \<Rightarrow> bool) \<Rightarrow> ('x \<times> 's) option \<Rightarrow> bool" where
  "ok I Q r \<longleftrightarrow> (\<forall>x s. r = Some (x, s) \<longrightarrow> Q x \<and> I s)"

definition on_ctx :: "(ModuleContext \<Rightarrow> bool) \<Rightarrow> ModuleContext \<times> 'c \<Rightarrow> bool" where
  "on_ctx I s \<longleftrightarrow> I (fst s)"

lemma on_ctx_pair [simp]: "on_ctx I (ctx, c) \<longleftrightarrow> I ctx"
  by (simp add: on_ctx_def)

lemma okD: "ok I Q r \<Longrightarrow> r = Some (x, s) \<Longrightarrow> Q x \<and> I s"
  by (simp add: ok_def)

lemma ok_None [simp]: "ok I Q None"
  by (simp add: ok_def)

lemma ok_return: "Q x \<Longrightarrow> I s \<Longrightarrow> ok I Q (Some (x, s))"
  by (simp add: ok_def)

lemma ok_mono: "ok I P r \<Longrightarrow> (\<And>x. P x \<Longrightarrow> Q x) \<Longrightarrow> ok I Q r"
  by (auto simp: ok_def)

lemma ok_bind: "ok I P m \<Longrightarrow> (\<And>x s. P x \<Longrightarrow> I s \<Longrightarrow> ok J Q (f x s)) \<Longrightarrow> ok J Q (m \<bind> (\<lambda>(x, s). f x s))"
  by (auto simp: ok_def bind_eq_Some_conv)

lemma ok_bind_any: "(\<And>x. ok J Q (f x)) \<Longrightarrow> ok J Q (m \<bind> f)"
  by (auto simp: ok_def bind_eq_Some_conv)

lemmas ok_lookup =
  ok_bind_any [where m = "val_names fc v" for fc v] ok_bind_any [where m = "bb_names fc bb" for fc bb]
  ok_bind_any [where m = "those xs" for xs] ok_bind_any [where m = "unwind_from_llvm api fc t" for api fc t]
  ok_bind_any [where m = "branch_target api fc t i" for api fc t i]
  ok_bind_any [where m = "LLVMGetUnwindDest api t" for api t]
  ok_bind_any [where m = "read_function_attributes api as ctx" for api as ctx]
  ok_bind_any [where m = "pointer_space t" for t]

lemma ok_assert: "ok J Q r \<Longrightarrow> ok J Q (assert b \<bind> (\<lambda>_. r))"
  by (auto simp: ok_def bind_eq_Some_conv)

lemma ok_let: "(\<And>a b. ok J Q (f a b)) \<Longrightarrow> ok J Q (let (a, b) = p in f a b)"
  by (simp add: case_prod_unfold)

lemma ok_case: "(\<And>a b. ok J Q (f a b)) \<Longrightarrow> ok J Q (case p of (a, b) \<Rightarrow> f a b)"
  by (simp add: case_prod_unfold)

lemma ok_wrap: "ok I (\<lambda>i. Q (mk i)) r \<Longrightarrow> ok I Q (wrap mk r)"
  by (auto simp: ok_def wrap_def)

lemma ok_traverse:
  assumes "\<And>x s. I s \<Longrightarrow> ok I P (f x s)"
  shows "I s \<Longrightarrow> ok I (list_all P) (traverse f xs s)"
proof (induction xs arbitrary: s)
  case Nil
  then show ?case by (simp add: ok_return)
next
  case (Cons x xs)
  have "ok I P (f x s)" using Cons.prems by (rule assms)
  then show ?case using Cons.IH by (auto intro!: ok_bind [of I] ok_return simp: ok_return)
qed

section \<open>The contract\<close>

text \<open>Operands and functions all of whose constants are good.\<close>

definition op_good :: "(Constant \<Rightarrow> bool) \<Rightarrow> Operand \<Rightarrow> bool" where
  "op_good good op \<longleftrightarrow> (\<forall>k. op = ConstantOperand k \<longrightarrow> good k)"

definition function_good :: "(Constant \<Rightarrow> bool) \<Rightarrow> Function \<Rightarrow> bool" where
  "function_good good f \<longleftrightarrow>
     (\<forall>b \<in> set (basic_blocks f). \<forall>i \<in> set (instrs b). \<forall>op \<in> set (inst_operands i). op_good good op)"

locale reader_contract =
  fixes api :: "'a function_api_scheme" and depth :: nat
    and I :: "ModuleContext \<Rightarrow> bool" and good :: "Constant \<Rightarrow> bool"
  assumes type_kept: "I ctx \<Longrightarrow> ok I (\<lambda>t. True) (read_type api depth ty ctx)"
    and constant_kept: "I ctx \<Longrightarrow> ok I good (Constant_from_llvm_ref api depth c ctx)"
    and attribute_kept: "I ctx \<Longrightarrow> ok I (\<lambda>p. True) (read_param_attribute api depth a ctx)"
    and i32_kept: "I ctx \<Longrightarrow> I (ctx\<lparr>ctx_types := snd (tb_i32 (ctx_types ctx))\<rparr>)"
begin

lemma Operand_kept: "I ctx \<Longrightarrow> ok I (op_good good) (Operand_from_llvm_ref api depth fc v ctx)"
  unfolding Operand_from_llvm_ref_def
  by (auto simp: op_good_def intro!: ok_lookup ok_bind [OF constant_kept] ok_bind [OF type_kept] ok_return)

lemma operand_kept: "I ctx \<Longrightarrow> ok I (op_good good) (read_operand api depth fc inst i ctx)"
  unfolding read_operand_def by (rule Operand_kept)

lemma arg_operand_kept: "I ctx \<Longrightarrow> ok I (op_good good) (read_arg_operand api depth fc inst i ctx)"
  unfolding read_arg_operand_def by (rule Operand_kept)

lemmas bind_kept =
  ok_assert ok_let ok_case ok_bind [OF operand_kept] ok_bind [OF Operand_kept] ok_bind [OF type_kept]
  ok_bind [OF constant_kept] ok_bind [OF ok_traverse [OF attribute_kept]] ok_bind [OF ok_traverse [OF operand_kept]]
  ok_bind [OF ok_traverse [OF arg_operand_kept]]

lemma incoming_kept: "I ctx \<Longrightarrow> ok I (\<lambda>p. op_good good (fst p)) (incoming_from_llvm api depth fc inst i ctx)"
  unfolding incoming_from_llvm_def by (auto intro!: bind_kept ok_lookup ok_return)

lemma clause_kept: "I ctx \<Longrightarrow> ok I (\<lambda>c. True) (LandingPadClause_from_llvm_ref api depth inst i ctx)"
  unfolding LandingPadClause_from_llvm_ref_def Let_def by (auto intro!: bind_kept ok_return)

lemma mask_kept: "I ctx \<Longrightarrow> ok I (\<lambda>k. True) (mask_element api inst sc i ctx)"
  unfolding mask_element_def Let_def
  by (auto intro!: ok_assert ok_return i32_kept simp: case_prod_unfold)

lemma argument_kept: "I ctx \<Longrightarrow> ok I (\<lambda>p. op_good good (fst p)) (read_argument api depth fc inst i ctx)"
  unfolding read_argument_def by (auto intro!: bind_kept ok_return)

lemma InlineAssembly_kept: "I ctx \<Longrightarrow> ok I (\<lambda>a. True) (InlineAssembly_from_llvm_ref api depth v ctx)"
  unfolding InlineAssembly_from_llvm_ref_def by (auto intro!: bind_kept ok_return)

lemma callee_kept: "I ctx \<Longrightarrow> ok I (\<lambda>f. list_all (op_good good) (callee_operands f)) (read_callee api depth fc v ctx)"
  unfolding read_callee_def
  by (auto intro!: bind_kept ok_bind [OF InlineAssembly_kept] ok_return simp: callee_operands_def)

lemmas parts_kept =
  bind_kept ok_lookup ok_bind [OF ok_traverse [OF incoming_kept]] ok_bind [OF ok_traverse [OF clause_kept]]
  ok_bind [OF ok_traverse [OF mask_kept]] ok_bind [OF ok_traverse [OF argument_kept]] ok_bind [OF callee_kept]

lemma CallInfo_kept:
  "I ctx \<Longrightarrow> ok I (\<lambda>ci. list_all (op_good good) (callee_operands (ci_function ci) @ map fst (ci_arguments ci)))
     (CallInfo_from_llvm_ref api depth fc inst ctx)"
  unfolding CallInfo_from_llvm_ref_def by (auto intro!: parts_kept ok_return simp: list.pred_map comp_def)

lemma shuffle_mask_kept: "I ctx \<Longrightarrow> ok I (\<lambda>k. True) (shuffle_mask_from_llvm api depth inst ctx)"
  unfolding shuffle_mask_from_llvm_def by (auto intro!: parts_kept ok_return split: Type.split)

lemmas inst_kept = parts_kept ok_bind [OF CallInfo_kept] ok_bind [OF shuffle_mask_kept]

lemma ops_kept:
  assumes "I ctx"
  shows "ok (on_ctx I) (\<lambda>i. op_good good (operand i)) (unop_from_llvm api depth v ctx fc)"
    "ok (on_ctx I) (\<lambda>i. op_good good (operand0 i) \<and> op_good good (operand1 i)) (binop_from_llvm api depth v ctx fc)"
    "ok (on_ctx I) (\<lambda>i. op_good good (operand0 i) \<and> op_good good (operand1 i)) (binop_from_llvm_with_nuw_nsw api depth v ctx fc)"
    "ok (on_ctx I) (\<lambda>i. op_good good (operand0 i) \<and> op_good good (operand1 i)) (binop_from_llvm_with_exact api depth v ctx fc)"
    "ok (on_ctx I) (\<lambda>i. op_good good (operand i)) (typed_unop_from_llvm api depth v ctx fc)"
    "ok (on_ctx I) (\<lambda>i. op_good good (operand0 i) \<and> op_good good (operand1 i)) (ICmp_from_llvm_ref api depth v ctx fc)"
    "ok (on_ctx I) (\<lambda>i. op_good good (operand0 i) \<and> op_good good (operand1 i)) (FCmp_from_llvm_ref api depth v ctx fc)"
  unfolding unop_from_llvm_def binop_from_llvm_def binop_from_llvm_with_nuw_nsw_def binop_from_llvm_with_exact_def
    typed_unop_from_llvm_def ICmp_from_llvm_ref_def FCmp_from_llvm_ref_def
  using assms by (auto intro!: inst_kept ok_return)

lemma memory_kept:
  assumes "I ctx"
  shows "ok (on_ctx I) (\<lambda>i. op_good good (num_elements i)) (Alloca_from_llvm_ref api depth v ctx fc)"
    "ok (on_ctx I) (\<lambda>i. op_good good (load_address i)) (Load_from_llvm_ref api depth v ctx fc)"
    "ok (on_ctx I) (\<lambda>i. op_good good (store_address i) \<and> op_good good (store_value i)) (Store_from_llvm_ref api depth v ctx fc)"
    "ok (on_ctx I) (\<lambda>i. True) (Fence_from_llvm_ref api v ctx fc)"
    "ok (on_ctx I) (\<lambda>i. op_good good (cx_address i) \<and> op_good good (cx_expected i) \<and> op_good good (cx_replacement i))
       (CmpXchg_from_llvm_ref api depth v ctx fc)"
    "ok (on_ctx I) (\<lambda>i. op_good good (rmw_address i) \<and> op_good good (rmw_value i)) (AtomicRMW_from_llvm_ref api depth v ctx fc)"
    "ok (on_ctx I) (\<lambda>i. op_good good (gep_address i) \<and> list_all (op_good good) (gep_indices i))
       (GetElementPtr_from_llvm_ref api depth v ctx fc)"
  unfolding Alloca_from_llvm_ref_def Load_from_llvm_ref_def Store_from_llvm_ref_def Fence_from_llvm_ref_def
    CmpXchg_from_llvm_ref_def AtomicRMW_from_llvm_ref_def GetElementPtr_from_llvm_ref_def
  using assms by (auto intro!: inst_kept ok_return)

lemma aggregates_kept:
  assumes "I ctx"
  shows "ok (on_ctx I) (\<lambda>i. op_good good (ee_vector i) \<and> op_good good (ee_index i)) (ExtractElement_from_llvm_ref api depth v ctx fc)"
    "ok (on_ctx I) (\<lambda>i. op_good good (ie_vector i) \<and> op_good good (ie_element i) \<and> op_good good (ie_index i))
       (InsertElement_from_llvm_ref api depth v ctx fc)"
    "ok (on_ctx I) (\<lambda>i. op_good good (operand0 i) \<and> op_good good (operand1 i)) (ShuffleVector_from_llvm_ref api depth v ctx fc)"
    "ok (on_ctx I) (\<lambda>i. op_good good (ev_aggregate i)) (ExtractValue_from_llvm_ref api depth v ctx fc)"
    "ok (on_ctx I) (\<lambda>i. op_good good (iv_aggregate i) \<and> op_good good (iv_element i)) (InsertValue_from_llvm_ref api depth v ctx fc)"
  unfolding ExtractElement_from_llvm_ref_def InsertElement_from_llvm_ref_def ShuffleVector_from_llvm_ref_def
    ExtractValue_from_llvm_ref_def InsertValue_from_llvm_ref_def
  using assms by (auto intro!: inst_kept ok_return)

lemma others_kept:
  assumes "I ctx"
  shows "ok (on_ctx I) (\<lambda>i. list_all (\<lambda>p. op_good good (fst p)) (incoming_values i)) (Phi_from_llvm_ref api depth v ctx fc)"
    "ok (on_ctx I) (\<lambda>i. op_good good (condition i) \<and> op_good good (true_value i) \<and> op_good good (false_value i))
       (Select_from_llvm_ref api depth v ctx fc)"
    "ok (on_ctx I) (\<lambda>i. list_all (op_good good) (callee_operands (call_function i) @ map fst (call_arguments i)))
       (Call_from_llvm_ref api depth v ctx fc)"
    "ok (on_ctx I) (\<lambda>i. op_good good (va_arg_list i)) (VAArg_from_llvm_ref api depth v ctx fc)"
    "ok (on_ctx I) (\<lambda>i. True) (LandingPad_from_llvm_ref api depth v ctx fc)"
    "ok (on_ctx I) (\<lambda>i. op_good good (catch_switch i) \<and> list_all (op_good good) (cp_args i)) (CatchPad_from_llvm_ref api depth v ctx fc)"
    "ok (on_ctx I) (\<lambda>i. op_good good (parent_pad i) \<and> list_all (op_good good) (clp_args i)) (CleanupPad_from_llvm_ref api depth v ctx fc)"
  unfolding Phi_from_llvm_ref_def Select_from_llvm_ref_def Call_from_llvm_ref_def VAArg_from_llvm_ref_def
    LandingPad_from_llvm_ref_def CatchPad_from_llvm_ref_def CleanupPad_from_llvm_ref_def
  using assms by (auto intro!: inst_kept ok_return)

lemma Instruction_kept:
  assumes "I ctx"
  shows "ok (on_ctx I) (\<lambda>i. list_all (op_good good) (inst_operands i)) (Instruction_from_llvm_ref api depth v ctx fc)"
  unfolding Instruction_from_llvm_ref_def
  using ops_kept [OF assms] memory_kept [OF assms] aggregates_kept [OF assms] others_kept [OF assms]
  by (cases "LLVMGetInstructionOpcode api v")
     (simp_all add: ok_wrap list.pred_map comp_def)

lemma switch_case_kept: "I ctx \<Longrightarrow> ok I (\<lambda>p. True) (switch_case api depth fc t i ctx)"
  unfolding switch_case_def by (auto intro!: inst_kept ok_return)

lemma Ret_kept: "I ctx \<Longrightarrow> ok (on_ctx I) (\<lambda>t. True) (Ret_from_llvm_ref api depth v ctx fc)"
  using operand_kept [of ctx fc v 0]
  by (auto simp: Ret_from_llvm_ref_def ok_def bind_eq_Some_conv split: if_splits)

lemma terms_kept:
  assumes "I ctx"
  shows "ok (on_ctx I) (\<lambda>t. True) (Br_from_llvm_ref api v ctx fc)"
    "ok (on_ctx I) (\<lambda>t. True) (CondBr_from_llvm_ref api depth v ctx fc)"
    "ok (on_ctx I) (\<lambda>t. True) (Switch_from_llvm_ref api depth v ctx fc)"
    "ok (on_ctx I) (\<lambda>t. True) (IndirectBr_from_llvm_ref api depth v ctx fc)"
    "ok (on_ctx I) (\<lambda>t. True) (Invoke_from_llvm_ref api depth v ctx fc)"
    "ok (on_ctx I) (\<lambda>t. True) (Resume_from_llvm_ref api depth v ctx fc)"
    "ok (on_ctx I) (\<lambda>t. True) (Unreachable_from_llvm_ref api v ctx fc)"
    "ok (on_ctx I) (\<lambda>t. True) (CleanupRet_from_llvm_ref api depth v ctx fc)"
    "ok (on_ctx I) (\<lambda>t. True) (CatchRet_from_llvm_ref api depth v ctx fc)"
    "ok (on_ctx I) (\<lambda>t. True) (CatchSwitch_from_llvm_ref api depth v ctx fc)"
    "ok (on_ctx I) (\<lambda>t. True) (CallBr_from_llvm_ref api depth v ctx fc)"
  unfolding Br_from_llvm_ref_def CondBr_from_llvm_ref_def Switch_from_llvm_ref_def
    IndirectBr_from_llvm_ref_def Invoke_from_llvm_ref_def Resume_from_llvm_ref_def Unreachable_from_llvm_ref_def
    CleanupRet_from_llvm_ref_def CatchRet_from_llvm_ref_def CatchSwitch_from_llvm_ref_def CallBr_from_llvm_ref_def
  using assms by (auto intro!: inst_kept ok_bind [OF ok_traverse [OF switch_case_kept]] ok_return)

lemma Terminator_kept: "I ctx \<Longrightarrow> ok (on_ctx I) (\<lambda>t. True) (Terminator_from_llvm_ref api depth v ctx fc)"
  unfolding Terminator_from_llvm_ref_def
  by (cases "LLVMGetInstructionOpcode api v") (simp_all add: ok_wrap Ret_kept terms_kept)

lemma read_instructions_kept:
  "I ctx \<Longrightarrow> ok (on_ctx I) (list_all (\<lambda>i. list_all (op_good good) (inst_operands i))) (read_instructions api depth vs ctx fc)"
proof (induction vs arbitrary: ctx fc)
  case (Cons v vs)
  note r = Instruction_kept [OF Cons.prems, of v fc]
  have "read_instructions api depth (v # vs) ctx fc =
      Instruction_from_llvm_ref api depth v ctx fc \<bind> (\<lambda>(i, s). read_instructions api depth vs (fst s) (snd s) \<bind>
        (\<lambda>(is, s). Some (i # is, s)))"
    by (simp add: case_prod_unfold)
  moreover have "ok (on_ctx I) (list_all (\<lambda>i. list_all (op_good good) (inst_operands i))) \<dots>"
    using Cons.IH by (intro ok_bind [OF r] ok_bind [where I = "on_ctx I"] ok_return) auto
  ultimately show ?case by (simp only:)
qed (simp add: ok_return)

lemma BasicBlock_kept:
  assumes "I (fst s)"
  shows "ok (on_ctx I) (\<lambda>b. list_all (\<lambda>i. list_all (op_good good) (inst_operands i)) (instrs b)) (BasicBlock_from_llvm_ref api depth bb s)"
proof -
  obtain ctx fc where s: "s = (ctx, fc)" by (cases s)
  obtain nm c where nm: "name_or_num (get_bb_name api bb) (ctr fc) = (nm, c)"
    by (cases "name_or_num (get_bb_name api bb) (ctr fc)")
  show ?thesis
    unfolding ok_def
  proof (intro allI impI)
    fix b s' assume "BasicBlock_from_llvm_ref api depth bb s = Some (b, s')"
    then obtain vs ctx1 fc1 where r:
      "read_instructions api depth (butlast vs) ctx (fc\<lparr>ctr := c\<rparr>) = Some (instrs b, ctx1, fc1)"
      "Terminator_from_llvm_ref api depth (LLVMGetBasicBlockTerminator api bb) ctx1 fc1 = Some (bb_term b, s')"
      using nm by (auto simp: BasicBlock_from_llvm_ref_def s bind_eq_Some_conv simp del: name_or_num.simps)
    have "I ctx" using assms s by simp
    note ri = okD [OF read_instructions_kept [OF this] r(1)]
    then have "I ctx1" by simp
    then show "list_all (\<lambda>i. list_all (op_good good) (inst_operands i)) (instrs b) \<and> on_ctx I s'"
      using ri okD [OF Terminator_kept r(2)] by blast
  qed
qed

lemma Parameter_kept: "I (fst s) \<Longrightarrow> ok (on_ctx I) (\<lambda>p. True) (Parameter_from_llvm api depth func ip s)"
  unfolding Parameter_from_llvm_def
  by (cases ip; cases s) (auto intro!: inst_kept ok_return simp del: name_or_num.simps)

lemma internal_kept: "I ctx \<Longrightarrow> ok I (\<lambda>d. True) (from_llvm_ref_internal api depth func ctx)"
proof -
  have ps: "ok (on_ctx I) (list_all (\<lambda>p. True)) (traverse (Parameter_from_llvm api depth func) ips (ctx, 0))" if "I ctx" for ips ctx
    using that Parameter_kept by (intro ok_traverse) (auto simp: on_ctx_def)
  assume ctx: "I ctx"
  show ?thesis
    unfolding ok_def
  proof (intro allI impI)
    fix d s assume "from_llvm_ref_internal api depth func ctx = Some (d, s)"
    then obtain ps' params ctx1 c ret ctx2 as where r:
      "traverse (Parameter_from_llvm api depth func) (enumerate 0 ps') (ctx, 0) = Some (params, ctx1, c)"
      "read_type api depth (LLVMGetReturnType (types_api api) (LLVMGlobalGetValueType api func)) ctx1 = Some (ret, ctx2)"
      "traverse (read_param_attribute api depth) (LLVMGetAttributesAtIndex api func (LLVMAttributeReturnIndex api)) ctx2 = Some (as, s)"
      by (auto simp: from_llvm_ref_internal_def bind_eq_Some_conv Let_def)
    have "I ctx1" using okD [OF ps [OF ctx] r(1)] by simp
    then have "I ctx2" using okD [OF type_kept r(2)] by blast
    then show "True \<and> I s" using okD [OF ok_traverse [OF attribute_kept] r(3)] by blast
  qed
qed

lemma Function_kept: "I ctx \<Longrightarrow> ok I (function_good good) (Function_from_llvm_ref api depth func ctx)"
proof -
  assume ctx: "I ctx"
  have bs: "ok (on_ctx I) (list_all (\<lambda>b. list_all (\<lambda>i. list_all (op_good good) (inst_operands i)) (instrs b)))
      (traverse (BasicBlock_from_llvm_ref api depth) bbs (ctx, fc))" if "I ctx" for bbs ctx fc
    using that BasicBlock_kept by (intro ok_traverse) (auto simp: on_ctx_def)
  show ?thesis
    unfolding ok_def
  proof (intro allI impI)
    fix f s assume "Function_from_llvm_ref api depth func ctx = Some (f, s)"
    then obtain d ctx1 bbs fc ctx2 fc2 where r:
      "from_llvm_ref_internal api depth func ctx = Some (d, ctx1)"
      "traverse (BasicBlock_from_llvm_ref api depth) bbs (ctx1, fc) = Some (basic_blocks f, ctx2, fc2)"
      "(case LLVMGetPersonalityFn api func of None \<Rightarrow> s = ctx2
        | Some p \<Rightarrow> \<exists>k. Constant_from_llvm_ref api depth p ctx2 = Some (k, s))"
      by (auto simp: Function_from_llvm_ref_def bind_eq_Some_conv Let_def split: option.splits)
    have "I ctx1" using okD [OF internal_kept [OF ctx] r(1)] by blast
    then have "list_all (\<lambda>b. list_all (\<lambda>i. list_all (op_good good) (inst_operands i)) (instrs b)) (basic_blocks f) \<and> I ctx2"
      using okD [OF bs r(2)] by simp
    moreover from this have "I s" using r(3) okD [OF constant_kept] by (auto split: option.splits)
    ultimately show "function_good good f \<and> I s" by (simp add: function_good_def list_all_iff)
  qed
qed

end

section \<open>Modules\<close>

text \<open>The names that the first pass over a module gives to its global objects.\<close>

definition module_names :: "llvm_api \<Rightarrow> LLVMValueRef \<rightharpoonup> Name" where
  "module_names api =
     module_global_names api (the (get_defined_functions api)) (the (get_declared_functions api))
       (the (get_globals api)) (the (get_global_aliases api)) (the (get_global_ifuncs api))"

locale module_contract = reader_contract api depth I good
  for api :: llvm_api and depth :: nat and I :: "ModuleContext \<Rightarrow> bool" and good :: "Constant \<Rightarrow> bool"
begin

lemma Declaration_kept: "I ctx \<Longrightarrow> ok I (\<lambda>d. True) (FunctionDeclaration_from_llvm_ref api depth func ctx)"
  using internal_kept [of ctx func] by (auto simp: FunctionDeclaration_from_llvm_ref_def ok_def bind_eq_Some_conv)

lemma maybe_constant_kept:
  "I ctx \<Longrightarrow> ok I (\<lambda>k. True) (case c of None \<Rightarrow> Some (None, ctx)
     | Some it \<Rightarrow> do { (k, ctx) \<leftarrow> Constant_from_llvm_ref api depth it ctx; Some (Some k, ctx) })"
  by (auto intro!: inst_kept ok_return split: option.split)

lemma objects_kept:
  assumes "I (fst s)"
  shows "ok (on_ctx I) (\<lambda>g. True) (GlobalVariable_from_llvm_ref api depth g s)"
    "ok (on_ctx I) (\<lambda>g. True) (GlobalAlias_from_llvm_ref api depth g s)"
    "ok (on_ctx I) (\<lambda>g. True) (GlobalIFunc_from_llvm_ref api depth g s)"
  using assms
  unfolding GlobalVariable_from_llvm_ref_def GlobalAlias_from_llvm_ref_def GlobalIFunc_from_llvm_ref_def
  by (cases s; auto intro!: inst_kept ok_bind [OF maybe_constant_kept] ok_return simp del: name_or_num.simps)+

lemma Module_kept:
  assumes "I (ModuleContext_new api (module_names api))" "Module_from_llvm_ref api depth = Some m"
  shows "(\<forall>f \<in> set (module_functions m). function_good good f) \<and>
     (\<exists>ctx. I ctx \<and> module_types m = TypesBuilder_build (ctx_types ctx))"
proof -
  obtain defs decls vars als ifs ctx1 ds ctx2 gvs s3 gas s4 gis s5 where r:
      "traverse (Function_from_llvm_ref api depth) defs (ModuleContext_new api (module_names api)) = Some (module_functions m, ctx1)"
      "traverse (FunctionDeclaration_from_llvm_ref api depth) decls ctx1 = Some (ds, ctx2)"
      "traverse (GlobalVariable_from_llvm_ref api depth) vars (ctx2, 0) = Some (gvs, s3)"
      "traverse (GlobalAlias_from_llvm_ref api depth) als s3 = Some (gas, s4)"
      "traverse (GlobalIFunc_from_llvm_ref api depth) ifs s4 = Some (gis, s5)"
      "module_types m = TypesBuilder_build (ctx_types (fst s5))"
    using assms(2) by (auto simp: Module_from_llvm_ref_def module_names_def bind_eq_Some_conv Let_def)
  note f = okD [OF ok_traverse [OF Function_kept assms(1)] r(1)]
  then have "I ctx2" using okD [OF ok_traverse [OF Declaration_kept] r(2)] by blast
  moreover have "\<And>x s. on_ctx I s \<Longrightarrow> ok (on_ctx I) (\<lambda>g. True) (GlobalVariable_from_llvm_ref api depth x s)"
    "\<And>x s. on_ctx I s \<Longrightarrow> ok (on_ctx I) (\<lambda>g. True) (GlobalAlias_from_llvm_ref api depth x s)"
    "\<And>x s. on_ctx I s \<Longrightarrow> ok (on_ctx I) (\<lambda>g. True) (GlobalIFunc_from_llvm_ref api depth x s)"
    using objects_kept by (auto simp: on_ctx_def)
  ultimately have "on_ctx I s5"
    using okD [OF ok_traverse r(3)] okD [OF ok_traverse r(4)] okD [OF ok_traverse r(5)] by (metis on_ctx_pair)
  then show ?thesis using f r(6) by (auto simp: on_ctx_def list_all_iff)
qed

end

section \<open>Properties of the context alone\<close>

text \<open>A property that reading types and attributes and memoising constants keeps is kept by every reader.\<close>

locale context_contract =
  fixes api :: "'a function_api_scheme" and depth :: nat and I :: "ModuleContext \<Rightarrow> bool"
  assumes ctx_type: "I ctx \<Longrightarrow> ok I (\<lambda>t. True) (read_type api depth ty ctx)"
    and ctx_attribute: "I ctx \<Longrightarrow> ok I (\<lambda>p. True) (read_param_attribute api depth a ctx)"
    and ctx_i32: "I ctx \<Longrightarrow> I (ctx\<lparr>ctx_types := snd (tb_i32 (ctx_types ctx))\<rparr>)"
    and ctx_memo: "I ctx \<Longrightarrow> I (ctx\<lparr>constants := m\<rparr>)"
begin

lemma parse_kept:
  assumes "\<And>c ctx. I ctx \<Longrightarrow> ok I (\<lambda>k. True) (rd c ctx)" "I ctx"
  shows "ok I (\<lambda>k. True) (parse_from_llvm_ref api depth rd c ctx)"
proof -
  note kept = ok_bind [OF ctx_type] ok_bind [OF ok_traverse [OF assms(1)]] ok_bind [OF assms(1)] ok_assert ok_return
    ok_bind_any [where m = "global_names ctx c" for ctx c] ok_bind_any [where m = "struct_shape ts t" for ts t] ok_case
  have leaves: "ok I (\<lambda>k. True) (typed_constant mk api depth c ctx)" "ok I (\<lambda>k. True) (int_constant api depth c ctx)"
      "ok I (\<lambda>k. True) (fp_constant api depth c ctx)" "ok I (\<lambda>k. True) (global_constant api depth c ctx)" for mk
    using assms(2) unfolding typed_constant_def int_constant_def fp_constant_def global_constant_def
    by (auto intro!: kept split: Type.split)
  have aggregates: "ok I (\<lambda>k. True) (struct_constant api depth rd c ctx)"
      "ok I (\<lambda>k. True) (array_constant api depth rd elem c ctx)" "ok I (\<lambda>k. True) (vector_constant api rd c ctx)"
      "ok I (\<lambda>k. True) (data_vector_constant api depth rd c ctx)" "ok I (\<lambda>k. True) (ptr_auth_constant api rd c ctx)" for elem
    using assms(2) unfolding struct_constant_def array_constant_def vector_constant_def data_vector_constant_def
      ptr_auth_constant_def by (auto intro!: kept split: Type.split)
  have exprs: "ok I (\<lambda>k. True) (binop_constant mk api rd c ctx)" "ok I (\<lambda>k. True) (insert_element_constant api rd c ctx)"
      "ok I (\<lambda>k. True) (gep_constant api rd c ctx)" "ok I (\<lambda>k. True) (cast_constant mk' api depth rd c ctx)" for mk mk'
    using assms(2) unfolding binop_constant_def insert_element_constant_def gep_constant_def cast_constant_def
    by (auto intro!: kept)
  have "ok I (\<lambda>k. True) (constant_expr api depth rd c ctx)"
    using exprs unfolding constant_expr_def by (cases "LLVMGetConstOpcode api c") simp_all
  then show ?thesis
    using leaves aggregates assms(2) unfolding parse_from_llvm_ref_def
    by (cases "LLVMGetValueKind api c") (simp_all add: ok_return)
qed

lemma read_constant_kept: "I ctx \<Longrightarrow> ok I (\<lambda>k. True) (read_constant api depth n c ctx)"
proof (induction n arbitrary: c ctx)
  case (Suc n)
  have "ok I (\<lambda>k. True) (parse_from_llvm_ref api depth (read_constant api depth n) c ctx)"
    using parse_kept Suc by blast
  then show ?case using Suc.prems ctx_memo by (auto intro!: ok_bind ok_assert ok_return split: option.split)
qed simp

end

sublocale context_contract \<subseteq> reader_contract api depth I "\<lambda>k. True"
  by unfold_locales
     (simp_all add: ctx_type ctx_attribute ctx_i32 Constant_from_llvm_ref_def read_constant_kept)

end
