(* ===== verification/Reader_Analysis.thy ===== *)
theory Reader_Analysis
  imports Reader_Contract Constant_Meaning Analyzer_Soundness
begin

text \<open>
  From the translation of a module to its analysis: the readers keep the type tables consistent with
  LLVM's types and read only constants that stand for a handle. So the tables of a translated module
  define no struct that contains itself, and every operand has a type: what the analysis needs to return.
\<close>

section \<open>The type tables\<close>

definition tables_ok :: "llvm_type_api \<Rightarrow> TypesBuilder \<Rightarrow> bool" where
  "tables_ok api b \<longleftrightarrow> reader_ok api b \<and> dom (named_struct_types b) \<subseteq> dom (named_struct_defs b)"

lemma ctx_ok_tables:
  "ctx_ok api names ctx \<longleftrightarrow> tables_ok (types_api api) (ctx_types ctx) \<and>
     global_names ctx = names \<and> (\<forall>c k. constants ctx c = Some k \<longrightarrow> constant_of api names c k)"
  by (simp add: ctx_ok_def tables_ok_def)

lemma tables_ok_extends: "tables_ok api b \<Longrightarrow> reader_ok api b' \<Longrightarrow> extends b b' \<Longrightarrow> tables_ok api b'"
  using complete_extends by (simp add: tables_ok_def)

lemma tables_type:
  assumes "tables_ok api b" "type_from_llvm_ref api depth ty b = Some (t, b')"
  shows "tables_ok api b'"
  using type_from_llvm_ref_faithful [of api depth] assms tables_ok_extends
  unfolding faithful_def reads_def tables_ok_def by blast

lemma tables_attribute:
  assumes "tables_ok (types_api api) b"
    "ParameterAttribute_from_llvm_ref aapi ad (type_from_llvm_ref (types_api api) depth) a b = Some (p, b')"
  shows "tables_ok (types_api api) b'"
  using assms tables_type
  by (auto simp: ParameterAttribute_from_llvm_ref_def split: if_splits option.splits)

lemma tables_i32: "tables_ok api b \<Longrightarrow> tables_ok api (snd (tb_i32 b))"
  using reader_ok_intern [of api b "snd (tb_int 32 b)"] tb_int_ok [of b 32] tables_ok_extends
  by (auto simp: tb_i32_def tables_ok_def reader_ok_types frame_simps)

interpretation tables: context_contract api depth "\<lambda>ctx. tables_ok (types_api api) (ctx_types ctx)" for api depth
  by unfold_locales
     (auto simp: ok_def read_type_def read_param_attribute_def bind_eq_Some_conv tables_i32
       dest: tables_type tables_attribute)

interpretation module_tables: module_contract api depth "\<lambda>ctx. tables_ok (types_api api) (ctx_types ctx)" "\<lambda>k. True"
  for api depth
  by unfold_locales

text \<open>No reader changes the names of global objects or the attribute tables.\<close>

interpretation frame: context_contract api depth "\<lambda>ctx. global_names ctx = names \<and> attrsdata ctx = ad" for api depth names ad
  by unfold_locales (auto simp: ok_def read_type_def read_param_attribute_def bind_eq_Some_conv)

text \<open>With LLVM's guarantees every constant stands for its handle.\<close>

lemma constants_contract:
  fixes api :: llvm_api
  assumes "unique_structs (types_api api)" "finite_constants api names rank"
  shows "module_contract api depth (ctx_ok api names) (\<lambda>k. \<exists>c. constant_of api names c k)"
proof
  fix ctx c assume "ctx_ok api names ctx"
  then show "ok (ctx_ok api names) (\<lambda>k. \<exists>c. constant_of api names c k) (Constant_from_llvm_ref api depth c ctx)"
    using read_constant_sound [OF assms(2,1), of depth depth] leads_ok
    unfolding Constant_from_llvm_ref_def rd_sound_def ok_def by blast
qed (auto simp: ok_def ctx_ok_tables read_type_def read_param_attribute_def bind_eq_Some_conv tables_i32
    dest: tables_type tables_attribute)

section \<open>No struct contains itself\<close>

definition struct_rank :: "llvm_type_api \<Rightarrow> (LLVMTypeRef \<Rightarrow> nat) \<Rightarrow> string \<Rightarrow> nat" where
  "struct_rank api trank s =
     trank (SOME ty. LLVMGetTypeKind api ty = LLVMStructTypeKind \<and> struct_name api ty = Some s)"

lemma struct_rank_eq:
  assumes "unique_structs api" "LLVMGetTypeKind api ty = LLVMStructTypeKind" "struct_name api ty = Some s"
  shows "struct_rank api trank s = trank ty"
proof -
  have "(SOME ty. LLVMGetTypeKind api ty = LLVMStructTypeKind \<and> struct_name api ty = Some s) = ty"
    using assms unfolding unique_structs_def by (intro some_equality) blast+
  then show ?thesis by (simp add: struct_rank_def)
qed

lemma denotes_value_names:
  assumes "finite_types api trank" "unique_structs api"
  shows "denotes api ty t \<Longrightarrow> nm \<in> value_names t \<Longrightarrow> struct_rank api trank nm \<le> trank ty"
proof (induction rule: denotes.induct)
  case (plain ty t)
  then show ?case by (cases "LLVMGetTypeKind api ty") auto
next
  case (array ty t)
  then have "trank (LLVMGetElementType api ty) < trank ty"
    using assms(1) by (auto simp: finite_types_def components_def)
  then show ?case using array by simp
next
  case (named ty s)
  then show ?case using struct_rank_eq [OF assms(2)] by simp
next
  case (literal ty ts)
  then obtain i where i: "i < length ts" "nm \<in> value_names (ts ! i)" by (auto simp: in_set_conv_nth)
  then have "struct_rank api trank nm \<le> trank (LLVMGetStructElementTypes api ty ! i)"
    "LLVMGetStructElementTypes api ty ! i \<in> set (LLVMGetStructElementTypes api ty)"
    using literal.IH by (auto simp: list_all2_conv_all_nth)
  then show ?case using assms(1) literal.hyps by (fastforce simp: finite_types_def components_def)
qed simp_all

lemma tables_ranked:
  assumes "finite_types api trank" "unique_structs api" "tables_ok api b"
  shows "structs_ranked (TypesBuilder_build b) (struct_rank api trank)"
  unfolding structs_ranked_def
proof (intro allI impI ballI)
  fix s inner nm
  assume "named_struct_def (TypesBuilder_build b) s = Some (Defined inner)" and nm: "nm \<in> value_names inner"
  then have "struct_def_ok api s (Defined inner)"
    using assms(3) by (auto simp: tables_ok_def reader_ok_def named_struct_def_def TypesBuilder_build_def)
  then obtain ty ts where ty: "LLVMGetTypeKind api ty = LLVMStructTypeKind" "struct_name api ty = Some s"
      "\<not> LLVMIsOpaqueStruct api ty" "list_all2 (denotes api) (LLVMGetStructElementTypes api ty) ts"
      "inner = StructType ts (LLVMIsPackedStruct api ty)"
    by (auto simp: struct_def_ok_def)
  then obtain i where i: "i < length ts" "nm \<in> value_names (ts ! i)" using nm by (auto simp: in_set_conv_nth)
  then have el: "denotes api (LLVMGetStructElementTypes api ty ! i) (ts ! i)"
    "LLVMGetStructElementTypes api ty ! i \<in> set (LLVMGetStructElementTypes api ty)"
    using ty(4) by (auto simp: list_all2_conv_all_nth)
  then have "struct_rank api trank nm \<le> trank (LLVMGetStructElementTypes api ty ! i)"
    using denotes_value_names [OF assms(1,2)] i(2) by blast
  also have "\<dots> < trank ty" using assms(1) el(2) ty(1,3) by (auto simp: finite_types_def components_def)
  also have "\<dots> = struct_rank api trank s" using struct_rank_eq [OF assms(2) ty(1,2)] by simp
  finally show "struct_rank api trank nm < struct_rank api trank s" .
qed

section \<open>Every constant has a type\<close>

text \<open>Vectors are never empty in LLVM. Constant expressions that extract an element are left out: their
  type is computed from the type of a constant.\<close>

definition vector_safe :: "'a constant_api_scheme \<Rightarrow> (LLVMValueRef \<rightharpoonup> Name) \<Rightarrow> LLVMValueRef \<Rightarrow> bool" where
  "vector_safe api names c \<longleftrightarrow>
     (LLVMGetValueKind api c \<in> {LLVMConstantVectorValueKind, LLVMConstantDataVectorValueKind} \<longrightarrow>
        parts_of api names c \<noteq> []) \<and>
     (LLVMGetValueKind api c = LLVMConstantExprValueKind \<longrightarrow> LLVMGetConstOpcode api c \<noteq> LLVMExtractElement)"

lemma expr_constant_typed:
  assumes "expr_shape api c = Some (tys, parts, mk)" "mk ts ks = Some k" "list_all (constant_typed tab) ks"
    "LLVMGetConstOpcode api c \<noteq> LLVMExtractElement"
  shows "constant_typed tab k"
  using assms
  by (cases "LLVMGetConstOpcode api c") (auto simp: expr_shape_def Let_def split: if_splits list.splits)

lemma constant_of_typed:
  assumes "\<forall>c. vector_safe api names c"
  shows "constant_of api names c k \<Longrightarrow> constant_typed tab k"
proof (induction rule: constant_of.induct)
  case (shape c tys parts mk ts ks k)
  have parts: "parts_of api names c = parts" using shape.hyps(1) by (simp add: parts_of_def)
  have vs: "vector_safe api names c" using assms by simp
  have lt: "list_all (constant_typed tab) ks" and len: "length ks = length parts"
    using shape.IH by (auto simp: list_all2_conv_all_nth list_all_length)
  have const: "LLVMIsAConstant api c"
    using shape.hyps(1) by (cases "LLVMIsAConstant api c") (simp_all add: constant_shape_def Let_def)
  show ?case
  proof (cases "LLVMGetValueKind api c = LLVMConstantExprValueKind")
    case True
    then have "expr_shape api c = Some (tys, parts, mk)"
      using shape.hyps(1) const by (simp add: constant_shape_def Let_def)
    then show ?thesis using expr_constant_typed [where mk = mk] shape.hyps(3) lt vs True by (auto simp: vector_safe_def)
  next
    case False
    then show ?thesis
      using shape.hyps vs lt len const
      by (cases "LLVMGetValueKind api c")
         (auto simp: constant_shape_def vector_safe_def Let_def parts split: if_splits Type.splits option.splits list.splits)
  qed
qed

section \<open>The analysis of a translated module\<close>

text \<open>What the module that was translated offers to the analysis: operands with a type, and struct
  definitions that end.\<close>

lemma translated_typed_operands:
  assumes "Module_from_llvm_ref api depth = Some m" "unique_structs (types_api api)"
    "finite_constants api (module_names api) rank" "\<forall>c. vector_safe api (module_names api) c"
    "i \<in> set (module_instrs m)" "op \<in> set (typed_operands i)"
  shows "operand_typed tab op"
proof -
  have "\<forall>f \<in> set (module_functions m). function_good (\<lambda>k. \<exists>c. constant_of api (module_names api) c k) f"
    using module_contract.Module_kept [OF constants_contract [OF assms(2,3)] ctx_ok_new assms(1)] by blast
  moreover have "op \<in> set (inst_operands i)"
    using assms(6) by (cases i) (simp_all add: typed_operands_def)
  ultimately have "op_good (\<lambda>k. \<exists>c. constant_of api (module_names api) c k) op"
    using assms(5) by (auto simp: function_good_def module_instrs_def func_instrs_def)
  then show ?thesis using constant_of_typed [OF assms(4)] by (cases op) (auto simp: op_good_def)
qed

lemma tables_ok_new:
  fixes api :: "'a constant_api_scheme"
  shows "tables_ok (types_api api) (ctx_types (ModuleContext_new api names))"
  using ctx_ok_new [of api names] by (simp add: ctx_ok_tables)

lemma translated_structs_ranked:
  assumes "Module_from_llvm_ref api depth = Some m" "finite_types (types_api api) trank"
    "unique_structs (types_api api)"
  shows "structs_ranked (module_types m) (struct_rank (types_api api) trank)"
  using module_tables.Module_kept [OF tables_ok_new assms(1)] tables_ranked [OF assms(2,3)] by auto

text \<open>What LLVM guarantees of a module: finite types and constants, unique struct names, vectors that are
  not empty; and no constant expression extracts an element.\<close>

definition llvm_guarantees :: "llvm_api \<Rightarrow> bool" where
  "llvm_guarantees api \<longleftrightarrow>
     (\<exists>trank. finite_types (types_api api) trank) \<and> unique_structs (types_api api) \<and>
     (\<exists>rank. finite_constants api (module_names api) rank) \<and> (\<forall>c. vector_safe api (module_names api) c)"

lemma translated_measurable:
  assumes "Module_from_llvm_ref api depth = Some m" "llvm_guarantees api"
  shows "\<exists>N. \<forall>n \<ge> N. \<forall>i \<in> set (module_instrs m). measurable n m i"
proof -
  obtain trank rank where g: "finite_types (types_api api) trank" "unique_structs (types_api api)"
      "finite_constants api (module_names api) rank" "\<forall>c. vector_safe api (module_names api) c"
    using assms(2) by (auto simp: llvm_guarantees_def)
  have "\<forall>i \<in> set (module_instrs m). \<forall>op \<in> set (typed_operands i). operand_typed (module_types m) op"
    using translated_typed_operands [OF assms(1) g(2,3,4)] by blast
  then show ?thesis using enough_depth_all [OF translated_structs_ranked [OF assms(1) g(1,2)]] by blast
qed

lemma translated_analysis_returns:
  assumes "Module_from_llvm_ref api depth = Some m" "llvm_guarantees api"
  shows "\<exists>N. \<forall>n \<ge> N. \<forall>c gate. analyze (c\<lparr>max_depth := n\<rparr>) m gate \<noteq> None"
proof -
  obtain N where "\<forall>n \<ge> N. \<forall>i \<in> set (module_instrs m). measurable n m i"
    using translated_measurable [OF assms] by blast
  then show ?thesis using analyze_no_panic by (intro exI [of _ N]) fastforce
qed

end
