(* ===== verification/Spec2Isabelle.thy ===== *)
theory Spec2Isabelle
  imports Sample_Module Sample_World Module_Loader Attestation_Properties Attestation_Limits Analyzer_Order Build_Config IR_Properties Reader_Properties Reader_Analysis
begin

text \<open>
  Sentinel-KV: the analyzer \<open>skv-analyzer\<close>.

  The program. \<open>skv-analyzer\<close> (src/skv-analyzer/src/main.rs) reads a kernel module in LLVM IR,
  follows the pointers that come from kmalloc, kzalloc, kcalloc and dma\_alloc\_coherent through one
  pass over all instructions, asks Z3 about the bounds of every access through them, reports a verdict
  (pass, fail, unknown) and exits with a code for it. Around this core: a gate of human approvals that
  decides which conditions Z3 may be asked; a ring policy that accepts a verdict in rings -1 and -2
  only with a signed, fresh and never replayed attestation token, validated by a bridge in C
  (src/skv-analyzer/src/c/attestation\_bridge.c) or, if the build asks for it, in Zig
  (src/skv-analyzer/src/zig/attestation\_bridge.zig); and a command line. The module is held in the data
  structures of the patched crate llvm-ir (src/skv-analyzer/llvm-ir-patched/src).

  The theories, from the bottom up.
  \<^item> Prelude: the integer types, checked and saturating arithmetic, \<open>Vec::get\<close>, the collections of
    theorems. Rust\_Text: the string functions of the standard library that the sources call (trim,
    lines, split\_whitespace, parse, formatting of numbers, escaping).
  \<^item> LLVM\_Types (types.rs), LLVM\_Constant (name.rs, constant.rs, operand.rs), LLVM\_Attributes
    (debugloc.rs, predicates.rs, attributes of function.rs), LLVM\_Instruction (instruction.rs and
    instruction/groups.rs), LLVM\_Layout (the data layout of module.rs), LLVM\_Module (terminator.rs,
    basicblock.rs, function.rs, module.rs): a record or datatype per struct and enum, a function per
    method. The type tables are proved to be invisible: what they hand out is the type asked for.
  \<^item> Type\_Reader, LLVM\_Conversions (the translation of types, enumerations, calling conventions and
    attributes from LLVM), Layout\_Parser (the reader of data-layout strings), LLVM\_Display (printing of
    constants, operands, instructions and terminators); IR\_Properties states their properties.
  \<^item> LLVM\_Api (the record of LLVM-C functions, the iterators, the two contexts), Constant\_Reader,
    Instruction\_Reader, Terminator\_Reader, Module\_Reader: \<open>from_llvm_ref\<close> of every struct. A reader takes
    the handle and the contexts and returns the struct with the contexts, or None for a panic. Reader\_Names
    and Reader\_Functions follow the names through both passes over a function, Reader\_Numbering relates
    them to one numbering of all values; Sample\_Llvm is a small module as LLVM hands it over, and
    Reader\_Properties states the properties.
  \<^item> Constant\_Meaning says which constant a handle stands for, independently of the memo and the order of
    reading, and that the reader finds exactly this constant; Constant\_Typing compares \<open>get_type\<close> with LLVM's
    type. Reader\_Contract has the locales \<open>reader_contract\<close>, \<open>module_contract\<close> and \<open>context_contract\<close>: what
    reading types, constants and attributes keeps, every reader up to the module keeps. Reader\_Analysis
    interprets them for the type tables and the constants and derives what the analysis needs of a module.
  \<^item> Module\_Loader (from\_path, from\_buffer, parse\_ir and parse\_bc of module.rs): from a file to the
    translated module, with a log of the foreign calls and a ledger of LLVM's objects; \<open>with_llvm\<close> puts it
    under the command line.
  \<^item> Type\_Size (resolve\_named\_type, type\_size), Verdict (the enumerations of the command line,
    AnalysisResult, Verdict, JSON), Filesystem (files, ownership checks, write\_output\_file), Hitl
    (HitlGate, identifiers and approvals), Access\_Check (terms, solver, check\_access).
  \<^item> Analyzer: \<open>analyze\<close> with one handler per arm of its match (Call with kmalloc, kcalloc, kfree,
    memset, memcpy, inline assembly, DMA; GetElementPtr, casts, Add, Sub, Store, Load), the three
    nested loops, the scan for interrupt handlers and the require-iommu policy. The local variables of
    \<open>analyze\<close> are the record \<open>astate\<close>; \<open>continue\<close>, \<open>break\<close> and a panic are the values Next, Break and
    Crash of \<open>ctl\<close>.
  \<^item> Analyzer\_Steps: every handler as a sequence of atomic updates \<open>upd\<close>, the visits of a run as
    \<open>trace\<close>, and the locales \<open>analysis_preorder\<close> and \<open>analysis_invariant\<close>: what every atomic update
    keeps, the whole analysis keeps. Analyzer\_Invariants interprets them: the result never gets better,
    pointers always name allocations with a size, freed memory stays freed, gate and solver stay in step.
    Analyzer\_Accesses says, independently of the handlers, which accesses an instruction makes and when
    one is in order; Analyzer\_Soundness relates the result of a run to them and shows that a run ends
    without panic. Analyzer\_Order chains the visits of a run and says what comes after what.
  \<^item> Attestation (the C bridge: fgets, strtoll, the token, the replay file), Attestation\_Limits (overflow of
    the age, failing reads and writes of the replay file), Ring\_Policy
    (normalize\_fingerprint, verify\_attestation\_signature, apply\_ring\_policy), Cli (Args, run, main and
    the subcommands).
  \<^item> Replay\_Processes: the system calls of \<open>check_replay\<close> (open, fcntl, fstat, pread, ftruncate,
    lseek, write, fsync, chmod) as the steps \<open>call_step\<close> of processes that share a replay file; \<open>reached\<close> are the
    states of any interleaving, in which calls may fail and processes be killed. A process that runs alone
    does what \<open>check_replay\<close> does.
  \<^item> Zig\_Attestation: the Zig bridge, function by function, with None for a panic of its ReleaseSafe
    build. Bridge\_Agreement compares the two bridges on files of well-formed fields, Zig\_Replay has the
    steps of the Zig bridge. What replay protection needs is the locale \<open>replay_guard\<close> (of Attestation):
    accepting takes a counter above the stored one and stores it, rejecting keeps it. Both bridges
    interpret it, the Zig bridge only as long as the state file is secure. Attestation\_Properties states
    the properties.
  \<^item> Build\_Config: the choice of backend in src/skv-analyzer/build.rs and of the LLVM version in the
    crate's build.rs and lib.rs.
  \<^item> Sample\_Module and Sample\_World hold concrete modules, files and keys on which the properties are
    run as examples.

  Parameters: code that is not in the repository. The answers of Z3 (\<open>check_sat\<close>; the hypothesis
  \<open>solver_sound\<close> says that sat and unsat are never wrong, unknown is always allowed), the parsing
  of a file (\<open>from_ir_path\<close>, which \<open>with_llvm\<close> makes out of the model of module.rs and the foreign functions
  in the record \<open>llvm_lib\<close>), SHA-256, Ed25519, base64 and hex (the record \<open>crypto\<close>), the iteration order of a
  HashSet (\<open>set_iter\<close>), the LLVM-C functions that the translation of modules calls (the record
  \<open>llvm_api\<close>, which contains \<open>llvm_type_api\<close> and \<open>attribute_api\<close>), the formatting of floating-point numbers (\<open>float_fmt\<close>), architecture and operating system, the exit of \<open>zig version\<close>, the clock and the
  file system (the record \<open>world\<close>, in which each system call can be made to fail). The functions of the
  standard libraries of C, Rust and Zig that the sources call are modelled as documented.

  Bounds. The recursion of \<open>type_size\<close> over named structs can be endless in the code; the model takes
  the depth of the stack as \<open>max_depth\<close>, and exceeding it is a crash. \<open>analysis_returns\<close> shows that a
  depth above the rank of the struct definitions is always enough. The menu loop takes the number of
  turns that are observed. The readers of types and constants recurse through LLVM's handles: they take
  the depth of the stack, and \<open>type_reader_correct\<close> and \<open>constant_reader_correct\<close> give a depth that is
  enough. Where the translation of a module gives None it has panicked, exhausted the stack or followed an
  endless list; the loader keeps this apart from a panic (\<open>Untranslated\<close>), and of a run that meets it nothing is
  claimed. All other functions are total. Integers keep their width: sizes and values of constants are 64-bit words, token fields C integers; the counters of allocations and conditions,
  which count events of one run, are natural numbers. Arithmetic that the code leaves unchecked wraps,
  as in the release build.

  What the theorems show. Soundness of a pass and of exit code 0 down to the accesses of the module;
  no false alarm about what is visited, and exactness with the gate off; termination without panic;
  the meaning of the interrupt, inline-assembly and DMA policies; the gate asked for every query and
  never changed; approvals and outputs only through safe files; no token accepted twice, what an
  accepted token is, and where the bridge accepts too much: ages that overflow, a replay file that cannot
  be read or was truncated by a write that failed; that the lock
  keeps this up between processes; that the Zig bridge decides as the C bridge on files in order, and how
  an insecure state file or a second process defeats its replay protection; the ring policy; round trips of token files, the verdict message and data layouts; the size
  and offset computations with their limits; the exit codes; the type tables, names, alignments and
  lookups of the IR library, its readers of types, attributes and data layouts, and its printing; that
  the translation of a function gives every value one name in both passes, mentions only names that it
  defines and numbers without clashes, and where the passes over a module disagree; that constants are
  read as what their handles stand for and operands have LLVM's types; that loading releases LLVM's
  objects; and that the program ends with an exit code once its module is translated.

  Limits of the file system: \<open>symlink_metadata\<close> fails only for a path that does not exist, a path is its text,
  and there are no hard links, so that two paths are two files unless one is a symbolic link. Paths are
  bytes; where the code converts them to text (for the bridge and in messages) bytes that are not UTF-8
  are replaced, by \<open>to_string_lossy\<close>.

  Not modelled. The foreign functions of llvm-sys with the wrappers that copy their C strings (from\_llvm.rs;
  a name that is not UTF-8 makes them panic); metadata (commented out of the crate); code that is compiled
  only for LLVM versions other than 19; the unit tests inside the sources; the wrappers of shared pointers (ConstantRef, TypeRef) and traits that only
  forward to a method, since values are shared by equality here; the tools the build scripts start; the
  drawing of the menu; the parsing of arguments by clap; the status of a process that panics.
\<close>

section \<open>A command line\<close>

text \<open>The environment and the arguments that the examples below run with.\<close>

definition sample_cli :: Args where
  "sample_cli =
     \<lparr>ir_path = Some ''driver.ll'', ring = Ring0, attestation = sample_args, json = True, verdict_out = None,
      hitl_mode = Hitl_Off, hitl_approvals = None, hitl_class_approvals = None, emit_vcs = None,
      fallback_policy = Fallback_Auto, proof_format = Lfsc, emit_proof = None, asm_policy = Conservative,
      dma = Dma_Verify, emit_equiv_summary = None, command = None\<rparr>"

definition sample_env :: env where
  "sample_env =
     \<lparr>crypto_impl = sample_crypto, from_ir_path = (\<lambda>_ _. Parsed good_module), z3_check = deciding_check,
      stack_depth = 1, hash_iter = sorted_list_of_set, arch = ''x86_64'', os = ''linux'', zig_ok = False,
      stdin_lines = [''1'', '''', ''q''], read_fails = (\<lambda>k. False), flush_fails = (\<lambda>k. False), tui_turns = 2\<rparr>"

text \<open>A library for which every file holds the module of Sample\_Llvm.\<close>

definition counter_lib :: llvm_lib where
  "counter_lib =
     \<lparr>LLVMContextCreate = 1, LLVMCreateMemoryBufferWithContentsOfFile = (\<lambda>w p. Inr 2),
      LLVMCreateMemoryBufferWithMemoryRangeCopy = (\<lambda>s. 2), LLVMParseIRInContext = (\<lambda>c b. Inr 3),
      LLVMParseBitcodeInContext2 = (\<lambda>c b. Some 3), module_api = (\<lambda>r. counter_api ''f'')\<rparr>"

section \<open>The analysis\<close>



text \<open>
  (C4) A result \<open>Fail\<close> is never a false alarm about what was visited: behind it is an instruction that
  dereferences or copies through freed memory, accesses bytes outside an allocation, frees twice,
  overflows the size of a kcalloc, or is inline assembly under the trap policy; or else the policy
  \<open>require-iommu\<close> found a DMA allocation without a mapping.
\<close>

theorem fail_means_violation:
  assumes "solver_sound (check_sat c)" "analyze c m gate = Some (oc, g)" "is_Fail (oc_result oc)"
  shows "(\<exists>(ctx, i, st) \<in> set (trace c m gate). violation ctx i st) \<or>
    (dma_policy c = RequireIommu \<and>
     \<not> set (set_iter c (dma_allocs_in_func (last_state c m gate))) \<subseteq>
         iommu_mapped_in_func (last_state c m gate))"
proof -
  have "is_Fail (final_result (enforce_iommu c (last_state c m gate)))"
    using assms(2,3) final_state_run(2) by (fastforce simp: analyze_final)
  then show ?thesis using enforce_iommu_Fail fail_has_violation [OF assms(1)] by blast
qed

theorem fail_means_violation_witness:
  "\<exists>(ctx, i, st) \<in> set (trace sample_config uaf_module open_gate). violation ctx i st"
proof -
  have s: "solver_sound (check_sat sample_config)"
    by (simp add: sample_config_def deciding_check_sound)
  obtain oc g where a: "analyze sample_config uaf_module open_gate = Some (oc, g)" "is_Fail (oc_result oc)"
    using uaf_fails by auto
  show ?thesis using fail_means_violation [OF s a] by (auto simp: sample_config_def)
qed

text \<open>
  (C5) With the gate off and a decision procedure that is right and always answers, the analysis is
  exact on what it tracks: unless \<open>require-iommu\<close> is asked for, it fails if and only if one of the
  visited instructions is a violation.
\<close>

theorem fail_iff_violation:
  assumes "solver_sound (check_sat c)" "\<forall>cs. check_sat c cs \<noteq> SatResult_Unknown"
    "gate_mode gate = Hitl_Off" "dma_policy c \<noteq> RequireIommu" "analyze c m gate = Some (oc, g)"
  shows "is_Fail (oc_result oc) \<longleftrightarrow> (\<exists>(ctx, i, st) \<in> set (trace c m gate). violation ctx i st)"
proof -
  have "final_result (last_state c m gate) = oc_result oc"
    using assms(4,5) final_state_run(2) by (fastforce simp: analyze_final enforce_iommu_def)
  then show ?thesis
    using fail_has_violation [OF assms(1), of m gate] violation_fails [OF assms(1,3,2), of _ _ _ m]
    by auto
qed

theorem fail_iff_violation_witness:
  "\<exists>oc g. analyze sample_config good_module open_gate = Some (oc, g) \<and>
     \<not> (\<exists>(ctx, i, st) \<in> set (trace sample_config good_module open_gate). violation ctx i st)"
proof -
  have s: "solver_sound (check_sat sample_config)" "\<forall>cs. check_sat sample_config cs \<noteq> SatResult_Unknown"
    "gate_mode open_gate = Hitl_Off" "dma_policy sample_config \<noteq> RequireIommu"
    by (simp_all add: sample_config_def deciding_check_sound deciding_check_def open_gate_def new_gate_def)
  obtain oc g where a: "analyze sample_config good_module open_gate = Some (oc, g)" "oc_result oc = Pass"
    using good_pass by blast
  show ?thesis using fail_iff_violation [OF s a(1)] a by simp
qed

text \<open>
  (C11) The analysis returns. When no named struct contains itself by value (a rank decreases from
  a struct to the structs in its fields) and the operands whose types are asked for are typed,
  there is a recursion depth from which on \<open>analyze\<close> ends with an outcome, for every gate.
\<close>

theorem analysis_returns:
  assumes "structs_ranked (module_types m) rank"
    and "\<forall>i \<in> set (module_instrs m). \<forall>op \<in> set (typed_operands i). operand_typed (module_types m) op"
  shows "\<exists>N. \<forall>n \<ge> N. \<forall>gate. \<exists>oc g. analyze (c\<lparr>max_depth := n\<rparr>) m gate = Some (oc, g)"
proof -
  obtain N where "\<forall>n \<ge> N. \<forall>i \<in> set (module_instrs m). measurable n m i"
    using enough_depth_all [OF assms] by blast
  then show ?thesis using analyze_no_panic by (intro exI [of _ N]) simp
qed

theorem analysis_returns_witness:
  "\<exists>N. \<forall>n \<ge> N. \<forall>gate. \<exists>oc g. analyze (sample_config\<lparr>max_depth := n\<rparr>) good_module gate = Some (oc, g)"
  by (rule analysis_returns [where rank = length])
     (simp_all add: structs_ranked_def named_struct_def_def sample_types empty_types_def TypesBuilder_build_def
        TypesBuilder_new_def module_instrs_def func_instrs_def typed_operands_def sample_module_defs sample_code_defs)

text \<open>
  (C15) Interrupt handlers. When a function registered by \<open>request_irq\<close> calls \<open>kfree\<close>, a run that
  passes makes no load and no store through a tracked pointer at all.
\<close>

theorem irq_blocks_pass:
  assumes "analyze c m gate = Some (oc, g)" "oc_result oc = Pass" "scan_irq_handlers m \<noteq> {}"
    "(ctx, i, st) \<in> set (trace c m gate)" "acc \<in> set (accesses ctx i st)"
  shows "acc_kind acc \<noteq> Deref"
proof
  assume "acc_kind acc = Deref"
  have "ctx_of c m ctx" using wf.I_trace(2) [OF wf_init assms(4)] .
  then have "has_irq_risk ctx" using assms(3) by (simp add: ctx_of_def)
  then show False
    using step_irq [OF _ assms(5) \<open>acc_kind acc = Deref\<close>] pass_step [OF assms(1,2,4)] by blast
qed

theorem irq_blocks_pass_witness:
  "scan_irq_handlers irq_module = {''handler''} \<and>
   (\<exists>acc \<in> set (accesses (sample_ctx sample_config irq_module 1)
       (call_to ''memset'' [local_ptr_op ''buf'', const64 0, const64 16] None) state1). acc_kind acc \<noteq> Deref)"
proof -
  let ?i = "call_to ''memset'' [local_ptr_op ''buf'', const64 0, const64 16] None"
  obtain oc g where a: "analyze sample_config irq_module open_gate = Some (oc, g)" "oc_result oc = Pass"
    using irq_pass(1) by blast
  have ne: "accesses (sample_ctx sample_config irq_module 1) ?i state1 \<noteq> []"
    by (simp add: accesses_def call_accesses_def call_to_def function_name_of_call_def arg_ptr_def arg_const_def
        call_arg_def local_ptr_op_def operand_local_name_def const64_def operand_const_u64_def local_ptr_def
        sample_states kmalloc_access_def)
  then obtain acc where acc: "acc \<in> set (accesses (sample_ctx sample_config irq_module 1) ?i state1)"
    using hd_in_set by blast
  have "acc_kind acc \<noteq> Deref"
    using irq_blocks_pass [OF a _ irq_pass(2) acc] by (simp add: irq_found)
  then show ?thesis using acc irq_found by blast
qed

text \<open>A place of the module is visited by a run that passes.\<close>

lemma pass_visits:
  assumes "analyze c m gate = Some (oc, g)" "oc_result oc = Pass" "places m = ps @ (f, b, k, i) # qs"
  obtains xs ctx st ys where "trace c m gate = xs @ (ctx, i, st) # ys" "map place_of ys = qs"
proof -
  have "map place_of (trace c m gate) = ps @ (f, b, k, i) # qs"
    using analyze_visits_all [OF assms(1)] assms(2,3) by simp
  then obtain xs v ys where "trace c m gate = xs @ v # ys" "place_of v = (f, b, k, i)" "map place_of ys = qs"
    by (auto simp: map_eq_append_conv map_eq_Cons_conv)
  then show ?thesis using that by (cases v) (auto simp: place_of_def)
qed

text \<open>
  (C16) Inline assembly. When a run passes, the policy is not trap, and the text of every call of inline
  assembly in the module is blank or, in lower case and trimmed, begins with one of sixteen listed
  instructions. (What follows these letters is not looked at.)
\<close>

theorem pass_inline_asm_safe:
  assumes "analyze c m gate = Some (oc, g)" "oc_result oc = Pass"
    "(f, b, k, Call call) \<in> set (places m)" "call_function call = Inl asm"
  shows "inline_asm_policy c = Conservative \<and>
    (to_ascii_lowercase (trim (assembly asm)) = '''' \<or>
     (\<exists>pattern \<in> {''rdtsc'', ''rdtscp'', ''cpuid'', ''pause'', ''mfence'', ''sfence'', ''lfence'', ''cli'', ''sti'',
        ''nop'', ''rep nop'', ''ud2'', ''int3'', ''wbinvd'', ''invlpg'', ''xgetbv''}.
        \<exists>rest. to_ascii_lowercase (trim (assembly asm)) = pattern @ rest))"
proof -
  obtain ps qs where "places m = ps @ (f, b, k, Call call) # qs" using assms(3) by (meson split_list)
  then obtain xs ctx st ys where "trace c m gate = xs @ (ctx, Call call, st) # ys" "map place_of ys = qs"
    by (rule pass_visits [OF assms(1,2)])
  then have v: "(ctx, Call call, st) \<in> set (trace c m gate)" by simp
  have "ctx_of c m ctx" "\<not> is_Fail (final_result st)" using wf.I_trace(2,3) [OF wf_init v] by blast+
  then have "inline_asm_policy c \<noteq> Trap" "is_safe_inline_asm (assembly asm)"
    using step_inline_asm [OF assms(4), of st ctx] pass_step(2) [OF assms(1,2) v] by (auto simp: ctx_of_def)
  then have "inline_asm_policy c = Conservative" "to_ascii_lowercase (trim (assembly asm)) = '''' \<or>
      (\<exists>pattern \<in> set SAFE_ASM_PATTERNS. \<exists>rest. to_ascii_lowercase (trim (assembly asm)) = pattern @ rest)"
    by (cases "inline_asm_policy c", simp_all)
       (auto simp: is_safe_inline_asm_def Let_def list_ex_iff starts_with_iff)
  then show ?thesis by (simp add: SAFE_ASM_PATTERNS_def)
qed

theorem pass_inline_asm_safe_witness:
  "\<exists>call asm. places asm_module = [(''probe'', 0, 0, Call call)] \<and> call_function call = Inl asm \<and>
     assembly asm = ''nop'' \<and> inline_asm_policy sample_config = Conservative"
proof -
  obtain oc g where a: "analyze sample_config asm_module open_gate = Some (oc, g)" "oc_result oc = Pass"
    using asm_pass(1) by blast
  obtain call asm where c: "asm_call ''nop'' = Call call" "call_function call = Inl asm" "assembly asm = ''nop''"
    by (simp add: asm_call_def)
  have p: "places asm_module = [(''probe'', 0, 0, Call call)]"
    by (simp add: places_def function_places_def block_places_def asm_module_def module_of_def sample_function_def sample_block_def c)
  then have "(''probe'', 0, 0, Call call) \<in> set (places asm_module)" by simp
  from pass_inline_asm_safe [OF a this c(2)] show ?thesis using p c by blast
qed

text \<open>
  (C17) DMA under \<open>require-iommu\<close>. When a run passes, every call of \<open>dma_alloc_coherent\<close> in the module is
  followed, in the order of functions, blocks and instructions, by a call of \<open>iommu_map\<close>. (Its arguments
  are not looked at. The hypothesis on \<open>set_iter\<close> is what iterating over a \<open>HashSet\<close> does: every element
  comes up.)
\<close>

theorem pass_iommu_mapped:
  assumes "analyze c m gate = Some (oc, g)" "oc_result oc = Pass" "dma_policy c = RequireIommu"
    and iter: "\<And>S. finite S \<Longrightarrow> set (set_iter c S) = S"
    and "places m = ps @ (f, b, k, Call call) # qs" "function_name_of_call call = Some ''dma_alloc_coherent''"
  shows "\<exists>f' b' k' call'. (f', b', k', Call call') \<in> set qs \<and> function_name_of_call call' = Some ''iommu_map''"
proof -
  obtain xs ctx st ys where tr: "trace c m gate = xs @ (ctx, Call call, st) # ys" and qs: "map place_of ys = qs"
    by (rule pass_visits [OF assms(1,2,5)])
  have "is_call_of ''dma_alloc_coherent'' (Call call)" using assms(6) by (simp add: is_call_of_def)
  from pass_dma_order [OF assms(1-3) iter tr this] obtain ctx' i' st' where
    v: "(ctx', i', st') \<in> set ys" "is_call_of ''iommu_map'' i'" by blast
  then have "place_of (ctx', i', st') \<in> set qs" using qs by auto
  then show ?thesis using v(2) by (auto simp: place_of_def is_call_of_def)
qed

theorem pass_iommu_mapped_witness:
  "\<exists>p q. places dma_module = [p, q] \<and> (\<exists>f b k call. q = (f, b, k, Call call) \<and>
     function_name_of_call call = Some ''iommu_map'')"
proof -
  obtain oc g where a: "analyze iommu_config dma_module open_gate = Some (oc, g)" "oc_result oc = Pass"
    using dma_pass(1) by blast
  obtain call i where p: "places dma_module = [] @ (''probe'', 0, 0, Call call) # [(''probe'', 0, 1, i)]"
    and c: "function_name_of_call call = Some ''dma_alloc_coherent''"
    by (simp add: places_def function_places_def block_places_def dma_module_def module_of_def sample_function_def sample_block_def
        dma_code_def call_to_def function_name_of_call_def)
  have "dma_policy iommu_config = RequireIommu" "\<And>S. finite S \<Longrightarrow> set (set_iter iommu_config S) = S"
    by (simp_all add: iommu_config_def sample_config_def)
  from pass_iommu_mapped [OF a this p c] show ?thesis using p by auto
qed

section \<open>The gate and the solver\<close>

text \<open>
  Whatever the run, the gate handed back differs from the gate handed in only by a sequence of
  questions asked of it: mode and approvals are unchanged, and the lists of seen and of blocked
  conditions have grown by exactly the conditions asked and by those of them that were not
  permitted; with the gate off nothing is blocked.
\<close>

lemma gate_only_asked:
  assumes "analyze c m gate = Some (oc, g)"
  shows "\<exists>qs. gate_mode g = gate_mode gate \<and> approved g = approved gate \<and>
    approved_classes g = approved_classes gate \<and>
    seen g = seen gate @ map fst qs \<and> seen_classes g = seen_classes gate @ map snd qs \<and>
    blocked g = blocked gate @ map fst (filter (\<lambda>(vc, cl). \<not> gate_permits gate vc cl) qs) \<and>
    blocked_classes g = blocked_classes gate @ map snd (filter (\<lambda>(vc, cl). \<not> gate_permits gate vc cl) qs) \<and>
    (gate_mode gate = Hitl_Off \<longrightarrow> blocked g = blocked gate)"
proof -
  have "g = hitl_gate (last_state c m gate)"
    using assms final_state_run(2) by (fastforce simp: analyze_final)
  then have e: "gate_extends gate g" using gate_order.R_last [of gate c m] by simp
  then obtain qs where qs: "g = fold (\<lambda>(vc, cl) g. snd (should_run_solver vc cl g)) qs gate"
    by (auto simp: gate_extends_def)
  have off: "filter (\<lambda>(vc, cl). \<not> gate_permits gate vc cl) qs = []" if "gate_mode gate = Hitl_Off"
    using that by (auto simp: gate_permits_def filter_empty_conv)
  show ?thesis
    using e off unfolding gate_extends_def
    by (intro exI [of _ qs]) (simp add: qs vc_gate.run_asked vc_gate.run_refused class_gate.run_asked class_gate.run_refused)
qed

text \<open>
  (C14) The solver is asked only what the gate lets through, and is left as it was found: at the end
  of a run the number of queries and the number of blocked conditions together do not exceed the
  number of conditions seen, and the stack of assertions is back to the single empty frame. With a
  closed gate, that is in require mode without approvals, no query reaches the solver at all.
\<close>

theorem solver_only_when_permitted:
  assumes "gate = new_gate mode ids classes" and st_def: "st = last_state c m gate"
  shows "length (queries (solver st)) + length (blocked (hitl_gate st)) \<le> length (seen (hitl_gate st)) \<and>
    frames (solver st) = [[]] \<and>
    (mode = Hitl_Require \<and> ids = {} \<and> classes = {} \<longrightarrow> queries (solver st) = [])"
proof -
  have "queries_gated (init_state gate)"
    using assms(1) by (simp add: queries_gated_def Solver_new_def new_gate_def)
  then have "queries_gated st" unfolding st_def by (rule gated.I_last)
  moreover have "frames (solver st) = [[]]"
    unfolding st_def by (rule balanced.I_last) (simp add: Solver_new_def)
  moreover have "queries (solver st) = []" if "mode = Hitl_Require" "ids = {}" "classes = {}"
    unfolding st_def using that assms(1) by (intro closed_gate_no_queries) (auto simp: gate_permits_def new_gate_def)
  ultimately show ?thesis by (simp add: queries_gated_def)
qed

theorem solver_only_when_permitted_witness:
  "queries (solver (last_state sample_config good_module (new_gate Hitl_Require {} {}))) = []"
  using solver_only_when_permitted [of "new_gate Hitl_Require {} {}" Hitl_Require "{}" "{}" _ sample_config good_module]
  by simp

text \<open>
  (C13) One bound check. When the decision procedure is right and answers, the solver holds no other
  assertion and the gate permits the condition, \<open>check_access\<close> says \<open>Safe\<close> exactly for accesses inside
  the allocation and \<open>Oob\<close> otherwise; it restores the solver's stack and asks the gate once. The
  comparison is over the integers: nothing wraps around.
\<close>

theorem check_access_exact:
  assumes "solver_sound decide" "\<forall>cs. decide cs \<noteq> SatResult_Unknown" "frames s = [[]]"
    "gate_permits g vc cl"
  shows "\<exists>s'. check_access decide sz off n vc cl s g =
      (if 0 \<le> ival off \<and> ival off + uint n \<le> ival sz then Safe else Oob, s', snd (should_run_solver vc cl g)) \<and>
    frames s' = frames s \<and> length (queries s') = Suc (length (queries s))"
proof -
  obtain r s' g' where c: "check_access decide sz off n vc cl s g = (r, s', g')" by (metis prod.exhaust)
  have "r = of_sat (decide [oob_cond sz off n])" "length (queries s') = Suc (length (queries s))"
    using c assms(3,4) by (auto simp: check_access_eq)
  moreover from this(1) have "r \<in> {Safe, Oob}"
    using assms(2) by (cases "decide [oob_cond sz off n]") auto
  moreover have "concat (frames s) = []" using assms(3) by simp
  ultimately show ?thesis
    using c check_access_Safe [OF assms(1)] check_access_Oob [OF assms(1)] check_access_frames [OF c]
      check_access_gate [OF c] by (auto simp: in_bounds_def)
qed

theorem check_access_exact_witness:
  "fst (check_access deciding_check (Int_from_u64 16) (Int_from_u64 8) 8 ''v'' ''c'' Solver_new open_gate) = Safe \<and>
   fst (check_access deciding_check (Int_from_u64 16) (Int_from_u64 9) 8 ''v'' ''c'' Solver_new open_gate) = Oob"
proof -
  have h: "solver_sound deciding_check" "\<forall>cs. deciding_check cs \<noteq> SatResult_Unknown"
    "frames Solver_new = [[]]" "gate_permits open_gate ''v'' ''c''"
    by (simp_all add: deciding_check_sound deciding_check_def Solver_new_def gate_permits_def open_gate_def new_gate_def)
  show ?thesis
    using check_access_exact [OF h, of "Int_from_u64 16" "Int_from_u64 8" 8]
      check_access_exact [OF h, of "Int_from_u64 16" "Int_from_u64 9" 8] by auto
qed

section \<open>Sizes and offsets\<close>

text \<open>
  (C21) \<open>type_size\<close> computes the size it should wherever that size fits 64 bits: integers are rounded up
  to bytes, pointers have 8 bytes, an array is the product, a struct the sum of its fields (no
  padding), a named struct its definition; and it does so for every recursion depth from some
  depth on.
\<close>

theorem type_size_correct:
  assumes "has_size ts ty s" "s < 2 ^ 64"
  shows "\<exists>n. \<forall>m \<ge> n. type_size m ts ty = Some (Some (of_nat s))"
  using has_size_type_size(1) [OF assms] .

theorem type_size_correct_witness:
  "\<exists>n. \<forall>m \<ge> n. type_size m empty_types (StructType [IntegerType 32, PointerType 0] False) = Some (Some 12)"
proof -
  have "has_size empty_types (StructType [IntegerType 32, PointerType 0] False) (4 + (8 + 0))"
    using has_size_have_sizes.int [of empty_types 32]
    by (intro has_size_have_sizes.intros) (simp_all add: has_size_have_sizes.ptr)
  from type_size_correct [OF this] show ?thesis by simp
qed

text \<open>
  The product of an array is taken in 64 bits without a check, while the sum of a struct is
  checked: an array of 2^61 eight-byte integers, 2^64 bytes, has size 0, so that a load of it is
  in bounds of every allocation.
\<close>

lemma array_size_wraps:
  "type_size (Suc (Suc n)) ts (ArrayType (IntegerType 64) (2 ^ 61)) = Some (Some 0) \<and>
   in_bounds sz (Int_from_u64 0) 0 = (0 \<le> ival sz)"
  by (simp add: type_size_body_def div_ceil_def in_bounds_def)

lemma gep_loop_rest:
  "map operand_const_u64 idxs = map Some ks \<Longrightarrow> 0 < i \<Longrightarrow>
     \<exists>off'. gep_loop depth m address i idxs acc = Some (Some off') \<and>
       ival off' = ival acc + (\<Sum>k\<leftarrow>ks. int (min (unat k * 4) (2 ^ 64 - 1)))"
proof (induction ks arbitrary: idxs i acc)
  case (Cons k ks)
  then obtain idx idxs' where idx: "idxs = idx # idxs'" "operand_const_u64 idx = Some k"
    "map operand_const_u64 idxs' = map Some ks" by (cases idxs) auto
  show ?case
    using Cons.IH [OF idx(3), of "Suc i" "Z_add acc (Int_from_u64 (saturating_mul k 4))"] idx Cons.prems
    by (auto simp: unat_saturating_mul uint_nat)
qed simp

text \<open>
  (C25) The offset of a \<open>getelementptr\<close> with constant indices on a pointer: the first index counts
  for 8 bytes each and every further index for 4, each product saturating at the largest 64-bit
  number, whatever the source element type of the instruction is.
\<close>

theorem gep_offset_value:
  assumes "module_type_of m (gep_address gep) = Some (PointerType a)"
    "map operand_const_u64 (gep_indices gep) = map Some (k # ks)"
  shows "\<exists>off'. infer_gep_offset depth gep base m = Some (Some off') \<and>
    ival off' = ival base + int (min (unat k * 8) (2 ^ 64 - 1)) +
      (\<Sum>k\<leftarrow>ks. int (min (unat k * 4) (2 ^ 64 - 1)))"
proof -
  obtain idx idxs where idx: "gep_indices gep = idx # idxs" "operand_const_u64 idx = Some k"
    "map operand_const_u64 idxs = map Some ks"
    using assms(2) by (cases "gep_indices gep") auto
  have "gep_elem_size depth m (gep_address gep) = Some (Some 8)"
    using assms(1) by (simp add: gep_elem_size_def)
  then have "infer_gep_offset depth gep base m =
      gep_loop depth m (gep_address gep) 1 idxs (Z_add base (Int_from_u64 (saturating_mul k 8)))"
    using idx by (simp add: infer_gep_offset_def)
  then show ?thesis
    using gep_loop_rest [OF idx(3), of 1 depth m "gep_address gep" "Z_add base (Int_from_u64 (saturating_mul k 8))"]
    by (auto simp: unat_saturating_mul uint_nat)
qed

theorem gep_offset_value_witness:
  "\<exists>off'. infer_gep_offset 1 \<lparr>debugloc = None, dest = Name ''d'', gep_address = local_ptr_op ''b'',
      gep_indices = [const64 2, const64 3], gep_in_bounds = True, gep_source_element_type = IntegerType 8\<rparr>
      (Int_from_u64 0) good_module = Some (Some off') \<and> ival off' = 28"
  using gep_offset_value [of good_module "\<lparr>debugloc = None, dest = Name ''d'', gep_address = local_ptr_op ''b'',
      gep_indices = [const64 2, const64 3], gep_in_bounds = True, gep_source_element_type = IntegerType 8\<rparr>" 0 2 "[3]"
      1 "Int_from_u64 0"]
  by (simp add: module_type_of_def local_ptr_op_def ptr_def const64_def operand_const_u64_def)

text \<open>
  \<open>scan_irq_handlers\<close> finds exactly the defined functions that contain a call of \<open>kfree\<close> and whose
  name is passed as second argument of a \<open>request_irq\<close> call somewhere in the module.
\<close>

lemma scan_irq_handlers_exact:
  "nm \<in> scan_irq_handlers m \<longleftrightarrow>
     (\<exists>f \<in> set (module_functions m). func_name f = nm \<and>
        (\<exists>call. Call call \<in> set (func_instrs f) \<and> function_name_of_call call = Some ''kfree'')) \<and>
     (\<exists>call ty. Call call \<in> set (module_instrs m) \<and> function_name_of_call call = Some ''request_irq'' \<and>
        call_arg call 1 = Some (ConstantOperand (GlobalReference_c (Name nm) ty)))"
proof -
  have "nm \<in> handler_names m \<longleftrightarrow> (\<exists>i \<in> set (module_instrs m). irq_registration i = Some nm)"
    by (auto simp: handler_names_def module_instrs_def map_filter_def image_iff) force
  moreover have "irq_registration i = Some nm \<longleftrightarrow>
      (\<exists>call ty. i = Call call \<and> function_name_of_call call = Some ''request_irq'' \<and>
         call_arg call 1 = Some (ConstantOperand (GlobalReference_c (Name nm) ty)))" for i
    by (cases i) (auto simp: irq_registration_def split: option.splits Operand.splits Constant.splits Name.splits)
  moreover have "is_kfree_call i \<longleftrightarrow> (\<exists>call. i = Call call \<and> function_name_of_call call = Some ''kfree'')" for i
    by (cases i) (simp_all add: is_kfree_call_def)
  ultimately show ?thesis by (auto simp: scan_irq_handlers_def list_ex_iff)
qed

section \<open>Attestation and rings\<close>

text \<open>
  (C6) No token is accepted twice. Along any history of validations against one replay file in which
  reads and writes of that file are not lost, accepted, rejected and unrelated steps mixed in any
  way, the counters of the accepted tokens increase strictly, start above the counter the file
  held at first and never exceed the one it holds.
\<close>

theorem no_token_twice:
  assumes "session p w ns w'"
  shows "sorted_wrt (<) (current_counter w p # ns) \<and> distinct ns \<and>
    (\<forall>n \<in> set ns. current_counter w p < n \<and> n \<le> current_counter w' p)"
  using c_bridge.history_increasing [OF assms [unfolded session_def]]
    c_bridge.history_distinct [OF assms [unfolded session_def]] by auto

theorem no_token_twice_witness:
  "session ''replay'' sample_world [5] replayed_world \<and> current_counter sample_world ''replay'' < 5"
proof -
  have "token_valid sample_world ''tok'' (- 1) 300 (Some ''n1'') 5" "reliable sample_world ''replay''"
    using own_file_secure(1) [of token_text]
    by (simp_all add: token_valid_def sample_files own_file_def read_token_text i64_sub_def reliable_def)
  then have "c_accepts ''replay'' sample_world 5 replayed_world"
    using sample_validate unfolding c_accepts_def by blast
  then have "session ''replay'' sample_world ([] @ [5]) replayed_world"
    unfolding session_def by (rule history.accept [OF history.start])
  then show ?thesis using no_token_twice [of "''replay''" sample_world "[5]" replayed_world] by simp
qed

text \<open>
  (C12) What an accepted token has, whatever system calls fail: the token file is a regular file of the user
  that nobody else can write; its ring is the required one, it is attested, in ring -2 root attested; its
  time stamp is not in the future and, for a time stamp and a clock in the non-negative 64-bit range, not
  older than the maximum age; its nonce is the expected one. The counter is above the one read from the
  replay file, which is -1 when reading fails, the replay file then holds it, and no other file changes.
\<close>

theorem accepted_token:
  assumes "skv_validate_attestation_token w tp req max_age (Some nonce) rp = (True, w')"
  shows "\<exists>f t ts n. files w tp = Some f \<and> bridge_secure w f \<and> t = read_token (content f) \<and>
    tok_ring t = Some req \<and> tok_attested t = Some True \<and>
    (req = - 2 \<longrightarrow> tok_root_attested t = Some True) \<and> tok_nonce t = Some nonce \<and>
    tok_timestamp t = Some ts \<and> ts \<le> clock w \<and>
    (0 \<le> ts \<and> clock w < 2 ^ 63 \<longrightarrow> clock w - ts \<le> max_age) \<and> tok_counter t = Some n \<and>
    (if sys_fails w Sys_read rp then - 1 else current_counter w rp) < n \<and> current_counter w' rp = n \<and>
    (\<forall>q. q \<noteq> target w rp \<longrightarrow> files w' q = files w q)"
  using assms
proof (cases rule: validate_cases)
  case (replay n)
  then obtain f ts where f: "files w tp = Some f" "bridge_secure w f"
    "tok_ring (read_token (content f)) = Some req" "tok_attested (read_token (content f)) = Some True"
    "req = - 2 \<longrightarrow> tok_root_attested (read_token (content f)) = Some True"
    "tok_nonce (read_token (content f)) = Some nonce" "tok_timestamp (read_token (content f)) = Some ts"
    "ts \<le> clock w" "i64_sub (clock w) ts \<le> max_age" "tok_counter (read_token (content f)) = Some n"
    by (auto simp: token_valid_def)
  have age: "clock w - ts \<le> max_age" if "0 \<le> ts" "clock w < 2 ^ 63"
    using i64_sub_small [of "clock w" ts] that f(8,9) by (simp add: in_i64_def)
  have frame: "\<forall>q. q \<noteq> target w rp \<longrightarrow> files w' q = files w q"
    using check_replay_frame [OF replay(3)] by blast
  show ?thesis
    using f age frame check_replay_True [OF replay(3,2)] unfolding counter_read_def by blast
qed simp

theorem accepted_token_witness:
  "tok_ring (read_token token_text) = Some (- 1) \<and> current_counter replayed_world ''replay'' = 5"
  using accepted_token [OF sample_validate] by (auto simp: sample_files own_file_def read_token_text)

text \<open>
  (C26) The window of ages that is accepted. Once its other fields are right, that is if it would be
  accepted were it issued now, a token whose time stamp is not in the future is accepted exactly when its
  age is at most the maximum or at least 2^63 seconds: the 64-bit subtraction then overflows. (C leaves
  this overflow undefined; with wrap-around the age is negative.)
\<close>

theorem token_age_window:
  assumes "tok_timestamp t = Some ts" "in_i64 ts" "in_i64 now"
  shows "token_checks t req max_age now nonce \<longleftrightarrow>
    token_checks (t\<lparr>tok_timestamp := Some now\<rparr>) req max_age now nonce \<and> ts \<le> now \<and>
    (now - ts \<le> max_age \<or> 2 ^ 63 \<le> now - ts)"
proof -
  have "i64_sub now now = 0" using i64_sub_small [of now now] by (simp add: in_i64_def)
  then show ?thesis using assms(1) age_accepted [OF assms(2,3), of max_age]
    by (auto simp: token_checks_def split: option.splits)
qed

theorem token_age_window_witness:
  "token_checks (read_token token_text) (- 1) 300 1100 (Some ''n1'') \<and>
   \<not> token_checks (read_token token_text) (- 1) 300 2000 (Some ''n1'')"
proof -
  have t: "tok_timestamp (read_token token_text) = Some 1000" "in_i64 1000" "in_i64 1100" "in_i64 2000"
    by (simp_all add: read_token_text in_i64_def)
  have "token_checks (read_token token_text\<lparr>tok_timestamp := Some 1100\<rparr>) (- 1) 300 1100 (Some ''n1'')"
    using i64_sub_small [of 1100 1100] by (simp add: read_token_text token_checks_def in_i64_def)
  then show ?thesis
    using token_age_window [OF t(1,2,3), of "- 1" 300 "Some ''n1''"] token_age_window [OF t(1,2,4), of "- 1" 300 "Some ''n1''"]
    by simp
qed

text \<open>
  (C27) A write that fails after the truncation resets the replay protection, whatever the replay file
  holds: from a secure file with a counter that rejects \<open>n\<close>, one call with a new counter whose write fails is
  rejected, and after it a call with \<open>n\<close> is accepted.
\<close>

theorem lost_write_allows_replay:
  assumes "p \<noteq> []" "files w (target w p) = Some f" "bridge_secure w f" "\<forall>c. \<not> sys_fails w c p"
    and "current_counter w p < k" "0 \<le> n" "n \<le> current_counter w p"
  shows "\<exists>w1. check_replay (w\<lparr>sys_fails := \<lambda>c q. c = Sys_write\<rparr>) p k = (False, w1) \<and>
     \<not> fst (check_replay w p n) \<and> fst (check_replay (w1\<lparr>sys_fails := sys_fails w\<rparr>) p n)"
proof -
  let ?w = "w\<lparr>sys_fails := \<lambda>c q. c = Sys_write\<rparr>"
  let ?v = "(truncate_state ?w p)\<lparr>sys_fails := sys_fails w\<rparr>"
  have c: "current_counter w p = stored_counter (content f)" using assms(2) by (simp add: current_counter_def)
  have t: "target ?w p = target w p" "target ?v p = target (truncate_state ?w p) p"
    by (simp_all add: target_def split: option.split)
  have "files ?v (target ?v p) = Some (f\<lparr>content := ''''\<rparr>)" using assms(2) t by (simp add: state_targets state_frames)
  moreover have "bridge_secure ?v (f\<lparr>content := ''''\<rparr>)"
    using assms(3) by (simp add: bridge_secure_def group_world_writable_def truncate_state_def update_inode_files)
  moreover have "stored_counter '''' < n" using assms(6) by (simp add: stored_counter_def)
  ultimately have "fst (check_replay ?v p n)"
    using check_replay_accepts [OF assms(1), of ?v "f\<lparr>content := ''''\<rparr>" n] assms(4) by simp
  moreover have "\<not> fst (check_replay w p n)"
    using check_replay_accepts [OF assms(1-3), of n] assms(4,7) c by simp
  ultimately show ?thesis using lost_write [OF assms(1-3), of k] assms(5) c by auto
qed

theorem lost_write_allows_replay_witness:
  "\<exists>w1. check_replay (replayed_world\<lparr>sys_fails := \<lambda>c q. c = Sys_write\<rparr>) ''replay'' 6 = (False, w1) \<and>
     fst (check_replay (w1\<lparr>sys_fails := sys_fails replayed_world\<rparr>) ''replay'' 5)"
proof -
  have f: "files replayed_world (target replayed_world ''replay'') = Some (own_file (''5'' @ [CHR 0x0A]))"
    by (simp add: replayed_world_def target_def own_file_def)
  have "stored_counter (''5'' @ [CHR 0x0A]) = 5" by code_simp
  then have "current_counter replayed_world ''replay'' = 5" using f by (simp add: current_counter_def own_file_def)
  moreover have "bridge_secure replayed_world (own_file (''5'' @ [CHR 0x0A]))" "\<forall>c. \<not> sys_fails replayed_world c ''replay''"
    using own_file_secure(1) by (simp_all add: replayed_world_def bridge_secure_def sample_files)
  ultimately show ?thesis using lost_write_allows_replay [OF _ f, of 6 5] by auto
qed

text \<open>
  (C10) In rings -1 and -2 a result passes only attested. If \<open>apply_ring_policy\<close> returns \<open>Pass\<close> there, the
  analysis had passed, the file at the token's path is signed by a key with the pinned fingerprint, in ring
  -2 also by a root key with its pinned fingerprint, keys and signatures are read from files only the user
  can write, and the bridge has accepted the file at the text of the token's path with the given nonce
  against the replay file. When the path is UTF-8 the signed bytes are those of the file the bridge accepted.
\<close>

theorem ring_pass_attested:
  assumes "apply_ring_policy cr w r rg a = ((Pass, kfp, tsha), w')" "rg \<noteq> Ring0"
  shows "r = Pass \<and> attested cr w rg a w' \<and>
    (\<forall>tp. attestation_token a = Some tp \<and> valid_utf8 tp \<longrightarrow>
       (\<exists>f. files w tp = Some f \<and> bridge_secure w f \<and> fs_read w tp = Some (content f)))"
proof -
  have at: "r = Pass" "attested cr w rg a w'" using apply_ring_policy_Pass [OF assms] by simp_all
  have "\<exists>f. files w tp = Some f \<and> bridge_secure w f \<and> fs_read w tp = Some (content f)"
    if tp: "attestation_token a = Some tp" "valid_utf8 tp" for tp
  proof -
    obtain token ring max_age nonce n where "fs_read w tp = Some token"
      "token_valid w (to_string_lossy tp) ring max_age nonce n"
      using at(2) tp(1) unfolding attested_def signed_by_def by auto
    then show ?thesis using token_one_file [OF _ tp(2)] by blast
  qed
  then show ?thesis using at by blast
qed

theorem ring_pass_attested_witness:
  "attested sample_crypto sample_world RingM1 sample_args replayed_world \<and>
   fs_read sample_world ''tok'' = Some token_text"
proof -
  have "attestation_token sample_args = Some ''tok'' \<and> valid_utf8 ''tok''"
    by (simp add: sample_args_def sample_paths)
  then show ?thesis using ring_pass_attested [OF sample_ring] by (auto simp: sample_files own_file_def)
qed

text \<open>
  (C18) The ring policy never improves a result: a failure stays a failure and an undecided result
  does not become a pass. In rings -1 and -2 no result stays undecided, and ring 0 returns the
  result as it is and touches nothing.
\<close>

theorem ring_policy_never_improves:
  "severity r \<le> severity (fst (fst (apply_ring_policy cr w r rg a))) \<and>
   (rg \<noteq> Ring0 \<longrightarrow> (\<forall>msg. fst (fst (apply_ring_policy cr w r rg a)) \<noteq> Unknown msg)) \<and>
   (rg = Ring0 \<longrightarrow> apply_ring_policy cr w r rg a = ((r, None, None), w))"
proof -
  have "fst (fst (apply_ring_policy cr w r rg a)) \<noteq> Unknown msg" if strict: "rg \<noteq> Ring0" for msg
  proof -
    obtain n where "token_ring rg = Some n" using strict by (cases rg) auto
    then show ?thesis using strict_result_decided [OF strict]
      by (auto simp: apply_ring_policy_def split: prod.splits option.splits)
  qed
  then show ?thesis
    using apply_ring_policy_severity by (simp add: apply_ring_policy_def strict_result_def)
qed

theorem ring_policy_never_improves_witness:
  "\<exists>msg. fst (fst (apply_ring_policy sample_crypto sample_world (Unknown ''x'') RingM2 sample_args)) = Fail msg"
  using ring_policy_never_improves [of "Unknown ''x''" sample_crypto sample_world RingM2 sample_args]
  by (cases "fst (fst (apply_ring_policy sample_crypto sample_world (Unknown ''x'') RingM2 sample_args))") simp_all

section \<open>The command line\<close>



text \<open>
  (C19) Exit codes, when \<open>main\<close> returns one. An analysis or attestation run exits with 1 if it ends with an
  error, and otherwise prints a verdict and exits with 0, 10 or 20 as the result it decides on is pass, fail
  or unknown, with the status of that name and, for the latter two, the result's message. The doctor exits
  with 12 when the operating system is not Linux and with 0 otherwise, the menu with 0 or 1, the other
  commands with 0. (A panic, status 101, and a mistake in the arguments, status 2, do not return to \<open>main\<close>.)
\<close>

theorem exit_codes:
  assumes "main_status e w args = Some c"
  shows "(command args \<in> {None, Some AttestCheck} \<longrightarrow>
      (\<exists>err. fst (run e w args) = Err err) \<and> c = 1 \<or>
      (\<exists>r v. decides e w args r \<and> fst (snd (run e w args)) = report (json args) v \<and> reported r c v)) \<and>
    (command args = Some Doctor \<longrightarrow> c = (if os e = ''linux'' then 0 else 12)) \<and>
    (command args = Some Tui \<longrightarrow> c \<in> {0, 1}) \<and>
    (command args = Some Features \<or> (\<exists>r. command args = Some (TokenTemplate r)) \<longrightarrow> c = 0)"
proof -
  obtain x out w' where r: "run e w args = (x, out, w')" by (metis prod.exhaust)
  have x: "x = Exit c \<or> (\<exists>err. x = Err err) \<and> c = 1"
    using assms r by (cases x) (simp_all add: main_status_def)
  have "(\<exists>err. x = Err err) \<and> c = 1 \<or> (\<exists>r v. decides e w args r \<and> out = report (json args) v \<and> reported r c v)"
    if cmd: "command args \<in> {None, Some AttestCheck}"
  proof (cases "x = Exit c")
    case True
    then have "command args = None \<and> run_analysis e w args = (Exit c, out, w') \<or>
        command args = Some AttestCheck \<and> attest_check e w args = (Exit c, out, w')"
      using cmd r by (auto simp: run_def)
    then show ?thesis using attest_check_reported run_analysis_reported by blast
  qed (use x in blast)
  moreover have "c \<in> {0, 1}" if "command args = Some Tui"
    using that assms run_tui_ends [of "tui_turns e" e 0]
    by (auto simp: main_status_def run_def split_beta)
  ultimately show ?thesis using assms r
    by (auto simp: main_status_def run_def run_doctor_def required_checks_def Let_def split_beta split: if_splits)
qed

theorem exit_codes_witness:
  "main_status sample_env sample_world (sample_cli\<lparr>command := Some Doctor\<rparr>) = Some 0 \<and> os sample_env = ''linux''"
proof -
  have m: "main_status sample_env sample_world (sample_cli\<lparr>command := Some Doctor\<rparr>) = Some 0"
    by (simp add: main_status_def run_def run_doctor_def required_checks_def sample_env_def Let_def)
  from exit_codes [OF m] show ?thesis using m by (auto split: if_splits)
qed

text \<open>
  (C3) The program ends, once LLVM's module is translated. Unless the translation by \<open>from_llvm_ref\<close> is lost
  (it panics, exhausts the stack or does not end), there is a depth of the stack from which on an analysis
  run returns to \<open>main\<close> with 0, 1, 10 or 20: what the translation establishes is all that \<open>analyze\<close> needs to
  return. It is 1 only if the file was not read, the gate could not be built or an output was asked for.
  LLVM has to guarantee finite types and constants, unique struct names and vectors that are not empty;
  constant expressions that extract an element are excluded.
\<close>

theorem program_ends:
  assumes "\<forall>r. llvm_guarantees (module_api lib r)" "command args = None" "ir_path args = Some p"
    and "fst (Module_from_ir_path lib depth w p) \<noteq> Untranslated"
  shows "\<exists>N. \<forall>n \<ge> N. \<exists>c \<in> {0, 1, 10, 20}. main_status (with_llvm lib depth (e\<lparr>stack_depth := n\<rparr>)) w args = Some c \<and>
    (c = 1 \<longrightarrow> (\<forall>m. fst (Module_from_ir_path lib depth w p) \<noteq> Returned m) \<or> (\<exists>err. run_gate w args = Inl err) \<or>
       emit_vcs args \<noteq> None \<or> verdict_out args \<noteq> None \<or> emit_proof args \<noteq> None)"
proof (cases "\<exists>m. fst (Module_from_ir_path lib depth w p) = Returned m")
  case True
  let ?e = "\<lambda>n. with_llvm lib depth (e\<lparr>stack_depth := n\<rparr>)"
  obtain m r where m: "fst (Module_from_ir_path lib depth w p) = Returned m"
      "Module_from_llvm_ref (module_api lib r) depth = Some m"
    using True Module_from_ir_path_Returned by blast
  obtain N where N: "\<forall>n \<ge> N. \<forall>c gate. analyze (c\<lparr>max_depth := n\<rparr>) m gate \<noteq> None"
    using translated_analysis_returns [OF m(2)] assms(1) by blast
  have "analysis_config (?e n) args = (analysis_config e args)\<lparr>max_depth := n\<rparr>" for n
    by (simp add: analysis_config_def with_llvm_def)
  then have "fst (run_module (?e n) w args m) \<in> {Exit 0, Exit 10, Exit 20} \<union> range Err" if "N \<le> n" for n
    using run_module_ends [of "?e n" w args m] N that by auto
  moreover have "run (?e n) w args = run_module (?e n) w args m" for n
    using with_llvm_Parsed [of lib depth "e\<lparr>stack_depth := n\<rparr>" w p m] m(1) assms(2,3) by (simp add: run_def run_analysis_def)
  ultimately have "\<exists>c \<in> {0, 1, 10, 20}. main_status (?e n) w args = Some c \<and>
      (c = 1 \<longrightarrow> (\<exists>err. fst (run_module (?e n) w args m) = Err err))" if "N \<le> n" for n
    using that by (fastforce simp: main_status_def)
  then show ?thesis using run_module_Err by meson
next
  case False
  then have "main_status (with_llvm lib depth (e\<lparr>stack_depth := n\<rparr>)) w args = Some 1" for n
    using assms(2-4) by (cases "fst (Module_from_ir_path lib depth w p)")
      (auto simp: main_status_def run_def run_analysis_def with_llvm_def catch_unwind_def)
  then show ?thesis using False by blast
qed

theorem program_ends_witness:
  "\<exists>N. \<forall>n \<ge> N. \<exists>c \<in> {0, 10, 20}.
     main_status (with_llvm counter_lib 5 (sample_env\<lparr>stack_depth := n\<rparr>)) sample_world sample_cli = Some c"
proof -
  have "\<forall>c. vector_safe (counter_api ''f'') (module_names (counter_api ''f'')) c"
    by (simp add: vector_safe_def counter_api_def)
  then have g: "\<forall>r. llvm_guarantees (module_api counter_lib r)"
    using counter_finite by (auto simp: llvm_guarantees_def counter_lib_def)
  have "\<not> Option.is_none (Module_from_llvm_ref (counter_api ''f'') 5)" by code_simp
  then obtain m where "Module_from_llvm_ref (counter_api ''f'') 5 = Some m" by (auto simp: Option.is_none_def)
  then have m: "fst (Module_from_ir_path counter_lib 5 sample_world ''driver.ll'') = Returned m"
    by (simp add: Module_from_ir_path_Returned counter_lib_def valid_utf8_def has_nul_def)
  have c: "command sample_cli = None" "ir_path sample_cli = Some ''driver.ll''"
    "emit_vcs sample_cli = None" "verdict_out sample_cli = None" "emit_proof sample_cli = None"
    by (simp_all add: sample_cli_def)
  have "run_gate sample_world sample_cli = Inr open_gate"
    by (simp add: run_gate_def sample_cli_def load_opt_def open_gate_def)
  then show ?thesis using program_ends [OF g c(1,2), of 5 sample_world sample_env] m c(3-5) by fastforce
qed

definition template_fields :: "RingMode \<Rightarrow> token_field list" where
  "template_fields r =
     [Ring_Field (ring_num r), Attested_Field True] @ (if r = RingM2 then [Root_Field True] else []) @
     [Timestamp_Field 1700000000, Nonce_Field ''<nonce>'', Counter_Field 1]"

lemma template_numbers: "show_int 1700000000 = ''1700000000''" "show_int 1 = ''1''"
proof -
  have d: "digit_char 0 = CHR ''0''" "digit_char (Suc 0) = CHR ''1''" "digit_char 7 = CHR ''7''" by code_simp+
  then have "show_nat (Suc 0) = ''1''" by (simp add: show_nat.simps)
  then show "show_int 1700000000 = ''1700000000''" "show_int 1 = ''1''"
    using d by (simp_all add: show_int_def show_nat.simps [of "numeral k" for k])
qed

lemma template_text:
  "concat (map (\<lambda>l. l @ [CHR 0x0A]) (print_token_template r False)) = show_fields (template_fields r)"
  by (cases r) (simp_all add: print_token_template_def show_fields_def show_bool_field_def template_fields_def
      template_numbers)

lemma template_ok: "list_all field_ok (template_fields r)"
  by (cases r) (simp_all add: template_fields_def in_i64_def one_line_def ring_num_def)

text \<open>
  (C23) Token files read back. Both bridges read a file of well-formed fields, one per line, as the token that
  the fields stand for: the first field of each name counts and lines with other names are passed over.
  The text that \<open>token-template\<close> prints is such a file, for every ring.
\<close>

theorem token_files_read_back:
  assumes "list_all field_ok fs"
  shows "read_token (show_fields fs) = fields_token fs \<and>
    zig_read_token (show_fields fs) no_token = Some (fields_token fs) \<and>
    concat (map (\<lambda>l. l @ [CHR 0x0A]) (print_token_template r False)) = show_fields (template_fields r) \<and>
    list_all field_ok (template_fields r)"
  using read_token_fields [OF assms] zig_read_token_fields [OF assms] template_text template_ok by simp

theorem token_files_read_back_witness:
  "tok_ring (read_token (concat (map (\<lambda>l. l @ [CHR 0x0A]) (print_token_template RingM2 False)))) = Some (- 2)"
  using token_files_read_back [OF template_ok, of RingM2 RingM2]
  by (simp add: template_fields_def fields_token_def no_token_def ring_num_def)

text \<open>
  (C31) How the menu ends. It exits with 0 exactly when the selection of some turn is 0 or q and every line
  up to it could be read (a turn takes two lines, and reading fails on a line that is not UTF-8); it keeps
  running exactly when no selection so far was one of these and every line could be read; otherwise it ends
  with an error. So at the end of the input, where lines are empty, it runs however many turns it is given.
\<close>

theorem menu_ends:
  "(fst (run_tui turns e 0) = Exit 0 \<longleftrightarrow>
      (\<exists>k < turns. to_ascii_lowercase (trim (input_line e (2 * k))) \<in> {''0'', ''q''} \<and> (\<forall>i \<le> 2 * k. line_read e i))) \<and>
   (fst (run_tui turns e 0) = Running \<longleftrightarrow>
      (\<forall>k < turns. to_ascii_lowercase (trim (input_line e (2 * k))) \<notin> {''0'', ''q''}) \<and> (\<forall>i < 2 * turns. line_read e i)) \<and>
   fst (run_tui turns e 0) \<in> {Exit 0, Running} \<union> range Err \<and>
   (stdin_lines e = [] \<and> (\<forall>i. \<not> flush_fails e i \<and> \<not> read_fails e i) \<longrightarrow> fst (run_tui turns e 0) = Running)"
proof -
  have "fst (run_tui turns e 0) = Running" if "stdin_lines e = []" "\<forall>i. \<not> flush_fails e i \<and> \<not> read_fails e i"
  proof -
    have "input_line e i = ''''" for i using that(1) by (simp add: input_line_def vec_get_def)
    then show ?thesis using that(2)
      by (simp add: run_tui_Running line_read_def valid_utf8_def selection_def leaves_def trim_Nil to_ascii_lowercase_def)
  qed
  then show ?thesis
    using run_tui_Exit [of turns e 0] run_tui_Running [of turns e 0] run_tui_ends [of turns e 0]
    by (simp add: leaves_def selection_def less_Suc_eq_le)
qed

theorem menu_ends_witness: "fst (run_tui 2 sample_env 0) = Exit 0"
proof -
  have l: "input_line sample_env 2 = ''q''" "line_read sample_env 0" "line_read sample_env 1" "line_read sample_env 2"
    by (simp_all add: input_line_def line_read_def sample_env_def vec_get_def valid_utf8_def numeral_2_eq_2)
  have "trim ''q'' = ''q''" by (simp add: trim_printable printable_def)
  moreover have "ascii_lower (CHR ''q'') = CHR ''q''" by code_simp
  moreover have "line_read sample_env i" if "i \<le> 2" for i using l that by (cases i; cases "i - 1") (auto simp: numeral_2_eq_2)
  ultimately have "to_ascii_lowercase (trim (input_line sample_env (2 * 1))) \<in> {''0'', ''q''} \<and>
      (\<forall>i \<le> 2 * 1. line_read sample_env i)" using l by (simp add: to_ascii_lowercase_def)
  then have "\<exists>k < 2. to_ascii_lowercase (trim (input_line sample_env (2 * k))) \<in> {''0'', ''q''} \<and>
      (\<forall>i \<le> 2 * k. line_read sample_env i)" by (intro exI [of _ 1]) simp
  with menu_ends [of 2 sample_env] show ?thesis by (elim conjE) (rule iffD2)
qed

section \<open>Approvals, files and reports\<close>

text \<open>
  Identifiers of conditions are unambiguous: two conditions with the same identifier are of the
  same kind at the same instruction of the same block of the same function, and two classes with
  the same identifier have the same kind and size. (No kind the analysis uses contains a colon.)
\<close>

lemma vc_ids_unambiguous:
  assumes "vc_id f b i k = vc_id f' b' i' k'" "CHR '':'' \<notin> set k" "CHR '':'' \<notin> set k'"
    and "vc_class_id k n = vc_class_id k'' n'"
  shows "f = f' \<and> b = b' \<and> i = i' \<and> k = k' \<and> k = k'' \<and> n = n'"
  using vc_id_inj [OF assms(1-3)] assms(4) by (simp add: vc_class_id_inj)

text \<open>
  Approvals come only from a file that is safe, and are exactly what it says: when loading
  succeeds the path is a regular file of the effective user that nobody else can write, and the
  approved identifiers are its trimmed lines without the empty ones and the comments.
\<close>

lemma approvals_loaded:
  assumes "load_hitl_approvals w p = Inr S"
  shows "\<exists>f. files w p = Some f \<and> kind f = RegularFile \<and> uid f = nix_like_euid w \<and>
     \<not> group_world_writable f \<and>
     S = {t. \<exists>l \<in> set (lines (content f)). t = trim l \<and> t \<noteq> [] \<and> \<not> starts_with ''#'' t}"
  using load_hitl_approvals_ok [OF assms] by (auto simp: secure_file_def)

text \<open>
  (C20) \<open>write_output_file\<close> never harms another file and never writes through an unsafe one: whatever
  happens no other path changes; if the path exists and is not a regular file of the user that
  nobody else can write, the call fails and nothing changes; and if it succeeds the file holds
  exactly the text with mode 0600.
\<close>

theorem output_file_written_safely:
  assumes "write_output_file w p body = (r, w')"
  shows "(\<forall>q. q \<noteq> p \<longrightarrow> files w' q = files w q) \<and>
    (\<forall>f. files w p = Some f \<and> \<not> secure_file w f \<longrightarrow> (\<exists>e. r = Inl e) \<and> w' = w) \<and>
    (r = Inr () \<longrightarrow> (\<exists>f. files w' p = Some f \<and> kind f = RegularFile \<and> fmode f = 0x180 \<and> content f = body))"
  using write_output_file_frame [OF assms] write_output_file_rejects [of w p _ body]
    write_output_file_success [of w p body w'] assms by (auto 4 4)

theorem output_file_written_safely_witness:
  "\<exists>f w'. write_output_file sample_world ''out'' ''x'' = (Inr (), w') \<and> files w' ''out'' = Some f \<and> content f = ''x''"
proof -
  obtain r w' where c: "write_output_file sample_world ''out'' ''x'' = (r, w')"
    by (cases "write_output_file sample_world ''out'' ''x''")
  have "r = Inr ()" using c
    by (auto simp: write_output_file_def output_precheck_def symlink_metadata_def open_truncate_def Let_def sample_world_def)
  then show ?thesis using output_file_written_safely [OF c] c by auto
qed

text \<open>
  (C24) The verdict's message can be read back from its JSON exactly when it is JSON at all: after
  the key \<open>message\<close> a JSON string follows that decodes to the message if the message has no control
  character but newlines, and that is not a valid JSON string otherwise.
\<close>

theorem verdict_message_reads_back:
  "\<exists>pre body rest. to_json v = pre @ quoted ''message'' @ '':'' @ CHR 0x22 # body \<and>
     read_json_body body = (if printable_message (message v) then Some (message v, rest) else None)"
proof -
  let ?pre = "''{'' @ json_field ''status'' (quoted (status v)) @ '','' @ json_field ''code'' (show_int (code v)) @ '',''"
  have "\<exists>rest. to_json v = ?pre @ json_field ''message'' (quoted (escape_message (message v))) @ rest"
    unfolding to_json_def append.assoc by (rule exI, rule refl)
  then obtain rest where
    "to_json v = ?pre @ json_field ''message'' (quoted (escape_message (message v))) @ rest" by blast
  then have "to_json v =
      ?pre @ quoted ''message'' @ '':'' @ CHR 0x22 # (escape_message (message v) @ CHR 0x22 # rest)"
    by (simp add: json_field_def [of "''message''"] quoted_def [of "escape_message (message v)"])
  then show ?thesis using read_escape_message [of "message v" rest] by blast
qed

text \<open>
  The list of conditions written for review is the list seen, sorted and without repetition,
  and the count printed next to it is the one of the outcome.
\<close>

lemma emitted_conditions:
  "sorted (sort_dedup (seen g)) \<and> distinct (sort_dedup (seen g)) \<and> set (sort_dedup (seen g)) = set (seen g) \<and>
   length (sort_dedup (seen g)) = distinct_count (seen g) \<and>
   (\<exists>pre post. hitl_vcs_json g = pre @ json_field ''seen_count'' (show_nat (distinct_count (seen g))) @ post)"
proof -
  let ?pre = "''{'' @ json_field ''hitl_mode'' (quoted (HitlMode_label (gate_mode g))) @ '',''"
  have "\<exists>post. hitl_vcs_json g = ?pre @ json_field ''seen_count'' (show_nat (distinct_count (seen g))) @ post"
    unfolding hitl_vcs_json_def Let_def sort_dedup_spec(4) append.assoc by (rule exI, rule refl)
  then show ?thesis using sort_dedup_spec [of "seen g"] by blast
qed

section \<open>The representation of LLVM IR\<close>

text \<open>
  (C22) The type table is invisible. Whatever sequence of builder operations has filled it, the table
  that is built hands out for every type the type itself, and the type of an operand, of a
  binary and of a unary operation is the same as under the empty table: it depends on the operand alone.
\<close>

theorem type_table_invisible:
  assumes "builder_reach b"
  shows "get_for_type (TypesBuilder_build b) ty = ty \<and>
    get_type_Operand (TypesBuilder_build b) op = get_type_Operand empty_types op \<and>
    get_type_Instruction (TypesBuilder_build b) (Instruction_from_BinaryOp bop) =
      get_type_Operand empty_types (get_operand0 bop) \<and>
    get_type_BinaryOp (TypesBuilder_build b) bop = get_type_Operand empty_types (get_operand0 bop) \<and>
    get_type_UnaryOp (TypesBuilder_build b) uop = get_type_UnaryOp empty_types uop"
proof -
  have ok: "types_ok (TypesBuilder_build b)" "types_ok empty_types"
    using builder_reach_types_ok [OF assms] types_ok_new by (simp_all add: empty_types_def)
  then show ?thesis
    by (simp add: get_for_type_ok binary_result_type get_type_Operand_indep [OF ok] get_type_BinaryOp_operand
        get_type_UnaryOp_indep [OF ok])
qed

theorem type_table_invisible_witness:
  "get_for_type (TypesBuilder_build (snd (tb_int 32 TypesBuilder_new))) (IntegerType 32) = IntegerType 32"
  using type_table_invisible [OF builder_reach.int [OF builder_reach.start]] by blast

text \<open>
  The conversions between instructions and the groups of binary and unary operations are exact:
  converting succeeds for precisely the instructions that \<open>is_binary_op\<close> (\<open>is_unary_op\<close>) recognises, the
  result converts back to the same instruction, and no instruction is in both groups.
\<close>

lemma op_groups_exact:
  "(BinaryOp_try_from i = Some b \<longleftrightarrow> Instruction_from_BinaryOp b = i) \<and>
   (UnaryOp_try_from i = Some u \<longleftrightarrow> Instruction_from_UnaryOp u = i) \<and>
   (is_binary_op i \<longleftrightarrow> (\<exists>b'. i = Instruction_from_BinaryOp b')) \<and>
   (is_unary_op i \<longleftrightarrow> (\<exists>u'. i = Instruction_from_UnaryOp u')) \<and> \<not> (is_binary_op i \<and> is_unary_op i)"
  using BinaryOp_try_from_iff [of i] UnaryOp_try_from_iff [of i] BinaryOp_roundtrip UnaryOp_roundtrip
    BinaryOp_try_from_inverse [of i] UnaryOp_try_from_inverse [of i] groups_disjoint [of i]
  by (metis not_None_eq)

text \<open>
  Looking up a function of a module or a block of a function by name: nothing is found exactly
  when no item has the name, what is found has the name, and with distinct names every item is
  found under its own name.
\<close>

lemma lookups_by_name:
  "(get_func_by_name m nm = None \<longleftrightarrow> nm \<notin> func_name ` set (module_functions m)) \<and>
   (get_func_by_name m nm = Some f \<longrightarrow> f \<in> set (module_functions m) \<and> func_name f = nm) \<and>
   (distinct (map func_name (module_functions m)) \<and> f' \<in> set (module_functions m) \<longrightarrow>
      get_func_by_name m (func_name f') = Some f') \<and>
   (distinct (map bb_name (basic_blocks g)) \<and> bb \<in> set (basic_blocks g) \<longrightarrow>
      get_bb_by_name g (bb_name bb) = Some bb)"
  by (intro conjI impI func_lookup.lookup_None_iff; (elim conjE)?)
     (simp_all add: func_lookup.lookup_SomeD func_lookup.lookup_distinct bb_lookup.lookup_distinct)

end
